(* ===== verification/Prelude.thy ===== *)
theory Prelude
  imports Main "HOL-Library.Word" "HOL-Library.Char_ord" "HOL-Library.List_Lexorder"
    "HOL-Library.Sublist" "HOL-Library.Code_Target_Numeral"
begin

text \<open>
  Shared vocabulary of the development: the names the model uses for Go's basic types, generic
  facts on lists and options, and the collections of rewrite rules the component theories fill
  and use.

  Go strings are byte strings and are modelled by \<^typ>\<open>string\<close>, a list of 8-bit characters.
  A rune is a code point, a natural number.
\<close>

named_theorems str_simps \<open>evaluation rules for the string operations\<close>
named_theorems err_simps \<open>evaluation rules for error values\<close>
named_theorems pol_simps \<open>evaluation rules for policy evaluation\<close>

type_synonym rune = nat

abbreviation byte_of :: "char \<Rightarrow> nat" where
  "byte_of c \<equiv> of_char c"

section \<open>Lists\<close>

text \<open>The index of the first element that satisfies a predicate, or -1, the way Go reports it.\<close>

fun find_index :: "('a \<Rightarrow> bool) \<Rightarrow> 'a list \<Rightarrow> int" where
  "find_index P [] = -1"
| "find_index P (x # xs) =
     (if P x then 0 else (let i = find_index P xs in if i < 0 then -1 else i + 1))"

lemma find_index_ge: "-1 \<le> find_index P xs"
  by (induction xs) (auto simp: Let_def)

lemma find_index_neg_iff [simp]: "find_index P xs < 0 \<longleftrightarrow> (\<forall>x\<in>set xs. \<not> P x)"
  by (induction xs) (auto simp: Let_def)

lemma find_index_ge0_iff [simp]: "0 \<le> find_index P xs \<longleftrightarrow> (\<exists>x\<in>set xs. P x)"
  using find_index_neg_iff [of P xs] by (auto simp del: find_index_neg_iff simp flip: not_less)

lemma find_index_nth:
  assumes "0 \<le> find_index P xs"
  shows "nat (find_index P xs) < length xs \<and> P (xs ! nat (find_index P xs))"
  using assms
proof (induction xs)
  case (Cons x xs)
  then show ?case
    by (cases "find_index P xs < 0")
      (auto simp: Let_def nat_add_distrib simp del: find_index_neg_iff find_index_ge0_iff
        split: if_splits)
qed simp

lemma find_index_Cons:
  "find_index P (x # xs) = (if P x then 0 else if \<exists>y\<in>set xs. P y then find_index P xs + 1 else -1)"
  by (auto simp: Let_def)

lemma find_index_Suc_ge0 [simp]: "0 \<le> find_index P xs + 1"
  using find_index_ge [of P xs] by simp

declare find_index.simps(2) [simp del]

lemma find_index_none [simp]: "\<forall>x\<in>set xs. \<not> P x \<Longrightarrow> find_index P xs = -1"
  by (induction xs) (auto simp: find_index_Cons)

text \<open>\<open>slices.Contains\<close> and \<open>slices.ContainsFunc\<close> are membership and \<^const>\<open>list_ex\<close>.\<close>

definition contains :: "'a list \<Rightarrow> 'a \<Rightarrow> bool" where
  "contains xs x \<longleftrightarrow> x \<in> set xs"

lemma list_ex_map: "list_ex P (map f xs) = list_ex (\<lambda>x. P (f x)) xs"
  by (induction xs) auto

lemma append_sep_eq_iff:
  "c \<notin> set t \<Longrightarrow> c \<notin> set t' \<Longrightarrow> t @ c # xs = t' @ c # ys \<longleftrightarrow> t = t' \<and> xs = ys"
proof (induction t arbitrary: t')
  case Nil
  then show ?case by (cases t') auto
next
  case (Cons a t)
  then show ?case by (cases t') auto
qed

section \<open>Sum and option results\<close>

text \<open>
  A fallible Go function returns \<open>(value, error)\<close>; the model returns \<open>Inl err\<close> or \<open>Inr value\<close>.
  \<open>guard_err\<close> is the statement \<open>if cond { return err }\<close>, \<open>and_then\<close> the sequencing of two
  fallible steps with an early return on the first error.
\<close>

fun and_then :: "'e + 'a \<Rightarrow> ('a \<Rightarrow> 'e + 'b) \<Rightarrow> 'e + 'b" where
  "and_then (Inl e) f = Inl e"
| "and_then (Inr x) f = f x"

definition guard_err :: "bool \<Rightarrow> 'e \<Rightarrow> 'e + 'b \<Rightarrow> 'e + 'b" where
  "guard_err b e k = (if b then Inl e else k)"

lemma and_then_Inr_iff [simp]:
  "and_then r f = Inr y \<longleftrightarrow> (\<exists>x. r = Inr x \<and> f x = Inr y)"
  by (cases r) auto

lemma guard_err_Inr_iff [simp]: "guard_err b e k = Inr y \<longleftrightarrow> \<not> b \<and> k = Inr y"
  by (simp add: guard_err_def)

lemma guard_err_False [simp]: "guard_err False e k = k"
  by (simp add: guard_err_def)

lemma guard_err_True [simp]: "guard_err True e k = Inl e"
  by (simp add: guard_err_def)

text \<open>Run a fallible check over a list, stopping at the first error.\<close>

fun for_each :: "('a \<Rightarrow> 'e + unit) \<Rightarrow> 'a list \<Rightarrow> 'e + unit" where
  "for_each f [] = Inr ()"
| "for_each f (x # xs) = and_then (f x) (\<lambda>_. for_each f xs)"

lemma for_each_Inr_iff [simp]: "for_each f xs = Inr u \<longleftrightarrow> (\<forall>x\<in>set xs. f x = Inr ())"
  by (induction xs) auto

text \<open>Map a fallible function over a list, stopping at the first error.\<close>

fun map_res :: "('a \<Rightarrow> 'e + 'b) \<Rightarrow> 'a list \<Rightarrow> 'e + 'b list" where
  "map_res f [] = Inr []"
| "map_res f (x # xs) = and_then (f x) (\<lambda>y. and_then (map_res f xs) (\<lambda>ys. Inr (y # ys)))"

lemma map_res_Inr_iff: "map_res f xs = Inr ys \<longleftrightarrow> list_all2 (\<lambda>x y. f x = Inr y) xs ys"
  by (induction xs arbitrary: ys) (auto simp: list_all2_Cons1)

text \<open>Fold a fallible step over a list, stopping at the first error.\<close>

fun fold_res :: "('a \<Rightarrow> 'b \<Rightarrow> 'e + 'b) \<Rightarrow> 'a list \<Rightarrow> 'b \<Rightarrow> 'e + 'b" where
  "fold_res f [] b = Inr b"
| "fold_res f (x # xs) b = and_then (f x b) (fold_res f xs)"

text \<open>The elements of a list with their indices.\<close>

definition indexed :: "'a list \<Rightarrow> (nat \<times> 'a) list" where
  "indexed xs = zip [0..<length xs] xs"

lemma set_indexed: "(i, x) \<in> set (indexed xs) \<longleftrightarrow> i < length xs \<and> xs ! i = x"
  by (auto simp: indexed_def in_set_zip intro!: exI [of _ i])

lemma map_snd_indexed [simp]: "map snd (indexed xs) = xs"
  by (simp add: indexed_def)

lemma length_indexed [simp]: "length (indexed xs) = length xs"
  by (simp add: indexed_def)

end
