(* ===== verification/Go_Strings.thy ===== *)
theory Go_Strings
  imports Prelude
begin

text \<open>
  The parts of Go's \<open>strings\<close>, \<open>unicode\<close>, \<open>unicode/utf8\<close> and \<open>strconv\<close> the gateway uses, on byte
  strings: rune decoding and encoding, lower-casing, trimming, cutting and splitting, and integer
  parsing. The lower-case table is the simple mapping of Unicode, as ranges
  \<open>(low, high, stride, delta)\<close>.
\<close>

section \<open>UTF-8\<close>

definition rune_error :: rune where
  "rune_error = 65533"

definition cont_byte :: "char \<Rightarrow> bool" where
  "cont_byte c \<longleftrightarrow> 128 \<le> byte_of c \<and> byte_of c \<le> 191"

text \<open>The accepted range of the second byte of a three or four byte sequence.\<close>

definition second_ok :: "nat \<Rightarrow> char \<Rightarrow> bool" where
  "second_ok b0 c \<longleftrightarrow>
    (if b0 = 224 then 160 else if b0 = 240 then 144 else 128) \<le> byte_of c \<and>
    byte_of c \<le> (if b0 = 237 then 159 else if b0 = 244 then 143 else 191)"

definition low6 :: "char \<Rightarrow> nat" where
  "low6 c = byte_of c mod 64"

text \<open>\<open>utf8.DecodeRuneInString\<close>: the rune and its width; a malformed byte is the error rune, width 1.\<close>

fun decode_rune :: "string \<Rightarrow> rune \<times> nat" where
  "decode_rune [] = (rune_error, 0)"
| "decode_rune (c0 # cs) =
    (let b0 = byte_of c0 in
     if b0 < 128 then (b0, 1)
     else if 194 \<le> b0 \<and> b0 \<le> 223 then
       (case cs of
          c1 # _ \<Rightarrow> if cont_byte c1 then ((b0 mod 32) * 64 + low6 c1, 2) else (rune_error, 1)
        | _ \<Rightarrow> (rune_error, 1))
     else if 224 \<le> b0 \<and> b0 \<le> 239 then
       (case cs of
          c1 # c2 # _ \<Rightarrow>
            if second_ok b0 c1 \<and> cont_byte c2
            then ((b0 mod 16) * 4096 + low6 c1 * 64 + low6 c2, 3) else (rune_error, 1)
        | _ \<Rightarrow> (rune_error, 1))
     else if 240 \<le> b0 \<and> b0 \<le> 244 then
       (case cs of
          c1 # c2 # c3 # _ \<Rightarrow>
            if second_ok b0 c1 \<and> cont_byte c2 \<and> cont_byte c3
            then ((b0 mod 8) * 262144 + low6 c1 * 4096 + low6 c2 * 64 + low6 c3, 4)
            else (rune_error, 1)
        | _ \<Rightarrow> (rune_error, 1))
     else (rune_error, 1))"

lemma decode_rune_width: "0 < snd (decode_rune (c # cs))"
  by (auto simp: Let_def split: list.splits)

text \<open>\<open>for _, r := range s\<close>: every rune with the bytes it was decoded from.\<close>

function rune_segs :: "string \<Rightarrow> (rune \<times> string) list" where
  "rune_segs [] = []"
| "rune_segs (c # cs) =
    (let (r, w) = decode_rune (c # cs) in (r, take w (c # cs)) # rune_segs (drop w (c # cs)))"
  by pat_completeness auto
termination
proof (relation "measure length", goal_cases)
  case (2 c cs p r w)
  then have "0 < w"
    using decode_rune_width [of c cs] by (metis snd_conv)
  then show ?case
    by simp
qed simp

text \<open>The conversion \<open>[]rune(s)\<close>.\<close>

definition runes :: "string \<Rightarrow> rune list" where
  "runes s = map fst (rune_segs s)"

text \<open>\<open>utf8.AppendRune\<close>.\<close>

definition encode_rune :: "rune \<Rightarrow> string" where
  "encode_rune r0 =
    (let r = (if 55296 \<le> r0 \<and> r0 \<le> 57343 \<or> 1114111 < r0 then rune_error else r0) in
     map char_of
      (if r < 128 then [r]
       else if r < 2048 then [192 + r div 64, 128 + r mod 64]
       else if r < 65536 then [224 + r div 4096, 128 + r div 64 mod 64, 128 + r mod 64]
       else [240 + r div 262144, 128 + r div 4096 mod 64, 128 + r div 64 mod 64, 128 + r mod 64]))"

definition is_ascii :: "string \<Rightarrow> bool" where
  "is_ascii s \<longleftrightarrow> list_all (\<lambda>c. byte_of c < 128) s"

lemma rune_segs_ascii [simp]: "is_ascii s \<Longrightarrow> rune_segs s = map (\<lambda>c. (byte_of c, [c])) s"
  by (induction s) (auto simp: is_ascii_def Let_def)

lemma runes_ascii: "is_ascii s \<Longrightarrow> runes s = map byte_of s"
  by (simp add: runes_def)

lemma runes_Nil [simp]: "runes [] = []"
  by (simp add: runes_def)

lemma runes_Cons_ascii [str_simps]: "byte_of c < 128 \<Longrightarrow> runes (c # s) = byte_of c # runes s"
  by (simp add: runes_def Let_def)

lemma decode_rune_bound: "snd (decode_rune s) \<le> length s"
  by (cases s rule: decode_rune.cases) (auto simp: Let_def split: list.splits)

lemma concat_rune_segs: "concat (map snd (rune_segs s)) = s"
proof (induction s rule: rune_segs.induct)
  case (2 c cs)
  obtain r w where rw: "decode_rune (c # cs) = (r, w)"
    by fastforce
  then show ?case
    using 2 by (simp del: decode_rune.simps)
qed simp

section \<open>Case\<close>

definition lower_table :: "(nat \<times> nat \<times> nat \<times> int) list" where
  "lower_table = [
    (192, 214, 1, 32), (216, 222, 1, 32), (256, 302, 2, 1), (304, 304, 1, -199), (306, 310, 2, 1),
    (313, 327, 2, 1), (330, 374, 2, 1), (376, 376, 1, -121), (377, 381, 2, 1), (385, 385, 1, 210),
    (386, 388, 2, 1), (390, 390, 1, 206), (391, 391, 1, 1), (393, 394, 1, 205), (395, 395, 1, 1),
    (398, 398, 1, 79), (399, 399, 1, 202), (400, 400, 1, 203), (401, 401, 1, 1),
    (403, 403, 1, 205), (404, 404, 1, 207), (406, 406, 1, 211), (407, 407, 1, 209),
    (408, 408, 1, 1), (412, 412, 1, 211), (413, 413, 1, 213), (415, 415, 1, 214),
    (416, 420, 2, 1), (422, 422, 1, 218), (423, 423, 1, 1), (425, 425, 1, 218), (428, 428, 1, 1),
    (430, 430, 1, 218), (431, 431, 1, 1), (433, 434, 1, 217), (435, 437, 2, 1),
    (439, 439, 1, 219), (440, 440, 1, 1), (444, 444, 1, 1), (452, 452, 1, 2), (453, 453, 1, 1),
    (455, 455, 1, 2), (456, 456, 1, 1), (458, 458, 1, 2), (459, 475, 2, 1), (478, 494, 2, 1),
    (497, 497, 1, 2), (498, 500, 2, 1), (502, 502, 1, -97), (503, 503, 1, -56), (504, 542, 2, 1),
    (544, 544, 1, -130), (546, 562, 2, 1), (570, 570, 1, 10795), (571, 571, 1, 1),
    (573, 573, 1, -163), (574, 574, 1, 10792), (577, 577, 1, 1), (579, 579, 1, -195),
    (580, 580, 1, 69), (581, 581, 1, 71), (582, 590, 2, 1), (880, 882, 2, 1), (886, 886, 1, 1),
    (895, 895, 1, 116), (902, 902, 1, 38), (904, 906, 1, 37), (908, 908, 1, 64),
    (910, 911, 1, 63), (913, 929, 1, 32), (931, 939, 1, 32), (975, 975, 1, 8), (984, 1006, 2, 1),
    (1012, 1012, 1, -60), (1015, 1015, 1, 1), (1017, 1017, 1, -7), (1018, 1018, 1, 1),
    (1021, 1023, 1, -130), (1024, 1039, 1, 80), (1040, 1071, 1, 32), (1120, 1152, 2, 1),
    (1162, 1214, 2, 1), (1216, 1216, 1, 15), (1217, 1229, 2, 1), (1232, 1326, 2, 1),
    (1329, 1366, 1, 48), (4256, 4293, 1, 7264), (4295, 4295, 1, 7264), (4301, 4301, 1, 7264),
    (5024, 5103, 1, 38864), (5104, 5109, 1, 8), (7312, 7354, 1, -3008), (7357, 7359, 1, -3008),
    (7680, 7828, 2, 1), (7838, 7838, 1, -7615), (7840, 7934, 2, 1), (7944, 7951, 1, -8),
    (7960, 7965, 1, -8), (7976, 7983, 1, -8), (7992, 7999, 1, -8), (8008, 8013, 1, -8),
    (8025, 8031, 2, -8), (8040, 8047, 1, -8), (8072, 8079, 1, -8), (8088, 8095, 1, -8),
    (8104, 8111, 1, -8), (8120, 8121, 1, -8), (8122, 8123, 1, -74), (8124, 8124, 1, -9),
    (8136, 8139, 1, -86), (8140, 8140, 1, -9), (8152, 8153, 1, -8), (8154, 8155, 1, -100),
    (8168, 8169, 1, -8), (8170, 8171, 1, -112), (8172, 8172, 1, -7), (8184, 8185, 1, -128),
    (8186, 8187, 1, -126), (8188, 8188, 1, -9), (8486, 8486, 1, -7517), (8490, 8490, 1, -8383),
    (8491, 8491, 1, -8262), (8498, 8498, 1, 28), (8544, 8559, 1, 16), (8579, 8579, 1, 1),
    (9398, 9423, 1, 26), (11264, 11311, 1, 48), (11360, 11360, 1, 1), (11362, 11362, 1, -10743),
    (11363, 11363, 1, -3814), (11364, 11364, 1, -10727), (11367, 11371, 2, 1),
    (11373, 11373, 1, -10780), (11374, 11374, 1, -10749), (11375, 11375, 1, -10783),
    (11376, 11376, 1, -10782), (11378, 11378, 1, 1), (11381, 11381, 1, 1),
    (11390, 11391, 1, -10815), (11392, 11490, 2, 1), (11499, 11501, 2, 1), (11506, 11506, 1, 1),
    (42560, 42604, 2, 1), (42624, 42650, 2, 1), (42786, 42798, 2, 1), (42802, 42862, 2, 1),
    (42873, 42875, 2, 1), (42877, 42877, 1, -35332), (42878, 42886, 2, 1), (42891, 42891, 1, 1),
    (42893, 42893, 1, -42280), (42896, 42898, 2, 1), (42902, 42920, 2, 1),
    (42922, 42922, 1, -42308), (42923, 42923, 1, -42319), (42924, 42924, 1, -42315),
    (42925, 42925, 1, -42305), (42926, 42926, 1, -42308), (42928, 42928, 1, -42258),
    (42929, 42929, 1, -42282), (42930, 42930, 1, -42261), (42931, 42931, 1, 928),
    (42932, 42946, 2, 1), (42948, 42948, 1, -48), (42949, 42949, 1, -42307),
    (42950, 42950, 1, -35384), (42951, 42953, 2, 1), (42960, 42960, 1, 1), (42966, 42968, 2, 1),
    (42997, 42997, 1, 1), (65313, 65338, 1, 32), (66560, 66599, 1, 40), (66736, 66771, 1, 40),
    (66928, 66938, 1, 39), (66940, 66954, 1, 39), (66956, 66962, 1, 39), (66964, 66965, 1, 39),
    (68736, 68786, 1, 64), (71840, 71871, 1, 32), (93760, 93791, 1, 32), (125184, 125217, 1, 34)]"

fun lower_lookup :: "(nat \<times> nat \<times> nat \<times> int) list \<Rightarrow> rune \<Rightarrow> rune" where
  "lower_lookup [] r = r"
| "lower_lookup ((lo, hi, stride, d) # rows) r =
    (if lo \<le> r \<and> r \<le> hi \<and> (r - lo) mod stride = 0 then nat (int r + d)
     else lower_lookup rows r)"

text \<open>\<open>unicode.ToLower\<close>.\<close>

definition lower_rune :: "rune \<Rightarrow> rune" where
  "lower_rune r =
    (if r < 128 then (if 65 \<le> r \<and> r \<le> 90 then r + 32 else r) else lower_lookup lower_table r)"

definition lower_char :: "char \<Rightarrow> char" where
  "lower_char c = (if 65 \<le> byte_of c \<and> byte_of c \<le> 90 then char_of (byte_of c + 32) else c)"

text \<open>\<open>strings.ToLower\<close>: bytewise on ASCII, otherwise \<open>strings.Map(unicode.ToLower, s)\<close>.\<close>

definition to_lower :: "string \<Rightarrow> string" where
  "to_lower s =
    (if is_ascii s then map lower_char s
     else concat (map (\<lambda>r. encode_rune (lower_rune r)) (runes s)))"

text \<open>
  \<open>strings.EqualFold\<close> where one side is ASCII, the only use the gateway makes of it: the letters k
  and s also fold with the Kelvin sign and the long s.
\<close>

definition fold_rune :: "rune \<Rightarrow> rune" where
  "fold_rune r =
    (if 65 \<le> r \<and> r \<le> 90 then r + 32 else if r = 8490 then 107 else if r = 383 then 115 else r)"

definition equal_fold :: "string \<Rightarrow> string \<Rightarrow> bool" where
  "equal_fold s t \<longleftrightarrow> map fold_rune (runes s) = map fold_rune (runes t)"

section \<open>Searching, cutting and splitting\<close>

text \<open>\<open>strings.HasPrefix\<close> and \<open>strings.HasSuffix\<close> are \<^const>\<open>prefix\<close> and \<^const>\<open>suffix\<close>.\<close>

fun has_prefix :: "string \<Rightarrow> string \<Rightarrow> bool" where
  "has_prefix s [] = True"
| "has_prefix [] (p # ps) = False"
| "has_prefix (c # cs) (p # ps) = (c = p \<and> has_prefix cs ps)"

lemma has_prefix_iff: "has_prefix s p \<longleftrightarrow> prefix p s"
  by (induction s p rule: has_prefix.induct) auto

definition has_suffix :: "string \<Rightarrow> string \<Rightarrow> bool" where
  "has_suffix s p = has_prefix (rev s) (rev p)"

lemma has_suffix_iff: "has_suffix s p \<longleftrightarrow> suffix p s"
  by (simp add: has_suffix_def has_prefix_iff suffix_to_prefix)

text \<open>\<open>strings.CutPrefix\<close> and \<open>strings.CutSuffix\<close>: \<open>None\<close> is the result \<open>ok = false\<close>.\<close>

definition cut_prefix :: "string \<Rightarrow> string \<Rightarrow> string option" where
  "cut_prefix s p = (if has_prefix s p then Some (drop (length p) s) else None)"

definition cut_suffix :: "string \<Rightarrow> string \<Rightarrow> string option" where
  "cut_suffix s p = (if has_suffix s p then Some (take (length s - length p) s) else None)"

definition trim_prefix :: "string \<Rightarrow> string \<Rightarrow> string" where
  "trim_prefix s p = (case cut_prefix s p of Some r \<Rightarrow> r | None \<Rightarrow> s)"

lemma cut_prefix_Some_iff: "cut_prefix s p = Some r \<longleftrightarrow> s = p @ r"
  by (auto simp: cut_prefix_def has_prefix_iff prefix_def)

lemma cut_suffix_Some_iff: "cut_suffix s p = Some r \<longleftrightarrow> s = r @ p"
  by (auto simp: cut_suffix_def has_suffix_iff suffix_def)

text \<open>\<open>strings.Cut\<close> on a one-byte separator: before, after, found.\<close>

fun str_cut :: "char \<Rightarrow> string \<Rightarrow> string \<times> string \<times> bool" where
  "str_cut sep [] = ([], [], False)"
| "str_cut sep (c # cs) =
    (if c = sep then ([], cs, True)
     else (case str_cut sep cs of (a, b, f) \<Rightarrow> (c # a, b, f)))"

lemma cut_found_iff: "str_cut sep s = (a, b, True) \<longleftrightarrow> s = a @ sep # b \<and> sep \<notin> set a"
proof (induction s arbitrary: a)
  case (Cons c s)
  show ?case
  proof (cases a)
    case Nil
    then show ?thesis
      by (auto split: prod.splits)
  next
    case (Cons x xs)
    then show ?thesis
      using Cons.IH [of xs] by (auto split: prod.splits)
  qed
qed simp

lemma cut_append: "sep \<notin> set p \<Longrightarrow> str_cut sep (p @ sep # s) = (p, s, True)"
  by (simp add: cut_found_iff)

lemma cut_missing_iff: "str_cut sep s = (a, b, False) \<longleftrightarrow> a = s \<and> b = [] \<and> sep \<notin> set s"
proof (induction s arbitrary: a)
  case (Cons c s)
  show ?case
  proof (cases a)
    case (Cons x xs)
    then show ?thesis
      using Cons.IH [of xs] by (auto split: prod.splits)
  qed (auto split: prod.splits)
qed auto

text \<open>\<open>strings.Split\<close> and \<open>strings.SplitSeq\<close> on a one-byte separator, and \<open>strings.Join\<close>.\<close>

fun str_split :: "char \<Rightarrow> string \<Rightarrow> string list" where
  "str_split sep [] = [[]]"
| "str_split sep (c # cs) =
    (if c = sep then [] # str_split sep cs
     else (case str_split sep cs of p # ps \<Rightarrow> (c # p) # ps | [] \<Rightarrow> [[c]]))"

fun str_join :: "string \<Rightarrow> string list \<Rightarrow> string" where
  "str_join sep [] = []"
| "str_join sep [p] = p"
| "str_join sep (p # q # ps) = p @ sep @ str_join sep (q # ps)"

lemma split_not_Nil [simp]: "str_split sep s \<noteq> []"
  by (induction s) (auto split: list.splits)

lemma join_Cons: "ps \<noteq> [] \<Longrightarrow> str_join sep (p # ps) = p @ sep @ str_join sep ps"
  by (cases ps) auto

lemma join_split: "str_join [sep] (str_split sep s) = s"
proof (induction s)
  case (Cons c s)
  obtain p ps where ps: "str_split sep s = p # ps"
    by (cases "str_split sep s") auto
  then have "str_join [sep] ((c # p) # ps) = c # str_join [sep] (p # ps)"
    by (cases ps) auto
  then show ?case
    using Cons ps by (auto simp: join_Cons)
qed simp

lemma split_no_sep: "p \<in> set (str_split sep s) \<Longrightarrow> sep \<notin> set p"
  by (induction s arbitrary: p) (auto split: list.splits if_splits)

lemma split_single: "sep \<notin> set s \<Longrightarrow> str_split sep s = [s]"
  by (induction s) auto

lemma split_append: "sep \<notin> set p \<Longrightarrow> str_split sep (p @ sep # s) = p # str_split sep s"
  by (induction p) auto

lemma split_join:
  "ps \<noteq> [] \<Longrightarrow> \<forall>p\<in>set ps. sep \<notin> set p \<Longrightarrow> str_split sep (str_join [sep] ps) = ps"
  by (induction ps rule: induct_list012) (auto simp: split_single split_append)

text \<open>\<open>strings.ReplaceAll\<close> of a non-empty string.\<close>

function replace_all :: "string \<Rightarrow> string \<Rightarrow> string \<Rightarrow> string" where
  "replace_all [] old new = []"
| "replace_all (c # cs) old new =
    (if old \<noteq> [] \<and> has_prefix (c # cs) old
     then new @ replace_all (drop (length old) (c # cs)) old new
     else c # replace_all cs old new)"
  by pat_completeness auto
termination
  by (relation "measure (\<lambda>(s, _, _). length s)") (auto simp: neq_Nil_conv)

text \<open>\<open>strings.TrimRight\<close> and \<open>strings.Trim\<close> with an ASCII cutset.\<close>

definition trim_right :: "string \<Rightarrow> string \<Rightarrow> string" where
  "trim_right s cutset = rev (dropWhile (\<lambda>c. c \<in> set cutset) (rev s))"

definition trim :: "string \<Rightarrow> string \<Rightarrow> string" where
  "trim s cutset = trim_right (dropWhile (\<lambda>c. c \<in> set cutset) s) cutset"

text \<open>\<open>unicode.IsSpace\<close> and \<open>strings.TrimSpace\<close>.\<close>

definition is_space :: "rune \<Rightarrow> bool" where
  "is_space r \<longleftrightarrow>
    9 \<le> r \<and> r \<le> 13 \<or> r = 32 \<or> r = 133 \<or> r = 160 \<or> r = 5760 \<or> 8192 \<le> r \<and> r \<le> 8202 \<or>
    r = 8232 \<or> r = 8233 \<or> r = 8239 \<or> r = 8287 \<or> r = 12288"

definition trim_space :: "string \<Rightarrow> string" where
  "trim_space s =
    (let skip = dropWhile (\<lambda>p. is_space (fst p)) in
     concat (map snd (rev (skip (rev (skip (rune_segs s)))))))"

definition visible :: "char \<Rightarrow> bool" where
  "visible c \<longleftrightarrow> 33 \<le> byte_of c \<and> byte_of c \<le> 126"

lemma trim_space_visible:
  assumes "\<forall>c\<in>set s. visible c"
  shows "trim_space s = s" "trim_space (CHR '' '' # s) = s"
proof -
  have ns: "c \<in> set s \<Longrightarrow> \<not> is_space (byte_of c)" for c
    using assms by (auto simp: visible_def is_space_def)
  have "is_ascii s"
    using assms by (auto simp: is_ascii_def list_all_iff visible_def)
  then have segs: "rune_segs s = map (\<lambda>c. (byte_of c, [c])) s"
      "rune_segs (CHR '' '' # s) = (32, '' '') # map (\<lambda>c. (byte_of c, [c])) s"
    by (simp_all add: is_ascii_def)
  have skip: "dropWhile (\<lambda>p. is_space (fst p)) (map (\<lambda>c. (byte_of c, [c])) xs) = map (\<lambda>c. (byte_of c, [c])) xs"
    if "set xs \<subseteq> set s" for xs
    using that ns by (cases xs) auto
  have "is_space 32" "concat (map (snd \<circ> (\<lambda>c. (byte_of c, [c]))) s) = s"
    by (simp add: is_space_def, induction s) simp_all
  then show "trim_space s = s" "trim_space (CHR '' '' # s) = s"
    using segs skip [of s] skip [of "rev s"]
    by (simp_all add: trim_space_def rev_map [symmetric])
qed

section \<open>Integers\<close>

definition digit_val :: "nat \<Rightarrow> char \<Rightarrow> nat option" where
  "digit_val base c =
    (let b = byte_of c;
         d = (if 48 \<le> b \<and> b \<le> 57 then b - 48
              else if 97 \<le> b \<and> b \<le> 122 then b - 87
              else if 65 \<le> b \<and> b \<le> 90 then b - 55 else 36)
     in if d < base then Some d else None)"

fun digits_val :: "nat \<Rightarrow> nat \<Rightarrow> string \<Rightarrow> nat option" where
  "digits_val base acc [] = Some acc"
| "digits_val base acc (c # cs) =
    (case digit_val base c of None \<Rightarrow> None | Some d \<Rightarrow> digits_val base (acc * base + d) cs)"

text \<open>
  \<open>strconv.ParseInt(s, base, 64)\<close> and \<open>strconv.Atoi\<close> for base 10 or 16; \<open>None\<close> is a syntax or range
  error.
\<close>

definition parse_int :: "nat \<Rightarrow> string \<Rightarrow> int option" where
  "parse_int base s =
    (let (neg, ds) = (case s of c # cs \<Rightarrow> if c = CHR ''+'' then (False, cs)
                                          else if c = CHR ''-'' then (True, cs) else (False, s)
                      | [] \<Rightarrow> (False, []))
     in if ds = [] then None
        else case digits_val base 0 ds of
               None \<Rightarrow> None
             | Some n \<Rightarrow>
                 if neg then (if int n \<le> 2 ^ 63 then Some (- int n) else None)
                 else (if int n < 2 ^ 63 then Some (int n) else None))"

lemma parse_int_range: "parse_int base s = Some i \<Longrightarrow> -(2 ^ 63) \<le> i \<and> i < 2 ^ 63"
  by (auto simp: parse_int_def Let_def split: prod.splits option.splits if_splits)

text \<open>\<open>strconv.FormatInt(i, 10)\<close> and \<open>%d\<close>.\<close>

fun format_nat :: "nat \<Rightarrow> string" where
  "format_nat n =
    (if n < 10 then [char_of (48 + n)] else format_nat (n div 10) @ [char_of (48 + n mod 10)])"

declare format_nat.simps [simp del]

definition format_int :: "int \<Rightarrow> string" where
  "format_int i = (if i < 0 then CHR ''-'' # format_nat (nat (- i)) else format_nat (nat i))"

end
