(* ===== verification/Go_Http.thy ===== *)
theory Go_Http
  imports Go_Strings
begin

text \<open>
  The parts of Go's \<open>net/http\<close>, \<open>net/textproto\<close> and \<open>net/url\<close> the gateway relies on: headers under
  their canonical names, percent-encoding, and query strings as ordered multimaps.
\<close>

section \<open>Headers\<close>

text \<open>A token byte of RFC 7230, the bytes a header field name may have.\<close>

definition token_byte :: "char \<Rightarrow> bool" where
  "token_byte c \<longleftrightarrow>
    (let b = byte_of c in
     48 \<le> b \<and> b \<le> 57 \<or> 65 \<le> b \<and> b \<le> 90 \<or> 97 \<le> b \<and> b \<le> 122 \<or> c \<in> set ''!#$%&'' \<or>
     b = 39 \<or> c \<in> set ''*+-.^_`|~'')"

definition upper_char :: "char \<Rightarrow> char" where
  "upper_char c = (if 97 \<le> byte_of c \<and> byte_of c \<le> 122 then char_of (byte_of c - 32) else c)"

fun canonical_bytes :: "bool \<Rightarrow> string \<Rightarrow> string" where
  "canonical_bytes up [] = []"
| "canonical_bytes up (c # cs) =
    (if up then upper_char c else lower_char c) # canonical_bytes (c = CHR ''-'') cs"

text \<open>\<open>http.CanonicalHeaderKey\<close>: a name with a byte that is no token byte is left as it is.\<close>

definition canonical_key :: "string \<Rightarrow> string" where
  "canonical_key k = (if list_all token_byte k then canonical_bytes True k else k)"

text \<open>A header is a list of canonical names with their values; names do not repeat.\<close>

type_synonym header = "(string \<times> string list) list"

definition header_values :: "header \<Rightarrow> string \<Rightarrow> string list" where
  "header_values h k = (case map_of h (canonical_key k) of Some vs \<Rightarrow> vs | None \<Rightarrow> [])"

definition header_get :: "header \<Rightarrow> string \<Rightarrow> string" where
  "header_get h k = (case header_values h k of v # _ \<Rightarrow> v | [] \<Rightarrow> [])"

fun assoc_set :: "'k \<Rightarrow> 'v \<Rightarrow> ('k \<times> 'v) list \<Rightarrow> ('k \<times> 'v) list" where
  "assoc_set k v [] = [(k, v)]"
| "assoc_set k v ((k', v') # kvs) = (if k' = k then (k, v) # kvs else (k', v') # assoc_set k v kvs)"

definition assoc_del :: "'k \<Rightarrow> ('k \<times> 'v) list \<Rightarrow> ('k \<times> 'v) list" where
  "assoc_del k kvs = filter (\<lambda>p. fst p \<noteq> k) kvs"

definition header_set :: "string \<Rightarrow> string \<Rightarrow> header \<Rightarrow> header" where
  "header_set k v h = assoc_set (canonical_key k) [v] h"

definition header_del :: "string \<Rightarrow> header \<Rightarrow> header" where
  "header_del k h = assoc_del (canonical_key k) h"

lemma map_of_assoc_set: "map_of (assoc_set k v kvs) = (map_of kvs)(k \<mapsto> v)"
  by (induction k v kvs rule: assoc_set.induct) (auto simp: fun_eq_iff)

lemma map_of_assoc_del: "map_of (assoc_del k kvs) = (map_of kvs)(k := None)"
  by (induction kvs) (auto simp: assoc_del_def fun_eq_iff)

lemma fst_set_assoc_set: "fst ` set (assoc_set k v kvs) = insert k (fst ` set kvs)"
  by (induction k v kvs rule: assoc_set.induct) auto

lemma distinct_assoc_set: "distinct (map fst kvs) \<Longrightarrow> distinct (map fst (assoc_set k v kvs))"
  by (induction k v kvs rule: assoc_set.induct) (auto simp: fst_set_assoc_set)

lemma header_get_set: "header_get (header_set k v h) k' =
    (if canonical_key k' = canonical_key k then v else header_get h k')"
  by (simp add: header_get_def header_values_def header_set_def map_of_assoc_set)

lemma header_get_Nil [simp]: "header_get [] k = []"
  by (simp add: header_get_def header_values_def)

text \<open>Canonical names differ from the given ones in letter case only.\<close>

lemma lower_upper_char: "lower_char (upper_char c) = lower_char c"
proof (cases "97 \<le> byte_of c \<and> byte_of c \<le> 122")
  case True
  then have "(byte_of c - 32) mod 256 = byte_of c - 32"
    by (intro mod_less) linarith
  then show ?thesis
    using True by (auto simp: lower_char_def upper_char_def)
qed (auto simp: upper_char_def)

lemma lower_lower_char: "lower_char (lower_char c) = lower_char c"
  by (auto simp: lower_char_def)

lemma token_byte_ascii: "token_byte c \<Longrightarrow> byte_of c < 128"
  by (auto simp: token_byte_def Let_def)

lemma ascii_case: "byte_of (upper_char c) < 128 \<longleftrightarrow> byte_of c < 128" "byte_of (lower_char c) < 128 \<longleftrightarrow> byte_of c < 128"
  by (auto simp: lower_char_def upper_char_def)

lemma canonical_bytes_lower: "map lower_char (canonical_bytes up k) = map lower_char k"
  by (induction up k rule: canonical_bytes.induct) (auto simp: lower_upper_char lower_lower_char)

lemma canonical_bytes_ascii: "is_ascii (canonical_bytes up k) = is_ascii k"
  by (induction up k rule: canonical_bytes.induct) (auto simp: is_ascii_def ascii_case)

lemma to_lower_canonical_key: "to_lower (canonical_key k) = to_lower k"
proof (cases "list_all token_byte k")
  case True
  then have "is_ascii k"
    by (auto simp: is_ascii_def list_all_iff token_byte_ascii)
  then show ?thesis
    using True by (simp add: canonical_key_def to_lower_def canonical_bytes_ascii canonical_bytes_lower)
qed (simp add: canonical_key_def)

lemma to_lower_idem: "is_ascii s \<Longrightarrow> to_lower (to_lower s) = to_lower s"
proof -
  assume "is_ascii s"
  moreover from this have "is_ascii (map lower_char s)"
    by (simp add: is_ascii_def list_all_iff ascii_case)
  ultimately show ?thesis
    by (simp add: to_lower_def lower_lower_char)
qed

section \<open>Percent-encoding\<close>

definition hex_upper :: "nat \<Rightarrow> char" where
  "hex_upper n = char_of (if n < 10 then 48 + n else 55 + n)"

definition percent_byte :: "char \<Rightarrow> string" where
  "percent_byte c = [CHR ''%'', hex_upper (byte_of c div 16), hex_upper (byte_of c mod 16)]"

definition unreserved :: "char \<Rightarrow> bool" where
  "unreserved c \<longleftrightarrow>
    (let b = byte_of c in
     48 \<le> b \<and> b \<le> 57 \<or> 65 \<le> b \<and> b \<le> 90 \<or> 97 \<le> b \<and> b \<le> 122 \<or> c \<in> set ''-_.~'')"

text \<open>\<open>url.QueryEscape\<close>.\<close>

definition query_escape :: "string \<Rightarrow> string" where
  "query_escape s =
    concat (map (\<lambda>c. if unreserved c then [c] else if c = CHR '' '' then ''+'' else percent_byte c) s)"

text \<open>\<open>url.QueryUnescape\<close> (\<open>pl\<close> reads a plus sign as a space) and \<open>url.PathUnescape\<close>.\<close>

fun unescape :: "bool \<Rightarrow> string \<Rightarrow> string option" where
  "unescape pl [] = Some []"
| "unescape pl (c # cs) =
    (if c = CHR ''%'' then
       (case cs of
          a # b # rest \<Rightarrow>
            (case (digit_val 16 a, digit_val 16 b) of
               (Some x, Some y) \<Rightarrow> map_option (\<lambda>r. char_of (16 * x + y) # r) (unescape pl rest)
             | _ \<Rightarrow> None)
        | _ \<Rightarrow> None)
     else map_option (\<lambda>r. (if pl \<and> c = CHR ''+'' then CHR '' '' else c) # r) (unescape pl cs))"

section \<open>Query strings\<close>

type_synonym url_values = "(string \<times> string list) list"

fun values_add :: "string \<Rightarrow> string \<Rightarrow> url_values \<Rightarrow> url_values" where
  "values_add k v [] = [(k, [v])]"
| "values_add k v ((k', vs) # q) = (if k' = k then (k', vs @ [v]) # q else (k', vs) # values_add k v q)"

text \<open>
  \<open>url.ParseQuery\<close>: the values, and whether some pair was malformed (a semicolon or a bad escape); such
  a pair is left out.
\<close>

fun parse_pairs :: "string list \<Rightarrow> url_values \<Rightarrow> bool \<Rightarrow> url_values \<times> bool" where
  "parse_pairs [] q err = (q, err)"
| "parse_pairs (p # ps) q err =
    (if CHR '';'' \<in> set p then parse_pairs ps q True
     else if p = [] then parse_pairs ps q err
     else
       (case str_cut (CHR ''='') p of
          (k, v, _) \<Rightarrow>
            (case (unescape True k, unescape True v) of
               (Some k', Some v') \<Rightarrow> parse_pairs ps (values_add k' v' q) err
             | _ \<Rightarrow> parse_pairs ps q True)))"

definition parse_query :: "string \<Rightarrow> url_values \<times> bool" where
  "parse_query s = (if s = [] then ([], False) else parse_pairs (str_split (CHR ''&'') s) [] False)"

definition values_get :: "url_values \<Rightarrow> string \<Rightarrow> string" where
  "values_get q k = (case map_of q k of Some (v # _) \<Rightarrow> v | _ \<Rightarrow> [])"

definition values_has :: "url_values \<Rightarrow> string \<Rightarrow> bool" where
  "values_has q k \<longleftrightarrow> map_of q k \<noteq> None"

text \<open>\<open>Values.Encode\<close>: sorted by key, values in their order.\<close>

definition values_encode :: "url_values \<Rightarrow> string" where
  "values_encode q =
    str_join ''&'' (concat (map (\<lambda>(k, vs). map (\<lambda>v. query_escape k @ ''='' @ query_escape v) vs)
      (sort_key fst q)))"

lemma digit_val_hex_upper: "n < 16 \<Longrightarrow> digit_val 16 (hex_upper n) = Some n"
  by (auto simp: digit_val_def hex_upper_def Let_def of_char_of)

lemma unescape_percent: "unescape pl (percent_byte c @ s) = map_option ((#) c) (unescape pl s)"
proof -
  have "byte_of c div 16 < 16"
    using nat_of_char_less_256 [of c] by linarith
  then show ?thesis
    by (simp add: percent_byte_def digit_val_hex_upper)
qed

lemma unescape_query_escape: "unescape True (query_escape s) = Some s"
  by (induction s) (auto simp: query_escape_def unescape_percent unreserved_def Let_def)

section \<open>Requests\<close>

text \<open>
  What the gateway reads of an \<open>http.Request\<close>, its body apart. \<open>r_Path\<close> is the decoded path,
  \<open>r_EscapedPath\<close> the path as it was sent, \<open>r_Opaque\<close> the opaque part of a request target.
\<close>

record http_request =
  r_Method :: string
  r_Host :: string
  r_Path :: string
  r_EscapedPath :: string
  r_Opaque :: string
  r_RawQuery :: string
  r_Header :: header
  r_RemoteAddr :: string
  r_ContentLength :: int

abbreviation r_Query :: "http_request \<Rightarrow> url_values" where
  "r_Query r \<equiv> fst (parse_query (r_RawQuery r))"

end
