(* ===== verification/Go_Hash.thy ===== *)
theory Go_Hash
  imports Prelude
begin

text \<open>
  The hash functions of Go's standard library that signatures and checksums use: SHA-256, SHA-1, SHA-512,
  MD5, the three CRCs, HMAC-SHA256, and the hexadecimal and base64 encodings. Byte strings in, byte
  strings out. The theorems of the development treat them as functions; they are written out so that
  the definitions that use them compute.
\<close>

unbundle bit_operations_syntax

section \<open>Bytes and words\<close>

definition byte_chars :: "nat list \<Rightarrow> string" where
  "byte_chars ns = map char_of ns"

fun word_of_bytes :: "'a::len word \<Rightarrow> string \<Rightarrow> 'a word" where
  "word_of_bytes acc [] = acc"
| "word_of_bytes acc (c # cs) = word_of_bytes (push_bit 8 acc OR of_nat (byte_of c)) cs"

fun bytes_of_word :: "nat \<Rightarrow> 'a::len word \<Rightarrow> string" where
  "bytes_of_word 0 w = []"
| "bytes_of_word (Suc n) w = bytes_of_word n (drop_bit 8 w) @ [char_of (unat (take_bit 8 w))]"

definition rotl :: "nat \<Rightarrow> 'a::len word \<Rightarrow> 'a word" where
  "rotl n w = push_bit n w OR drop_bit (LENGTH('a) - n) w"

definition rotr :: "nat \<Rightarrow> 'a::len word \<Rightarrow> 'a word" where
  "rotr n w = drop_bit n w OR push_bit (LENGTH('a) - n) w"

function chunks :: "nat \<Rightarrow> string \<Rightarrow> string list" where
  "chunks n s = (if n = 0 \<or> s = [] then [] else take n s # chunks n (drop n s))"
  by pat_completeness auto
termination
  by (relation "measure (\<lambda>(n, s). length s)") auto

declare chunks.simps [simp del]

text \<open>Padding: a one bit, zeros, and the bit length in \<open>ll\<close> bytes, to a multiple of \<open>block\<close> bytes.\<close>

definition pad_be :: "nat \<Rightarrow> nat \<Rightarrow> string \<Rightarrow> string" where
  "pad_be block ll s =
    (let n = length s; z = (2 * block - (n mod block) - 1 - ll) mod block in
     s @ [char_of (128::nat)] @ replicate z (char_of (0::nat)) @
     bytes_of_word ll (of_nat (8 * n) :: 128 word))"

section \<open>SHA-2\<close>

definition k256 :: "32 word list" where
  "k256 = [
     0x428A2F98, 0x71374491, 0xB5C0FBCF, 0xE9B5DBA5, 0x3956C25B, 0x59F111F1, 0x923F82A4,
     0xAB1C5ED5, 0xD807AA98, 0x12835B01, 0x243185BE, 0x550C7DC3, 0x72BE5D74, 0x80DEB1FE,
     0x9BDC06A7, 0xC19BF174, 0xE49B69C1, 0xEFBE4786, 0x0FC19DC6, 0x240CA1CC, 0x2DE92C6F,
     0x4A7484AA, 0x5CB0A9DC, 0x76F988DA, 0x983E5152, 0xA831C66D, 0xB00327C8, 0xBF597FC7,
     0xC6E00BF3, 0xD5A79147, 0x06CA6351, 0x14292967, 0x27B70A85, 0x2E1B2138, 0x4D2C6DFC,
     0x53380D13, 0x650A7354, 0x766A0ABB, 0x81C2C92E, 0x92722C85, 0xA2BFE8A1, 0xA81A664B,
     0xC24B8B70, 0xC76C51A3, 0xD192E819, 0xD6990624, 0xF40E3585, 0x106AA070, 0x19A4C116,
     0x1E376C08, 0x2748774C, 0x34B0BCB5, 0x391C0CB3, 0x4ED8AA4A, 0x5B9CCA4F, 0x682E6FF3,
     0x748F82EE, 0x78A5636F, 0x84C87814, 0x8CC70208, 0x90BEFFFA, 0xA4506CEB, 0xBEF9A3F7,
     0xC67178F2]"

definition h256 :: "32 word list" where
  "h256 = [
     0x6A09E667, 0xBB67AE85, 0x3C6EF372, 0xA54FF53A, 0x510E527F, 0x9B05688C, 0x1F83D9AB,
     0x5BE0CD19]"

fun schedule256 :: "nat \<Rightarrow> 32 word list \<Rightarrow> 32 word list" where
  "schedule256 0 ws = ws"
| "schedule256 (Suc n) ws =
    (let k = length ws; w15 = ws ! (k - 15); w2 = ws ! (k - 2);
         s0 = rotr 7 w15 XOR rotr 18 w15 XOR drop_bit 3 w15;
         s1 = rotr 17 w2 XOR rotr 19 w2 XOR drop_bit 10 w2
     in schedule256 n (ws @ [ws ! (k - 16) + s0 + ws ! (k - 7) + s1]))"

fun round256 :: "32 word list \<Rightarrow> 32 word \<times> 32 word \<Rightarrow> 32 word list" where
  "round256 [a, b, c, d, e, f, g, h] (k, w) =
    (let s1 = rotr 6 e XOR rotr 11 e XOR rotr 25 e;
         ch = (e AND f) XOR (NOT e AND g);
         t1 = h + s1 + ch + k + w;
         s0 = rotr 2 a XOR rotr 13 a XOR rotr 22 a;
         maj = (a AND b) XOR (a AND c) XOR (b AND c)
     in [t1 + s0 + maj, a, b, c, d + t1, e, f, g])"
| "round256 st _ = st"

definition block256 :: "32 word list \<Rightarrow> string \<Rightarrow> 32 word list" where
  "block256 st blk =
    (let ws = schedule256 48 (map (word_of_bytes 0) (chunks 4 blk))
     in map2 (+) st (foldl round256 st (zip k256 ws)))"

definition sha256 :: "string \<Rightarrow> string" where
  "sha256 s = concat (map (bytes_of_word 4) (foldl block256 h256 (chunks 64 (pad_be 64 8 s))))"

definition k512 :: "64 word list" where
  "k512 = [
     0x428A2F98D728AE22, 0x7137449123EF65CD, 0xB5C0FBCFEC4D3B2F, 0xE9B5DBA58189DBBC,
     0x3956C25BF348B538, 0x59F111F1B605D019, 0x923F82A4AF194F9B, 0xAB1C5ED5DA6D8118,
     0xD807AA98A3030242, 0x12835B0145706FBE, 0x243185BE4EE4B28C, 0x550C7DC3D5FFB4E2,
     0x72BE5D74F27B896F, 0x80DEB1FE3B1696B1, 0x9BDC06A725C71235, 0xC19BF174CF692694,
     0xE49B69C19EF14AD2, 0xEFBE4786384F25E3, 0x0FC19DC68B8CD5B5, 0x240CA1CC77AC9C65,
     0x2DE92C6F592B0275, 0x4A7484AA6EA6E483, 0x5CB0A9DCBD41FBD4, 0x76F988DA831153B5,
     0x983E5152EE66DFAB, 0xA831C66D2DB43210, 0xB00327C898FB213F, 0xBF597FC7BEEF0EE4,
     0xC6E00BF33DA88FC2, 0xD5A79147930AA725, 0x06CA6351E003826F, 0x142929670A0E6E70,
     0x27B70A8546D22FFC, 0x2E1B21385C26C926, 0x4D2C6DFC5AC42AED, 0x53380D139D95B3DF,
     0x650A73548BAF63DE, 0x766A0ABB3C77B2A8, 0x81C2C92E47EDAEE6, 0x92722C851482353B,
     0xA2BFE8A14CF10364, 0xA81A664BBC423001, 0xC24B8B70D0F89791, 0xC76C51A30654BE30,
     0xD192E819D6EF5218, 0xD69906245565A910, 0xF40E35855771202A, 0x106AA07032BBD1B8,
     0x19A4C116B8D2D0C8, 0x1E376C085141AB53, 0x2748774CDF8EEB99, 0x34B0BCB5E19B48A8,
     0x391C0CB3C5C95A63, 0x4ED8AA4AE3418ACB, 0x5B9CCA4F7763E373, 0x682E6FF3D6B2B8A3,
     0x748F82EE5DEFB2FC, 0x78A5636F43172F60, 0x84C87814A1F0AB72, 0x8CC702081A6439EC,
     0x90BEFFFA23631E28, 0xA4506CEBDE82BDE9, 0xBEF9A3F7B2C67915, 0xC67178F2E372532B,
     0xCA273ECEEA26619C, 0xD186B8C721C0C207, 0xEADA7DD6CDE0EB1E, 0xF57D4F7FEE6ED178,
     0x06F067AA72176FBA, 0x0A637DC5A2C898A6, 0x113F9804BEF90DAE, 0x1B710B35131C471B,
     0x28DB77F523047D84, 0x32CAAB7B40C72493, 0x3C9EBE0A15C9BEBC, 0x431D67C49C100D4C,
     0x4CC5D4BECB3E42B6, 0x597F299CFC657E2A, 0x5FCB6FAB3AD6FAEC, 0x6C44198C4A475817]"

definition h512 :: "64 word list" where
  "h512 = [
     0x6A09E667F3BCC908, 0xBB67AE8584CAA73B, 0x3C6EF372FE94F82B, 0xA54FF53A5F1D36F1,
     0x510E527FADE682D1, 0x9B05688C2B3E6C1F, 0x1F83D9ABFB41BD6B, 0x5BE0CD19137E2179]"

fun schedule512 :: "nat \<Rightarrow> 64 word list \<Rightarrow> 64 word list" where
  "schedule512 0 ws = ws"
| "schedule512 (Suc n) ws =
    (let k = length ws; w15 = ws ! (k - 15); w2 = ws ! (k - 2);
         s0 = rotr 1 w15 XOR rotr 8 w15 XOR drop_bit 7 w15;
         s1 = rotr 19 w2 XOR rotr 61 w2 XOR drop_bit 6 w2
     in schedule512 n (ws @ [ws ! (k - 16) + s0 + ws ! (k - 7) + s1]))"

fun round512 :: "64 word list \<Rightarrow> 64 word \<times> 64 word \<Rightarrow> 64 word list" where
  "round512 [a, b, c, d, e, f, g, h] (k, w) =
    (let s1 = rotr 14 e XOR rotr 18 e XOR rotr 41 e;
         ch = (e AND f) XOR (NOT e AND g);
         t1 = h + s1 + ch + k + w;
         s0 = rotr 28 a XOR rotr 34 a XOR rotr 39 a;
         maj = (a AND b) XOR (a AND c) XOR (b AND c)
     in [t1 + s0 + maj, a, b, c, d + t1, e, f, g])"
| "round512 st _ = st"

definition block512 :: "64 word list \<Rightarrow> string \<Rightarrow> 64 word list" where
  "block512 st blk =
    (let ws = schedule512 64 (map (word_of_bytes 0) (chunks 8 blk))
     in map2 (+) st (foldl round512 st (zip k512 ws)))"

definition sha512 :: "string \<Rightarrow> string" where
  "sha512 s = concat (map (bytes_of_word 8) (foldl block512 h512 (chunks 128 (pad_be 128 16 s))))"

section \<open>SHA-1 and MD5\<close>

fun schedule1 :: "nat \<Rightarrow> 32 word list \<Rightarrow> 32 word list" where
  "schedule1 0 ws = ws"
| "schedule1 (Suc n) ws =
    (let k = length ws
     in schedule1 n (ws @ [rotl 1 (ws ! (k - 3) XOR ws ! (k - 8) XOR ws ! (k - 14) XOR ws ! (k - 16))]))"

fun round1 :: "32 word list \<Rightarrow> nat \<times> 32 word \<Rightarrow> 32 word list" where
  "round1 [a, b, c, d, e] (i, w) =
    (let (f, k) =
       (if i < 20 then ((b AND c) OR (NOT b AND d), 0x5A827999)
        else if i < 40 then (b XOR c XOR d, 0x6ED9EBA1)
        else if i < 60 then ((b AND c) OR (b AND d) OR (c AND d), 0x8F1BBCDC)
        else (b XOR c XOR d, 0xCA62C1D6))
     in [rotl 5 a + f + e + k + w, a, rotl 30 b, c, d])"
| "round1 st _ = st"

definition block1 :: "32 word list \<Rightarrow> string \<Rightarrow> 32 word list" where
  "block1 st blk =
    (let ws = schedule1 64 (map (word_of_bytes 0) (chunks 4 blk))
     in map2 (+) st (foldl round1 st (zip [0..<80] ws)))"

definition sha1 :: "string \<Rightarrow> string" where
  "sha1 s = concat (map (bytes_of_word 4)
    (foldl block1 [0x67452301, 0xEFCDAB89, 0x98BADCFE, 0x10325476, 0xC3D2E1F0]
      (chunks 64 (pad_be 64 8 s))))"

definition kmd5 :: "32 word list" where
  "kmd5 = [
     0xD76AA478, 0xE8C7B756, 0x242070DB, 0xC1BDCEEE, 0xF57C0FAF, 0x4787C62A, 0xA8304613,
     0xFD469501, 0x698098D8, 0x8B44F7AF, 0xFFFF5BB1, 0x895CD7BE, 0x6B901122, 0xFD987193,
     0xA679438E, 0x49B40821, 0xF61E2562, 0xC040B340, 0x265E5A51, 0xE9B6C7AA, 0xD62F105D,
     0x02441453, 0xD8A1E681, 0xE7D3FBC8, 0x21E1CDE6, 0xC33707D6, 0xF4D50D87, 0x455A14ED,
     0xA9E3E905, 0xFCEFA3F8, 0x676F02D9, 0x8D2A4C8A, 0xFFFA3942, 0x8771F681, 0x6D9D6122,
     0xFDE5380C, 0xA4BEEA44, 0x4BDECFA9, 0xF6BB4B60, 0xBEBFBC70, 0x289B7EC6, 0xEAA127FA,
     0xD4EF3085, 0x04881D05, 0xD9D4D039, 0xE6DB99E5, 0x1FA27CF8, 0xC4AC5665, 0xF4292244,
     0x432AFF97, 0xAB9423A7, 0xFC93A039, 0x655B59C3, 0x8F0CCC92, 0xFFEFF47D, 0x85845DD1,
     0x6FA87E4F, 0xFE2CE6E0, 0xA3014314, 0x4E0811A1, 0xF7537E82, 0xBD3AF235, 0x2AD7D2BB,
     0xEB86D391]"

definition md5_shift :: "nat \<Rightarrow> nat" where
  "md5_shift i =
    (if i < 16 then [7, 12, 17, 22] ! (i mod 4) else if i < 32 then [5, 9, 14, 20] ! (i mod 4)
     else if i < 48 then [4, 11, 16, 23] ! (i mod 4) else [6, 10, 15, 21] ! (i mod 4))"

fun round_md5 :: "32 word list \<Rightarrow> 32 word list \<Rightarrow> nat \<Rightarrow> 32 word list" where
  "round_md5 ws [a, b, c, d] i =
    (let (f, g) =
       (if i < 16 then ((b AND c) OR (NOT b AND d), i)
        else if i < 32 then ((d AND b) OR (NOT d AND c), (5 * i + 1) mod 16)
        else if i < 48 then (b XOR c XOR d, (3 * i + 5) mod 16)
        else (c XOR (b OR NOT d), (7 * i) mod 16))
     in [d, b + rotl (md5_shift i) (f + a + kmd5 ! i + ws ! g), b, c])"
| "round_md5 ws st i = st"

definition block_md5 :: "32 word list \<Rightarrow> string \<Rightarrow> 32 word list" where
  "block_md5 st blk =
    (let ws = map (\<lambda>c. word_of_bytes 0 (rev c)) (chunks 4 blk)
     in map2 (+) st (foldl (round_md5 ws) st [0..<64]))"

definition md5 :: "string \<Rightarrow> string" where
  "md5 s =
    (let n = length s; z = (128 - (n mod 64) - 1 - 8) mod 64;
         padded = s @ [char_of (128::nat)] @ replicate z (char_of (0::nat)) @
           rev (bytes_of_word 8 (of_nat (8 * n) :: 64 word))
     in concat (map (\<lambda>w. rev (bytes_of_word 4 w))
          (foldl block_md5 [0x67452301, 0xEFCDAB89, 0x98BADCFE, 0x10325476] (chunks 64 padded))))"

section \<open>CRCs\<close>

text \<open>A reflected CRC with the given polynomial, all-ones start and final complement.\<close>

fun crc_bits :: "nat \<Rightarrow> 'a::len word \<Rightarrow> 'a word \<Rightarrow> 'a word" where
  "crc_bits 0 poly w = w"
| "crc_bits (Suc n) poly w =
    crc_bits n poly (if bit w 0 then drop_bit 1 w XOR poly else drop_bit 1 w)"

definition crc :: "'a::len word \<Rightarrow> string \<Rightarrow> 'a word" where
  "crc poly s = NOT (foldl (\<lambda>w c. crc_bits 8 poly (w XOR of_nat (byte_of c))) (NOT 0) s)"

definition crc32 :: "string \<Rightarrow> string" where
  "crc32 s = bytes_of_word 4 (crc (0xEDB88320 :: 32 word) s)"

definition crc32c :: "string \<Rightarrow> string" where
  "crc32c s = bytes_of_word 4 (crc (0x82F63B78 :: 32 word) s)"

definition crc64nvme :: "string \<Rightarrow> string" where
  "crc64nvme s = bytes_of_word 8 (crc (0x9A6C9329AC4BC9B5 :: 64 word) s)"

section \<open>HMAC and encodings\<close>

definition xor_pad :: "nat \<Rightarrow> string \<Rightarrow> string" where
  "xor_pad b k = map (\<lambda>c. char_of (unat ((of_nat (byte_of c) :: 8 word) XOR of_nat b))) k"

definition hmac_sha256 :: "string \<Rightarrow> string \<Rightarrow> string" where
  "hmac_sha256 key msg =
    (let k0 = (if 64 < length key then sha256 key else key);
         k = k0 @ replicate (64 - length k0) (char_of (0::nat))
     in sha256 (xor_pad 92 k @ sha256 (xor_pad 54 k @ msg)))"

definition hex_digit :: "nat \<Rightarrow> char" where
  "hex_digit n = char_of (if n < 10 then 48 + n else 87 + n)"

text \<open>\<open>hex.EncodeToString\<close>.\<close>

definition hex_encode :: "string \<Rightarrow> string" where
  "hex_encode s = concat (map (\<lambda>c. [hex_digit (byte_of c div 16), hex_digit (byte_of c mod 16)]) s)"

definition base64_char :: "nat \<Rightarrow> char" where
  "base64_char n =
    (if n < 26 then char_of (65 + n) else if n < 52 then char_of (71 + n)
     else if n < 62 then char_of (n - 4) else if n = 62 then CHR ''+'' else CHR ''/'')"

text \<open>\<open>base64.StdEncoding.EncodeToString\<close>.\<close>

fun base64_encode :: "string \<Rightarrow> string" where
  "base64_encode [] = []"
| "base64_encode [a] =
    (let x = byte_of a in [base64_char (x div 4), base64_char ((x mod 4) * 16), CHR ''='', CHR ''=''])"
| "base64_encode [a, b] =
    (let x = byte_of a; y = byte_of b in
     [base64_char (x div 4), base64_char ((x mod 4) * 16 + y div 16), base64_char ((y mod 16) * 4), CHR ''=''])"
| "base64_encode (a # b # c # rest) =
    (let x = byte_of a; y = byte_of b; z = byte_of c in
     [base64_char (x div 4), base64_char ((x mod 4) * 16 + y div 16),
      base64_char ((y mod 16) * 4 + z div 64), base64_char (z mod 64)]) @ base64_encode rest"

section \<open>Lengths\<close>

lemma length_bytes_of_word [simp]: "length (bytes_of_word n w) = n"
  by (induction n w rule: bytes_of_word.induct) simp_all

lemma length_round256: "length (round256 st kw) = length st"
  by (cases "(st, kw)" rule: round256.cases) (simp_all add: Let_def)

lemma length_rounds256: "length (foldl round256 st kws) = length st"
  by (induction kws arbitrary: st) (simp_all add: length_round256)

lemma length_blocks256: "length (foldl block256 st blks) = length st"
  by (induction blks arbitrary: st) (simp_all add: block256_def Let_def length_rounds256)

lemma length_concat_const: "\<forall>x\<in>set xs. length (f x) = n \<Longrightarrow> length (concat (map f xs)) = n * length xs"
  by (induction xs) auto

lemma length_sha256 [simp]: "length (sha256 s) = 32"
  unfolding sha256_def by (subst length_concat_const [where n = 4]) (simp_all add: length_blocks256 h256_def)

lemma length_hmac_sha256 [simp]: "length (hmac_sha256 k m) = 32"
  by (simp add: hmac_sha256_def Let_def)

lemma length_hex_encode [simp]: "length (hex_encode s) = 2 * length s"
  by (induction s) (simp_all add: hex_encode_def)

definition lower_hex :: "char \<Rightarrow> bool" where
  "lower_hex c \<longleftrightarrow> (let b = byte_of c in 48 \<le> b \<and> b \<le> 57 \<or> 97 \<le> b \<and> b \<le> 102)"

lemma hex_digit_lower_hex: "n < 16 \<Longrightarrow> lower_hex (hex_digit n)"
  by (auto simp: lower_hex_def hex_digit_def Let_def of_char_of)

lemma hex_encode_lower_hex: "c \<in> set (hex_encode s) \<Longrightarrow> lower_hex c"
proof (induction s)
  case (Cons a s)
  have "byte_of a div 16 < 16"
    using nat_of_char_less_256 [of a] by linarith
  then show ?case
    using Cons hex_digit_lower_hex by (auto simp: hex_encode_def)
qed (simp add: hex_encode_def)

end
