(* ===== verification/Go_Time.thy ===== *)
theory Go_Time
  imports Go_Strings "HOL-Library.Monad_Syntax"
begin

text \<open>
  The parts of Go's \<open>time\<close> the gateway uses. An instant is the number of nanoseconds since the Unix epoch
  in UTC; a duration is a 64-bit integer of nanoseconds, with Go's wrap-around in arithmetic and saturation
  in \<open>Time.Sub\<close>.
\<close>

section \<open>Durations\<close>

definition int64 :: "int \<Rightarrow> int" where
  "int64 x = (x + 2 ^ 63) mod 2 ^ 64 - 2 ^ 63"

definition Second :: int where "Second = 1000000000"

text \<open>\<open>time.Duration(n) * unit\<close>: a wrapping multiplication.\<close>

definition duration_mul :: "int \<Rightarrow> int \<Rightarrow> int" where
  "duration_mul n u = int64 (n * u)"

text \<open>\<open>Time.Sub\<close> saturates.\<close>

definition time_sub :: "int \<Rightarrow> int \<Rightarrow> int" where
  "time_sub t u = max (- (2 ^ 63)) (min (2 ^ 63 - 1) (t - u))"

lemma int64_range: "- (2 ^ 63) \<le> int64 x" "int64 x < 2 ^ 63"
proof -
  have "0 \<le> (x + 2 ^ 63) mod 2 ^ 64" "(x + 2 ^ 63) mod 2 ^ 64 < 2 ^ 64"
    by (rule pos_mod_sign pos_mod_bound; simp)+
  then show "- (2 ^ 63) \<le> int64 x" "int64 x < 2 ^ 63"
    by (simp_all add: int64_def)
qed

lemma int64_id: "- (2 ^ 63) \<le> x \<Longrightarrow> x < 2 ^ 63 \<Longrightarrow> int64 x = x"
  by (simp add: int64_def)

section \<open>Dates\<close>

definition is_leap :: "int \<Rightarrow> bool" where
  "is_leap y \<longleftrightarrow> y mod 4 = 0 \<and> (y mod 100 \<noteq> 0 \<or> y mod 400 = 0)"

definition days_in :: "int \<Rightarrow> int \<Rightarrow> int" where
  "days_in m y = (if m = 2 then (if is_leap y then 29 else 28) else if m \<in> {4, 6, 9, 11} then 30 else 31)"

text \<open>Days from the epoch to a date of the proleptic Gregorian calendar, with years starting in March.\<close>

definition days_from_civil :: "int \<Rightarrow> int \<Rightarrow> int \<Rightarrow> int" where
  "days_from_civil y m d =
    (let y' = (if m \<le> 2 then y - 1 else y);
         era = y' div 400;
         yoe = y' - era * 400;
         doy = (153 * (if 2 < m then m - 3 else m + 9) + 2) div 5 + d - 1;
         doe = yoe * 365 + yoe div 4 - yoe div 100 + doy
     in era * 146097 + doe - 719468)"

definition civil_from_days :: "int \<Rightarrow> int \<times> int \<times> int" where
  "civil_from_days z0 =
    (let z = z0 + 719468;
         era = z div 146097;
         doe = z - era * 146097;
         yoe = (doe - doe div 1460 + doe div 36524 - doe div 146096) div 365;
         doy = doe - (365 * yoe + yoe div 4 - yoe div 100);
         mp = (5 * doy + 2) div 153;
         d = doy - (153 * mp + 2) div 5 + 1;
         m = (if mp < 10 then mp + 3 else mp - 9)
     in (yoe + era * 400 + (if m \<le> 2 then 1 else 0), m, d))"

definition pad2 :: "int \<Rightarrow> string" where
  "pad2 n = [char_of (48 + nat (n div 10)), char_of (48 + nat (n mod 10))]"

definition pad4 :: "int \<Rightarrow> string" where
  "pad4 n = pad2 (n div 100) @ pad2 (n mod 100)"

text \<open>\<open>Format("20060102")\<close> and \<open>Format("20060102T150405Z")\<close> of a UTC instant of the years 0 to 9999.\<close>

definition format_date :: "int \<Rightarrow> string" where
  "format_date t = (case civil_from_days (t div (86400 * Second)) of (y, m, d) \<Rightarrow> pad4 y @ pad2 m @ pad2 d)"

definition format_amz :: "int \<Rightarrow> string" where
  "format_amz t =
    (let s = t div Second mod 86400 in
     format_date t @ ''T'' @ pad2 (s div 3600) @ pad2 (s div 60 mod 60) @ pad2 (s mod 60) @ ''Z'')"

section \<open>Parsing\<close>

text \<open>A run of exactly \<open>n\<close> digits.\<close>

definition take_digits :: "nat \<Rightarrow> string \<Rightarrow> (int \<times> string) option" where
  "take_digits n s =
    (if length s < n \<or> \<not> list_all (\<lambda>c. 48 \<le> byte_of c \<and> byte_of c \<le> 57) (take n s) then None
     else Some (foldl (\<lambda>acc c. acc * 10 + int (byte_of c) - 48) 0 (take n s), drop n s))"

text \<open>
  A fraction of a second, which Go's parser accepts after the seconds although the layout has none: a
  period or comma and digits, of which nine count.
\<close>

definition take_fraction :: "string \<Rightarrow> int \<times> string" where
  "take_fraction s =
    (case s of
       p # q # rest \<Rightarrow>
         if (p = CHR ''.'' \<or> p = CHR '','') \<and> 48 \<le> byte_of q \<and> byte_of q \<le> 57 then
           (let ds = takeWhile (\<lambda>c. 48 \<le> byte_of c \<and> byte_of c \<le> 57) (q # rest);
                nine = take 9 (ds @ replicate 9 (CHR ''0''))
            in (foldl (\<lambda>acc c. acc * 10 + int (byte_of c) - 48) 0 nine, drop (length ds) (q # rest)))
         else (0, s)
     | _ \<Rightarrow> (0, s))"

text \<open>\<open>time.Parse("20060102T150405Z", s)\<close>.\<close>

definition parse_amz :: "string \<Rightarrow> int option" where
  "parse_amz s0 = do {
     (y, s1) \<leftarrow> take_digits 4 s0;
     (mo, s2) \<leftarrow> take_digits 2 s1;
     (d, s3) \<leftarrow> take_digits 2 s2;
     s4 \<leftarrow> cut_prefix s3 ''T'';
     (h, s5) \<leftarrow> take_digits 2 s4;
     (mi, s6) \<leftarrow> take_digits 2 s5;
     (sec, s7) \<leftarrow> take_digits 2 s6;
     (case take_fraction s7 of
        (ns, s8) \<Rightarrow>
          if s8 \<noteq> ''Z'' \<or> mo < 1 \<or> 12 < mo \<or> d < 1 \<or> days_in mo y < d \<or> 24 \<le> h \<or> 60 \<le> mi \<or> 60 \<le> sec then None
          else Some (((days_from_civil y mo d * 24 + h) * 60 + mi) * 60 * Second + sec * Second + ns))
   }"

end
