(* ===== verification/S3err.thy ===== *)
theory S3err
  imports Prelude
begin

text \<open>
  Error values of the program and the package \<open>src/s3err\<close>: the S3 error response, its constructors,
  the mapping of backend errors onto it and its rendering. The error types of \<open>src/sigv4/authfailure.go\<close>
  and \<open>src/s3gw/denyreason.go\<close>, which occur as causes inside it, are constructors of the same type.
\<close>

section \<open>Error values\<close>

text \<open>
  Formatted text is kept as its format string with the values it is applied to, so that two texts are
  equal only if the same call made them.
\<close>

datatype fmt_arg = FS string | FI int | FT go_text
and go_text = Sprintf string "fmt_arg list"

abbreviation lit :: "string \<Rightarrow> go_text" where
  "lit s \<equiv> Sprintf s []"

text \<open>
  \<open>Errorf\<close> is \<open>fmt.Errorf\<close> (or \<open>errors.Join\<close>) with the errors it wraps, \<open>Sentinel\<close> a package-level
  \<open>errors.New\<close> value. \<open>Response_error\<close> and \<open>Api_error\<close> carry what the program reads of the two SDK error
  interfaces: an HTTP status, and an error code with the backend's own wording.
\<close>

datatype go_error =
    Errorf go_text "go_error list"
  | Sentinel string
  | Response_error int "go_error list"
  | Api_error string string "go_error list"
  | Auth_failure (auth_reason: string) (auth_akid: string) (auth_detail: go_text) "go_error list"
  | Deny_reason (deny_layer: string) (deny_statement: int) (deny_sid: string)
      (deny_principal: string) (deny_action: string) (deny_resource: string) "go_error list"
  | S3e s3error
and s3error =
    S3error (err_code: string) (err_message: go_text) (err_resource: string) (err_request_id: string)
      (err_status: int) (err_cause: "go_error list")

text \<open>The cause of an \<open>s3error\<close> and the wrapped error of the others are lists of at most one error.\<close>

definition DeadlineExceeded :: go_error where
  "DeadlineExceeded = Sentinel ''context deadline exceeded''"

definition Canceled :: go_error where
  "Canceled = Sentinel ''context canceled''"

text \<open>The errors that \<open>errors.Is\<close> and \<open>errors.As\<close> look at, in their order.\<close>

fun err_chain :: "go_error \<Rightarrow> go_error list" and s3_chain :: "s3error \<Rightarrow> go_error list" where
  "err_chain (Errorf t es) = Errorf t es # concat (map err_chain es)"
| "err_chain (Sentinel s) = [Sentinel s]"
| "err_chain (Response_error n es) = Response_error n es # concat (map err_chain es)"
| "err_chain (Api_error c m es) = Api_error c m es # concat (map err_chain es)"
| "err_chain (Auth_failure r a d es) = Auth_failure r a d es # concat (map err_chain es)"
| "err_chain (Deny_reason l n sid p a r es) = Deny_reason l n sid p a r es # concat (map err_chain es)"
| "err_chain (S3e e) = S3e e # s3_chain e"
| "s3_chain (S3error c m r q n es) = concat (map err_chain es)"

definition errors_is :: "go_error \<Rightarrow> go_error \<Rightarrow> bool" where
  "errors_is e target \<longleftrightarrow> target \<in> set (err_chain e)"

text \<open>\<open>errors.AsType\<close>: the first error of the chain the projection recognises.\<close>

fun first_some :: "('a \<Rightarrow> 'b option) \<Rightarrow> 'a list \<Rightarrow> 'b option" where
  "first_some f [] = None"
| "first_some f (x # xs) = (case f x of Some y \<Rightarrow> Some y | None \<Rightarrow> first_some f xs)"

fun as_s3error :: "go_error \<Rightarrow> s3error option" where
  "as_s3error (S3e e) = Some e"
| "as_s3error _ = None"

fun as_response_error :: "go_error \<Rightarrow> int option" where
  "as_response_error (Response_error n es) = Some n"
| "as_response_error _ = None"

fun as_api_error :: "go_error \<Rightarrow> string option" where
  "as_api_error (Api_error c m es) = Some c"
| "as_api_error _ = None"

section \<open>Constructors\<close>

definition s3err_New :: "int \<Rightarrow> string \<Rightarrow> go_text \<Rightarrow> s3error" where
  "s3err_New status code message = S3error code message [] [] status []"

fun WithCause :: "s3error \<Rightarrow> go_error \<Rightarrow> s3error" where
  "WithCause (S3error c m r q n es) e = S3error c m r q n [e]"

definition s3err_Internal :: "go_error \<Rightarrow> go_text \<Rightarrow> s3error" where
  "s3err_Internal cause what = S3error ''InternalError'' what [] [] 500 [cause]"

fun with_resource :: "s3error \<Rightarrow> string \<Rightarrow> s3error" where
  "with_resource (S3error c m r q n es) res = S3error c m res q n es"

fun with_request_id :: "s3error \<Rightarrow> string \<Rightarrow> s3error" where
  "with_request_id (S3error c m r q n es) rid = S3error c m r rid n es"

definition NotImplemented :: "string \<Rightarrow> s3error" where
  "NotImplemented what =
    s3err_New 501 ''NotImplemented'' (Sprintf ''%s is not implemented'' [FS what])"

definition AccessDenied :: s3error where
  "AccessDenied = s3err_New 403 ''AccessDenied'' (lit ''Access Denied'')"

definition InvalidAccessKeyID :: s3error where
  "InvalidAccessKeyID = s3err_New 403 ''InvalidAccessKeyId''
    (lit ''The AWS Access Key Id you provided does not exist in our records.'')"

definition SignatureDoesNotMatch :: s3error where
  "SignatureDoesNotMatch = s3err_New 403 ''SignatureDoesNotMatch''
    (lit ''The request signature we calculated does not match the signature you provided. Check your key and signing method.'')"

definition ContentSHA256Mismatch :: s3error where
  "ContentSHA256Mismatch = s3err_New 400 ''XAmzContentSHA256Mismatch''
    (lit ''The provided 'x-amz-content-sha256' header does not match what was computed.'')"

section \<open>Backend errors\<close>

definition wellKnownErrorStatus :: "(string \<times> int) list" where
  "wellKnownErrorStatus = [
     (''NoSuchKey'', 404),
     (''NoSuchBucket'', 404),
     (''NotFound'', 404),
     (''ServerSideEncryptionConfigurationNotFoundError'', 404),
     (''AccessDenied'', 403),
     (''PreconditionFailed'', 412),
     (''NotModified'', 304),
     (''InvalidRange'', 416)]"

definition canonicalMessage :: "(string \<times> string) list" where
  "canonicalMessage = [
     (''AccessDenied'',
      ''Access Denied''),
     (''AccountProblem'',
      ''There is a problem with your account that prevents the operation from completing successfully.''),
     (''BadDigest'',
      ''The Content-MD5 or checksum value that you specified did not match what the server received.''),
     (''BucketAlreadyExists'',
      ''The requested bucket name is not available.''),
     (''BucketAlreadyOwnedByYou'',
      ''The bucket that you tried to create already exists, and you own it.''),
     (''BucketNotEmpty'',
      ''The bucket that you tried to delete is not empty.''),
     (''EntityTooLarge'',
      ''Your proposed upload exceeds the maximum allowed size.''),
     (''EntityTooSmall'',
      ''Your proposed upload is smaller than the minimum allowed size.''),
     (''InternalError'',
      ''We encountered an internal error. Please try again.''),
     (''InvalidArgument'',
      ''Invalid Argument''),
     (''InvalidBucketName'',
      ''The specified bucket is not valid.''),
     (''InvalidDigest'',
      ''The Content-MD5 or checksum value that you specified is not valid.''),
     (''InvalidObjectState'',
      ''The operation is not valid for the current state of the object.''),
     (''InvalidPart'',
      ''One or more of the specified parts could not be found.''),
     (''InvalidPartOrder'',
      ''The list of parts was not in ascending order. Parts list must be specified in order by part number.''),
     (''InvalidRange'',
      ''The requested range is not satisfiable.''),
     (''InvalidRequest'',
      ''Invalid Request''),
     (''InvalidToken'',
      ''The provided token is malformed or otherwise invalid.''),
     (''MalformedXML'',
      ''The XML that you provided was not well formed or did not validate against our published schema.''),
     (''MethodNotAllowed'',
      ''The specified method is not allowed against this resource.''),
     (''MissingContentLength'',
      ''You must provide the Content-Length HTTP header.''),
     (''NoSuchBucket'',
      ''The specified bucket does not exist.''),
     (''NoSuchBucketPolicy'',
      ''The bucket policy does not exist.''),
     (''NoSuchCORSConfiguration'',
      ''The CORS configuration does not exist.''),
     (''NoSuchKey'',
      ''The specified key does not exist.''),
     (''NoSuchLifecycleConfiguration'',
      ''The lifecycle configuration does not exist.''),
     (''NoSuchUpload'',
      ''The specified multipart upload does not exist. The upload ID might be invalid, or the multipart upload might have been aborted or completed.''),
     (''NoSuchVersion'',
      ''The version ID specified in the request does not match an existing version.''),
     (''NotFound'',
      ''Not Found''),
     (''NotImplemented'',
      ''A header that you provided implies functionality that is not implemented.''),
     (''ObjectLockConfigurationNotFound'',
      ''Object Lock configuration does not exist for this bucket.''),
     (''ServerSideEncryptionConfigurationNotFoundError'',
      ''The server side encryption configuration was not found''),
     (''PreconditionFailed'',
      ''At least one of the preconditions that you specified did not hold.''),
     (''RequestTimeout'',
      ''Your socket connection to the server was not read from or written to within the timeout period.''),
     (''ServiceUnavailable'',
      ''Service is unable to handle request.''),
     (''SlowDown'',
      ''Please reduce your request rate.''),
     (''TooManyBuckets'',
      ''You have attempted to create more buckets than allowed.'')]"

definition messageFor :: "string \<Rightarrow> go_text" where
  "messageFor code =
    (case map_of canonicalMessage code of Some msg \<Rightarrow> lit msg | None \<Rightarrow> lit code)"

definition FromSDKError :: "go_error \<Rightarrow> string \<Rightarrow> s3error" where
  "FromSDKError err resource =
    (case first_some as_s3error (err_chain err) of
       Some own \<Rightarrow> if err_resource own = [] then with_resource own resource else own
     | None \<Rightarrow>
       let (status1, hasStatus) =
             (case first_some as_response_error (err_chain err) of
                Some n \<Rightarrow> if 100 \<le> n then (n, True) else (502, False)
              | None \<Rightarrow> (502, False));
           (code2, message2, status2) =
             (case first_some as_api_error (err_chain err) of
                Some code \<Rightarrow>
                  (code, messageFor code,
                   if hasStatus then status1
                   else (case map_of wellKnownErrorStatus code of Some n \<Rightarrow> n | None \<Rightarrow> status1))
              | None \<Rightarrow>
                  (''InternalError'', lit ''We encountered an internal error. Please try again.'',
                   status1))
       in if errors_is err DeadlineExceeded \<or> errors_is err Canceled
          then S3error ''InternalError'' (lit ''backend request timed out'') resource [] 504 [err]
          else S3error code2 message2 resource [] status2 [err])"

section \<open>Rendering\<close>

text \<open>The XML document of an error has exactly these fields: the cause and the status are not in it.\<close>

record error_doc =
  doc_Code :: string
  doc_Message :: go_text
  doc_Resource :: string
  doc_RequestId :: string

record error_response =
  resp_status :: int
  resp_content_type :: "string option"
  resp_doc :: "error_doc option"

fun error_doc_of :: "s3error \<Rightarrow> error_doc" where
  "error_doc_of (S3error c m r q n es) =
    \<lparr> doc_Code = c, doc_Message = m, doc_Resource = r, doc_RequestId = q \<rparr>"

text \<open>\<open>Write\<close>: \<open>meth\<close> and \<open>path\<close> are the request's method and URL path.\<close>

definition s3err_Write :: "string \<Rightarrow> string \<Rightarrow> s3error \<Rightarrow> string \<Rightarrow> error_response" where
  "s3err_Write meth path e requestID =
    (let e1 = with_request_id e requestID;
         e2 = (if err_resource e1 = [] then with_resource e1 path else e1)
     in if meth = ''HEAD'' \<or> err_status e2 = 304
        then \<lparr> resp_status = err_status e2, resp_content_type = None, resp_doc = None \<rparr>
        else \<lparr> resp_status = err_status e2, resp_content_type = Some ''application/xml'',
               resp_doc = Some (error_doc_of e2) \<rparr>)"

section \<open>What the client can learn of a backend error\<close>

text \<open>
  \<open>reword f g\<close> rewrites every text written by the backend or the SDK inside an error, and keeps the
  status codes, error codes and sentinels. Errors raised by the gateway itself are untouched.
\<close>

fun reword :: "(string \<Rightarrow> string) \<Rightarrow> (go_text \<Rightarrow> go_text) \<Rightarrow> go_error \<Rightarrow> go_error" where
  "reword f g (Errorf t es) = Errorf (g t) (map (reword f g) es)"
| "reword f g (Response_error n es) = Response_error n (map (reword f g) es)"
| "reword f g (Api_error c m es) = Api_error c (f m) (map (reword f g) es)"
| "reword f g e = e"

definition client_view :: "s3error \<Rightarrow> string \<times> go_text \<times> string \<times> string \<times> int" where
  "client_view e = (err_code e, err_message e, err_resource e, err_request_id e, err_status e)"

lemma chain_reword:
  assumes "\<And>e. h (reword f g e) = h e"
  shows "map h (err_chain (reword f g e)) = map h (err_chain e)"
  using assms
proof (induction f g e rule: reword.induct)
  case (1 f g t es)
  then show ?case
    using "1.prems" [of "Errorf t es"]
    by (auto simp: map_concat comp_def intro!: arg_cong [of _ _ concat])
next
  case (2 f g n es)
  then show ?case
    using "2.prems" [of "Response_error n es"]
    by (auto simp: map_concat comp_def intro!: arg_cong [of _ _ concat])
next
  case (3 f g c m es)
  then show ?case
    using "3.prems" [of "Api_error c m es"]
    by (auto simp: map_concat comp_def intro!: arg_cong [of _ _ concat])
qed auto

lemma first_some_map: "map h xs = map h ys \<Longrightarrow> first_some h xs = first_some h ys"
proof (induction xs arbitrary: ys)
  case (Cons x xs)
  then show ?case
    by (cases ys) (auto split: option.splits)
qed simp

lemma first_some_reword:
  assumes "\<And>e. h (reword f g e) = h e"
  shows "first_some h (err_chain (reword f g e)) = first_some h (err_chain e)"
  by (intro first_some_map chain_reword assms)

lemma errors_is_reword: "errors_is (reword f g e) (Sentinel s) = errors_is e (Sentinel s)"
proof -
  have "map (\<lambda>e. e = Sentinel s) (err_chain (reword f g e)) = map (\<lambda>e. e = Sentinel s) (err_chain e)"
  proof (rule chain_reword)
    show "(reword f g e = Sentinel s) = (e = Sentinel s)" for e
      by (cases e) auto
  qed
  then have "True \<in> set (map (\<lambda>e. e = Sentinel s) (err_chain (reword f g e))) \<longleftrightarrow>
      True \<in> set (map (\<lambda>e. e = Sentinel s) (err_chain e))"
    by simp
  then show ?thesis
    by (auto simp: errors_is_def)
qed

lemma as_reword [simp]:
  "as_s3error (reword f g e) = as_s3error e"
  "as_response_error (reword f g e) = as_response_error e"
  "as_api_error (reword f g e) = as_api_error e"
  by (cases e; simp)+

lemma client_view_simps [simp]:
  "client_view (S3error c m r q n es) = (c, m, r, q, n)"
  by (simp add: client_view_def)


text \<open>The statuses of the gateway's own errors inside an error.\<close>

definition own_statuses_ok :: "go_error \<Rightarrow> bool" where
  "own_statuses_ok err \<longleftrightarrow>
    (case first_some as_s3error (err_chain err) of Some own \<Rightarrow> 100 \<le> err_status own | None \<Rightarrow> True)"

lemma wellKnown_status: "map_of wellKnownErrorStatus code = Some n \<Longrightarrow> 100 \<le> n"
  by (drule map_of_SomeD) (auto simp: wellKnownErrorStatus_def)

lemma err_status_with_resource [simp]: "err_status (with_resource e r) = err_status e"
  by (cases e) simp

text \<open>
  The status of a mapped backend error can always be written: it is at least 100, also for a
  transport failure whose response error carries status 0.
\<close>

theorem FromSDKError_writable:
  assumes "own_statuses_ok err"
  shows "100 \<le> err_status (FromSDKError err resource)"
  using assms
  by (auto simp: FromSDKError_def own_statuses_ok_def wellKnown_status Let_def
      split: option.splits if_splits prod.splits)

theorem FromSDKError_writable_witness:
  "own_statuses_ok (Response_error 0 []) \<and>
   err_status (FromSDKError (Response_error 0 []) ''/b'') = 502 \<and>
   100 \<le> err_status (FromSDKError (Response_error 0 []) ''/b'')"
  using FromSDKError_writable [of "Response_error 0 []" "''/b''"]
  by (simp add: own_statuses_ok_def FromSDKError_def errors_is_def DeadlineExceeded_def Canceled_def)

end
