(* ===== verification/Canonical.thy ===== *)
theory Canonical
  imports Go_Http Go_Hash Go_Time S3err "HOL-Library.Multiset"
begin

text \<open>
  The canonical form of a request, \<open>src/sigv4/canonical.go\<close>. The URI fields of a request are those of the
  request line as the server received it.
\<close>

section \<open>Signed header lists\<close>

fun signed_list_loop :: "string option \<Rightarrow> string list \<Rightarrow> bool \<Rightarrow> go_error + bool" where
  "signed_list_loop prev [] hasHost = Inr hasHost"
| "signed_list_loop prev (n # ns) hasHost =
    (if n = [] \<or> n \<noteq> to_lower n then Inl (Errorf (Sprintf ''signed header %q is not lower-case'' [FS n]) [])
     else if (case prev of Some p \<Rightarrow> n \<le> p | None \<Rightarrow> False)
     then Inl (Errorf (Sprintf ''signed headers are not sorted and unique at %q'' [FS n]) [])
     else if n = ''authorization'' then Inl (Errorf (lit ''the authorization header cannot be signed'') [])
     else signed_list_loop (Some n) ns (hasHost \<or> n = ''host''))"

definition checkSignedHeaderList :: "string list \<Rightarrow> go_error + unit" where
  "checkSignedHeaderList names =
    and_then (signed_list_loop None names False) (\<lambda>hasHost.
      if hasHost then Inr () else Inl (Errorf (lit ''host is not a signed header'') []))"

section \<open>Path, query, headers\<close>

definition canonicalURI :: "http_request \<Rightarrow> string" where
  "canonicalURI r =
    (let p = (if r_Opaque r \<noteq> []
              then dropWhile (\<lambda>c. c \<noteq> CHR ''/'') (trim_prefix (fst (str_cut (CHR ''?'') (r_Opaque r))) ''//'')
              else r_EscapedPath r)
     in if p = [] then ''/'' else p)"

definition sorted_values :: "url_values \<Rightarrow> url_values" where
  "sorted_values q = map (\<lambda>(k, vs). (k, sort vs)) q"

definition canonicalQuery :: "url_values \<Rightarrow> string \<Rightarrow> string" where
  "canonicalQuery q drp =
    (let q' = (if drp \<noteq> [] then assoc_del drp q else q)
     in replace_all (values_encode (sorted_values q')) ''+'' ''%20'')"

fun has_substring :: "string \<Rightarrow> string \<Rightarrow> bool" where
  "has_substring [] p = (p = [])"
| "has_substring (c # s) p = (has_prefix (c # s) p \<or> has_substring s p)"

fun collapse_loop :: "bool \<Rightarrow> string \<Rightarrow> string" where
  "collapse_loop inRun [] = []"
| "collapse_loop inRun (c # cs) =
    (if c = CHR '' '' \<or> c = CHR 0x09
     then (if inRun then collapse_loop True cs else CHR '' '' # collapse_loop True cs)
     else c # collapse_loop False cs)"

definition collapseWhitespace :: "string \<Rightarrow> string" where
  "collapseWhitespace v0 =
    (let v = trim_space v0 in
     if \<not> has_substring v ''  '' \<and> \<not> has_substring v [CHR 0x09] then v else collapse_loop False v)"

definition errSignedHeaderMissing :: "string \<Rightarrow> go_error" where
  "errSignedHeaderMissing name = Errorf (Sprintf ''signed header %q is not present in the request'' [FS name]) []"

definition signed_header_values :: "http_request \<Rightarrow> string \<Rightarrow> string list" where
  "signed_header_values r name =
    (if name = ''host'' then [r_Host r]
     else if name = ''content-length'' then
       (let vs = (case map_of (r_Header r) ''Content-Length'' of Some vs \<Rightarrow> vs | None \<Rightarrow> []) in
        if vs = [] \<and> 0 < r_ContentLength r then [format_int (r_ContentLength r)] else vs)
     else header_values (r_Header r) name)"

definition canonicalHeaderValue :: "http_request \<Rightarrow> string \<Rightarrow> go_error + string" where
  "canonicalHeaderValue r name =
    (let vs = signed_header_values r name in
     if vs = [] then Inl (errSignedHeaderMissing name)
     else Inr (str_join '','' (map collapseWhitespace vs)))"

abbreviation (input) NL :: string where "NL \<equiv> [CHR 0x0A]"

definition canonicalRequest :: "http_request \<Rightarrow> string list \<Rightarrow> string \<Rightarrow> string \<Rightarrow> go_error + string" where
  "canonicalRequest r signedHeaders dropQuery payloadHash =
    and_then (map_res (\<lambda>name. and_then (canonicalHeaderValue r name) (\<lambda>v. Inr (name @ '':'' @ v @ NL))) signedHeaders)
      (\<lambda>lines. Inr (r_Method r @ NL @ canonicalURI r @ NL @ canonicalQuery (r_Query r) dropQuery @ NL @
        concat lines @ NL @ str_join '';'' signedHeaders @ NL @ payloadHash))"

abbreviation sigV4Algorithm :: string where "sigV4Algorithm \<equiv> ''AWS4-HMAC-SHA256''"

definition signature :: "string \<Rightarrow> int \<Rightarrow> string \<Rightarrow> string \<Rightarrow> string" where
  "signature signingKey t scp canonical =
    hex_encode (hmac_sha256 signingKey
      (sigV4Algorithm @ NL @ format_amz t @ NL @ scp @ NL @ hex_encode (sha256 canonical)))"

section \<open>The shortcut of whitespace collapsing\<close>

lemma collapse_loop_id:
  assumes "\<not> has_substring v ''  ''" "\<not> has_substring v [CHR 0x09]"
  shows "(run \<longrightarrow> \<not> has_prefix v '' '') \<Longrightarrow> collapse_loop run v = v"
  using assms
proof (induction v arbitrary: run)
  case (Cons c v)
  then show ?case
    by (cases v) auto
qed simp

lemma collapseWhitespace_eq: "collapseWhitespace v = collapse_loop False (trim_space v)"
  by (simp add: collapseWhitespace_def Let_def collapse_loop_id)

section \<open>The order of query parameters\<close>

text \<open>One piece of a query string, decoded; \<open>None\<close> when it is empty or malformed.\<close>

definition decode_pair :: "string \<Rightarrow> (string \<times> string) option" where
  "decode_pair p =
    (if CHR '';'' \<in> set p \<or> p = [] then None
     else
       (case str_cut (CHR ''='') p of
          (k, v, _) \<Rightarrow>
            (case (unescape True k, unescape True v) of (Some k', Some v') \<Rightarrow> Some (k', v') | _ \<Rightarrow> None)))"

definition add_pairs :: "(string \<times> string) list \<Rightarrow> url_values \<Rightarrow> url_values" where
  "add_pairs kvs q = foldl (\<lambda>q (k, v). values_add k v q) q kvs"

definition values_of :: "(string \<times> string) list \<Rightarrow> string \<Rightarrow> string list" where
  "values_of kvs k = map snd (filter (\<lambda>p. fst p = k) kvs)"

lemma parse_pairs_eq: "fst (parse_pairs ps q err) = add_pairs (List.map_filter decode_pair ps) q"
  by (induction ps q err rule: parse_pairs.induct)
    (auto simp: decode_pair_def add_pairs_def map_filter_simps split: prod.splits option.splits)

lemma parse_query_eq:
  "fst (parse_query s) = add_pairs (List.map_filter decode_pair (str_split (CHR ''&'') s)) []"
  by (cases "s = []") (auto simp: parse_query_def parse_pairs_eq add_pairs_def map_filter_simps decode_pair_def)

lemma values_add_map_of:
  "map_of (values_add k v q) k' =
    (if k' = k then Some ((case map_of q k of Some vs \<Rightarrow> vs | None \<Rightarrow> []) @ [v]) else map_of q k')"
  by (induction k v q rule: values_add.induct) auto

lemma values_add_keys: "fst ` set (values_add k v q) = insert k (fst ` set q)"
  by (induction k v q rule: values_add.induct) auto

lemma values_add_distinct: "distinct (map fst q) \<Longrightarrow> distinct (map fst (values_add k v q))"
  by (induction k v q rule: values_add.induct) (auto simp: values_add_keys)

lemma add_pairs_distinct: "distinct (map fst q) \<Longrightarrow> distinct (map fst (add_pairs kvs q))"
  by (induction kvs arbitrary: q) (auto simp: add_pairs_def values_add_distinct)

lemma add_pairs_map_of:
  "map_of (add_pairs kvs q) k =
    (if values_of kvs k = [] then map_of q k
     else Some ((case map_of q k of Some vs \<Rightarrow> vs | None \<Rightarrow> []) @ values_of kvs k))"
proof (induction kvs arbitrary: q)
  case (Cons kv kvs)
  obtain k0 v0 where "kv = (k0, v0)"
    by fastforce
  then show ?case
    using Cons [of "values_add k0 v0 q"] by (auto simp: add_pairs_def values_of_def values_add_map_of)
qed (simp add: add_pairs_def values_of_def)

lemma sorted_assoc_unique:
  assumes "distinct (map fst q)" "distinct (map fst q')" "map_of q = map_of q'"
  shows "sort_key fst q = sort_key (fst :: string \<times> 'v \<Rightarrow> string) q'"
proof -
  have "set q = set q'"
    using assms map_of_inject_set by blast
  moreover have "distinct q" "distinct q'"
    using assms(1,2) by (simp_all add: distinct_map)
  ultimately have "mset q = mset (sort_key fst q')"
    using set_eq_iff_mset_eq_distinct [of q q'] by simp
  moreover have "inj_on fst (set q)"
    using assms(1) by (simp add: distinct_map)
  ultimately show ?thesis
    by (rule sort_key_inj_key_eq) simp
qed

text \<open>Two query strings with the same pieces, in any order.\<close>

definition same_pieces :: "string \<Rightarrow> string \<Rightarrow> bool" where
  "same_pieces s s' \<longleftrightarrow> mset (str_split (CHR ''&'') s) = mset (str_split (CHR ''&'') s')"

abbreviation query_of :: "string \<Rightarrow> url_values" where
  "query_of s \<equiv> fst (parse_query s)"

lemma query_of_distinct: "distinct (map fst (query_of s))"
  by (simp add: parse_query_eq add_pairs_distinct)

lemma query_of_map_of:
  "map_of (query_of s) k =
    (let vs = values_of (List.map_filter decode_pair (str_split (CHR ''&'') s)) k in if vs = [] then None else Some vs)"
  by (simp add: parse_query_eq add_pairs_map_of Let_def)

lemma mset_map_filter: "mset xs = mset ys \<Longrightarrow> mset (List.map_filter f xs) = mset (List.map_filter f ys)"
  by (metis (no_types, lifting) List.map_filter_def mset_filter mset_map)

lemma values_of_mset:
  assumes "same_pieces s s'"
  shows "mset (values_of (List.map_filter decode_pair (str_split (CHR ''&'') s)) k) =
    mset (values_of (List.map_filter decode_pair (str_split (CHR ''&'') s')) k)"
  using mset_map_filter [OF assms [unfolded same_pieces_def], of decode_pair]
  by (simp add: values_of_def)

lemma sort_mset_eq: "mset xs = mset ys \<Longrightarrow> sort xs = sort (ys :: string list)"
  by (metis mset_sort properties_for_sort sorted_sort)

lemma sorted_values_same:
  assumes "same_pieces s s'"
  shows "map_of (sorted_values (query_of s)) = map_of (sorted_values (query_of s'))"
proof
  fix k
  have *: "map_of (sorted_values q) k = map_option sort (map_of q k)" for q
    by (induction q) (auto simp: sorted_values_def)
  let ?vs = "\<lambda>s. values_of (List.map_filter decode_pair (str_split (CHR ''&'') s)) k"
  have m: "mset (?vs s) = mset (?vs s')"
    by (rule values_of_mset [OF assms])
  then have "?vs s = [] \<longleftrightarrow> ?vs s' = []"
    by (metis mset_zero_iff)
  then show "map_of (sorted_values (query_of s)) k = map_of (sorted_values (query_of s')) k"
    using sort_mset_eq [OF m] by (simp add: * query_of_map_of Let_def)
qed

lemma sorted_values_fst: "map fst (sorted_values q) = map fst q"
  by (induction q) (auto simp: sorted_values_def)

lemma sorted_values_del: "sorted_values (assoc_del k q) = assoc_del k (sorted_values q)"
  by (induction q) (auto simp: sorted_values_def assoc_del_def)

lemma distinct_assoc_del: "distinct (map fst q) \<Longrightarrow> distinct (map fst (assoc_del k q))"
  by (induction q) (auto simp: assoc_del_def)

lemma canonicalQuery_same:
  assumes "same_pieces s s'"
  shows "canonicalQuery (query_of s) drp = canonicalQuery (query_of s') drp"
proof -
  have eq: "sort_key fst (sorted_values q) = sort_key fst (sorted_values q')"
    if "q = (if drp \<noteq> [] then assoc_del drp (query_of s) else query_of s)"
      "q' = (if drp \<noteq> [] then assoc_del drp (query_of s') else query_of s')" for q q'
    using that sorted_values_same [OF assms]
    by (intro sorted_assoc_unique)
      (auto simp: sorted_values_fst query_of_distinct distinct_assoc_del sorted_values_del map_of_assoc_del)
  show ?thesis
    unfolding canonicalQuery_def Let_def values_encode_def eq [OF refl refl] ..
qed

end
