(* ===== verification/Glob.thy ===== *)
theory Glob
  imports Prelude
begin

text \<open>
  The wildcard matcher of \<open>src/policy/policy.go\<close>: the iterative, backtracking \<open>matchRunes\<close>, a
  declarative meaning of patterns, and the relation between the two.
\<close>

section \<open>The loop of matchRunes\<close>

abbreviation star_rune :: rune where "star_rune \<equiv> 42"
abbreviation quest_rune :: rune where "quest_rune \<equiv> 63"

text \<open>
  \<open>match_loop pat val p v star starV\<close> is the \<open>for v < len(val)\<close> loop of \<open>matchRunes\<close> with its four
  variables. The result \<open>None\<close> is the \<open>return false\<close> of the \<open>default\<close> branch, \<open>Some p\<close> is the value
  of \<open>p\<close> at the loop's exit.
\<close>

function match_loop ::
  "rune list \<Rightarrow> rune list \<Rightarrow> nat \<Rightarrow> nat \<Rightarrow> int \<Rightarrow> nat \<Rightarrow> nat option" where
  "match_loop pat val p v star starV =
    (if v < length val then
       if p < length pat \<and> (pat ! p = quest_rune \<or> pat ! p = val ! v) then
         match_loop pat val (p + 1) (v + 1) star starV
       else if p < length pat \<and> pat ! p = star_rune then
         match_loop pat val (p + 1) v (int p) v
       else if star \<ge> 0 then
         match_loop pat val (nat star + 1) (starV + 1) star (starV + 1)
       else None
     else Some p)"
  by pat_completeness auto
termination
  by (relation "measures
      [\<lambda>(pat, val, p, v, star, starV). if starV \<le> v then 0 else 1,
       \<lambda>(pat, val, p, v, star, starV). length val - starV,
       \<lambda>(pat, val, p, v, star, starV). length val - v,
       \<lambda>(pat, val, p, v, star, starV). length pat - p]") auto

declare match_loop.simps [simp del]

text \<open>The loop over trailing stars, \<open>for p < len(pat) && pat[p] == '*' { p++ }\<close>.\<close>

function skip_stars :: "rune list \<Rightarrow> nat \<Rightarrow> nat" where
  "skip_stars pat p = (if p < length pat \<and> pat ! p = star_rune then skip_stars pat (p + 1) else p)"
  by pat_completeness auto
termination
  by (relation "measure (\<lambda>(pat, p). length pat - p)") auto

declare skip_stars.simps [simp del]

definition match_runes :: "rune list \<Rightarrow> rune list \<Rightarrow> bool" where
  "match_runes pat val =
    (case match_loop pat val 0 0 (-1) 0 of
       None \<Rightarrow> False
     | Some p \<Rightarrow> skip_stars pat p = length pat)"

section \<open>What a pattern means\<close>

text \<open>A star stands for any sequence of runes, a question mark for any one rune.\<close>

fun glob :: "rune list \<Rightarrow> rune list \<Rightarrow> bool" where
  "glob [] v = (v = [])"
| "glob (p # ps) v =
    (if p = star_rune then list_ex (glob ps) (suffixes v)
     else (case v of [] \<Rightarrow> False | x # xs \<Rightarrow> (p = quest_rune \<or> p = x) \<and> glob ps xs))"

section \<open>Facts on the meaning\<close>

lemma glob_star_split: "glob (star_rune # ps) v \<longleftrightarrow> (\<exists>w u. v = w @ u \<and> glob ps u)"
  by (simp only: glob.simps list_ex_iff set_suffixes_eq suffix_def if_True simp_thms) auto

lemma glob_star: "glob (star_rune # ps) v \<longleftrightarrow> (\<exists>k \<le> length v. glob ps (drop k v))"
proof -
  have "\<exists>k \<le> length v. glob ps (drop k v)" if "v = w @ u" "glob ps u" for w u
    using that by (intro exI [of _ "length w"]) simp
  then show ?thesis
    unfolding glob_star_split by (metis append_take_drop_id)
qed

lemma glob_nonstar:
  "q \<noteq> star_rune \<Longrightarrow>
    glob (q # ps) v \<longleftrightarrow> (\<exists>x xs. v = x # xs \<and> (q = quest_rune \<or> q = x) \<and> glob ps xs)"
  by (cases v) auto

lemma glob_Nil_iff: "glob ps [] \<longleftrightarrow> set ps \<subseteq> {star_rune}"
  by (induction ps) auto

lemma glob_appendI: "glob a x \<Longrightarrow> glob b y \<Longrightarrow> glob (a @ b) (x @ y)"
proof (induction a arbitrary: x)
  case (Cons q a)
  show ?case
  proof (cases "q = star_rune")
    case True
    then obtain w u where "x = w @ u" "glob a u"
      using Cons.prems(1) glob_star_split by blast
    then have "x @ y = w @ (u @ y)" "glob (a @ b) (u @ y)"
      using Cons by auto
    then show ?thesis
      using True glob_star_split by (metis append_Cons)
  next
    case False
    then show ?thesis
      using Cons by (cases x) auto
  qed
qed simp

lemma glob_appendD: "glob (a @ b) v \<Longrightarrow> \<exists>x y. v = x @ y \<and> glob a x \<and> glob b y"
proof (induction a arbitrary: v)
  case (Cons q a)
  show ?case
  proof (cases "q = star_rune")
    case True
    then obtain w u where w: "v = w @ u" "glob (a @ b) u"
      using Cons.prems glob_star_split [of "a @ b" v] by auto
    then obtain x y where "u = x @ y" "glob a x" "glob b y"
      using Cons.IH by blast
    then show ?thesis
      using w True glob_star_split [of a "w @ x"]
      by (intro exI [of _ "w @ x"] exI [of _ y]) auto
  next
    case False
    then obtain c u where c: "v = c # u" "q = quest_rune \<or> q = c" "glob (a @ b) u"
      using Cons.prems glob_nonstar by auto
    then obtain x y where "u = x @ y" "glob a x" "glob b y"
      using Cons.IH by blast
    then show ?thesis
      using c False by (intro exI [of _ "c # x"] exI [of _ y]) auto
  qed
qed simp

lemma glob_single: "glob [q] [c] \<longleftrightarrow> q = star_rune \<or> q = quest_rune \<or> q = c"
  by auto

lemma glob_fixed:
  "star_rune \<notin> set seg \<Longrightarrow> glob (seg @ rest) v \<Longrightarrow>
    length seg \<le> length v \<and> glob rest (drop (length seg) v)"
proof (induction seg arbitrary: v)
  case (Cons q seg)
  then show ?case
    by (cases v) auto
qed simp

lemma glob_take_Suc:
  assumes "glob (take p pat) (take v val)" "p < length pat" "v < length val"
    and "pat ! p = quest_rune \<or> pat ! p = val ! v"
  shows "glob (take (Suc p) pat) (take (Suc v) val)"
  using glob_appendI [OF assms(1), of "[pat ! p]" "[val ! v]"] assms(2-4)
  by (auto simp: take_Suc_conv_app_nth glob_single simp del: glob.simps)

lemma glob_take_star:
  assumes "glob (take p pat) (take v val)" "p < length pat" "pat ! p = star_rune"
    and "v \<le> k" "k \<le> length val"
  shows "glob (take (Suc p) pat) (take k val)"
proof -
  have "take k val = take v val @ take (k - v) (drop v val)"
    using assms(4) by (metis le_add_diff_inverse take_add)
  moreover have "glob [star_rune] u" for u
    using glob_star_split [of "[]" u] by simp
  ultimately show ?thesis
    using glob_appendI [OF assms(1), of "[star_rune]"] assms(2,3)
    by (simp add: take_Suc_conv_app_nth del: glob.simps)
qed

section \<open>Correctness of the loop\<close>

lemma skip_stars_le: "p \<le> length pat \<Longrightarrow> p \<le> skip_stars pat p \<and> skip_stars pat p \<le> length pat"
proof (induction pat p rule: skip_stars.induct)
  case (1 pat p)
  then show ?case
    by (subst (1 2) skip_stars.simps) (auto dest: Suc_leD)
qed

lemma skip_stars_all:
  "p \<le> length pat \<Longrightarrow> skip_stars pat p = length pat \<longleftrightarrow> set (drop p pat) \<subseteq> {star_rune}"
proof (induction pat p rule: skip_stars.induct)
  case (1 pat p)
  show ?case
  proof (cases "p < length pat")
    case True
    have "drop p pat = pat ! p # drop (Suc p) pat"
      using True by (rule Cons_nth_drop_Suc [symmetric])
    then show ?thesis
      using 1 True by (subst skip_stars.simps) auto
  next
    case False
    then show ?thesis
      using 1(2) by (subst skip_stars.simps) auto
  qed
qed

lemma match_loop_sound:
  assumes "match_loop pat val p v star starV = Some q"
    and "glob (take p pat) (take v val)" "v \<le> length val" "p \<le> length pat"
    and "star \<ge> 0 \<Longrightarrow> nat star < length pat \<and> starV \<le> v \<and>
      (\<forall>k. starV \<le> k \<longrightarrow> k \<le> length val \<longrightarrow> glob (take (Suc (nat star)) pat) (take k val))"
  shows "glob (take q pat) val \<and> q \<le> length pat"
  using assms
proof (induction pat val p v star starV rule: match_loop.induct)
  case (1 pat val p v star starV)
  note unfold = 1(4) [unfolded match_loop.simps [of pat val p v]]
  consider (exit) "v = length val"
    | (lit) "v < length val" "p < length pat" "pat ! p = quest_rune \<or> pat ! p = val ! v"
    | (star) "v < length val" "p < length pat" "pat ! p = star_rune"
        "\<not> (pat ! p = quest_rune \<or> pat ! p = val ! v)"
    | (retry) "v < length val" "star \<ge> 0" "\<not> (p < length pat \<and> pat ! p = star_rune)"
        "\<not> (p < length pat \<and> (pat ! p = quest_rune \<or> pat ! p = val ! v))"
    using unfold 1(6) by (auto split: if_splits)
  then show ?case
  proof cases
    case exit
    then show ?thesis using unfold 1(5,7) by simp
  next
    case lit
    then show ?thesis
      using unfold 1(1,5,8) glob_take_Suc by (simp add: le_SucI)
  next
    case star
    then show ?thesis
      using unfold 1(2,5) glob_take_star by simp
  next
    case retry
    have "glob (take (Suc (nat star)) pat) (take (Suc starV) val)"
      using retry 1(8) by simp
    then show ?thesis
      using retry unfold 1(3,8) by (auto split: if_splits)
  qed
qed

text \<open>
  What the loop still has to keep open: the rest of the pattern matches the rest of the value, or
  the last star can absorb more of the value than it has so far.
\<close>

definition match_open :: "rune list \<Rightarrow> rune list \<Rightarrow> nat \<Rightarrow> nat \<Rightarrow> int \<Rightarrow> nat \<Rightarrow> bool" where
  "match_open pat val p v star starV \<longleftrightarrow>
    glob (drop p pat) (drop v val) \<or>
    star \<ge> 0 \<and> (\<exists>k. starV < k \<and> k \<le> length val \<and> glob (drop (Suc (nat star)) pat) (drop k val))"

text \<open>Between the last star and \<open>p\<close> the pattern has no star, and that segment ends at \<open>v\<close>.\<close>

definition match_aligned :: "rune list \<Rightarrow> rune list \<Rightarrow> nat \<Rightarrow> nat \<Rightarrow> int \<Rightarrow> nat \<Rightarrow> bool" where
  "match_aligned pat val p v star starV \<longleftrightarrow>
    p \<le> length pat \<and> v \<le> length val \<and>
    (star \<ge> 0 \<longrightarrow> nat star < p \<and> starV + (p - Suc (nat star)) = v \<and>
      star_rune \<notin> set (drop (Suc (nat star)) (take p pat)))"

lemma drop_Suc_take_Suc:
  "p < length pat \<Longrightarrow> s < p \<Longrightarrow>
    drop (Suc s) (take (Suc p) pat) = drop (Suc s) (take p pat) @ [pat ! p]"
  by (simp add: take_Suc_conv_app_nth)

text \<open>An alternative of an earlier star reaches past the segment matched since.\<close>

lemma match_open_past:
  assumes "match_aligned pat val p v star starV" "star \<ge> 0"
    and "starV < k" "k \<le> length val" "glob (drop (Suc (nat star)) pat) (drop k val)"
  shows "\<exists>j. v < j \<and> j \<le> length val \<and> glob (drop p pat) (drop j val)"
proof -
  let ?seg = "drop (Suc (nat star)) (take p pat)"
  have a: "nat star < p" "starV + (p - Suc (nat star)) = v" "star_rune \<notin> set ?seg" "p \<le> length pat"
    using assms(1,2) by (auto simp: match_aligned_def)
  have len: "length ?seg = p - Suc (nat star)"
    using a(4) by simp
  have "drop (Suc (nat star)) pat = ?seg @ drop p pat"
    using a(1) by (metis Suc_leI append_take_drop_id drop_append a(4) diff_is_0_eq drop0
        length_take min.absorb2)
  then have "length ?seg \<le> length (drop k val)"
    "glob (drop p pat) (drop (length ?seg) (drop k val))"
    using glob_fixed [OF a(3), of "drop p pat" "drop k val"] assms(5) by simp_all
  then show ?thesis
    using assms(3,4) a(2) len
    by (intro exI [of _ "k + length ?seg"]) (auto simp: le_diff_conv2 add.commute)
qed

lemma match_open_star:
  assumes "match_aligned pat val p v star starV" "match_open pat val p v star starV"
    and "p < length pat" "pat ! p = star_rune"
  shows "\<exists>j. v \<le> j \<and> j \<le> length val \<and> glob (drop (Suc p) pat) (drop j val)"
proof -
  obtain j where j: "v \<le> j" "j \<le> length val" "glob (drop p pat) (drop j val)"
    using assms(1,2) match_open_past [OF assms(1)]
    by (auto simp: match_open_def match_aligned_def) (metis less_imp_le)
  moreover have "drop p pat = star_rune # drop (Suc p) pat"
    using assms(3,4) by (metis Cons_nth_drop_Suc)
  ultimately obtain i where "i \<le> length (drop j val)" "glob (drop (Suc p) pat) (drop i (drop j val))"
    using glob_star by metis
  then show ?thesis
    using j by (intro exI [of _ "i + j"]) simp
qed

lemma match_loop_complete:
  assumes "star_rune \<notin> set val"
    and "match_aligned pat val p v star starV" "match_open pat val p v star starV"
  shows "\<exists>q \<le> length pat. match_loop pat val p v star starV = Some q \<and> set (drop q pat) \<subseteq> {star_rune}"
  using assms
proof (induction pat val p v star starV rule: match_loop.induct)
  case (1 pat val p v star starV)
  note IH = 1(1-3) and nostar = 1(4) and al = 1(5) and op = 1(6)
  have drop_p: "p < length pat \<Longrightarrow> drop p pat = pat ! p # drop (Suc p) pat"
    by (simp add: Cons_nth_drop_Suc)
  have drop_v: "v < length val \<Longrightarrow> drop v val = val ! v # drop (Suc v) val"
    by (simp add: Cons_nth_drop_Suc)
  consider (exit) "v = length val"
    | (lit) "v < length val" "p < length pat" "pat ! p = quest_rune \<or> pat ! p = val ! v"
    | (star) "v < length val" "p < length pat" "pat ! p = star_rune"
        "\<not> (pat ! p = quest_rune \<or> pat ! p = val ! v)"
    | (mismatch) "v < length val" "\<not> (p < length pat \<and> pat ! p = star_rune)"
        "\<not> (p < length pat \<and> (pat ! p = quest_rune \<or> pat ! p = val ! v))"
    using al by (fastforce simp: match_aligned_def)
  then show ?case
  proof cases
    case exit
    have "\<not> (star \<ge> 0 \<and> (\<exists>k. starV < k \<and> k \<le> length val \<and>
        glob (drop (Suc (nat star)) pat) (drop k val)))"
      using match_open_past [OF al] exit by (metis leD)
    then show ?thesis
      using exit op al
      by (subst match_loop.simps) (auto simp: match_open_def match_aligned_def glob_Nil_iff)
  next
    case lit
    have "val ! v \<noteq> star_rune"
      using lit nostar by (metis nth_mem)
    then have ns: "pat ! p \<noteq> star_rune"
      using lit by auto
    have "match_aligned pat val (Suc p) (Suc v) star starV"
      using al lit ns by (auto simp: match_aligned_def drop_Suc_take_Suc; linarith)
    moreover have "match_open pat val (Suc p) (Suc v) star starV"
      using op ns by (auto simp: match_open_def drop_p drop_v lit(1,2))
    ultimately show ?thesis
      using IH(1) lit nostar by (subst match_loop.simps) simp
  next
    case star
    have "match_aligned pat val (Suc p) v (int p) v"
      using al star by (auto simp: match_aligned_def)
    moreover have "\<exists>j. v \<le> j \<and> j \<le> length val \<and> glob (drop (Suc p) pat) (drop j val)"
      using op star match_open_star [OF al] by blast
    then have "match_open pat val (Suc p) v (int p) v"
      by (auto simp: match_open_def le_less)
    ultimately show ?thesis
      using IH(2) star nostar by (subst match_loop.simps) simp
  next
    case mismatch
    have "\<not> glob (drop p pat) (drop v val)"
      using mismatch by (cases "p < length pat") (simp_all add: drop_p drop_v)
    then obtain k where k: "star \<ge> 0" "starV < k" "k \<le> length val"
        "glob (drop (Suc (nat star)) pat) (drop k val)"
      using op by (auto simp: match_open_def)
    have "match_aligned pat val (Suc (nat star)) (Suc starV) star (Suc starV)"
      using al k mismatch by (auto simp: match_aligned_def)
    moreover have "match_open pat val (Suc (nat star)) (Suc starV) star (Suc starV)"
      using k by (cases "k = Suc starV") (auto simp: match_open_def)
    ultimately show ?thesis
      using IH(3) mismatch k nostar by (subst match_loop.simps) auto
  qed
qed

lemma match_runes_sound: "match_runes pat val \<Longrightarrow> glob pat val"
  using match_loop_sound [of pat val 0 0 "-1" 0]
  by (auto simp: match_runes_def skip_stars_all glob_Nil_iff split: option.splits
      dest: glob_appendI [of _ val "drop _ pat" "[]"])

lemma match_runes_complete: "star_rune \<notin> set val \<Longrightarrow> glob pat val \<Longrightarrow> match_runes pat val"
  using match_loop_complete [of val pat 0 0 "-1" 0]
  by (auto simp: match_runes_def match_aligned_def match_open_def skip_stars_all)

text \<open>
  C25. For every value without a literal star, the iterative matcher decides exactly the wildcard
  meaning of the pattern: a star is any sequence, a question mark any one rune.
\<close>

theorem match_runes_glob:
  assumes "star_rune \<notin> set val"
  shows "match_runes pat val \<longleftrightarrow> glob pat val"
  using assms match_runes_sound match_runes_complete by blast

theorem match_runes_glob_witness:
  "star_rune \<notin> set [98, 47, 107 :: rune] \<and>
   match_runes [98, 47, star_rune] [98, 47, 107] \<and> glob [98, 47, star_rune] [98, 47, 107]"
proof -
  have "glob [98, 47, star_rune] [98, 47, 107]"
    by code_simp
  then show ?thesis
    using match_runes_glob [of "[98, 47, 107]" "[98, 47, star_rune]"] by simp
qed

text \<open>A pattern matches no more than its wildcard meaning, also for values with a literal star.\<close>

lemma match_runes_only_glob: "\<not> glob pat val \<Longrightarrow> \<not> match_runes pat val"
  using match_runes_sound by blast

section \<open>A literal star in the value\<close>

lemma match_loop_literal:
  assumes "i \<le> length pre"
  shows "match_loop (pre @ ps) (pre @ vs) i i star starV =
    match_loop (pre @ ps) (pre @ vs) (length pre) (length pre) star starV"
  using assms
proof (induction "length pre - i" arbitrary: i)
  case (Suc n)
  have "i < length pre"
    using Suc.hyps(2) by linarith
  then have "match_loop (pre @ ps) (pre @ vs) i i star starV =
      match_loop (pre @ ps) (pre @ vs) (i + 1) (i + 1) star starV"
    by (subst match_loop.simps) (simp add: nth_append)
  then show ?case
    using Suc.hyps(1) [of "i + 1"] Suc.hyps(2) \<open>i < length pre\<close> by simp
qed simp

text \<open>
  A trailing star does not cover a value that has a literal star at its place: a literal prefix
  followed by a star never matches the same prefix followed by a literal star and anything more, which
  the wildcard meaning of the pattern does match.
\<close>

theorem literal_star_escapes:
  assumes "\<forall>r\<in>set pre. r \<noteq> star_rune" "vs \<noteq> []"
  shows "\<not> match_runes (pre @ [star_rune]) (pre @ star_rune # vs) \<and>
    glob (pre @ [star_rune]) (pre @ star_rune # vs)"
proof
  let ?n = "length pre"
  let ?pat = "pre @ [star_rune]" and ?val = "pre @ star_rune # vs"
  have "match_loop ?pat ?val 0 0 (-1) 0 = match_loop ?pat ?val ?n ?n (-1) 0"
    using match_loop_literal [of 0] by simp
  also have "\<dots> = match_loop ?pat ?val (Suc ?n) (Suc ?n) (-1) 0"
    by (subst match_loop.simps) simp
  also have "\<dots> = None"
    using assms(2) by (subst match_loop.simps) simp
  finally show "\<not> match_runes ?pat ?val"
    by (simp add: match_runes_def)
  have "glob pre pre"
    using assms(1) by (induction pre) auto
  then show "glob ?pat ?val"
    using glob_appendI [of pre pre "[star_rune]" "star_rune # vs"] glob_star_split [of "[]" "star_rune # vs"]
    by simp
qed

theorem literal_star_escapes_witness:
  "\<not> match_runes [98, 47, star_rune] [98, 47, star_rune, 120] \<and>
   glob [98, 47, star_rune] [98, 47, star_rune, 120]"
  using literal_star_escapes [of "[98, 47]" "[120]"] by simp

end
