(* ===== verification/Netip.thy ===== *)
theory Netip
  imports Go_Strings
begin

text \<open>
  The parts of Go's \<open>net/netip\<close> that \<open>src/policy/condition.go\<close> and \<open>src/s3gw/auth.go\<close> use: addresses,
  prefixes, their parsers and \<open>Prefix.Contains\<close>.
\<close>

unbundle bit_operations_syntax

section \<open>Addresses\<close>

text \<open>\<open>Addr_zero\<close> is the zero \<open>netip.Addr\<close>, an invalid address.\<close>

datatype addr = Addr_zero | Addr4 "32 word" | Addr6 "128 word" string

record prefix_t =
  pfx_addr :: addr
  pfx_bits :: int

definition IsValid :: "addr \<Rightarrow> bool" where
  "IsValid a \<longleftrightarrow> a \<noteq> Addr_zero"

fun BitLen :: "addr \<Rightarrow> int" where
  "BitLen Addr_zero = 0"
| "BitLen (Addr4 w) = 32"
| "BitLen (Addr6 w z) = 128"

fun Zone :: "addr \<Rightarrow> string" where
  "Zone (Addr6 w z) = z"
| "Zone _ = []"

text \<open>An IPv4-mapped IPv6 address, \<open>::ffff:a.b.c.d\<close>.\<close>

definition is4in6 :: "128 word \<Rightarrow> bool" where
  "is4in6 w \<longleftrightarrow> drop_bit 32 w = 65535"

text \<open>\<open>Addr.Unmap\<close>: an IPv4-mapped IPv6 address as an IPv4 address, without its zone.\<close>

fun Unmap :: "addr \<Rightarrow> addr" where
  "Unmap (Addr6 w z) = (if is4in6 w then Addr4 (ucast w) else Addr6 w z)"
| "Unmap a = a"

text \<open>\<open>Prefix.Contains\<close>. A prefix is valid when its bit count is within its address's length.\<close>

definition prefix_valid :: "prefix_t \<Rightarrow> bool" where
  "prefix_valid p \<longleftrightarrow> 0 \<le> pfx_bits p \<and> pfx_bits p \<le> BitLen (pfx_addr p) \<and> IsValid (pfx_addr p)"

definition Contains :: "prefix_t \<Rightarrow> addr \<Rightarrow> bool" where
  "Contains p ip \<longleftrightarrow>
    prefix_valid p \<and> Zone ip = [] \<and>
    (case (pfx_addr p, ip) of
       (Addr4 a, Addr4 b) \<Rightarrow> drop_bit (nat (32 - pfx_bits p)) (b XOR a) = 0
     | (Addr6 a z, Addr6 b z') \<Rightarrow> drop_bit (nat (128 - pfx_bits p)) (b XOR a) = 0
     | _ \<Rightarrow> False)"

text \<open>\<open>netip.PrefixFrom\<close> drops the zone; a bit count out of range makes an invalid prefix.\<close>

definition PrefixFrom :: "addr \<Rightarrow> int \<Rightarrow> prefix_t" where
  "PrefixFrom a bits =
    \<lparr> pfx_addr = (case a of Addr6 w z \<Rightarrow> Addr6 w [] | _ \<Rightarrow> a),
      pfx_bits = (if 0 \<le> bits \<and> bits \<le> BitLen a then bits else -1) \<rparr>"

section \<open>Parsing\<close>

text \<open>
  \<open>parseIPv4Fields\<close>: decimal octets without leading zeros, separated by dots. The arguments are the
  rest of the input, the octets so far, the current value and its digit count.
\<close>

fun ipv4_fields :: "string \<Rightarrow> nat list \<Rightarrow> nat \<Rightarrow> nat \<Rightarrow> nat list option" where
  "ipv4_fields [] octets val digLen =
    (if digLen = 0 \<or> length octets \<noteq> 3 then None else Some (octets @ [val]))"
| "ipv4_fields (c # cs) octets val digLen =
    (case digit_val 10 c of
       Some d \<Rightarrow>
         if digLen = 1 \<and> val = 0 \<or> 255 < val * 10 + d then None
         else ipv4_fields cs octets (val * 10 + d) (digLen + 1)
     | None \<Rightarrow>
         if c = CHR ''.'' \<and> digLen \<noteq> 0 \<and> cs \<noteq> [] \<and> length octets < 3
         then ipv4_fields cs (octets @ [val]) 0 0
         else None)"

definition bytes_word :: "nat list \<Rightarrow> 'a::len word" where
  "bytes_word bs = of_nat (foldl (\<lambda>acc b. acc * 256 + b) 0 bs)"

definition parse_ipv4 :: "string \<Rightarrow> addr option" where
  "parse_ipv4 s = map_option (\<lambda>fs. Addr4 (bytes_word fs)) (ipv4_fields s [] 0 0)"

text \<open>One hexadecimal group of an IPv6 address: its value, its length and the rest.\<close>

definition hex_group :: "string \<Rightarrow> (nat \<times> nat \<times> string) option" where
  "hex_group s =
    (let g = takeWhile (\<lambda>c. digit_val 16 c \<noteq> None) s
     in if g = [] \<or> 4 < length g then None
        else Some (the (digits_val 16 0 g), length g, drop (length g) s))"

text \<open>
  The group loop of \<open>parseIPv6\<close>. \<open>bs\<close> are the bytes written so far and \<open>ell\<close> the position of the
  ellipsis; the fuel is the number of groups left. The result is the bytes, the ellipsis and the
  unread rest.
\<close>

fun ipv6_groups ::
  "nat \<Rightarrow> string \<Rightarrow> nat list \<Rightarrow> nat option \<Rightarrow> (nat list \<times> nat option \<times> string) option" where
  "ipv6_groups 0 s bs ell = Some (bs, ell, s)"
| "ipv6_groups (Suc n) s bs ell =
    (case hex_group s of
       None \<Rightarrow> None
     | Some (acc, off, rest) \<Rightarrow>
         if rest \<noteq> [] \<and> hd rest = CHR ''.'' then
           if ell = None \<and> length bs \<noteq> 12 \<or> 16 < length bs + 4 then None
           else map_option (\<lambda>fs. (bs @ fs, ell, [])) (ipv4_fields s [] 0 0)
         else
           (let bs' = bs @ [acc div 256, acc mod 256] in
            case rest of
              [] \<Rightarrow> Some (bs', ell, [])
            | [c] \<Rightarrow> None
            | c # d # tail \<Rightarrow>
                if c \<noteq> CHR '':'' then None
                else if d = CHR '':'' then
                  if ell \<noteq> None then None
                  else if tail = [] then Some (bs', Some (length bs'), [])
                  else ipv6_groups n tail bs' (Some (length bs'))
                else ipv6_groups n (d # tail) bs' ell))"

definition expand_ellipsis :: "nat list \<Rightarrow> nat option \<Rightarrow> nat list option" where
  "expand_ellipsis bs ell =
    (if length bs < 16 then
       (case ell of None \<Rightarrow> None
        | Some e \<Rightarrow> Some (take e bs @ replicate (16 - length bs) 0 @ drop e bs))
     else if ell = None then Some bs else None)"

definition parse_ipv6 :: "string \<Rightarrow> addr option" where
  "parse_ipv6 s0 =
    (case str_cut (CHR ''%'') s0 of
       (s, zone, zoned) \<Rightarrow>
         if zoned \<and> zone = [] then None
         else if s = ''::'' then Some (Addr6 0 zone)
         else
           (let (ell, s1) = (if has_prefix s ''::'' then (Some 0, drop 2 s) else (None, s)) in
            case ipv6_groups 8 s1 [] ell of
              None \<Rightarrow> None
            | Some (bs, ell', rest) \<Rightarrow>
                if rest \<noteq> [] then None
                else map_option (\<lambda>b. Addr6 (bytes_word b) zone) (expand_ellipsis bs ell')))"

text \<open>\<open>netip.ParseAddr\<close> dispatches on the first dot, colon or percent sign.\<close>

definition ParseAddr :: "string \<Rightarrow> addr option" where
  "ParseAddr s =
    (case find (\<lambda>c. c = CHR ''.'' \<or> c = CHR '':'' \<or> c = CHR ''%'') s of
       Some c \<Rightarrow> if c = CHR ''.'' then parse_ipv4 s
                 else if c = CHR '':'' then parse_ipv6 s else None
     | None \<Rightarrow> None)"

text \<open>\<open>netip.ParsePrefix\<close>: an address, the last slash, a bit count without sign or leading zeros.\<close>

definition last_slash :: "string \<Rightarrow> (string \<times> string) option" where
  "last_slash s =
    (case str_cut (CHR ''/'') (rev s) of
       (post, pre, True) \<Rightarrow> Some (rev pre, rev post)
     | _ \<Rightarrow> None)"

definition ParsePrefix :: "string \<Rightarrow> prefix_t option" where
  "ParsePrefix s =
    (case last_slash s of
       None \<Rightarrow> None
     | Some (a, bits) \<Rightarrow>
         (case ParseAddr a of
            None \<Rightarrow> None
          | Some ip \<Rightarrow>
              if Zone ip \<noteq> [] then None
              else if 1 < length bits \<and> \<not> (CHR ''1'' \<le> hd bits \<and> hd bits \<le> CHR ''9'') then None
              else (case parse_int 10 bits of
                      None \<Rightarrow> None
                    | Some n \<Rightarrow> if n < 0 \<or> BitLen ip < n then None else Some (PrefixFrom ip n))))"

end
