(* ===== verification/Policy.thy ===== *)
theory Policy
  imports Glob Netip S3err "HOL-Library.Monad_Syntax"
begin

text \<open>
  Bucket and user policies of \<open>src/policy/policy.go\<close> and \<open>src/policy/condition.go\<close>: the document
  types, compilation of patterns and conditions, and evaluation. A function that can panic in Go (a
  statement built by hand with neither \<open>Principal\<close> nor \<open>NotPrincipal\<close> dereferences nil) returns an
  option whose \<open>None\<close> is the panic.
\<close>

section \<open>Documents\<close>

datatype effect = Effect_None | Effect_Allow | Effect_Deny

record decision =
  dec_Effect :: effect
  dec_Statement :: int

record principal =
  prin_All :: bool
  prin_Users :: "string list"

record condition =
  cond_IPAddress :: "string list"
  cond_NotIPAddress :: "string list"

text \<open>The compiled form of a condition: its prefixes, or the mark that a value does not parse.\<close>

record compiled_condition =
  cc_ipAddress :: "prefix_t list"
  cc_notIPAddress :: "prefix_t list"
  cc_invalid :: bool

record statement =
  st_Sid :: string
  st_Effect :: string
  st_Principal :: "principal option"
  st_NotPrincipal :: "principal option"
  st_Action :: "string list"
  st_Resource :: "string list"
  st_Condition :: "condition option"

text \<open>A statement with the fields that \<open>Policy.compile\<close> fills.\<close>

record compiled_statement = statement +
  st_actionRunes :: "rune list list"
  st_resourceRunes :: "rune list list"
  st_compiled :: "compiled_condition option"

record policy =
  pol_Version :: string
  pol_Statement :: "statement list"

record action_statement =
  as_Effect :: string
  as_Action :: "string list"

record user_policy =
  up_Statements :: "action_statement list"

record request_context =
  rc_SourceIP :: addr

section \<open>Pattern matching\<close>

definition policy_Match :: "string \<Rightarrow> string \<Rightarrow> bool" where
  "policy_Match pattern val = match_runes (runes pattern) (runes val)"

definition matchIndexRunes :: "rune list list \<Rightarrow> rune list \<Rightarrow> int" where
  "matchIndexRunes patterns val = find_index (\<lambda>p. match_runes p val) patterns"

definition matchAnyRunes :: "rune list list \<Rightarrow> rune list \<Rightarrow> bool" where
  "matchAnyRunes patterns val \<longleftrightarrow> 0 \<le> matchIndexRunes patterns val"

definition patternRunes :: "string list \<Rightarrow> rune list list" where
  "patternRunes patterns = map runes patterns"

definition lowerPatternRunes :: "string list \<Rightarrow> rune list list" where
  "lowerPatternRunes patterns = map (\<lambda>p. runes (to_lower p)) patterns"

lemma matchAnyRunes_iff [pol_simps]:
  "matchAnyRunes patterns val \<longleftrightarrow> (\<exists>p\<in>set patterns. match_runes p val)"
  by (simp add: matchAnyRunes_def matchIndexRunes_def)

section \<open>Conditions\<close>

text \<open>\<open>parseIPValue\<close>: a CIDR prefix, or a plain address as a full-length prefix.\<close>

definition parseIPValue :: "string \<Rightarrow> go_error + prefix_t" where
  "parseIPValue v =
    (let bad = Errorf (Sprintf ''invalid source IP value %q'' [FS v]) [] in
     if CHR ''/'' \<in> set v then
       (case ParsePrefix v of Some p \<Rightarrow> Inr p | None \<Rightarrow> Inl bad)
     else
       (case ParseAddr v of
          None \<Rightarrow> Inl bad
        | Some a \<Rightarrow>
            if Zone a \<noteq> [] then Inl bad
            else (let a' = Unmap a in Inr (PrefixFrom a' (BitLen a')))))"

definition parsePrefixes :: "string list \<Rightarrow> go_error + prefix_t list" where
  "parsePrefixes values = map_res parseIPValue values"

text \<open>\<open>Condition.compile\<close>: the compiled condition and the error it returns, if any.\<close>

definition condition_compile :: "condition \<Rightarrow> compiled_condition \<times> go_error option" where
  "condition_compile c =
    (case parsePrefixes (cond_IPAddress c) of
       Inl e \<Rightarrow> (\<lparr> cc_ipAddress = [], cc_notIPAddress = [], cc_invalid = True \<rparr>, Some e)
     | Inr ip \<Rightarrow>
         (case parsePrefixes (cond_NotIPAddress c) of
            Inl e \<Rightarrow> (\<lparr> cc_ipAddress = ip, cc_notIPAddress = [], cc_invalid = True \<rparr>, Some e)
          | Inr nip \<Rightarrow> (\<lparr> cc_ipAddress = ip, cc_notIPAddress = nip, cc_invalid = False \<rparr>, None)))"

definition prefixesContain :: "prefix_t list \<Rightarrow> addr \<Rightarrow> bool" where
  "prefixesContain pfxs a = list_ex (\<lambda>p. Contains p a) pfxs"

definition condition_match :: "compiled_condition \<Rightarrow> request_context \<Rightarrow> bool" where
  "condition_match c rc =
    (if cc_ipAddress c \<noteq> [] \<and>
        \<not> (IsValid (rc_SourceIP rc) \<and> prefixesContain (cc_ipAddress c) (rc_SourceIP rc))
     then False
     else if cc_notIPAddress c \<noteq> [] \<and> IsValid (rc_SourceIP rc) \<and>
        prefixesContain (cc_notIPAddress c) (rc_SourceIP rc)
     then False
     else True)"

section \<open>Statements\<close>

definition compile_statement :: "statement \<Rightarrow> compiled_statement" where
  "compile_statement st =
    statement.extend st
      \<lparr> st_actionRunes = lowerPatternRunes (st_Action st),
        st_resourceRunes = patternRunes (st_Resource st),
        st_compiled = map_option (\<lambda>c. fst (condition_compile c)) (st_Condition st) \<rparr>"

text \<open>\<open>Policy.compile\<close>, run once before the first evaluation.\<close>

definition policy_compile :: "policy \<Rightarrow> compiled_statement list" where
  "policy_compile p = map compile_statement (pol_Statement p)"

text \<open>An entry names the principal exactly, or is a tenant wildcard whose prefix it has.\<close>

definition matchAnyPrincipal :: "string list \<Rightarrow> string \<Rightarrow> bool" where
  "matchAnyPrincipal entries pr =
    list_ex (\<lambda>e. e = pr \<or> has_suffix e ''/*'' \<and> has_prefix pr (take (length e - 1) e)) entries"

definition matchPrincipal :: "compiled_statement \<Rightarrow> string \<Rightarrow> bool option" where
  "matchPrincipal st pr =
    (case st_Principal st of
       Some p \<Rightarrow> Some (prin_All p \<or> matchAnyPrincipal (prin_Users p) pr)
     | None \<Rightarrow>
         (case st_NotPrincipal st of
            Some np \<Rightarrow> Some (\<not> matchAnyPrincipal (prin_Users np) pr)
          | None \<Rightarrow> None))"

definition matchCondition :: "compiled_statement \<Rightarrow> request_context \<Rightarrow> bool" where
  "matchCondition st rc =
    (case st_compiled st of
       None \<Rightarrow> True
     | Some c \<Rightarrow> if cc_invalid c then st_Effect st = ''Deny'' else condition_match c rc)"

section \<open>Evaluation\<close>

text \<open>The statement loop of \<open>Policy.Decide\<close>, from index \<open>i\<close> on with the result so far.\<close>

fun decide_loop ::
  "string \<Rightarrow> request_context \<Rightarrow> rune list \<Rightarrow> rune list \<Rightarrow>
    int \<Rightarrow> compiled_statement list \<Rightarrow> decision \<Rightarrow> decision option" where
  "decide_loop pr rc act res i [] result = Some result"
| "decide_loop pr rc act res i (st # sts) result =
    do {
      m \<leftarrow> matchPrincipal st pr;
      if \<not> m then decide_loop pr rc act res (i + 1) sts result
      else if \<not> matchCondition st rc then decide_loop pr rc act res (i + 1) sts result
      else if \<not> matchAnyRunes (st_actionRunes st) act then decide_loop pr rc act res (i + 1) sts result
      else if \<not> matchAnyRunes (st_resourceRunes st) res then decide_loop pr rc act res (i + 1) sts result
      else if st_Effect st = ''Deny'' then Some \<lparr> dec_Effect = Effect_Deny, dec_Statement = i \<rparr>
      else if dec_Effect result = Effect_None
      then decide_loop pr rc act res (i + 1) sts \<lparr> dec_Effect = Effect_Allow, dec_Statement = i \<rparr>
      else decide_loop pr rc act res (i + 1) sts result
    }"

definition unmap_context :: "request_context \<Rightarrow> request_context" where
  "unmap_context rc = rc\<lparr> rc_SourceIP := Unmap (rc_SourceIP rc) \<rparr>"

definition policy_Decide ::
  "policy \<Rightarrow> string \<Rightarrow> string \<Rightarrow> string \<Rightarrow> request_context \<Rightarrow> decision option" where
  "policy_Decide p pr action resource rc =
    decide_loop pr (unmap_context rc) (runes (to_lower action)) (runes resource) 0
      (policy_compile p) \<lparr> dec_Effect = Effect_None, dec_Statement = -1 \<rparr>"

definition policy_Evaluate ::
  "policy \<Rightarrow> string \<Rightarrow> string \<Rightarrow> string \<Rightarrow> request_context \<Rightarrow> effect option" where
  "policy_Evaluate p pr action resource rc =
    map_option dec_Effect (policy_Decide p pr action resource rc)"

definition StatementName :: "decision \<Rightarrow> policy option \<Rightarrow> go_text list" where
  "StatementName d p =
    (case p of
       None \<Rightarrow> []
     | Some p \<Rightarrow>
         if dec_Statement d < 0 \<or> int (length (pol_Statement p)) \<le> dec_Statement d then []
         else
           (let name = Sprintf ''statement[%d]'' [FI (dec_Statement d)];
                sid = st_Sid (pol_Statement p ! nat (dec_Statement d))
            in if sid \<noteq> [] then [name, Sprintf '' %q'' [FS sid]] else [name]))"

text \<open>\<open>DenyEvaluator\<close>: the Deny patterns that apply, each with the index of its statement.\<close>

record deny_evaluator =
  de_denyResources :: "rune list list"
  de_denyStatements :: "int list"

record allow_evaluator =
  ae_allowResources :: "rune list list"

text \<open>The test \<open>matched\<close> of \<open>DenyEvaluatorFor\<close>; \<open>&&\<close> does not reach the principal of other effects.\<close>

definition deny_matched ::
  "string \<Rightarrow> request_context \<Rightarrow> rune list \<Rightarrow> compiled_statement \<Rightarrow> bool option" where
  "deny_matched pr rc act st =
    (if st_Effect st \<noteq> ''Deny'' then Some False
     else do {
       m \<leftarrow> matchPrincipal st pr;
       Some (m \<and> matchCondition st rc \<and> matchAnyRunes (st_actionRunes st) act)
     })"

fun deny_collect ::
  "string \<Rightarrow> request_context \<Rightarrow> rune list \<Rightarrow> int \<Rightarrow> compiled_statement list \<Rightarrow> deny_evaluator \<Rightarrow>
    deny_evaluator option" where
  "deny_collect pr rc act i [] e = Some e"
| "deny_collect pr rc act i (st # sts) e =
    do {
      m \<leftarrow> deny_matched pr rc act st;
      deny_collect pr rc act (i + 1) sts
        (if m then
           \<lparr> de_denyResources = de_denyResources e @ st_resourceRunes st,
             de_denyStatements = de_denyStatements e @ map (\<lambda>_. i) (st_resourceRunes st) \<rparr>
         else e)
    }"

definition DenyEvaluatorFor ::
  "policy \<Rightarrow> string \<Rightarrow> string \<Rightarrow> request_context \<Rightarrow> deny_evaluator option" where
  "DenyEvaluatorFor p pr action rc =
    deny_collect pr (unmap_context rc) (runes (to_lower action)) 0 (policy_compile p)
      \<lparr> de_denyResources = [], de_denyStatements = [] \<rparr>"

fun allow_collect ::
  "string \<Rightarrow> request_context \<Rightarrow> rune list \<Rightarrow> compiled_statement list \<Rightarrow> allow_evaluator \<Rightarrow>
    allow_evaluator option" where
  "allow_collect pr rc act [] e = Some e"
| "allow_collect pr rc act (st # sts) e =
    (if st_Effect st \<noteq> ''Allow'' then allow_collect pr rc act sts e
     else do {
       m \<leftarrow> matchPrincipal st pr;
       if \<not> m then allow_collect pr rc act sts e
       else if \<not> matchCondition st rc then allow_collect pr rc act sts e
       else if \<not> matchAnyRunes (st_actionRunes st) act then allow_collect pr rc act sts e
       else allow_collect pr rc act sts
              \<lparr> ae_allowResources = ae_allowResources e @ st_resourceRunes st \<rparr>
     })"

definition AllowEvaluatorFor ::
  "policy \<Rightarrow> string \<Rightarrow> string \<Rightarrow> request_context \<Rightarrow> allow_evaluator option" where
  "AllowEvaluatorFor p pr action rc =
    allow_collect pr (unmap_context rc) (runes (to_lower action)) (policy_compile p)
      \<lparr> ae_allowResources = [] \<rparr>"

definition AlwaysDenies :: "allow_evaluator \<Rightarrow> bool" where
  "AlwaysDenies e \<longleftrightarrow> ae_allowResources e = []"

definition AllowsRunes :: "allow_evaluator \<Rightarrow> rune list \<Rightarrow> bool" where
  "AllowsRunes e resource =
    (if ae_allowResources e = [] then False else matchAnyRunes (ae_allowResources e) resource)"

definition AlwaysAllows :: "deny_evaluator \<Rightarrow> bool" where
  "AlwaysAllows e \<longleftrightarrow> de_denyResources e = []"

definition DeniesRunes :: "deny_evaluator \<Rightarrow> rune list \<Rightarrow> bool" where
  "DeniesRunes e resource =
    (if de_denyResources e = [] then False else matchAnyRunes (de_denyResources e) resource)"

definition Denies :: "deny_evaluator \<Rightarrow> string \<Rightarrow> bool" where
  "Denies e resource = DeniesRunes e (runes resource)"

definition DenyingStatement :: "deny_evaluator \<Rightarrow> rune list \<Rightarrow> int" where
  "DenyingStatement e resource =
    (let i = matchIndexRunes (de_denyResources e) resource
     in if 0 \<le> i then de_denyStatements e ! nat i else -1)"

definition MentionsPrincipal :: "policy \<Rightarrow> string \<Rightarrow> bool" where
  "MentionsPrincipal p pr =
    list_ex (\<lambda>st. st_Effect st = ''Allow'' \<and>
      (case st_Principal st of
         None \<Rightarrow> False
       | Some q \<Rightarrow> prin_All q \<or> matchAnyPrincipal (prin_Users q) pr)) (pol_Statement p)"

section \<open>User policies\<close>

fun user_decide_loop ::
  "rune list \<Rightarrow> int \<Rightarrow> action_statement list \<Rightarrow> decision \<Rightarrow> decision" where
  "user_decide_loop act i [] result = result"
| "user_decide_loop act i (st # sts) result =
    (if \<not> matchAnyRunes (lowerPatternRunes (as_Action st)) act
     then user_decide_loop act (i + 1) sts result
     else if as_Effect st = ''Deny'' then \<lparr> dec_Effect = Effect_Deny, dec_Statement = i \<rparr>
     else if as_Effect st = ''Allow'' \<and> dec_Effect result \<noteq> Effect_Allow
     then user_decide_loop act (i + 1) sts \<lparr> dec_Effect = Effect_Allow, dec_Statement = i \<rparr>
     else user_decide_loop act (i + 1) sts result)"

definition user_Decide :: "user_policy option \<Rightarrow> string \<Rightarrow> decision" where
  "user_Decide up action =
    (case up of
       None \<Rightarrow> \<lparr> dec_Effect = Effect_Allow, dec_Statement = -1 \<rparr>
     | Some up \<Rightarrow>
         if up_Statements up = [] then \<lparr> dec_Effect = Effect_Allow, dec_Statement = -1 \<rparr>
         else user_decide_loop (runes (to_lower action)) 0 (up_Statements up)
                \<lparr> dec_Effect = Effect_Deny, dec_Statement = -1 \<rparr>)"

definition user_Allows :: "user_policy option \<Rightarrow> string \<Rightarrow> bool" where
  "user_Allows up action \<longleftrightarrow> dec_Effect (user_Decide up action) = Effect_Allow"

end
