(* ===== verification/Cors.thy ===== *)
theory Cors
  imports Go_Http Policy
begin

text \<open>
  CORS rules and their evaluation, \<open>src/cors/cors.go\<close>: rule validation, the choice of the rule, the
  preflight answer and the headers of actual responses. Response headers are passed in and returned.
\<close>

record cors_rule =
  cr_AllowedOrigins :: "string list"
  cr_AllowedMethods :: "string list"
  cr_AllowedHeaders :: "string list"
  cr_ExposeHeaders :: "string list"
  cr_MaxAgeSeconds :: int

definition cors_Validate :: "cors_rule \<Rightarrow> go_error + unit" where
  "cors_Validate r =
    guard_err (cr_AllowedOrigins r = [])
      (Errorf (lit ''cors rule requires at least one allowed origin'') [])
    (guard_err (cr_AllowedMethods r = [])
      (Errorf (lit ''cors rule requires at least one allowed method'') [])
    (and_then
      (for_each (\<lambda>m. if m \<in> set [''GET'', ''PUT'', ''POST'', ''DELETE'', ''HEAD''] then Inr ()
        else Inl (Errorf (Sprintf ''unsupported cors method %q'' [FS m]) [])) (cr_AllowedMethods r))
      (\<lambda>_. guard_err (cr_MaxAgeSeconds r < 0)
        (Errorf (lit ''cors max_age_seconds must not be negative'') []) (Inr ()))))"

text \<open>The two nested loops of \<open>Match\<close>.\<close>

fun match_origins :: "cors_rule \<Rightarrow> string \<Rightarrow> string \<Rightarrow> string list \<Rightarrow> cors_rule option" where
  "match_origins rule origin meth [] = None"
| "match_origins rule origin meth (pat # pats) =
    (if policy_Match pat origin then
       if contains (cr_AllowedMethods rule) meth then Some rule
       else match_origins rule origin meth pats
     else match_origins rule origin meth pats)"

fun cors_Match :: "cors_rule list \<Rightarrow> string \<Rightarrow> string \<Rightarrow> cors_rule option" where
  "cors_Match [] origin meth = None"
| "cors_Match (rule # rules) origin meth =
    (case match_origins rule origin meth (cr_AllowedOrigins rule) of
       Some r \<Rightarrow> Some r
     | None \<Rightarrow> cors_Match rules origin meth)"

definition setAllowOrigin :: "header \<Rightarrow> cors_rule \<Rightarrow> string \<Rightarrow> header" where
  "setAllowOrigin h rule origin =
    (if contains (cr_AllowedOrigins rule) ''*'' then header_set ''Access-Control-Allow-Origin'' ''*'' h
     else header_set ''Access-Control-Allow-Credentials'' ''true''
            (header_set ''Access-Control-Allow-Origin'' origin h))"

definition headerAllowed :: "string list \<Rightarrow> string \<Rightarrow> bool" where
  "headerAllowed allowed hdr = list_ex (\<lambda>a. policy_Match (to_lower a) (to_lower hdr)) allowed"

text \<open>The header names a preflight asks for: comma-separated, trimmed, the empty ones skipped.\<close>

definition requested_headers :: "string \<Rightarrow> string list" where
  "requested_headers s = filter (\<lambda>h. h \<noteq> []) (map trim_space (str_split (CHR '','') s))"

text \<open>\<open>None\<close>: refused, nothing written. \<open>Some h\<close>: status 200 with the headers \<open>h\<close>.\<close>

definition AllowPreflight :: "header \<Rightarrow> header \<Rightarrow> cors_rule list \<Rightarrow> header option" where
  "AllowPreflight w req rules =
    (let origin = header_get req ''Origin'' in
     case cors_Match rules origin (header_get req ''Access-Control-Request-Method'') of
       None \<Rightarrow> None
     | Some rule \<Rightarrow>
         (let reqHeaders = header_get req ''Access-Control-Request-Headers'' in
          if list_ex (\<lambda>h. \<not> headerAllowed (cr_AllowedHeaders rule) h) (requested_headers reqHeaders)
          then None
          else
            (let h1 = (if reqHeaders \<noteq> [] then header_set ''Access-Control-Allow-Headers'' reqHeaders w
                       else w);
                 h2 = setAllowOrigin h1 rule origin;
                 h3 = header_set ''Access-Control-Allow-Methods''
                        (str_join '', '' (cr_AllowedMethods rule)) h2;
                 h4 = (if 0 < cr_MaxAgeSeconds rule
                       then header_set ''Access-Control-Max-Age'' (format_int (cr_MaxAgeSeconds rule)) h3
                       else h3)
             in Some (header_set ''Vary''
                  ''Origin, Access-Control-Request-Method, Access-Control-Request-Headers'' h4))))"

definition cors_SetHeaders :: "header \<Rightarrow> http_request \<Rightarrow> cors_rule list \<Rightarrow> header" where
  "cors_SetHeaders w r rules =
    (let origin = header_get (r_Header r) ''Origin'' in
     if origin = [] \<or> rules = [] then w
     else case cors_Match rules origin (r_Method r) of
            None \<Rightarrow> w
          | Some rule \<Rightarrow>
              (let h1 = setAllowOrigin w rule origin;
                   h2 = (if cr_ExposeHeaders rule \<noteq> []
                         then header_set ''Access-Control-Expose-Headers''
                                (str_join '', '' (cr_ExposeHeaders rule)) h1
                         else h1)
               in header_set ''Vary'' ''Origin'' h2))"

section \<open>Facts\<close>

definition rule_covers :: "string \<Rightarrow> string \<Rightarrow> cors_rule \<Rightarrow> bool" where
  "rule_covers origin meth r \<longleftrightarrow>
    meth \<in> set (cr_AllowedMethods r) \<and> (\<exists>o'\<in>set (cr_AllowedOrigins r). policy_Match o' origin)"

lemma match_origins_eq:
  "match_origins rule origin meth pats =
    (if meth \<in> set (cr_AllowedMethods rule) \<and> (\<exists>p\<in>set pats. policy_Match p origin) then Some rule else None)"
  by (induction pats) (auto simp: contains_def)

lemma cors_Match_find: "cors_Match rules origin meth = find (rule_covers origin meth) rules"
  by (induction rules) (auto simp: match_origins_eq rule_covers_def)

lemma canonical_cors_keys [simp]:
  "canonical_key ''Vary'' = ''Vary''"
  "canonical_key ''Access-Control-Allow-Origin'' = ''Access-Control-Allow-Origin''"
  "canonical_key ''Access-Control-Allow-Credentials'' = ''Access-Control-Allow-Credentials''"
  "canonical_key ''Access-Control-Allow-Headers'' = ''Access-Control-Allow-Headers''"
  "canonical_key ''Access-Control-Allow-Methods'' = ''Access-Control-Allow-Methods''"
  "canonical_key ''Access-Control-Max-Age'' = ''Access-Control-Max-Age''"
  "canonical_key ''Access-Control-Expose-Headers'' = ''Access-Control-Expose-Headers''"
  by code_simp+

text \<open>The response headers a rule decides, as one list.\<close>

lemmas cors_headers = AllowPreflight_def cors_SetHeaders_def setAllowOrigin_def Let_def header_get_set

text \<open>
  C31. A preflight is answered only under a rule that covers the origin and the requested method and
  allows every requested header; the answer then carries either the wildcard origin without
  credentials, or the request's own origin.
\<close>

theorem AllowPreflight_sound:
  assumes "AllowPreflight [] req rules = Some h"
  shows "\<exists>rule\<in>set rules.
    rule_covers (header_get req ''Origin'') (header_get req ''Access-Control-Request-Method'') rule \<and>
    list_all (headerAllowed (cr_AllowedHeaders rule))
      (requested_headers (header_get req ''Access-Control-Request-Headers'')) \<and>
    (if contains (cr_AllowedOrigins rule) ''*''
     then header_get h ''Access-Control-Allow-Origin'' = ''*'' \<and>
          header_get h ''Access-Control-Allow-Credentials'' = []
     else header_get h ''Access-Control-Allow-Origin'' = header_get req ''Origin'' \<and>
          header_get h ''Access-Control-Allow-Credentials'' = ''true'')"
proof -
  let ?origin = "header_get req ''Origin''" and ?meth = "header_get req ''Access-Control-Request-Method''"
  obtain rule where rule: "cors_Match rules ?origin ?meth = Some rule"
    using assms by (auto simp: AllowPreflight_def Let_def split: option.splits)
  then have "rule \<in> set rules" "rule_covers ?origin ?meth rule"
    by (auto simp: cors_Match_find find_Some_iff)
  then show ?thesis
    using assms rule
    by (intro bexI [of _ rule])
      (auto simp: cors_headers header_get_Nil list_all_iff list_ex_iff split: if_splits)
qed

definition example_rule :: cors_rule where
  "example_rule = \<lparr> cr_AllowedOrigins = [''https://*.example.com''], cr_AllowedMethods = [''PUT''],
    cr_AllowedHeaders = [''x-amz-*''], cr_ExposeHeaders = [], cr_MaxAgeSeconds = 60 \<rparr>"

definition example_preflight :: header where
  "example_preflight = [(''Origin'', [''https://a.example.com'']),
    (''Access-Control-Request-Method'', [''PUT'']), (''Access-Control-Request-Headers'', [''X-Amz-Date''])]"

theorem AllowPreflight_sound_witness:
  "\<exists>h. AllowPreflight [] example_preflight [example_rule] = Some h \<and>
    header_get h ''Access-Control-Allow-Origin'' = ''https://a.example.com''"
proof -
  have some: "AllowPreflight [] example_preflight [example_rule] \<noteq> None"
    by code_simp
  have "header_get example_preflight ''Origin'' = ''https://a.example.com''"
    "\<not> contains (cr_AllowedOrigins example_rule) ''*''"
    by code_simp+
  then show ?thesis
    using some AllowPreflight_sound [of example_preflight "[example_rule]"] by auto
qed

end
