(* ===== verification/Store.thy ===== *)
theory Store
  imports Cors
begin

text \<open>
  The definitions the gateway serves, \<open>src/store/store.go\<close> and \<open>src/store/validate.go\<close>: access keys,
  buckets and backends, the read-only store interface, defaults and name validation. The opaque
  \<open>Metadata\<close> values, which the gateway never interprets, are left out.
\<close>

section \<open>Definitions\<close>

text \<open>\<open>SigningKeyFunc\<close>: the derived signing key for a date and region, or an error.\<close>

type_synonym signing_key_func = "string \<Rightarrow> string \<Rightarrow> go_error + string"

record key =
  k_AccessKeyID :: string
  k_SecretAccessKey :: string
  k_SigningKey :: "signing_key_func option"
  k_SecretVersion :: string
  k_Tenant :: string
  k_User :: string
  k_SessionToken :: string
  k_Policy :: "user_policy option"

record backend =
  be_Endpoint :: string
  be_Region :: string
  be_Bucket :: string
  be_AccessKeyID :: string
  be_SecretAccessKey :: string
  be_UsePathStyle :: "bool option"

text \<open>A zero \<open>CreatedAt\<close> (unknown) is \<open>None\<close>.\<close>

record bucket =
  b_Tenant :: string
  b_Name :: string
  b_Backend :: "backend option"
  b_CreatedAt :: "int option"
  b_PolicyText :: string
  b_Policy :: "policy option"
  b_CORS :: "cors_rule list"

record bucket_entry =
  bent_Name :: string
  bent_CreatedAt :: "int option"

text \<open>The \<open>Store\<close> interface, one function per method.\<close>

record store =
  GetKey :: "string \<Rightarrow> string \<Rightarrow> go_error + key"
  GetBucket :: "string \<Rightarrow> string \<Rightarrow> go_error + bucket"
  GetBucketByName :: "string \<Rightarrow> go_error + bucket"
  ListBuckets :: "string \<Rightarrow> go_error + bucket_entry list"

definition ErrNotFound :: go_error where
  "ErrNotFound = Sentinel ''not found''"

definition ErrInvalidToken :: go_error where
  "ErrInvalidToken = Sentinel ''invalid session token''"

section \<open>Defaults\<close>

definition DefaultRegion :: string where
  "DefaultRegion = ''us-east-1''"

definition backend_SetDefaults :: "backend \<Rightarrow> string \<Rightarrow> backend" where
  "backend_SetDefaults b bucketName =
    (let b1 = (if be_Region b = [] then b\<lparr> be_Region := DefaultRegion \<rparr> else b);
         b2 = (if be_Bucket b1 = [] then b1\<lparr> be_Bucket := bucketName \<rparr> else b1)
     in if be_UsePathStyle b2 = None then b2\<lparr> be_UsePathStyle := Some (be_Endpoint b2 \<noteq> []) \<rparr> else b2)"

definition IsHTTPS :: "backend \<Rightarrow> bool" where
  "IsHTTPS b = (if be_Endpoint b = [] then True else has_prefix (to_lower (be_Endpoint b)) ''https://'')"

text \<open>\<open>Password\<close> is masked when marshaled.\<close>

definition Password_marshal :: "string \<Rightarrow> string" where
  "Password_marshal p = (if p = [] then ''\"\"'' else ''\"********\"'')"

section \<open>Name validation\<close>

definition lower_alnum :: "char \<Rightarrow> bool" where
  "lower_alnum c \<longleftrightarrow> CHR ''a'' \<le> c \<and> c \<le> CHR ''z'' \<or> CHR ''0'' \<le> c \<and> c \<le> CHR ''9''"

text \<open>The regular expression of bucket names: 3 to 63 of a-z, 0-9 and inner hyphens.\<close>

definition bucketNameRegexp :: "string \<Rightarrow> bool" where
  "bucketNameRegexp s \<longleftrightarrow>
    3 \<le> length s \<and> length s \<le> 63 \<and> lower_alnum (hd s) \<and> lower_alnum (last s) \<and>
    list_all (\<lambda>c. lower_alnum c \<or> c = CHR ''-'') (butlast (tl s))"

text \<open>The regular expression of tenant and user names.\<close>

definition principalPartRegexp :: "string \<Rightarrow> bool" where
  "principalPartRegexp s \<longleftrightarrow>
    2 \<le> length s \<and> lower_alnum (hd s) \<and>
    list_all (\<lambda>c. lower_alnum c \<or> c = CHR ''_'' \<or> c = CHR ''-'') (tl s)"

definition ValidateBucketName :: "string \<Rightarrow> go_error + unit" where
  "ValidateBucketName name =
    (if bucketNameRegexp name then Inr () else Inl (Errorf (Sprintf ''invalid bucket name %q'' [FS name]) []))"

definition ValidateTenantName :: "string \<Rightarrow> go_error + unit" where
  "ValidateTenantName name =
    (if principalPartRegexp name then Inr () else Inl (Errorf (Sprintf ''invalid tenant name %q'' [FS name]) []))"

definition ValidateUserName :: "string \<Rightarrow> go_error + unit" where
  "ValidateUserName name =
    (if principalPartRegexp name then Inr () else Inl (Errorf (Sprintf ''invalid user name %q'' [FS name]) []))"

lemma lower_alnum_simps [simp]:
  "\<not> lower_alnum (CHR ''/'')" "\<not> lower_alnum (CHR ''*'')" "\<not> lower_alnum (CHR ''.'')"
  by code_simp+

lemma principalPart_chars:
  assumes "principalPartRegexp s"
  shows "s \<noteq> []" "CHR ''/'' \<notin> set s" "CHR ''*'' \<notin> set s"
  using assms by (cases s; auto simp: principalPartRegexp_def list_all_iff)+

lemma bucketName_chars:
  assumes "bucketNameRegexp s"
  shows "s \<noteq> []" "CHR ''/'' \<notin> set s" "CHR ''.'' \<notin> set s"
proof -
  obtain x ys where s: "s = x # ys"
    using assms by (cases s) (auto simp: bucketNameRegexp_def)
  then have ne: "ys \<noteq> []"
    using assms by (auto simp: bucketNameRegexp_def)
  then have "set ys = insert (last ys) (set (butlast ys))"
    by (metis Un_insert_right append_butlast_last_id list.simps(15) set_append sup_bot_right list.set(1))
  then have *: "c \<in> set s \<Longrightarrow> lower_alnum c \<or> c = CHR ''-''" for c
    using assms s ne by (auto simp: bucketNameRegexp_def list_all_iff)
  show "s \<noteq> []" "CHR ''/'' \<notin> set s" "CHR ''.'' \<notin> set s"
    using assms * [of "CHR ''/''"] * [of "CHR ''.''"] by (auto simp: bucketNameRegexp_def)
qed

end
