(* ===== verification/Signer_Cache.thy ===== *)
theory Signer_Cache
  imports Store Go_Hash
begin

text \<open>
  Signing keys and their cache: the derivations of \<open>src/sigv4/sigv4.go\<close> and \<open>src/sigv4/chunked.go\<close> and the
  direct-mapped cache of \<open>src/sigv4/signer.go\<close>. The slot of an access key comes from a randomly seeded
  hash, an argument of the model. The interface \<open>key_cache\<close> says what the verifier relies on: the answer
  of the cache is the answer of a fresh derivation. Concurrent use is a step relation over the lock-protected
  sections of \<open>get\<close>.
\<close>

section \<open>Derivation\<close>

definition SigningKeyFromDateKey :: "string \<Rightarrow> string \<Rightarrow> string" where
  "SigningKeyFromDateKey dateKey region =
    hmac_sha256 (hmac_sha256 (hmac_sha256 dateKey region) ''s3'') ''aws4_request''"

definition DeriveSigningKey :: "string \<Rightarrow> string \<Rightarrow> string \<Rightarrow> string" where
  "DeriveSigningKey secret date region = SigningKeyFromDateKey (hmac_sha256 (''AWS4'' @ secret) date) region"

definition deriveSigningKey :: "string \<Rightarrow> string \<Rightarrow> string \<Rightarrow> string" where
  "deriveSigningKey secret date region = SigningKeyFromDateKey (hmac_sha256 (''AWS4'' @ secret) date) region"

section \<open>The cache\<close>

record signingKeyID =
  sk_accessKeyID :: string
  sk_version :: string
  sk_date :: string
  sk_region :: string
  sk_derived :: bool

definition zero_id :: signingKeyID where
  "zero_id = \<lparr> sk_accessKeyID = [], sk_version = [], sk_date = [], sk_region = [], sk_derived = False \<rparr>"

record signerSlot =
  sl_key :: signingKeyID
  sl_signingKey :: string

record signerCache =
  sc_slots :: "signerSlot list"
  sc_hits :: "64 word"
  sc_misses :: "64 word"
  sc_displacements :: "64 word"

definition newSignerCache :: "int \<Rightarrow> signerCache" where
  "newSignerCache sz =
    \<lparr> sc_slots = replicate (nat (if sz < 1 then 1 else sz)) \<lparr> sl_key = zero_id, sl_signingKey = [] \<rparr>,
       sc_hits = 0, sc_misses = 0, sc_displacements = 0 \<rparr>"

definition SetSignerCacheSize :: "int \<Rightarrow> signerCache \<Rightarrow> signerCache" where
  "SetSignerCacheSize n c = (newSignerCache n)\<lparr> sc_hits := sc_hits c, sc_misses := sc_misses c,
    sc_displacements := sc_displacements c \<rparr>"

text \<open>
  The three sections of \<open>get\<close>: the look under the read lock, the derivation, the store under the lock. A
  derived key without a function is a nil call in Go; the verifier never makes it.
\<close>

definition slot_index :: "(string \<Rightarrow> nat) \<Rightarrow> signingKeyID \<Rightarrow> signerCache \<Rightarrow> nat" where
  "slot_index hash kid c = hash (sk_accessKeyID kid) mod length (sc_slots c)"

definition cache_look :: "(string \<Rightarrow> nat) \<Rightarrow> signingKeyID \<Rightarrow> signerCache \<Rightarrow> string option \<times> signerCache" where
  "cache_look hash kid c =
    (let slot = sc_slots c ! slot_index hash kid c in
     if sl_key slot = kid then (Some (sl_signingKey slot), c\<lparr> sc_hits := sc_hits c + 1 \<rparr>)
     else (None, c\<lparr> sc_misses := sc_misses c + 1 \<rparr>))"

definition derive_key :: "signing_key_func option \<Rightarrow> signingKeyID \<Rightarrow> go_error + string" where
  "derive_key derive kid =
    (if sk_derived kid then
       (case derive of
          None \<Rightarrow> Inl (Errorf (lit ''nil function'') [])
        | Some f \<Rightarrow>
            and_then (f (sk_date kid) (sk_region kid)) (\<lambda>k.
              if length k \<noteq> 32
              then Inl (Errorf (Sprintf ''signing key is %d bytes, want %d'' [FI (int (length k)), FI 32]) [])
              else Inr k))
     else Inr (deriveSigningKey (sk_version kid) (sk_date kid) (sk_region kid)))"

definition cache_store :: "(string \<Rightarrow> nat) \<Rightarrow> signingKeyID \<Rightarrow> string \<Rightarrow> signerCache \<Rightarrow> signerCache" where
  "cache_store hash kid k c =
    (let i = slot_index hash kid c; occ = sk_accessKeyID (sl_key (sc_slots c ! i)) in
     c\<lparr> sc_slots := (sc_slots c)[i := \<lparr> sl_key = kid, sl_signingKey = k \<rparr>],
        sc_displacements := (if occ \<noteq> [] \<and> occ \<noteq> sk_accessKeyID kid then sc_displacements c + 1
          else sc_displacements c) \<rparr>)"

definition signers_get ::
  "(string \<Rightarrow> nat) \<Rightarrow> signing_key_func option \<Rightarrow> signingKeyID \<Rightarrow> signerCache \<Rightarrow>
    (go_error + string) \<times> signerCache" where
  "signers_get hash derive kid c =
    (case cache_look hash kid c of
       (Some k, c') \<Rightarrow> (Inr k, c')
     | (None, c') \<Rightarrow>
         (case derive_key derive kid of
            Inl e \<Rightarrow> (Inl e, c')
          | Inr k \<Rightarrow> (Inr k, cache_store hash kid k c')))"

record cache_stats =
  cs_Hits :: "64 word"
  cs_Misses :: "64 word"
  cs_Evictions :: "64 word"
  cs_Len :: nat
  cs_Capacity :: nat

definition signers_stats :: "signerCache \<Rightarrow> cache_stats" where
  "signers_stats c =
    \<lparr> cs_Hits = sc_hits c, cs_Misses = sc_misses c, cs_Evictions = sc_displacements c,
       cs_Len = length (filter (\<lambda>s. sk_accessKeyID (sl_key s) \<noteq> []) (sc_slots c)),
       cs_Capacity = length (sc_slots c) \<rparr>"

section \<open>The interface\<close>

text \<open>
  What the verifier relies on: \<open>valid spec\<close> is an invariant of the cache under which every answer is the
  one of \<open>spec\<close>, as long as the derivation handed in agrees with it.
\<close>

locale key_cache =
  fixes get :: "signing_key_func option \<Rightarrow> signingKeyID \<Rightarrow> 'c \<Rightarrow> (go_error + string) \<times> 'c"
    and valid :: "(signingKeyID \<Rightarrow> go_error + string) \<Rightarrow> 'c \<Rightarrow> bool"
  assumes get_fresh: "valid spec c \<Longrightarrow> kid \<noteq> zero_id \<Longrightarrow> derive_key derive kid = spec kid \<Longrightarrow>
      get derive kid c = (r, c') \<Longrightarrow> r = spec kid"
    and get_valid: "valid spec c \<Longrightarrow> kid \<noteq> zero_id \<Longrightarrow> derive_key derive kid = spec kid \<Longrightarrow>
      get derive kid c = (r, c') \<Longrightarrow> valid spec c'"
begin

primrec get_all ::
  "(signing_key_func option \<times> signingKeyID) list \<Rightarrow> 'c \<Rightarrow> (go_error + string) list \<times> 'c" where
  "get_all [] c = ([], c)"
| "get_all (q # qs) c =
    (case get (fst q) (snd q) c of (r, c') \<Rightarrow> (case get_all qs c' of (rs, c'') \<Rightarrow> (r # rs, c'')))"

lemma get_all_fresh:
  assumes "valid spec c" "\<forall>(derive, kid)\<in>set qs. kid \<noteq> zero_id \<and> derive_key derive kid = spec kid"
  shows "fst (get_all qs c) = map (\<lambda>(derive, kid). spec kid) qs \<and> valid spec (snd (get_all qs c))"
  using assms
proof (induction qs arbitrary: c)
  case (Cons q qs)
  obtain r c' where get: "get (fst q) (snd q) c = (r, c')"
    by fastforce
  have q: "snd q \<noteq> zero_id" "derive_key (fst q) (snd q) = spec (snd q)"
    using Cons.prems(2) by auto
  then show ?case
    using Cons.IH [OF get_valid [OF Cons.prems(1) q get]] Cons.prems(2) get_fresh [OF Cons.prems(1) q get] get
    by (auto split: prod.splits)
qed simp

end

section \<open>The cache keeps the interface\<close>

definition cache_valid :: "(signingKeyID \<Rightarrow> go_error + string) \<Rightarrow> signerCache \<Rightarrow> bool" where
  "cache_valid spec c \<longleftrightarrow> sc_slots c \<noteq> [] \<and>
    (\<forall>s\<in>set (sc_slots c). sl_key s = zero_id \<or> spec (sl_key s) = Inr (sl_signingKey s))"

lemma cache_look_spec:
  assumes "cache_valid spec c" "cache_look hash kid c = (r, c')"
  shows "cache_valid spec c'" "r = Some k \<Longrightarrow> kid \<noteq> zero_id \<Longrightarrow> spec kid = Inr k"
proof -
  have "sc_slots c ! slot_index hash kid c \<in> set (sc_slots c)"
    using assms(1) by (intro nth_mem) (simp add: cache_valid_def slot_index_def)
  then show "cache_valid spec c'" "r = Some k \<Longrightarrow> kid \<noteq> zero_id \<Longrightarrow> spec kid = Inr k"
    using assms by (auto simp: cache_valid_def cache_look_def Let_def split: if_splits)
qed

lemma cache_store_valid:
  assumes "cache_valid spec c" "spec kid = Inr k"
  shows "cache_valid spec (cache_store hash kid k c)"
  using assms set_update_subset_insert
  by (fastforce simp: cache_valid_def cache_store_def Let_def)

lemma newSignerCache_valid: "cache_valid spec (newSignerCache sz)"
  by (auto simp: cache_valid_def newSignerCache_def zero_id_def)

interpretation signers: key_cache "signers_get hash" cache_valid
  for hash
proof (unfold_locales, goal_cases)
  case (1 spec c kid derive r c')
  then show ?case
    by (auto simp: signers_get_def split: prod.splits option.splits sum.splits
        dest: cache_look_spec(2) [where hash = hash])
next
  case (2 spec c kid derive r c')
  then show ?case
    by (auto simp: signers_get_def split: prod.splits option.splits sum.splits
        dest: cache_look_spec(1) [where hash = hash] intro!: cache_store_valid)
qed

section \<open>Concurrent requests\<close>

text \<open>
  Any number of requests call \<open>get\<close> at the same time. Each is idle, deriving, about to store, or has its
  answer; a step is one section of one of them. A request's derivation agrees with \<open>spec\<close>: the store hands
  out one key per access key, secret version, date and region.
\<close>

datatype get_pc =
    Get_idle
  | Get_deriving "signing_key_func option" signingKeyID
  | Get_storing signingKeyID string
  | Get_returned signingKeyID "go_error + string"

inductive get_step ::
  "(string \<Rightarrow> nat) \<Rightarrow> (signingKeyID \<Rightarrow> go_error + string) \<Rightarrow>
    signerCache \<times> (nat \<Rightarrow> get_pc) \<Rightarrow> signerCache \<times> (nat \<Rightarrow> get_pc) \<Rightarrow> bool"
  for hash spec where
  look_hit: "thr i = Get_idle \<Longrightarrow> kid \<noteq> zero_id \<Longrightarrow> derive_key derive kid = spec kid \<Longrightarrow>
    cache_look hash kid c = (Some k, c') \<Longrightarrow> get_step hash spec (c, thr) (c', thr(i := Get_returned kid (Inr k)))"
| look_miss: "thr i = Get_idle \<Longrightarrow> kid \<noteq> zero_id \<Longrightarrow> derive_key derive kid = spec kid \<Longrightarrow>
    cache_look hash kid c = (None, c') \<Longrightarrow> get_step hash spec (c, thr) (c', thr(i := Get_deriving derive kid))"
| derive_fail: "thr i = Get_deriving derive kid \<Longrightarrow> derive_key derive kid = Inl e \<Longrightarrow>
    get_step hash spec (c, thr) (c, thr(i := Get_returned kid (Inl e)))"
| derive_done: "thr i = Get_deriving derive kid \<Longrightarrow> derive_key derive kid = Inr k \<Longrightarrow>
    get_step hash spec (c, thr) (c, thr(i := Get_storing kid k))"
| store: "thr i = Get_storing kid k \<Longrightarrow>
    get_step hash spec (c, thr) (cache_store hash kid k c, thr(i := Get_returned kid (Inr k)))"
| leave: "thr i = Get_returned kid r \<Longrightarrow> get_step hash spec (c, thr) (c, thr(i := Get_idle))"

inductive_cases get_stepE: "get_step hash spec s s'"

inductive get_reachable ::
  "(string \<Rightarrow> nat) \<Rightarrow> (signingKeyID \<Rightarrow> go_error + string) \<Rightarrow> signerCache \<times> (nat \<Rightarrow> get_pc) \<Rightarrow> bool"
  for hash spec where
  start: "get_reachable hash spec (newSignerCache n, \<lambda>_. Get_idle)"
| step: "get_reachable hash spec s \<Longrightarrow> get_step hash spec s s' \<Longrightarrow> get_reachable hash spec s'"

text \<open>What each request knows of its key.\<close>

fun pc_ok :: "(signingKeyID \<Rightarrow> go_error + string) \<Rightarrow> get_pc \<Rightarrow> bool" where
  "pc_ok spec Get_idle = True"
| "pc_ok spec (Get_deriving derive kid) = (derive_key derive kid = spec kid)"
| "pc_ok spec (Get_storing kid k) = (spec kid = Inr k)"
| "pc_ok spec (Get_returned kid r) = (r = spec kid)"

definition get_inv :: "(signingKeyID \<Rightarrow> go_error + string) \<Rightarrow> signerCache \<times> (nat \<Rightarrow> get_pc) \<Rightarrow> bool" where
  "get_inv spec s \<longleftrightarrow> cache_valid spec (fst s) \<and> (\<forall>i. pc_ok spec (snd s i))"

lemma get_step_inv:
  assumes "get_step hash spec s s'" "get_inv spec s"
  shows "get_inv spec s'"
  using assms
proof (cases rule: get_step.cases)
  case (look_hit thr i kid derive c k c')
  then show ?thesis
    using assms(2) cache_look_spec(1) [of spec c hash kid "Some k" c']
      cache_look_spec(2) [of spec c hash kid "Some k" c' k]
    by (auto simp: get_inv_def)
next
  case (look_miss thr i kid derive c c')
  then show ?thesis
    using assms(2) cache_look_spec(1) [of spec c hash kid None c'] by (auto simp: get_inv_def)
next
  case (derive_fail thr i derive kid e c)
  then show ?thesis
    using assms(2) by (auto simp: get_inv_def dest: spec [of _ i])
next
  case (derive_done thr i derive kid k c)
  then show ?thesis
    using assms(2) by (auto simp: get_inv_def dest: spec [of _ i])
next
  case (store thr i kid k c)
  then have "spec kid = Inr k"
    using assms(2) by (auto simp: get_inv_def dest: spec [of _ i])
  then show ?thesis
    using store assms(2) cache_store_valid by (auto simp: get_inv_def)
next
  case (leave thr i kid r c)
  then show ?thesis
    using assms(2) by (auto simp: get_inv_def)
qed

lemma get_reachable_inv: "get_reachable hash spec s \<Longrightarrow> get_inv spec s"
proof (induction rule: get_reachable.induct)
  case (start n)
  show ?case
    by (simp add: get_inv_def newSignerCache_valid)
next
  case (step s s')
  then show ?case by (blast intro: get_step_inv)
qed

text \<open>
  C19. Under any interleaving of concurrent requests the signing key cache is transparent: the answer a
  request gets, from a hit or after a miss, is the one a fresh derivation gives.
\<close>

theorem signer_cache_transparent:
  assumes "get_reachable hash spec (c, thr)" "thr i = Get_returned kid r"
  shows "r = spec kid"
  using get_reachable_inv [OF assms(1)] assms(2) by (auto simp: get_inv_def dest: spec [of _ i])

definition example_kid :: signingKeyID where
  "example_kid = \<lparr> sk_accessKeyID = ''AK'', sk_version = ''v1'', sk_date = ''20240229'', sk_region = ''us-east-1'',
    sk_derived = True \<rparr>"

theorem signer_cache_transparent_witness:
  "\<exists>c thr r. get_reachable (\<lambda>_. 7) (\<lambda>_. Inl ErrNotFound) (c, thr) \<and> thr 0 = Get_returned example_kid r \<and>
    r = Inl ErrNotFound"
proof -
  let ?spec = "\<lambda>_. Inl ErrNotFound :: go_error + string"
  let ?f = "Some (\<lambda>_ _. Inl ErrNotFound) :: signing_key_func option"
  obtain c where look: "cache_look (\<lambda>_. 7) example_kid (newSignerCache 1) = (None, c)"
    by (simp add: cache_look_def newSignerCache_def slot_index_def example_kid_def zero_id_def)
  have derive: "derive_key ?f example_kid = Inl ErrNotFound"
    by (simp add: derive_key_def example_kid_def)
  have "get_step (\<lambda>_. 7) ?spec (newSignerCache 1, \<lambda>_. Get_idle) (c, (\<lambda>_. Get_idle)(0 := Get_deriving ?f example_kid))"
    using look derive by (intro look_miss) (simp_all add: example_kid_def zero_id_def)
  moreover have "get_step (\<lambda>_. 7) ?spec (c, (\<lambda>_. Get_idle)(0 := Get_deriving ?f example_kid))
      (c, ((\<lambda>_. Get_idle)(0 := Get_deriving ?f example_kid))(0 := Get_returned example_kid (Inl ErrNotFound)))"
    using derive by (intro derive_fail) auto
  ultimately have reach: "get_reachable (\<lambda>_. 7) ?spec
      (c, ((\<lambda>_. Get_idle)(0 := Get_deriving ?f example_kid))(0 := Get_returned example_kid (Inl ErrNotFound)))"
    using get_reachable.start get_reachable.step by metis
  then show ?thesis
    using signer_cache_transparent [OF reach, of 0] by fastforce
qed

end
