(* ===== verification/Sigv4.thy ===== *)
theory Sigv4
  imports Canonical Signer_Cache
begin

text \<open>
  Verification of SigV4 requests, \<open>src/sigv4/sigv4.go\<close> and \<open>src/sigv4/authfailure.go\<close>: the Authorization
  header and presigned URLs. The current time and the secret lookup are arguments.
\<close>

section \<open>Failures\<close>

abbreviation ReasonNoAuth :: string where "ReasonNoAuth \<equiv> ''no-auth''"
abbreviation ReasonUnknownKey :: string where "ReasonUnknownKey \<equiv> ''unknown-key''"
abbreviation ReasonInvalidToken :: string where "ReasonInvalidToken \<equiv> ''invalid-token''"
abbreviation ReasonSignatureMismatch :: string where "ReasonSignatureMismatch \<equiv> ''signature-mismatch''"
abbreviation ReasonUnsignedHeaders :: string where "ReasonUnsignedHeaders \<equiv> ''unsigned-headers''"
abbreviation ReasonExpired :: string where "ReasonExpired \<equiv> ''expired''"
abbreviation ReasonNotYetValid :: string where "ReasonNotYetValid \<equiv> ''not-yet-valid''"
abbreviation ReasonTimeSkewed :: string where "ReasonTimeSkewed \<equiv> ''time-skewed''"
abbreviation ReasonPostPolicy :: string where "ReasonPostPolicy \<equiv> ''post-policy''"

definition authFailure :: "string \<Rightarrow> string \<Rightarrow> go_text \<Rightarrow> go_error" where
  "authFailure reason akid detail = Auth_failure reason akid detail []"

fun err_text :: "go_error \<Rightarrow> go_text" where
  "err_text (Errorf t es) = t"
| "err_text e = lit []"

definition ErrUnknownKey :: go_error where
  "ErrUnknownKey = Sentinel ''unknown access key id''"

text \<open>The two packages have a sentinel of the same text each; they are different values.\<close>

definition sigv4_ErrInvalidToken :: go_error where
  "sigv4_ErrInvalidToken = Sentinel ''sigv4: invalid session token''"

section \<open>Parsing the Authorization header\<close>

record authHeader =
  ah_AccessKeyID :: string
  ah_Date :: string
  ah_Region :: string
  ah_Service :: string
  ah_SignedHeaders :: "string list"
  ah_Signature :: string

definition auth_scope :: "authHeader \<Rightarrow> string" where
  "auth_scope a = str_join ''/'' [ah_Date a, ah_Region a, ah_Service a, ''aws4_request'']"

definition auth_part :: "string \<Rightarrow> authHeader \<Rightarrow> go_error + authHeader" where
  "auth_part part a =
    (case str_cut (CHR ''='') (trim_space part) of
       (_, _, False) \<Rightarrow> Inl (Errorf (Sprintf ''malformed component %q'' [FS part]) [])
     | (k, v, True) \<Rightarrow>
         if k = ''Credential'' then
           (let elems = str_split (CHR ''/'') v in
            if length elems \<noteq> 5 then Inl (Errorf (Sprintf ''malformed credential %q'' [FS v]) [])
            else if elems ! 4 \<noteq> ''aws4_request'' then Inl (Errorf (lit ''credential must end with aws4_request'') [])
            else Inr (a\<lparr> ah_AccessKeyID := elems ! 0, ah_Date := elems ! 1, ah_Region := elems ! 2,
              ah_Service := elems ! 3 \<rparr>))
         else if k = ''SignedHeaders'' then Inr (a\<lparr> ah_SignedHeaders := str_split (CHR '';'') v \<rparr>)
         else if k = ''Signature'' then Inr (a\<lparr> ah_Signature := v \<rparr>)
         else Inl (Errorf (Sprintf ''unknown component %q'' [FS k]) []))"

definition parseAuthorizationHeader :: "string \<Rightarrow> go_error + authHeader" where
  "parseAuthorizationHeader v =
    (case str_cut (CHR '' '') v of
       (algo, rest, ok) \<Rightarrow>
         if \<not> ok \<or> algo \<noteq> sigV4Algorithm then Inl (Errorf (lit ''unsupported algorithm'') [])
         else
           and_then (fold_res auth_part (str_split (CHR '','') rest)
             \<lparr> ah_AccessKeyID = [], ah_Date = [], ah_Region = [], ah_Service = [], ah_SignedHeaders = [],
                ah_Signature = [] \<rparr>) (\<lambda>a.
             if ah_AccessKeyID a = [] \<or> ah_SignedHeaders a = [] \<or> ah_Signature a = []
             then Inl (Errorf (lit ''missing component'') []) else Inr a))"

section \<open>Credentials\<close>

record credential =
  cr_SecretAccessKey :: string
  cr_SigningKey :: "signing_key_func option"
  cr_SecretVersion :: string
  cr_SessionToken :: string

type_synonym secret_lookup = "string \<Rightarrow> string \<Rightarrow> go_error + credential"

definition invalidTokenError :: s3error where
  "invalidTokenError = s3err_New 400 ''InvalidToken'' (lit ''The provided token is malformed or otherwise invalid.'')"

definition lookupSecret :: "secret_lookup \<Rightarrow> string \<Rightarrow> string \<Rightarrow> s3error + credential" where
  "lookupSecret lookup akid token =
    (case lookup akid token of
       Inl err \<Rightarrow>
         Inl (if errors_is err ErrUnknownKey
              then WithCause InvalidAccessKeyID (Auth_failure ReasonUnknownKey akid (lit []) [err])
              else if errors_is err sigv4_ErrInvalidToken
              then WithCause invalidTokenError (Auth_failure ReasonInvalidToken akid (lit []) [err])
              else s3err_Internal err (lit ''key lookup failed''))
     | Inr cred \<Rightarrow>
         if (cr_SigningKey cred = None) = (cr_SecretAccessKey cred = []) \<or>
            cr_SigningKey cred \<noteq> None \<and> cr_SecretVersion cred = []
         then Inl (s3err_Internal
           (Errorf (lit ''credential must carry either a secret or a signing key with its secret version'') [])
           (lit ''key lookup failed''))
         else Inr cred)"

definition signing_id :: "string \<Rightarrow> credential \<Rightarrow> string \<Rightarrow> string \<Rightarrow> signingKeyID" where
  "signing_id akid cred date region =
    \<lparr> sk_accessKeyID = akid,
       sk_version = (if cr_SigningKey cred \<noteq> None then cr_SecretVersion cred else cr_SecretAccessKey cred),
       sk_date = date, sk_region = region, sk_derived = (cr_SigningKey cred \<noteq> None) \<rparr>"

definition signingKey ::
  "(string \<Rightarrow> nat) \<Rightarrow> string \<Rightarrow> credential \<Rightarrow> string \<Rightarrow> string \<Rightarrow> signerCache \<Rightarrow> (s3error + string) \<times> signerCache" where
  "signingKey hash akid cred date region c =
    (case signers_get hash (cr_SigningKey cred) (signing_id akid cred date region) c of
       (Inr k, c') \<Rightarrow> (Inr k, c')
     | (Inl err, c') \<Rightarrow>
         (Inl (if errors_is err ErrUnknownKey
            then WithCause InvalidAccessKeyID (Auth_failure ReasonUnknownKey akid (lit []) [err])
            else s3err_Internal err (lit ''signing key derivation failed'')), c'))"

definition validateSessionToken :: "string \<Rightarrow> string \<Rightarrow> string \<Rightarrow> s3error + unit" where
  "validateSessionToken akid expected presented =
    (if expected = [] \<and> presented = [] \<or> sha256 expected = sha256 presented then Inr ()
     else
       Inl (WithCause invalidTokenError (authFailure ReasonInvalidToken akid
         (lit (if expected = [] then ''token presented for a long-lived key''
               else if presented = [] then ''temporary credential used without its token''
               else ''presented token does not match the key's'')))))"

section \<open>Covered headers\<close>

abbreviation amzPrefix :: string where "amzPrefix \<equiv> ''x-amz-''"

definition unsigned_amz :: "header \<Rightarrow> string list \<Rightarrow> string list" where
  "unsigned_amz h signedHeaders =
    filter (\<lambda>lname. has_prefix lname amzPrefix \<and> lname \<notin> set (map to_lower signedHeaders))
      (map (\<lambda>(name, vs). to_lower name) h)"

definition requireSignedAmzHeaders :: "string \<Rightarrow> header \<Rightarrow> string list \<Rightarrow> s3error + unit" where
  "requireSignedAmzHeaders akid h signedHeaders =
    (let unsigned = unsigned_amz h signedHeaders in
     if unsigned = [] then Inr ()
     else
       (let names = str_join '', '' (sort unsigned) in
        Inl (WithCause (s3err_New 403 ''AccessDenied''
            (lit (''There were headers present in the request which were not signed: '' @ names)))
          (authFailure ReasonUnsignedHeaders akid (lit names)))))"

definition presignAuthParams :: "string list" where
  "presignAuthParams = [''X-Amz-Algorithm'', ''X-Amz-Credential'', ''X-Amz-Date'', ''X-Amz-SignedHeaders'',
    ''X-Amz-Signature'', ''X-Amz-Security-Token'']"

definition hoisted :: "url_values \<Rightarrow> url_values" where
  "hoisted q = filter (\<lambda>(k, vs). let lk = to_lower k in
    has_prefix lk amzPrefix \<and> lk \<notin> set (map to_lower presignAuthParams) \<and> lk \<noteq> ''x-amz-expires'' \<and> vs \<noteq> []) q"

definition promote :: "header \<Rightarrow> string \<times> string list \<Rightarrow> header" where
  "promote h = (\<lambda>(k, vs). if header_get h k = [] then assoc_set (canonical_key k) (sort vs) h else h)"

definition promoteHoistedQueryParams :: "http_request \<Rightarrow> http_request \<times> string list" where
  "promoteHoistedQueryParams r =
    (let qs = hoisted (r_Query r) in
     (r\<lparr> r_Header := foldl promote (r_Header r) qs \<rparr>, map (\<lambda>(k, vs). to_lower k) qs))"

definition signedHeaderSet :: "string list list \<Rightarrow> string list" where
  "signedHeaderSet names = map to_lower (concat names)"

section \<open>Checking the signature\<close>

definition sig_mismatch :: "string \<Rightarrow> go_text \<Rightarrow> s3error" where
  "sig_mismatch akid detail =
    WithCause SignatureDoesNotMatch (authFailure ReasonSignatureMismatch akid detail)"

definition checkSignature ::
  "(string \<Rightarrow> nat) \<Rightarrow> http_request \<Rightarrow> string \<Rightarrow> credential \<Rightarrow> string \<Rightarrow> string \<Rightarrow> int \<Rightarrow> string list \<Rightarrow> string \<Rightarrow>
    string \<Rightarrow> string \<Rightarrow> signerCache \<Rightarrow> (s3error + string) \<times> signerCache" where
  "checkSignature hash r akid cred date region t signedHeaders dropQuery payloadHash presented c =
    (case checkSignedHeaderList signedHeaders of
       Inl err \<Rightarrow> (Inl (sig_mismatch akid (err_text err)), c)
     | Inr _ \<Rightarrow>
    (case canonicalRequest r signedHeaders dropQuery payloadHash of
       Inl err \<Rightarrow> (Inl (s3err_New 400 ''InvalidRequest'' (err_text err)), c)
     | Inr canonical \<Rightarrow>
    (case signingKey hash akid cred date region c of
       (Inl e, c') \<Rightarrow> (Inl e, c')
     | (Inr k, c') \<Rightarrow>
         if signature k t (str_join ''/'' [date, region, ''s3'', ''aws4_request'']) canonical \<noteq> presented
         then (Inl (sig_mismatch akid (Sprintf ''client signed headers %q'' [FS (str_join '';'' signedHeaders)])), c')
         else (Inr k, c'))))"

record verified =
  ve_AccessKeyID :: string
  ve_SigningKey :: string
  ve_Signature :: string
  ve_SigningTime :: int
  ve_Scope :: string
  ve_Region :: string
  ve_PayloadHash :: string
  ve_SignedHeaders :: "string list"

definition maxClockSkew :: int where
  "maxClockSkew = 15 * 60 * Second"

definition auth_malformed :: "go_text \<Rightarrow> s3error" where
  "auth_malformed msg = s3err_New 400 ''AuthorizationHeaderMalformed'' msg"

text \<open>Everything \<open>verifyHeaderRequest\<close> checks before the signature: the parsed header, the credential, the
  signing time and the payload hash.\<close>

definition header_checks ::
  "int \<Rightarrow> string \<Rightarrow> secret_lookup \<Rightarrow> http_request \<Rightarrow> s3error + authHeader \<times> credential \<times> int \<times> string" where
  "header_checks now vregion lookup r =
    (case parseAuthorizationHeader (header_get (r_Header r) ''Authorization'') of
       Inl err \<Rightarrow> Inl (auth_malformed (Sprintf ''The authorization header is malformed; %s.'' [FT (err_text err)]))
     | Inr auth \<Rightarrow>
    guard_err (ah_Service auth \<noteq> ''s3'')
      (auth_malformed (lit ''The authorization header is malformed; incorrect service.''))
    (guard_err (vregion \<noteq> [] \<and> ah_Region auth \<noteq> vregion)
      (auth_malformed (Sprintf (''The authorization header is malformed; the region '%s' is wrong; expecting '%s'' @ [CHR 0x27])
        [FS (ah_Region auth), FS vregion]))
    (and_then (requireSignedAmzHeaders (ah_AccessKeyID auth) (r_Header r) (ah_SignedHeaders auth)) (\<lambda>_.
    let presentedToken = header_get (r_Header r) ''X-Amz-Security-Token'' in
    and_then (lookupSecret lookup (ah_AccessKeyID auth) presentedToken) (\<lambda>cred.
    and_then (validateSessionToken (ah_AccessKeyID auth) (cr_SessionToken cred) presentedToken) (\<lambda>_.
    let amzDate = header_get (r_Header r) ''X-Amz-Date'' in
    guard_err (amzDate = [])
      (s3err_New 400 ''InvalidRequest'' (lit ''Missing required header for this request: x-amz-date''))
    (case parse_amz amzDate of
       None \<Rightarrow> Inl (s3err_New 400 ''InvalidRequest'' (lit ''Invalid x-amz-date header''))
     | Some t \<Rightarrow>
    guard_err (format_date t \<noteq> ah_Date auth)
      (auth_malformed (lit ''The authorization header is malformed; the date in the credential scope does not match the x-amz-date header.''))
    (guard_err (maxClockSkew < time_sub now t \<or> time_sub now t < - maxClockSkew)
      (WithCause (s3err_New 403 ''RequestTimeTooSkewed''
          (lit ''The difference between the request time and the current time is too large.''))
        (authFailure ReasonTimeSkewed (ah_AccessKeyID auth) (Sprintf ''signed at %s, now %s'' [FI t, FI now])))
    (let payloadHash = header_get (r_Header r) ''X-Amz-Content-Sha256'' in
     guard_err (payloadHash = [])
       (s3err_New 400 ''InvalidRequest'' (lit ''Missing required header for this request: x-amz-content-sha256''))
     (Inr (auth, cred, t, payloadHash)))))))))))"

definition verifyHeaderRequest ::
  "(string \<Rightarrow> nat) \<Rightarrow> int \<Rightarrow> string \<Rightarrow> secret_lookup \<Rightarrow> http_request \<Rightarrow> signerCache \<Rightarrow>
    (s3error + verified) \<times> signerCache" where
  "verifyHeaderRequest hash now vregion lookup r c =
    (case header_checks now vregion lookup r of
       Inl e \<Rightarrow> (Inl e, c)
     | Inr (auth, cred, t, payloadHash) \<Rightarrow>
         (case checkSignature hash r (ah_AccessKeyID auth) cred (ah_Date auth) (ah_Region auth) t
             (ah_SignedHeaders auth) [] payloadHash (ah_Signature auth) c of
            (Inl e, c') \<Rightarrow> (Inl e, c')
          | (Inr k, c') \<Rightarrow>
              (Inr \<lparr> ve_AccessKeyID = ah_AccessKeyID auth, ve_SigningKey = k, ve_Signature = ah_Signature auth,
                 ve_SigningTime = t, ve_Scope = auth_scope auth, ve_Region = ah_Region auth,
                 ve_PayloadHash = payloadHash, ve_SignedHeaders = signedHeaderSet [ah_SignedHeaders auth] \<rparr>, c')))"

section \<open>Presigned URLs\<close>

definition maxPresignExpires :: int where
  "maxPresignExpires = 7 * 24 * 3600 * Second"

definition queryParamsError :: "go_text \<Rightarrow> s3error" where
  "queryParamsError msg = s3err_New 400 ''AuthorizationQueryParametersError'' msg"

record presigned =
  ps_akid :: string
  ps_date :: string
  ps_region :: string
  ps_service :: string
  ps_signedHeaders :: "string list"
  ps_time :: int
  ps_cred :: credential

definition presigned_params :: "string \<Rightarrow> http_request \<Rightarrow> s3error + string list \<times> string list" where
  "presigned_params vregion r =
    (let query = r_Query r in
     and_then (for_each (\<lambda>p. if 1 < length (case map_of query p of Some vs \<Rightarrow> vs | None \<Rightarrow> [])
         then Inl (queryParamsError (lit (p @ '' must be specified only once''))) else Inr ())
       (presignAuthParams @ [''X-Amz-Expires''])) (\<lambda>_.
     guard_err (values_get query ''X-Amz-Algorithm'' \<noteq> sigV4Algorithm)
       (queryParamsError (lit ''X-Amz-Algorithm only supports \"AWS4-HMAC-SHA256\"''))
     (let credElems = str_split (CHR ''/'') (values_get query ''X-Amz-Credential'') in
      guard_err (length credElems \<noteq> 5 \<or> credElems ! 4 \<noteq> ''aws4_request'')
        (queryParamsError (lit ''Error parsing the X-Amz-Credential parameter; the Credential is mal-formed''))
      (guard_err (credElems ! 3 \<noteq> ''s3'')
        (queryParamsError (lit ''Error parsing the X-Amz-Credential parameter; incorrect service''))
      (guard_err (vregion \<noteq> [] \<and> credElems ! 2 \<noteq> vregion)
        (queryParamsError (Sprintf
          (''Error parsing the X-Amz-Credential parameter; the region '%s' is wrong; expecting '%s'' @ [CHR 0x27])
          [FS (credElems ! 2), FS vregion]))
      (let signedHeaders = str_split (CHR '';'') (values_get query ''X-Amz-SignedHeaders'') in
       guard_err (hd signedHeaders = [])
         (queryParamsError (lit ''X-Amz-SignedHeaders is required''))
       (and_then (requireSignedAmzHeaders (credElems ! 0) (r_Header r) signedHeaders) (\<lambda>_.
        Inr (credElems, signedHeaders)))))))))"

text \<open>The signing time, if the URL is valid now.\<close>

definition presigned_time :: "int \<Rightarrow> http_request \<Rightarrow> string \<Rightarrow> string \<Rightarrow> s3error + int" where
  "presigned_time now r akid scopeDate =
    (let query = r_Query r in
     case parse_amz (values_get query ''X-Amz-Date'') of
       None \<Rightarrow> Inl (queryParamsError (lit ''X-Amz-Date must be in the ISO8601 Long Format''))
     | Some t \<Rightarrow>
         guard_err (format_date t \<noteq> scopeDate)
           (queryParamsError (lit ''Invalid credential date. Date is not the same as X-Amz-Date.''))
         (case parse_int 10 (values_get query ''X-Amz-Expires'') of
            None \<Rightarrow> Inl (queryParamsError (lit ''X-Amz-Expires must be a positive integer''))
          | Some expires \<Rightarrow>
              guard_err (expires < 1)
                (queryParamsError (lit ''X-Amz-Expires must be a positive integer''))
              (guard_err (maxPresignExpires < duration_mul expires Second)
                (queryParamsError (lit ''X-Amz-Expires must be less than a week (in seconds); that is, the given X-Amz-Expires must be less than 604800 seconds''))
              (guard_err (t + duration_mul expires Second < now)
                (WithCause (s3err_New 403 ''AccessDenied'' (lit ''Request has expired''))
                  (authFailure ReasonExpired akid (Sprintf ''signed at %s for %ds'' [FI t, FI expires])))
              (guard_err (now + maxClockSkew < t)
                (WithCause (s3err_New 403 ''AccessDenied'' (lit ''Request is not valid yet''))
                  (authFailure ReasonNotYetValid akid (Sprintf ''signed at %s, now %s'' [FI t, FI now])))
              (Inr t))))))"

definition presigned_checks :: "int \<Rightarrow> string \<Rightarrow> secret_lookup \<Rightarrow> http_request \<Rightarrow> s3error + presigned" where
  "presigned_checks now vregion lookup r =
    and_then (presigned_params vregion r) (\<lambda>(credElems, signedHeaders).
    and_then (presigned_time now r (credElems ! 0) (credElems ! 1)) (\<lambda>t.
    let presentedToken = values_get (r_Query r) ''X-Amz-Security-Token'' in
    and_then (lookupSecret lookup (credElems ! 0) presentedToken) (\<lambda>cred.
    and_then (validateSessionToken (credElems ! 0) (cr_SessionToken cred) presentedToken) (\<lambda>_.
    Inr \<lparr> ps_akid = credElems ! 0, ps_date = credElems ! 1, ps_region = credElems ! 2,
       ps_service = credElems ! 3, ps_signedHeaders = signedHeaders, ps_time = t, ps_cred = cred \<rparr>))))"

definition verifyPresignedRequest ::
  "(string \<Rightarrow> nat) \<Rightarrow> int \<Rightarrow> string \<Rightarrow> secret_lookup \<Rightarrow> http_request \<Rightarrow> signerCache \<Rightarrow>
    (s3error + verified \<times> http_request) \<times> signerCache" where
  "verifyPresignedRequest hash now vregion lookup r c =
    (case presigned_checks now vregion lookup r of
       Inl e \<Rightarrow> (Inl e, c)
     | Inr p \<Rightarrow>
         (let h = header_get (r_Header r) ''X-Amz-Content-Sha256'';
              payloadHash = (if h = [] then ''UNSIGNED-PAYLOAD'' else h);
              sig = values_get (r_Query r) ''X-Amz-Signature''
          in case checkSignature hash r (ps_akid p) (ps_cred p) (ps_date p) (ps_region p) (ps_time p)
                 (ps_signedHeaders p) ''X-Amz-Signature'' payloadHash sig c of
               (Inl e, c') \<Rightarrow> (Inl e, c')
             | (Inr k, c') \<Rightarrow>
                 (case promoteHoistedQueryParams r of
                    (r', promoted) \<Rightarrow>
                      (Inr (\<lparr> ve_AccessKeyID = ps_akid p, ve_SigningKey = k, ve_Signature = sig,
                         ve_SigningTime = ps_time p,
                         ve_Scope = str_join ''/'' [ps_date p, ps_region p, ps_service p, ''aws4_request''],
                         ve_Region = ps_region p, ve_PayloadHash = payloadHash,
                         ve_SignedHeaders = signedHeaderSet [ps_signedHeaders p, promoted] \<rparr>, r'), c'))))"

section \<open>Verify\<close>

definition Verify ::
  "(string \<Rightarrow> nat) \<Rightarrow> int \<Rightarrow> string \<Rightarrow> secret_lookup \<Rightarrow> http_request \<Rightarrow> signerCache \<Rightarrow>
    (s3error + verified \<times> http_request) \<times> signerCache" where
  "Verify hash now vregion lookup r c =
    (let hasQueryAuth = (values_get (r_Query r) ''X-Amz-Signature'' \<noteq> []);
         hasHeaderAuth = (header_get (r_Header r) ''Authorization'' \<noteq> [])
     in if hasQueryAuth \<and> hasHeaderAuth
        then (Inl (s3err_New 400 ''InvalidArgument'' (lit ''Only one auth mechanism allowed; only the X-Amz-Algorithm query parameter, Signature query string parameter or the Authorization header should be specified'')), c)
        else if hasQueryAuth then verifyPresignedRequest hash now vregion lookup r c
        else if hasHeaderAuth then
          (case verifyHeaderRequest hash now vregion lookup r c of
             (res, c') \<Rightarrow> (and_then res (\<lambda>v. Inr (v, r)), c'))
        else (Inl (WithCause AccessDenied (authFailure ReasonNoAuth []
          (lit ''no Authorization header and no presigned query''))), c))"

end
