(* ===== verification/Checksum.thy ===== *)
theory Checksum
  imports Go_Http Go_Hash S3err
begin

text \<open>
  The S3 checksum algorithms of \<open>src/checksum/checksum.go\<close> and the gateway's checksum policy of
  \<open>src/s3gw/checksums.go\<close>. A hasher is the function from the bytes written to it to its sum.
\<close>

section \<open>Algorithms\<close>

definition HeaderPrefix :: string where
  "HeaderPrefix = ''x-amz-checksum-''"

record algorithm =
  alg_Name :: string
  alg_newHash :: "(string \<Rightarrow> string) option"

definition alg_Header :: "algorithm \<Rightarrow> string" where
  "alg_Header a = HeaderPrefix @ to_lower (alg_Name a)"

definition Computable :: "algorithm \<Rightarrow> bool" where
  "Computable a \<longleftrightarrow> alg_newHash a \<noteq> None"

definition algorithms :: "algorithm list" where
  "algorithms = [
    \<lparr> alg_Name = ''CRC32'', alg_newHash = Some crc32 \<rparr>,
    \<lparr> alg_Name = ''CRC32C'', alg_newHash = Some crc32c \<rparr>,
    \<lparr> alg_Name = ''CRC64NVME'', alg_newHash = Some crc64nvme \<rparr>,
    \<lparr> alg_Name = ''SHA1'', alg_newHash = Some sha1 \<rparr>,
    \<lparr> alg_Name = ''SHA256'', alg_newHash = Some sha256 \<rparr>,
    \<lparr> alg_Name = ''SHA512'', alg_newHash = Some sha512 \<rparr>,
    \<lparr> alg_Name = ''MD5'', alg_newHash = Some md5 \<rparr>,
    \<lparr> alg_Name = ''XXHASH64'', alg_newHash = None \<rparr>,
    \<lparr> alg_Name = ''XXHASH3'', alg_newHash = None \<rparr>,
    \<lparr> alg_Name = ''XXHASH128'', alg_newHash = None \<rparr>]"

definition checksum_Lookup :: "string \<Rightarrow> algorithm option" where
  "checksum_Lookup name = find (\<lambda>a. equal_fold (alg_Name a) name) algorithms"

text \<open>\<open>NewHash\<close> by name: the zero algorithm of a failed lookup has no hash.\<close>

definition NewHash :: "string \<Rightarrow> (string \<Rightarrow> string) option" where
  "NewHash name = (case checksum_Lookup name of None \<Rightarrow> None | Some a \<Rightarrow> alg_newHash a)"

definition checksum_Base64 :: "(string \<Rightarrow> string) \<Rightarrow> string \<Rightarrow> string" where
  "checksum_Base64 h written = base64_encode (h written)"

section \<open>Values and headers\<close>

type_synonym checksum_values = "(string \<times> string) list"

definition cv_get :: "checksum_values \<Rightarrow> string \<Rightarrow> string" where
  "cv_get v name = (case map_of v name of Some s \<Rightarrow> s | None \<Rightarrow> [])"

definition values_Algorithm :: "checksum_values \<Rightarrow> string" where
  "values_Algorithm v =
    (case find (\<lambda>a. cv_get v (alg_Name a) \<noteq> []) algorithms of Some a \<Rightarrow> alg_Name a | None \<Rightarrow> [])"

definition FromHeaders :: "header \<Rightarrow> checksum_values" where
  "FromHeaders h =
    List.map_filter (\<lambda>a. let s = header_get h (alg_Header a) in
      if s \<noteq> [] then Some (alg_Name a, s) else None) algorithms"

definition checksum_SetHeaders :: "header \<Rightarrow> checksum_values \<Rightarrow> string \<Rightarrow> header" where
  "checksum_SetHeaders h v checksumType =
    (let h1 = foldl (\<lambda>h a. let s = cv_get v (alg_Name a) in
         if s \<noteq> [] then header_set (alg_Header a) s h else h) h algorithms
     in if checksumType \<noteq> [] then header_set ''x-amz-checksum-type'' checksumType h1 else h1)"

definition ErrUnsupportedTrailer :: go_error where
  "ErrUnsupportedTrailer = Sentinel ''unsupported x-amz-trailer''"

text \<open>The loop over the declared trailers, with the algorithm found so far.\<close>

fun trailer_loop :: "string list \<Rightarrow> string \<Rightarrow> go_error + string" where
  "trailer_loop [] alg = Inr alg"
| "trailer_loop (t0 # ts) alg =
    (let t = to_lower (trim_space t0) in
     if t = [] then trailer_loop ts alg
     else (case cut_prefix t HeaderPrefix of
             None \<Rightarrow> Inl ErrUnsupportedTrailer
           | Some a \<Rightarrow> if NewHash a = None \<or> alg \<noteq> [] then Inl ErrUnsupportedTrailer
                       else trailer_loop ts a))"

definition TrailerAlgorithm :: "header \<Rightarrow> go_error + string" where
  "TrailerAlgorithm h = trailer_loop (str_split (CHR '','') (header_get h ''x-amz-trailer'')) []"

section \<open>The gateway's policy\<close>

text \<open>\<open>ChecksumSupport\<close> is an integer type with three named values.\<close>

definition ChecksumRefused :: int where "ChecksumRefused = 0"
definition ChecksumForwarded :: int where "ChecksumForwarded = 1"
definition ChecksumVerified :: int where "ChecksumVerified = 2"

lemmas support_defs = ChecksumRefused_def ChecksumForwarded_def ChecksumVerified_def

definition ChecksumSupport_String :: "int \<Rightarrow> string" where
  "ChecksumSupport_String s =
    (if s = ChecksumForwarded then ''forwarded'' else if s = ChecksumVerified then ''verified'' else ''refused'')"

definition defaultChecksumSupport :: "(string \<times> int) list" where
  "defaultChecksumSupport = [(''CRC32'', ChecksumVerified), (''CRC32C'', ChecksumVerified),
    (''CRC64NVME'', ChecksumVerified), (''SHA1'', ChecksumVerified), (''SHA256'', ChecksumVerified)]"

record checksum_policy =
  cp_byName :: "(string \<times> int) list"
  cp_byHeader :: "(string \<times> int) list"

text \<open>A missing key of a Go map reads as the zero value, \<open>ChecksumRefused\<close>.\<close>

definition support_get :: "(string \<times> int) list \<Rightarrow> string \<Rightarrow> int" where
  "support_get m k = (case map_of m k of Some s \<Rightarrow> s | None \<Rightarrow> ChecksumRefused)"

definition DefaultChecksumSupport :: "(string \<times> int) list" where
  "DefaultChecksumSupport =
    map (\<lambda>a. (alg_Name a, support_get defaultChecksumSupport (alg_Name a))) algorithms"

definition policy_add :: "string \<times> int \<Rightarrow> checksum_policy \<Rightarrow> go_error + checksum_policy" where
  "policy_add = (\<lambda>(name, s) p.
    case checksum_Lookup name of
      None \<Rightarrow> Inl (Errorf (Sprintf ''checksum support: %q is not an S3 checksum algorithm'' [FS name]) [])
    | Some a \<Rightarrow>
        guard_err (name \<noteq> alg_Name a)
          (Errorf (Sprintf ''checksum support: write %q as %q'' [FS name, FS (alg_Name a)]) [])
        (guard_err (s < ChecksumRefused \<or> ChecksumVerified < s)
          (Errorf (Sprintf ''checksum support: invalid support %d for %s'' [FI s, FS (alg_Name a)]) [])
        (guard_err (s = ChecksumVerified \<and> \<not> Computable a)
          (Errorf (Sprintf ''checksum support: %s cannot be verified by the gateway; offer it as forwarded''
            [FS (alg_Name a)]) [])
        (Inr \<lparr> cp_byName = assoc_set (alg_Name a) s (cp_byName p),
               cp_byHeader = assoc_set (alg_Header a) s (cp_byHeader p) \<rparr>))))"

definition newChecksumPolicy :: "(string \<times> int) list \<Rightarrow> go_error + checksum_policy" where
  "newChecksumPolicy m = fold_res policy_add m \<lparr> cp_byName = [], cp_byHeader = [] \<rparr>"

definition cp_support :: "checksum_policy \<Rightarrow> string \<Rightarrow> int" where
  "cp_support p name =
    support_get (cp_byName p) (case checksum_Lookup name of Some a \<Rightarrow> alg_Name a | None \<Rightarrow> [])"

definition knownHeader :: "checksum_policy \<Rightarrow> string \<Rightarrow> bool" where
  "knownHeader p lname \<longleftrightarrow> support_get (cp_byHeader p) lname \<noteq> ChecksumRefused"

definition offered :: "checksum_policy \<Rightarrow> checksum_values \<Rightarrow> checksum_values" where
  "offered p v = filter (\<lambda>(name, s). support_get (cp_byName p) name \<noteq> ChecksumRefused) v"

text \<open>\<open>checksumAlgorithm\<close>, on the value of the signed header; the empty string is no algorithm.\<close>

definition checksumAlgorithm :: "checksum_policy \<Rightarrow> string \<Rightarrow> s3error + string" where
  "checksumAlgorithm p v =
    (if v = [] then Inr []
     else
       (case checksum_Lookup v of
          None \<Rightarrow> Inl (s3err_New 400 ''InvalidRequest''
            (lit ''Value for x-amz-checksum-algorithm header is invalid.''))
        | Some a \<Rightarrow>
            if cp_support p (alg_Name a) = ChecksumRefused
            then Inl (NotImplemented (''checksum algorithm '' @ alg_Name a))
            else Inr (alg_Name a)))"

definition checkChecksums :: "checksum_policy \<Rightarrow> checksum_values \<Rightarrow> s3error + unit" where
  "checkChecksums p v =
    for_each (\<lambda>(name, s). if cp_support p name = ChecksumRefused
      then Inl (NotImplemented (''checksum algorithm '' @ name)) else Inr ()) v"

definition checkTrailer :: "checksum_policy \<Rightarrow> string \<Rightarrow> s3error + unit" where
  "checkTrailer p alg =
    (if alg \<noteq> [] \<and> cp_support p alg \<noteq> ChecksumVerified
     then Inl (s3err_New 501 ''NotImplemented'' (lit ''The trailer declared by x-amz-trailer is not supported.''))
     else Inr ())"

definition setChecksumHeaders :: "checksum_policy \<Rightarrow> header \<Rightarrow> checksum_values \<Rightarrow> string \<Rightarrow> header" where
  "setChecksumHeaders p h v checksumType = checksum_SetHeaders h (offered p v) checksumType"

definition reportAlgorithm :: "checksum_policy \<Rightarrow> string \<Rightarrow> string" where
  "reportAlgorithm p name =
    (if name = [] \<or> cp_support p name = ChecksumRefused then [] else name)"

definition reportAlgorithms :: "checksum_policy \<Rightarrow> string list \<Rightarrow> string list" where
  "reportAlgorithms p algs = filter (\<lambda>n. n \<noteq> []) (map (reportAlgorithm p) algs)"

section \<open>Facts\<close>

lemma NewHash_Nil: "NewHash [] = None"
proof -
  have "checksum_Lookup [] = None"
    unfolding checksum_Lookup_def algorithms_def by (simp add: equal_fold_def str_simps)
  then show ?thesis
    by (simp add: NewHash_def)
qed

text \<open>The declared trailers: trimmed, lower-cased, the empty ones skipped.\<close>

definition declared_trailers :: "header \<Rightarrow> string list" where
  "declared_trailers h =
    filter (\<lambda>t. t \<noteq> []) (map (\<lambda>t. to_lower (trim_space t))
      (str_split (CHR '','') (header_get h ''x-amz-trailer'')))"

lemma trailer_loop_iff:
  "trailer_loop ts alg = Inr a \<longleftrightarrow>
    (let ds = filter (\<lambda>t. t \<noteq> []) (map (\<lambda>t. to_lower (trim_space t)) ts) in
     ds = [] \<and> a = alg \<or> alg = [] \<and> ds = [HeaderPrefix @ a] \<and> NewHash a \<noteq> None)"
proof (induction ts arbitrary: alg)
  case (Cons t ts)
  show ?case
  proof (cases "to_lower (trim_space t) = []")
    case True
    then show ?thesis
      using Cons.IH by (simp add: Let_def)
  next
    case False
    show ?thesis
    proof (cases "cut_prefix (to_lower (trim_space t)) HeaderPrefix")
      case None
      then have "to_lower (trim_space t) \<noteq> HeaderPrefix @ a"
        using cut_prefix_Some_iff by (metis option.distinct(1))
      then show ?thesis
        using False None by (simp add: Let_def)
    next
      case (Some b)
      then have t: "to_lower (trim_space t) = HeaderPrefix @ b"
        by (simp add: cut_prefix_Some_iff)
      have "NewHash b \<noteq> None \<Longrightarrow> b \<noteq> []"
        using NewHash_Nil by blast
      then show ?thesis
        using False Some t Cons.IH [of b] by (auto simp: Let_def)
    qed
  qed
qed auto

text \<open>
  A trailer declaration is accepted exactly when it names nothing, or a single checksum header of an
  algorithm the gateway can compute; the algorithm is then the part of the name after the prefix.
\<close>

theorem TrailerAlgorithm_iff:
  "TrailerAlgorithm h = Inr alg \<longleftrightarrow>
    declared_trailers h = [] \<and> alg = [] \<or>
    declared_trailers h = [HeaderPrefix @ alg] \<and> NewHash alg \<noteq> None"
  using trailer_loop_iff [of _ "[]" alg] by (auto simp: TrailerAlgorithm_def declared_trailers_def Let_def)

lemma algorithms_names:
  "distinct (map alg_Name algorithms)" "distinct (map alg_Header algorithms)"
  "map (\<lambda>a. map_option alg_Name (checksum_Lookup (alg_Name a))) algorithms = map (\<lambda>a. Some (alg_Name a)) algorithms"
  by code_simp+

lemma algorithms_inj:
  assumes "a \<in> set algorithms" "b \<in> set algorithms"
  shows "alg_Name a = alg_Name b \<longleftrightarrow> a = b" "alg_Header a = alg_Header b \<longleftrightarrow> a = b"
  using assms algorithms_names(1,2) by (auto simp: distinct_map inj_on_eq_iff)

lemma checksum_Lookup_Some: "checksum_Lookup name = Some a \<Longrightarrow> a \<in> set algorithms"
  by (auto simp: checksum_Lookup_def find_Some_iff)

lemma checksum_Lookup_name:
  assumes "a \<in> set algorithms"
  shows "checksum_Lookup (alg_Name a) = Some a"
proof -
  have "map_option alg_Name (checksum_Lookup (alg_Name a)) = Some (alg_Name a)"
    using algorithms_names(3) assms by (metis (mono_tags, lifting) map_eq_conv)
  then show ?thesis
    using algorithms_inj(1) [OF _ assms] checksum_Lookup_Some by auto
qed

text \<open>What every policy built by \<open>newChecksumPolicy\<close> keeps.\<close>

definition cp_inv :: "checksum_policy \<Rightarrow> bool" where
  "cp_inv p \<longleftrightarrow>
    (\<forall>a\<in>set algorithms. support_get (cp_byName p) (alg_Name a) = support_get (cp_byHeader p) (alg_Header a) \<and>
      (support_get (cp_byName p) (alg_Name a) = ChecksumVerified \<longrightarrow> Computable a))"

lemma policy_add_inv:
  assumes "policy_add x p = Inr q" "cp_inv p"
  shows "cp_inv q"
proof -
  obtain name s where x: "x = (name, s)"
    by fastforce
  obtain a where a: "checksum_Lookup name = Some a" "a \<in> set algorithms"
      "s = ChecksumVerified \<longrightarrow> Computable a"
      "q = \<lparr> cp_byName = assoc_set (alg_Name a) s (cp_byName p),
             cp_byHeader = assoc_set (alg_Header a) s (cp_byHeader p) \<rparr>"
    using assms(1) x checksum_Lookup_Some by (auto simp: policy_add_def split: option.splits)
  have get: "support_get (assoc_set k s m) k' = (if k' = k then s else support_get m k')" for k k' m
    by (simp add: support_get_def map_of_assoc_set)
  show ?thesis
    using assms(2) a algorithms_inj [OF _ a(2)] by (simp add: cp_inv_def get)
qed

lemma newChecksumPolicy_inv: "newChecksumPolicy m = Inr p \<Longrightarrow> cp_inv p"
proof -
  have "fold_res policy_add m p0 = Inr p \<Longrightarrow> cp_inv p0 \<Longrightarrow> cp_inv p" for p0
    by (induction m arbitrary: p0) (auto intro: policy_add_inv)
  moreover have "cp_inv \<lparr> cp_byName = [], cp_byHeader = [] \<rparr>"
    by (simp add: cp_inv_def support_get_def support_defs)
  ultimately show "newChecksumPolicy m = Inr p \<Longrightarrow> cp_inv p"
    by (simp add: newChecksumPolicy_def)
qed

text \<open>
  In every accepted checksum policy the value header of an algorithm is known exactly when the
  algorithm is not refused, and a trailer that passes the trailer check is of an algorithm the gateway
  computes itself.
\<close>

theorem checksum_policy_consistent:
  assumes "newChecksumPolicy m = Inr p" "checksum_Lookup name = Some a"
  shows "(knownHeader p (alg_Header a) \<longleftrightarrow> cp_support p name \<noteq> ChecksumRefused) \<and>
    (name \<noteq> [] \<and> checkTrailer p name = Inr () \<longrightarrow> NewHash name \<noteq> None)"
  using newChecksumPolicy_inv [OF assms(1)] assms(2) checksum_Lookup_Some [OF assms(2)]
  by (auto simp: cp_inv_def knownHeader_def cp_support_def checkTrailer_def NewHash_def Computable_def)

theorem checksum_policy_consistent_witness:
  "\<exists>p a. newChecksumPolicy [(''SHA256'', ChecksumVerified)] = Inr p \<and> checksum_Lookup ''sha256'' = Some a \<and>
    (knownHeader p (alg_Header a) \<longleftrightarrow> cp_support p ''sha256'' \<noteq> ChecksumRefused)"
proof -
  have "\<not> isl (newChecksumPolicy [(''SHA256'', ChecksumVerified)])"
    "map_option alg_Name (checksum_Lookup ''sha256'') = Some ''SHA256''"
    by code_simp+
  then obtain p a where "newChecksumPolicy [(''SHA256'', ChecksumVerified)] = Inr p"
      "checksum_Lookup ''sha256'' = Some a"
    by (cases "newChecksumPolicy [(''SHA256'', ChecksumVerified)]") auto
  then show ?thesis
    using checksum_policy_consistent by blast
qed

end
