(* ===== verification/Go_Io.thy ===== *)
theory Go_Io
  imports S3err
begin

text \<open>
  The parts of Go's \<open>io\<close> the gateway uses: the errors of readers, the type of a reader over an outside state, and
  computations that consume a state and may fail, with the rules to compose them.
\<close>

definition EOF :: go_error where
  "EOF = Sentinel ''EOF''"

definition ErrUnexpectedEOF :: go_error where
  "ErrUnexpectedEOF = Sentinel ''unexpected EOF''"

lemma EOF_simps [simp]: "EOF \<noteq> ErrUnexpectedEOF" "EOF \<noteq> S3e e" "EOF \<noteq> Errorf t es"
  by (simp_all add: EOF_def ErrUnexpectedEOF_def)

lemmas EOF_simps' [simp] = EOF_simps [symmetric]

text \<open>A reader yields the bytes read and an error, for a buffer of the given length.\<close>

type_synonym 'w reader = "nat \<Rightarrow> 'w \<Rightarrow> string \<times> go_error option \<times> 'w"

text \<open>A computation that may fail; the state it leaves is kept in both cases.\<close>

type_synonym ('s, 'a) io = "'s \<Rightarrow> (go_error + 'a) \<times> 's"

definition io_return :: "'a \<Rightarrow> ('s, 'a) io" where
  "io_return x = (\<lambda>s. (Inr x, s))"

definition io_fail :: "go_error \<Rightarrow> ('s, 'a) io" where
  "io_fail e = (\<lambda>s. (Inl e, s))"

definition io_bind :: "('s, 'a) io \<Rightarrow> ('a \<Rightarrow> ('s, 'b) io) \<Rightarrow> ('s, 'b) io" where
  "io_bind m f = (\<lambda>s. case m s of (Inl e, s') \<Rightarrow> (Inl e, s') | (Inr x, s') \<Rightarrow> f x s')"

definition io_modify :: "('s \<Rightarrow> 's) \<Rightarrow> ('s, unit) io" where
  "io_modify f = (\<lambda>s. (Inr (), f s))"

lemma io_bind_Inr_iff:
  "io_bind m f s = (Inr y, s'') \<longleftrightarrow> (\<exists>x s'. m s = (Inr x, s') \<and> f x s' = (Inr y, s''))"
  by (auto simp: io_bind_def split: prod.splits sum.splits)

lemma io_simps [simp]: "io_return x s = (Inr x, s)" "io_fail e s = (Inl e, s)" "io_modify f s = (Inr (), f s)"
  by (simp_all add: io_return_def io_fail_def io_modify_def)

lemma io_bind_simps [simp]:
  "m s = (Inr x, s') \<Longrightarrow> io_bind m f s = f x s'"
  "m s = (Inl e, s') \<Longrightarrow> io_bind m f s = (Inl e, s')"
  by (simp_all add: io_bind_def)

end
