(* ===== verification/Chunked.thy ===== *)
theory Chunked
  imports Sigv4 Checksum Go_Io
begin

text \<open>
  Decoding of aws-chunked request bodies, \<open>src/sigv4/chunked.go\<close>. The body behind the \<open>bufio.Reader\<close> is the list of
  its remaining bytes and the error that follows them; how many bytes a single read returns is up to the network, so
  every read takes a choice.
\<close>

section \<open>The reader\<close>

definition streamingSHA256 :: string where
  "streamingSHA256 = ''STREAMING-AWS4-HMAC-SHA256-PAYLOAD''"

definition streamingUnsignedT :: string where
  "streamingUnsignedT = ''STREAMING-UNSIGNED-PAYLOAD-TRAILER''"

definition streamingSHA256T :: string where
  "streamingSHA256T = ''STREAMING-AWS4-HMAC-SHA256-PAYLOAD-TRAILER''"

definition IsStreaming :: "string \<Rightarrow> bool" where
  "IsStreaming payloadHash \<longleftrightarrow> payloadHash \<in> {streamingSHA256, streamingSHA256T, streamingUnsignedT}"

text \<open>
  A running hash is the list of the bytes written to it. \<open>cr_ckHash\<close> is the hash function of the declared trailer
  checksum, \<open>cr_ckData\<close> what was written to it.
\<close>

record chunkedReader =
  cr_inp :: string
  cr_fin :: go_error
  cr_signed :: bool
  cr_trailer :: bool
  cr_signingKey :: string
  cr_timestamp :: string
  cr_scope :: string
  cr_prevSig :: string
  cr_chunkSig :: string
  cr_chunkHash :: string
  cr_ckAlg :: string
  cr_ckHash :: "(string \<Rightarrow> string) option"
  cr_ckData :: string
  cr_ckSeen :: bool
  cr_remaining :: int
  cr_undecoded :: int
  cr_started :: bool
  cr_eof :: bool
  cr_err :: "go_error option"

definition incompleteBody :: "go_error \<Rightarrow> go_error" where
  "incompleteBody cause = S3e (WithCause (s3err_New 400 ''IncompleteBody''
    (lit ''You did not provide the number of bytes specified by the x-amz-decoded-content-length HTTP header.'')) cause)"

definition maxChunkLineLen :: nat where
  "maxChunkLineLen = 8 * 1024"

definition NewChunkedReader :: "string \<Rightarrow> go_error \<Rightarrow> verified \<Rightarrow> string \<Rightarrow> int \<Rightarrow> chunkedReader" where
  "NewChunkedReader body fin vr trailerAlg decodedLength =
    (let sgn = (ve_PayloadHash vr = streamingSHA256 \<or> ve_PayloadHash vr = streamingSHA256T);
         trl = has_suffix (ve_PayloadHash vr) ''-TRAILER'';
         ck = trl \<and> trailerAlg \<noteq> []
     in \<lparr> cr_inp = body, cr_fin = fin, cr_signed = sgn, cr_trailer = trl,
          cr_signingKey = (if sgn then ve_SigningKey vr else []),
          cr_timestamp = (if sgn then format_amz (ve_SigningTime vr) else []),
          cr_scope = (if sgn then ve_Scope vr else []),
          cr_prevSig = (if sgn then ve_Signature vr else []),
          cr_chunkSig = [], cr_chunkHash = [],
          cr_ckAlg = (if ck then trailerAlg else []),
          cr_ckHash = (if ck then NewHash trailerAlg else None),
          cr_ckData = [], cr_ckSeen = False,
          cr_remaining = 0, cr_undecoded = decodedLength, cr_started = False, cr_eof = False, cr_err = None \<rparr>)"

section \<open>Framing\<close>

abbreviation CRLF :: string where "CRLF \<equiv> [CHR 0x0D, CHR 0x0A]"

fun readLine_loop :: "go_error \<Rightarrow> string \<Rightarrow> string \<Rightarrow> (go_error + string) \<times> string" where
  "readLine_loop fin sb [] =
    (if fin = EOF \<and> sb \<noteq> [] then (Inr (trim_right sb CRLF), []) else (Inl fin, []))"
| "readLine_loop fin sb (b # bs) =
    (if b = CHR 0x0A then (Inr (trim_right sb CRLF), bs)
     else if maxChunkLineLen \<le> length sb
     then (Inl (Errorf (Sprintf ''chunk framing line exceeds %d bytes'' [FI (int maxChunkLineLen)]) []), bs)
     else readLine_loop fin (sb @ [b]) bs)"

definition readLine :: "(chunkedReader, string) io" where
  "readLine cr = (case readLine_loop (cr_fin cr) [] (cr_inp cr) of (res, rest) \<Rightarrow> (res, cr\<lparr> cr_inp := rest \<rparr>))"

definition readCRLF :: "(chunkedReader, unit) io" where
  "readCRLF cr =
    (case cr_inp cr of
       a # b # rest \<Rightarrow>
         (if a \<noteq> CHR 0x0D \<or> b \<noteq> CHR 0x0A then Inl (Errorf (lit ''malformed chunk: expected CRLF'') []) else Inr (),
          cr\<lparr> cr_inp := rest \<rparr>)
     | _ \<Rightarrow>
         (Inl (incompleteBody (if cr_fin cr = EOF then ErrUnexpectedEOF else cr_fin cr)), cr\<lparr> cr_inp := [] \<rparr>))"

definition truncateForError :: "string \<Rightarrow> string" where
  "truncateForError s = (if length s \<le> 64 then s else take 64 s @ ''...'')"

definition parseChunkHeader :: "string \<Rightarrow> (chunkedReader, int) io" where
  "parseChunkHeader line cr =
    (case str_cut (CHR '';'') line of
       (sizeStr, ext, hasExt) \<Rightarrow>
         (let bad = (Inl (Errorf (Sprintf ''malformed chunk size %q'' [FS (truncateForError sizeStr)]) []), cr) in
          case parse_int 16 sizeStr of
            None \<Rightarrow> bad
          | Some sz \<Rightarrow>
              if sz < 0 then bad
              else
                (case str_cut (CHR ''='') ext of
                   (name, val, _) \<Rightarrow>
                     if hasExt \<and> name \<noteq> ''chunk-signature''
                     then (Inl (Errorf (Sprintf ''unknown chunk extension %q'' [FS (truncateForError name)]) []),
                       cr\<lparr> cr_chunkSig := [] \<rparr>)
                     else
                       (let cr' = cr\<lparr> cr_chunkSig := (if hasExt then val else []) \<rparr> in
                        if cr_signed cr' \<and> cr_chunkSig cr' = []
                        then (Inl (Errorf (lit ''missing chunk signature'') []), cr')
                        else (Inr sz, cr')))))"

definition readChunkHeader :: "(chunkedReader, int) io" where
  "readChunkHeader cr =
    (case readLine cr of
       (Inl err, cr') \<Rightarrow> (Inl (if err = EOF then incompleteBody ErrUnexpectedEOF else err), cr')
     | (Inr line, cr') \<Rightarrow> parseChunkHeader line cr')"

section \<open>Verification\<close>

text \<open>The signature of a chunk with the given data, chained to the signature before it.\<close>

definition chunk_signature :: "string \<Rightarrow> string \<Rightarrow> string \<Rightarrow> string \<Rightarrow> string \<Rightarrow> string" where
  "chunk_signature k timestamp scp prev data =
    hex_encode (hmac_sha256 k (str_join NL [''AWS4-HMAC-SHA256-PAYLOAD'', timestamp, scp, prev,
      hex_encode (sha256 []), hex_encode (sha256 data)]))"

definition verifyChunk :: "(chunkedReader, unit) io" where
  "verifyChunk cr =
    (if \<not> cr_signed cr then (Inr (), cr)
     else if chunk_signature (cr_signingKey cr) (cr_timestamp cr) (cr_scope cr) (cr_prevSig cr) (cr_chunkHash cr) \<noteq>
       cr_chunkSig cr
     then (Inl (S3e SignatureDoesNotMatch), cr)
     else (Inr (), cr\<lparr> cr_prevSig := cr_chunkSig cr, cr_chunkHash := [] \<rparr>))"

definition missing_trailer :: "string \<Rightarrow> go_error" where
  "missing_trailer alg = S3e (s3err_New 400 ''BadDigest''
    (Sprintf ''The x-amz-checksum-%s trailer declared by x-amz-trailer is missing.'' [FS alg]))"

definition bad_trailer :: "string \<Rightarrow> go_error" where
  "bad_trailer alg = S3e (s3err_New 400 ''BadDigest''
    (Sprintf ''The %s you specified did not match the calculated checksum.'' [FS (map upper_char alg)]))"

text \<open>One trailer line: whether the declared checksum is seen, or the error of a wrong one.\<close>

definition check_trailer :: "chunkedReader \<Rightarrow> string \<Rightarrow> go_error + bool" where
  "check_trailer cr line =
    (case cr_ckHash cr of
       None \<Rightarrow> Inr (cr_ckSeen cr)
     | Some h \<Rightarrow>
         (case str_cut (CHR '':'') line of
            (name, val, ok) \<Rightarrow>
              if \<not> ok then Inr (cr_ckSeen cr)
              else if equal_fold (trim_space name) (HeaderPrefix @ cr_ckAlg cr) then
                (if trim_space val \<noteq> checksum_Base64 h (cr_ckData cr) then Inl (bad_trailer (cr_ckAlg cr)) else Inr True)
              else Inr (cr_ckSeen cr)))"

definition trailers_end :: "(chunkedReader, unit) io" where
  "trailers_end cr =
    (if cr_ckHash cr \<noteq> None \<and> \<not> cr_ckSeen cr then Inl (missing_trailer (cr_ckAlg cr)) else Inr (), cr)"

lemma readLine_loop_shorter:
  "readLine_loop fin sb inp = (Inr line, rest) \<Longrightarrow> length rest \<le> length inp \<and> (inp \<noteq> [] \<longrightarrow> length rest < length inp)"
  by (induction fin sb inp rule: readLine_loop.induct) (auto split: if_splits)

lemma readLine_shorter: "readLine cr = (Inr line, cr') \<Longrightarrow> length (cr_inp cr') < length (cr_inp cr)"
proof -
  assume "readLine cr = (Inr line, cr')"
  then have loop: "readLine_loop (cr_fin cr) [] (cr_inp cr) = (Inr line, cr_inp cr')"
    by (auto simp: readLine_def split: prod.splits)
  then have "cr_inp cr \<noteq> []"
    by (auto split: if_splits)
  then show ?thesis
    using readLine_loop_shorter [OF loop] by blast
qed

function trailer_lines :: "(chunkedReader, unit) io" where
  "trailer_lines cr =
    (case readLine cr of
       (Inl err, cr') \<Rightarrow> if err = EOF then trailers_end cr' else (Inl err, cr')
     | (Inr line, cr') \<Rightarrow>
         if line = [] then trailers_end cr'
         else
           (case check_trailer cr' line of
              Inl e \<Rightarrow> (Inl e, cr')
            | Inr seen \<Rightarrow> trailer_lines (cr'\<lparr> cr_ckSeen := seen \<rparr>)))"
  by pat_completeness auto
termination
  by (relation "measure (\<lambda>cr. length (cr_inp cr))") (auto dest!: sym [of "(_, _)"] readLine_shorter)

declare trailer_lines.simps [simp del]

definition discardTrailers :: "(chunkedReader, unit) io" where
  "discardTrailers cr = (if \<not> cr_trailer cr then (Inr (), snd (readCRLF cr)) else trailer_lines cr)"

section \<open>Reading\<close>

definition readTerminal :: "(chunkedReader, unit) io" where
  "readTerminal =
    io_bind readCRLF (\<lambda>_.
    io_bind readChunkHeader (\<lambda>sz.
    if sz \<noteq> 0
    then io_fail (Errorf (Sprintf ''chunk size %d exceeds the remaining x-amz-decoded-content-length 0'' [FI sz]) [])
    else
      io_bind verifyChunk (\<lambda>_.
      io_bind discardTrailers (\<lambda>_.
      io_modify (\<lambda>cr. cr\<lparr> cr_eof := True \<rparr>)))))"

text \<open>
  The head of the read loop, run when the current chunk is used up: the next chunk header. The loop runs it once, as
  a chunk that is not the last has bytes. \<open>True\<close> is the end of the stream.
\<close>

definition nextChunk :: "(chunkedReader, bool) io" where
  "nextChunk =
    io_bind (\<lambda>cr. if cr_started cr then readCRLF cr else (Inr (), cr)) (\<lambda>_.
    io_bind readChunkHeader (\<lambda>sz cr.
    let cr1 = cr\<lparr> cr_started := True \<rparr> in
    if cr_undecoded cr1 < sz
    then (Inl (Errorf (Sprintf ''chunk size %d exceeds the remaining x-amz-decoded-content-length %d''
      [FI sz, FI (cr_undecoded cr1)]) []), cr1)
    else
      (let cr2 = cr1\<lparr> cr_undecoded := cr_undecoded cr1 - sz \<rparr> in
       if sz = 0 then
         io_bind verifyChunk (\<lambda>_ cr.
         if cr_undecoded cr \<noteq> 0
         then (Inl (incompleteBody (Errorf (Sprintf ''stream complete with %d bytes of x-amz-decoded-content-length undelivered''
           [FI (cr_undecoded cr)]) [])), cr)
         else io_bind discardTrailers (\<lambda>_. io_bind (io_modify (\<lambda>cr. cr\<lparr> cr_eof := True \<rparr>)) (\<lambda>_. io_return True)) cr) cr2
       else (Inr False, cr2\<lparr> cr_remaining := sz \<rparr>))))"

text \<open>
  A read of the buffered body into a buffer of \<open>len\<close> bytes. The choice is how many bytes come at once, at least one if
  there are any, and whether the final error comes with the last of them.
\<close>

definition raw_read :: "nat \<Rightarrow> nat \<times> bool \<Rightarrow> chunkedReader \<Rightarrow> string \<times> go_error option \<times> chunkedReader" where
  "raw_read len ch cr =
    (let n = (if len = 0 \<or> cr_inp cr = [] then 0 else max 1 (min (fst ch) (min len (length (cr_inp cr)))))
     in (take n (cr_inp cr),
         if n = length (cr_inp cr) \<and> (snd ch \<or> len \<noteq> 0 \<and> n = 0) then Some (cr_fin cr) else None,
         cr\<lparr> cr_inp := drop n (cr_inp cr) \<rparr>))"

definition readData :: "nat \<Rightarrow> nat \<times> bool \<Rightarrow> chunkedReader \<Rightarrow> (string \<times> go_error option) \<times> chunkedReader" where
  "readData len ch cr =
    (case raw_read (min len (nat (cr_remaining cr))) ch cr of
       (data, err, cr0) \<Rightarrow>
         (let cr1 = cr0\<lparr> cr_remaining := cr_remaining cr0 - int (length data),
                cr_chunkHash := (if cr_signed cr0 then cr_chunkHash cr0 @ data else cr_chunkHash cr0),
                cr_ckData := (if cr_ckHash cr0 \<noteq> None then cr_ckData cr0 @ data else cr_ckData cr0) \<rparr>;
              err' = (if err = Some EOF \<and> 0 < cr_remaining cr1 then Some (incompleteBody ErrUnexpectedEOF) else err)
          in if err' \<noteq> None \<and> err' \<noteq> Some EOF then ((data, err'), cr1\<lparr> cr_err := err' \<rparr>)
             else if cr_remaining cr1 = 0 then
               (case io_bind verifyChunk (\<lambda>_ cr. if cr_undecoded cr = 0 then readTerminal cr else (Inr (), cr)) cr1 of
                  (Inl e, cr2) \<Rightarrow> (([], Some e), cr2\<lparr> cr_err := Some e \<rparr>)
                | (Inr _, cr2) \<Rightarrow> ((data, None), cr2))
             else ((data, None), cr1)))"

definition chunked_Read :: "nat \<Rightarrow> nat \<times> bool \<Rightarrow> chunkedReader \<Rightarrow> (string \<times> go_error option) \<times> chunkedReader" where
  "chunked_Read len ch cr =
    (case cr_err cr of
       Some e \<Rightarrow> (([], Some e), cr)
     | None \<Rightarrow>
         if cr_eof cr then (([], Some EOF), cr)
         else
           (case (if cr_remaining cr = 0 then nextChunk cr else (Inr False, cr)) of
              (Inl e, cr') \<Rightarrow> (([], Some e), cr'\<lparr> cr_err := Some e \<rparr>)
            | (Inr True, cr') \<Rightarrow> (([], Some EOF), cr')
            | (Inr False, cr') \<Rightarrow> readData len ch cr'))"

text \<open>A consumer that reads until an error, with the sizes of its buffers.\<close>

primrec chunked_reads :: "(nat \<times> nat \<times> bool) list \<Rightarrow> chunkedReader \<Rightarrow> string \<times> go_error option \<times> chunkedReader" where
  "chunked_reads [] cr = ([], None, cr)"
| "chunked_reads (q # qs) cr =
    (case chunked_Read (fst q) (snd q) cr of
       ((data, Some e), cr') \<Rightarrow> (data, Some e, cr')
     | ((data, None), cr') \<Rightarrow>
         (case chunked_reads qs cr' of (rest, e, cr'') \<Rightarrow> (data @ rest, e, cr'')))"

end
