(* ===== verification/Chunked_Sound.thy ===== *)
theory Chunked_Sound
  imports Chunked
begin

text \<open>
  What the aws-chunked reader guarantees: a body it delivers completely consists of chunks whose signatures form the
  chain seeded by the request's signature, and a declared trailer checksum was there and matched.
\<close>

section \<open>What the framing functions change\<close>

lemma trim_right_prefix: "prefix (trim_right s cs) s"
  unfolding trim_right_def by (metis rev_rev_ident suffix_dropWhile suffix_to_prefix)

lemma readLine_loop_spec:
  "readLine_loop fin sb inp = (res, rest) \<Longrightarrow> suffix rest inp \<and> (\<forall>line. res = Inr line \<longrightarrow> prefix line (sb @ inp))"
proof (induction fin sb inp rule: readLine_loop.induct)
  case (1 fin sb)
  then show ?case
    by (auto simp: trim_right_prefix split: if_splits)
next
  case (2 fin sb b bs)
  then show ?case
    by (auto simp: trim_right_prefix prefix_prefix suffix_Cons split: if_splits)
qed

lemma readLine_spec:
  assumes "readLine cr = (res, cr')"
  shows "\<exists>i. cr' = cr\<lparr> cr_inp := i \<rparr> \<and> suffix i (cr_inp cr)" "res = Inr line \<Longrightarrow> sublist line (cr_inp cr)"
  using assms by (auto simp: readLine_def dest: readLine_loop_spec split: prod.splits)

lemma readCRLF_spec:
  assumes "readCRLF cr = (res, cr')"
  shows "\<exists>i. cr' = cr\<lparr> cr_inp := i \<rparr> \<and> suffix i (cr_inp cr)" "res \<noteq> Inl EOF"
  using assms by (auto simp: readCRLF_def incompleteBody_def suffix_Cons split: list.splits if_splits)

lemma chunkSig_same: "\<exists>s. cr = cr\<lparr> cr_chunkSig := s \<rparr>"
  by (rule exI [of _ "cr_chunkSig cr"]) simp

lemma parseChunkHeader_spec:
  assumes "parseChunkHeader line cr = (res, cr')"
  shows "\<exists>s. cr' = cr\<lparr> cr_chunkSig := s \<rparr>" "res = Inr sz \<Longrightarrow> 0 \<le> sz" "res \<noteq> Inl EOF"
  using assms by (auto simp: parseChunkHeader_def Let_def intro: chunkSig_same split: prod.splits option.splits if_splits)

lemma readChunkHeader_spec:
  assumes "readChunkHeader cr = (res, cr')"
  shows "\<exists>i s. cr' = cr\<lparr> cr_inp := i, cr_chunkSig := s \<rparr> \<and> suffix i (cr_inp cr)"
    "res = Inr sz \<Longrightarrow> 0 \<le> sz" "res \<noteq> Inl EOF"
proof -
  obtain lres cr1 where line: "readLine cr = (lres, cr1)"
    by fastforce
  then obtain i where i: "cr1 = cr\<lparr> cr_inp := i \<rparr>" "suffix i (cr_inp cr)"
    using readLine_spec(1) by blast
  have "(\<exists>s. cr' = cr1\<lparr> cr_chunkSig := s \<rparr>) \<and> (\<forall>sz. res = Inr sz \<longrightarrow> 0 \<le> sz) \<and> res \<noteq> Inl EOF"
  proof (cases lres)
    case (Inl e)
    then show ?thesis
      using assms line by (auto simp: readChunkHeader_def incompleteBody_def intro: chunkSig_same split: if_splits)
  next
    case (Inr x)
    then have "parseChunkHeader x cr1 = (res, cr')"
      using assms line by (simp add: readChunkHeader_def)
    then show ?thesis
      using parseChunkHeader_spec by blast
  qed
  then show "\<exists>i s. cr' = cr\<lparr> cr_inp := i, cr_chunkSig := s \<rparr> \<and> suffix i (cr_inp cr)"
    "res = Inr sz \<Longrightarrow> 0 \<le> sz" "res \<noteq> Inl EOF"
    using i by auto
qed

text \<open>A declared trailer checksum that arrived in the body and matches the decoded payload.\<close>

definition trailer_matches :: "chunkedReader \<Rightarrow> string \<Rightarrow> bool" where
  "trailer_matches cr body \<longleftrightarrow>
    (\<exists>line name val h. sublist line body \<and> str_cut (CHR '':'') line = (name, val, True) \<and>
      equal_fold (trim_space name) (HeaderPrefix @ cr_ckAlg cr) \<and> cr_ckHash cr = Some h \<and>
      trim_space val = checksum_Base64 h (cr_ckData cr))"

lemma check_trailer_spec:
  "check_trailer cr line = Inr seen \<Longrightarrow> seen \<Longrightarrow> sublist line body \<Longrightarrow> cr_ckSeen cr \<or> trailer_matches cr body"
  by (auto simp: check_trailer_def trailer_matches_def split: option.splits prod.splits if_splits)

lemma check_trailer_error: "check_trailer cr line \<noteq> Inl EOF"
  by (auto simp: check_trailer_def bad_trailer_def split: option.splits prod.splits if_splits)
lemma trailer_matches_frame:
  "trailer_matches (cr\<lparr> cr_inp := i, cr_ckSeen := b \<rparr>) body = trailer_matches cr body"
  by (simp add: trailer_matches_def)

lemma trailer_matches_suffix: "trailer_matches cr i \<Longrightarrow> suffix i body \<Longrightarrow> trailer_matches cr body"
  unfolding trailer_matches_def by (meson sublist_order.order.trans suffix_imp_sublist)

lemma trailer_lines_spec:
  assumes "trailer_lines cr = (res, cr')"
  shows "res \<noteq> Inl EOF \<and>
    (\<exists>i b. cr' = cr\<lparr> cr_inp := i, cr_ckSeen := b \<rparr> \<and> suffix i (cr_inp cr) \<and>
      (b \<longrightarrow> cr_ckSeen cr \<or> trailer_matches cr (cr_inp cr)) \<and> (res = Inr () \<longrightarrow> cr_ckHash cr \<noteq> None \<longrightarrow> b))"
  using assms
proof (induction cr rule: trailer_lines.induct)
  case (1 cr)
  obtain lres cr1 where line: "readLine cr = (lres, cr1)"
    by fastforce
  then obtain i where i: "cr1 = cr\<lparr> cr_inp := i \<rparr>" "suffix i (cr_inp cr)"
    using readLine_spec(1) by blast
  have stop: ?case if "cr' = cr1" "res \<noteq> Inl EOF" "res = Inr () \<longrightarrow> cr_ckHash cr \<noteq> None \<longrightarrow> cr_ckSeen cr"
    using that i by (intro conjI exI [of _ i] exI [of _ "cr_ckSeen cr"]) auto
  have ends: ?case if "(res, cr') = trailers_end cr1"
    by (rule stop) (use that i(1) in \<open>auto simp: trailers_end_def missing_trailer_def split: if_splits\<close>)
  show ?case
  proof (cases lres)
    case (Inl e)
    then have "(res, cr') = (if e = EOF then trailers_end cr1 else (Inl e, cr1))"
      using "1.prems" line by (simp add: trailer_lines.simps [of cr])
    then show ?thesis
      using ends stop by (cases "e = EOF") simp_all
  next
    case (Inr x)
    show ?thesis
    proof (cases "x = []")
      case True
      then show ?thesis
        using "1.prems" line ends Inr by (simp add: trailer_lines.simps [of cr])
    next
      case False
      show ?thesis
      proof (cases "check_trailer cr1 x")
        case (Inl e)
        then show ?thesis
          using "1.prems" line \<open>lres = Inr x\<close> False check_trailer_error [of cr1 x]
          by (intro stop) (auto simp: trailer_lines.simps [of cr])
      next
        case chk: (Inr seen)
        then have "trailer_lines (cr1\<lparr> cr_ckSeen := seen \<rparr>) = (res, cr')"
          using "1.prems" line \<open>lres = Inr x\<close> False by (simp add: trailer_lines.simps [of cr])
        from "1.IH" [OF line [symmetric] \<open>lres = Inr x\<close> False chk this]
        obtain j b where j: "res \<noteq> Inl EOF" "cr' = cr\<lparr> cr_inp := j, cr_ckSeen := b \<rparr>" "suffix j i"
            "b \<longrightarrow> seen \<or> trailer_matches cr i" "res = Inr () \<longrightarrow> cr_ckHash cr \<noteq> None \<longrightarrow> b"
          using i(1) by (auto simp: trailer_matches_frame)
        have "seen \<longrightarrow> cr_ckSeen cr \<or> trailer_matches cr (cr_inp cr)"
          using check_trailer_spec [OF chk, of "cr_inp cr"] readLine_spec(2) [OF line] \<open>lres = Inr x\<close> i(1)
          by (auto simp: trailer_matches_def)
        then show ?thesis
          using j i(2) trailer_matches_suffix suffix_order.trans by blast
      qed
    qed
  qed
qed

lemma discardTrailers_spec:
  assumes "discardTrailers cr = (res, cr')"
  shows "res \<noteq> Inl EOF \<and>
    (\<exists>i b. cr' = cr\<lparr> cr_inp := i, cr_ckSeen := b \<rparr> \<and> suffix i (cr_inp cr) \<and>
      (b \<longrightarrow> cr_ckSeen cr \<or> trailer_matches cr (cr_inp cr)) \<and>
      (res = Inr () \<longrightarrow> cr_trailer cr \<longrightarrow> cr_ckHash cr \<noteq> None \<longrightarrow> b))"
proof (cases "cr_trailer cr")
  case True
  then show ?thesis
    using trailer_lines_spec assms by (simp add: discardTrailers_def)
next
  case False
  obtain cres cr1 where crlf: "readCRLF cr = (cres, cr1)"
    by fastforce
  then obtain i where i: "cr1 = cr\<lparr> cr_inp := i \<rparr>" "suffix i (cr_inp cr)"
    using readCRLF_spec(1) by blast
  then show ?thesis
    using assms False crlf by (intro conjI exI [of _ i] exI [of _ "cr_ckSeen cr"]) (auto simp: discardTrailers_def)
qed

section \<open>Signature chains\<close>

fun chain_ok :: "(string \<Rightarrow> string \<Rightarrow> string) \<Rightarrow> string \<Rightarrow> (string \<times> string) list \<Rightarrow> bool" where
  "chain_ok sg prev [] \<longleftrightarrow> True"
| "chain_ok sg prev ((data, s) # cs) \<longleftrightarrow> s = sg prev data \<and> chain_ok sg s cs"

fun chain_end :: "string \<Rightarrow> (string \<times> string) list \<Rightarrow> string" where
  "chain_end prev [] = prev"
| "chain_end prev ((data, s) # cs) = chain_end s cs"

lemma chain_append: "chain_ok sg prev (cs @ ds) \<longleftrightarrow> chain_ok sg prev cs \<and> chain_ok sg (chain_end prev cs) ds"
  "chain_end prev (cs @ ds) = chain_end (chain_end prev cs) ds"
  by (induction cs arbitrary: prev) auto

definition sg_of :: "chunkedReader \<Rightarrow> string \<Rightarrow> string \<Rightarrow> string" where
  "sg_of cr = chunk_signature (cr_signingKey cr) (cr_timestamp cr) (cr_scope cr)"

lemma verifyChunk_spec:
  assumes "verifyChunk cr = (res, cr')" "cr_signed cr"
  shows "res \<noteq> Inl EOF" "res = Inr () \<Longrightarrow> cr' = cr\<lparr> cr_prevSig := cr_chunkSig cr, cr_chunkHash := [] \<rparr> \<and>
    cr_chunkSig cr = sg_of cr (cr_prevSig cr) (cr_chunkHash cr)"
  using assms by (auto simp: verifyChunk_def sg_of_def split: if_splits)

section \<open>The state of decoding\<close>

definition same_config :: "chunkedReader \<Rightarrow> chunkedReader \<Rightarrow> bool" where
  "same_config cr0 cr \<longleftrightarrow> cr_signed cr = cr_signed cr0 \<and> cr_trailer cr = cr_trailer cr0 \<and> cr_ckAlg cr = cr_ckAlg cr0 \<and>
    cr_ckHash cr = cr_ckHash cr0 \<and> sg_of cr = sg_of cr0"

text \<open>Chunks verified so far, \<open>D\<close> delivered: the data of the verified chunks and of the current one.\<close>

definition verified_so_far :: "chunkedReader \<Rightarrow> string \<Rightarrow> string \<Rightarrow> string \<Rightarrow> bool" where
  "verified_so_far cr0 prev cur D \<longleftrightarrow>
    (\<exists>cs. chain_ok (sg_of cr0) (cr_prevSig cr0) cs \<and> chain_end (cr_prevSig cr0) cs = prev \<and>
      D = concat (map fst cs) @ cur)"

definition chunked_base :: "chunkedReader \<Rightarrow> string \<Rightarrow> int \<Rightarrow> string \<Rightarrow> chunkedReader \<Rightarrow> bool" where
  "chunked_base cr0 body len D cr \<longleftrightarrow>
    same_config cr0 cr \<and> cr_signed cr0 \<and> (cr_ckHash cr0 \<noteq> None \<longrightarrow> cr_trailer cr0) \<and>
    suffix (cr_inp cr) body \<and> 0 \<le> cr_remaining cr \<and> 0 \<le> cr_undecoded cr \<and> \<not> cr_ckSeen cr \<and>
    int (length D) + cr_remaining cr + cr_undecoded cr = len \<and>
    (cr_ckHash cr \<noteq> None \<longrightarrow> cr_ckData cr = D) \<and> verified_so_far cr0 (cr_prevSig cr) (cr_chunkHash cr) D"

definition decoding :: "chunkedReader \<Rightarrow> string \<Rightarrow> int \<Rightarrow> string \<Rightarrow> chunkedReader \<Rightarrow> bool" where
  "decoding cr0 body len D cr \<longleftrightarrow> chunked_base cr0 body len D cr \<and> (cr_remaining cr = 0 \<longrightarrow> cr_chunkHash cr = []) \<and>
    (cr_started cr \<and> cr_remaining cr = 0 \<longrightarrow> 0 < cr_undecoded cr) \<and> (0 < cr_remaining cr \<longrightarrow> cr_started cr) \<and> \<not> cr_eof cr \<and> cr_err cr = None"

text \<open>The whole body: every chunk verified, the terminal chunk included, and the declared checksum matched.\<close>

definition body_verified :: "chunkedReader \<Rightarrow> string \<Rightarrow> string \<Rightarrow> bool" where
  "body_verified cr0 body D \<longleftrightarrow>
    (\<exists>cs tsig. D = concat (map fst cs) \<and> chain_ok (sg_of cr0) (cr_prevSig cr0) (cs @ [([], tsig)])) \<and>
    (cr_ckHash cr0 \<noteq> None \<longrightarrow> trailer_matches (cr0\<lparr> cr_ckData := D \<rparr>) body)"

lemma terminal_verified:
  assumes base: "chunked_base cr0 body len D cr" "cr_chunkHash cr = []"
    and "verifyChunk cr = (Inr (), cr1)" "discardTrailers cr1 = (Inr (), cr2)"
  shows "body_verified cr0 body D"
proof -
  have cr1: "cr1 = cr\<lparr> cr_prevSig := cr_chunkSig cr, cr_chunkHash := [] \<rparr>" "cr_chunkSig cr = sg_of cr (cr_prevSig cr) []"
    using verifyChunk_spec(2) [OF assms(3)] base by (auto simp: chunked_base_def same_config_def)
  obtain cs where cs: "chain_ok (sg_of cr0) (cr_prevSig cr0) cs" "chain_end (cr_prevSig cr0) cs = cr_prevSig cr"
      "D = concat (map fst cs)"
    using base by (auto simp: chunked_base_def verified_so_far_def)
  have "chain_ok (sg_of cr0) (cr_prevSig cr0) (cs @ [([], cr_chunkSig cr)])"
    using cs cr1(2) base(1) by (simp add: chain_append chunked_base_def same_config_def)
  moreover have "trailer_matches (cr0\<lparr> cr_ckData := D \<rparr>) body" if "cr_ckHash cr0 \<noteq> None"
  proof -
    have "trailer_matches cr1 (cr_inp cr1)"
      using discardTrailers_spec [OF assms(4)] that base(1) cr1(1)
      by (auto simp: chunked_base_def same_config_def)
    then have "trailer_matches cr1 body"
      using trailer_matches_suffix base(1) cr1(1) by (auto simp: chunked_base_def)
    then show ?thesis
      using that base(1) cr1(1) by (simp add: trailer_matches_def chunked_base_def same_config_def)
  qed
  ultimately show ?thesis
    using cs(3) by (auto simp: body_verified_def)
qed

lemma sg_of_frame [simp]: "sg_of (cr\<lparr> cr_inp := i \<rparr>) = sg_of cr" "sg_of (cr\<lparr> cr_chunkSig := s \<rparr>) = sg_of cr"
  "sg_of (cr\<lparr> cr_started := b \<rparr>) = sg_of cr" "sg_of (cr\<lparr> cr_undecoded := u \<rparr>) = sg_of cr"
  "sg_of (cr\<lparr> cr_remaining := u \<rparr>) = sg_of cr" "sg_of (cr\<lparr> cr_prevSig := s \<rparr>) = sg_of cr"
  "sg_of (cr\<lparr> cr_chunkHash := s \<rparr>) = sg_of cr" "sg_of (cr\<lparr> cr_ckData := s \<rparr>) = sg_of cr"
  by (simp_all add: sg_of_def)

lemma chunked_base_frame:
  assumes "chunked_base cr0 body len D cr"
  shows "suffix i (cr_inp cr) \<Longrightarrow> chunked_base cr0 body len D (cr\<lparr> cr_inp := i \<rparr>)"
    "chunked_base cr0 body len D (cr\<lparr> cr_chunkSig := s \<rparr>)" "chunked_base cr0 body len D (cr\<lparr> cr_started := b \<rparr>)"
  using assms suffix_order.trans by (auto simp: chunked_base_def same_config_def)

lemma readTerminal_spec:
  assumes "chunked_base cr0 body len D cr" "cr_chunkHash cr = []" "readTerminal cr = (res, cr')"
  shows "res \<noteq> Inl EOF" "res = Inr () \<Longrightarrow> body_verified cr0 body D \<and> cr_eof cr' \<and> cr_err cr' = cr_err cr"
proof -
  obtain r1 cr1 where 1: "readCRLF cr = (r1, cr1)"
    by fastforce
  then obtain i where i: "cr1 = cr\<lparr> cr_inp := i \<rparr>" "suffix i (cr_inp cr)"
    using readCRLF_spec(1) by blast
  obtain r2 cr2 where 2: "readChunkHeader cr1 = (r2, cr2)"
    by fastforce
  then obtain j s where j: "cr2 = cr1\<lparr> cr_inp := j, cr_chunkSig := s \<rparr>" "suffix j (cr_inp cr1)"
    using readChunkHeader_spec(1) by blast
  obtain r3 cr3 where 3: "verifyChunk cr2 = (r3, cr3)"
    by fastforce
  obtain r4 cr4 where 4: "discardTrailers cr3 = (r4, cr4)"
    by fastforce
  have base: "chunked_base cr0 body len D cr2" "cr_chunkHash cr2 = []" "cr_signed cr2"
    using chunked_base_frame [OF chunked_base_frame(1) [OF assms(1) i(2)]] assms(2) i j
    by (auto simp: chunked_base_def same_config_def)
  have chain: "readTerminal cr = (case r1 of Inl e \<Rightarrow> (Inl e, cr1) | Inr _ \<Rightarrow> (case r2 of Inl e \<Rightarrow> (Inl e, cr2) | Inr sz \<Rightarrow>
      if sz \<noteq> 0 then (Inl (Errorf (Sprintf ''chunk size %d exceeds the remaining x-amz-decoded-content-length 0'' [FI sz]) []), cr2)
      else (case r3 of Inl e \<Rightarrow> (Inl e, cr3) | Inr _ \<Rightarrow> (case r4 of Inl e \<Rightarrow> (Inl e, cr4) | Inr _ \<Rightarrow> (Inr (), cr4\<lparr> cr_eof := True \<rparr>)))))"
    using 1 2 3 4 by (auto simp: readTerminal_def io_bind_def split: sum.splits)
  show "res \<noteq> Inl EOF"
    using assms(3) chain readCRLF_spec(2) [OF 1] readChunkHeader_spec(3) [OF 2] verifyChunk_spec(1) [OF 3 base(3)]
      discardTrailers_spec [OF 4] by (auto split: sum.splits if_splits)
  have "cr_err cr4 = cr_err cr" if "r3 = Inr ()"
    using verifyChunk_spec(2) [OF 3 base(3) that] discardTrailers_spec [OF 4] i(1) j(1) by auto
  then show "res = Inr () \<Longrightarrow> body_verified cr0 body D \<and> cr_eof cr' \<and> cr_err cr' = cr_err cr"
    using assms(3) chain terminal_verified [OF base(1,2)] 3 4 by (auto split: sum.splits if_splits)
qed

lemma nextChunk_spec:
  assumes dec: "decoding cr0 body len D cr" "cr_remaining cr = 0" and "nextChunk cr = (res, cr')"
  shows "res \<noteq> Inl EOF" "res = Inr True \<Longrightarrow> body_verified cr0 body D \<and> int (length D) = len"
    "res = Inr False \<Longrightarrow> chunked_base cr0 body len D cr' \<and> 0 < cr_remaining cr' \<and> cr_started cr' \<and> \<not> cr_eof cr' \<and> cr_err cr' = None"
proof -
  obtain r1 cr1 where 1: "(if cr_started cr then readCRLF cr else (Inr (), cr)) = (r1, cr1)"
    by fastforce
  then have "r1 \<noteq> Inl EOF" "\<exists>i. cr1 = cr\<lparr> cr_inp := i \<rparr> \<and> suffix i (cr_inp cr)"
    using readCRLF_spec [of cr r1 cr1] by (cases "cr_started cr"; auto intro: exI [of _ "cr_inp cr"])+
  then obtain i where i: "r1 \<noteq> Inl EOF" "cr1 = cr\<lparr> cr_inp := i \<rparr>" "suffix i (cr_inp cr)"
    by blast
  obtain r2 cr2 where 2: "readChunkHeader cr1 = (r2, cr2)"
    by fastforce
  then obtain j s where j: "cr2 = cr1\<lparr> cr_inp := j, cr_chunkSig := s \<rparr>" "suffix j (cr_inp cr1)"
    using readChunkHeader_spec(1) by blast
  define cr3 where "cr3 sz = cr2\<lparr> cr_started := True, cr_undecoded := cr_undecoded cr2 - sz \<rparr>" for sz
  have base: "chunked_base cr0 body len D cr2" "cr_chunkHash cr2 = []" "cr_signed cr2" "\<not> cr_eof cr2" "cr_err cr2 = None"
      "cr_remaining cr2 = 0" "cr_undecoded cr2 = cr_undecoded cr"
  proof -
    have dbase: "chunked_base cr0 body len D cr" "cr_chunkHash cr = []" "\<not> cr_eof cr" "cr_err cr = None"
      using dec by (simp_all add: decoding_def)
    then show "chunked_base cr0 body len D cr2"
      using chunked_base_frame(2) [OF chunked_base_frame(1) [OF chunked_base_frame(1) [OF dbase(1) i(3), folded i(2)] j(2)]] j(1)
      by simp
    show "cr_chunkHash cr2 = []" "\<not> cr_eof cr2" "cr_err cr2 = None" "cr_remaining cr2 = 0" "cr_undecoded cr2 = cr_undecoded cr"
      using dbase(2-4) dec(2) i(2) j(1) by simp_all
    show "cr_signed cr2"
      using dbase(1) i(2) j(1) by (simp add: chunked_base_def same_config_def)
  qed
  have base3: "chunked_base cr0 body len D (cr3 0)" "cr_chunkHash (cr3 0) = []" "cr_signed (cr3 0)"
    using base(1-3) by (simp_all add: cr3_def chunked_base_frame)
  obtain r4 cr4 where 4: "verifyChunk (cr3 0) = (r4, cr4)"
    by fastforce
  obtain r5 cr5 where 5: "discardTrailers cr4 = (r5, cr5)"
    by fastforce
  have chain: "nextChunk cr = (case r1 of Inl e \<Rightarrow> (Inl e, cr1) | Inr _ \<Rightarrow> (case r2 of Inl e \<Rightarrow> (Inl e, cr2) | Inr sz \<Rightarrow>
      if cr_undecoded cr2 < sz
      then (Inl (Errorf (Sprintf ''chunk size %d exceeds the remaining x-amz-decoded-content-length %d'' [FI sz, FI (cr_undecoded cr2)]) []),
        cr2\<lparr> cr_started := True \<rparr>)
      else if sz \<noteq> 0 then (Inr False, (cr3 sz)\<lparr> cr_remaining := sz \<rparr>)
      else (case r4 of Inl e \<Rightarrow> (Inl e, cr4) | Inr _ \<Rightarrow>
        if cr_undecoded cr4 \<noteq> 0
        then (Inl (incompleteBody (Errorf (Sprintf ''stream complete with %d bytes of x-amz-decoded-content-length undelivered''
          [FI (cr_undecoded cr4)]) [])), cr4)
        else (case r5 of Inl e \<Rightarrow> (Inl e, cr5) | Inr _ \<Rightarrow> (Inr True, cr5\<lparr> cr_eof := True \<rparr>)))))"
    using 1 2 4 5 by (auto simp: nextChunk_def io_bind_def Let_def cr3_def split: sum.splits)
  show "res \<noteq> Inl EOF"
    using assms(3) chain i(1) readChunkHeader_spec(3) [OF 2] verifyChunk_spec(1) [OF 4 base3(3)] discardTrailers_spec [OF 5]
    by (auto simp: incompleteBody_def split: sum.splits if_splits)
  have und: "cr_undecoded cr4 = cr_undecoded cr" if "r4 = Inr ()"
    using verifyChunk_spec(2) [OF 4 base3(3) that] base(7) by (simp add: cr3_def)
  show "res = Inr True \<Longrightarrow> body_verified cr0 body D \<and> int (length D) = len"
    using assms(3) chain terminal_verified [OF base3(1,2)] 4 5 und dec
    by (auto simp: decoding_def chunked_base_def split: sum.splits if_splits)
  have "chunked_base cr0 body len D ((cr3 sz)\<lparr> cr_remaining := sz \<rparr>)" if "0 \<le> sz" "sz \<le> cr_undecoded cr2" for sz
    using base(1,6) that by (auto simp: chunked_base_def same_config_def cr3_def)
  then show "res = Inr False \<Longrightarrow>
      chunked_base cr0 body len D cr' \<and> 0 < cr_remaining cr' \<and> cr_started cr' \<and> \<not> cr_eof cr' \<and> cr_err cr' = None"
    using assms(3) chain readChunkHeader_spec(2) [OF 2] base(4,5)
    by (force simp: cr3_def split: sum.splits if_splits)
qed

lemma chunk_done:
  assumes "chunked_base cr0 body len D cr" "verifyChunk cr = (Inr (), cr')"
  shows "chunked_base cr0 body len D cr' \<and> cr_chunkHash cr' = []"
proof -
  have sgn: "cr_signed cr"
    using assms(1) by (simp add: chunked_base_def same_config_def)
  have cr': "cr' = cr\<lparr> cr_prevSig := cr_chunkSig cr, cr_chunkHash := [] \<rparr>"
      "cr_chunkSig cr = sg_of cr (cr_prevSig cr) (cr_chunkHash cr)"
    using verifyChunk_spec(2) [OF assms(2) sgn] by simp_all
  obtain cs where cs: "chain_ok (sg_of cr0) (cr_prevSig cr0) cs" "chain_end (cr_prevSig cr0) cs = cr_prevSig cr"
      "D = concat (map fst cs) @ cr_chunkHash cr"
    using assms(1) by (auto simp: chunked_base_def verified_so_far_def)
  have "verified_so_far cr0 (cr_chunkSig cr) [] D"
    using cs cr'(2) assms(1) unfolding verified_so_far_def
    by (intro exI [of _ "cs @ [(cr_chunkHash cr, cr_chunkSig cr)]"]) (simp add: chain_append chunked_base_def same_config_def)
  then show ?thesis
    using assms(1) cr'(1) by (simp add: chunked_base_def same_config_def)
qed

lemma raw_read_spec:
  assumes "raw_read len ch cr = (data, err, cr')"
  shows "length data \<le> len" "\<exists>i. cr' = cr\<lparr> cr_inp := i \<rparr> \<and> suffix i (cr_inp cr)"
  using assms by (auto simp: raw_read_def Let_def suffix_drop intro: exI [of _ "cr_inp cr"] split: if_splits)

lemma chunked_base_data:
  assumes "chunked_base cr0 body len D cr" "int (length data) \<le> cr_remaining cr"
  shows "chunked_base cr0 body len (D @ data) (cr\<lparr> cr_remaining := cr_remaining cr - int (length data),
    cr_chunkHash := (if cr_signed cr then cr_chunkHash cr @ data else cr_chunkHash cr),
    cr_ckData := (if cr_ckHash cr \<noteq> None then cr_ckData cr @ data else cr_ckData cr) \<rparr>)"
  using assms by (auto simp: chunked_base_def same_config_def verified_so_far_def)

lemma readData_spec:
  assumes "chunked_base cr0 body L D cr" "0 < cr_remaining cr" "cr_started cr" "\<not> cr_eof cr" "cr_err cr = None"
    "readData len ch cr = ((data, e), cr')"
  shows "e \<noteq> Some EOF" "e = None \<Longrightarrow> decoding cr0 body L (D @ data) cr' \<and> cr_started cr' \<or>
    cr_eof cr' \<and> cr_err cr' = None \<and> body_verified cr0 body (D @ data) \<and> int (length (D @ data)) = L"
proof -
  obtain d err cr1 where raw: "raw_read (min len (nat (cr_remaining cr))) ch cr = (d, err, cr1)"
    using prod_cases3 by blast
  have len: "int (length d) \<le> cr_remaining cr"
    using raw_read_spec(1) [OF raw] assms(2) by linarith
  obtain i where i: "cr1 = cr\<lparr> cr_inp := i \<rparr>" "suffix i (cr_inp cr)"
    using raw_read_spec(2) [OF raw] by blast
  define cr2 where "cr2 = cr1\<lparr> cr_remaining := cr_remaining cr1 - int (length d),
      cr_chunkHash := (if cr_signed cr1 then cr_chunkHash cr1 @ d else cr_chunkHash cr1),
      cr_ckData := (if cr_ckHash cr1 \<noteq> None then cr_ckData cr1 @ d else cr_ckData cr1) \<rparr>"
  define err' where "err' = (if err = Some EOF \<and> 0 < cr_remaining cr2 then Some (incompleteBody ErrUnexpectedEOF) else err)"
  have base: "chunked_base cr0 body L (D @ d) cr2"
    unfolding cr2_def by (rule chunked_base_data) (use chunked_base_frame(1) [OF assms(1) i(2)] i(1) len in simp_all)
  have keep: "cr_started cr2" "\<not> cr_eof cr2" "cr_err cr2 = None"
    using assms(3-5) i(1) by (simp_all add: cr2_def)
  have sgn: "cr_signed cr2"
    using base by (simp add: chunked_base_def same_config_def)
  obtain r3 cr3 where 3: "verifyChunk cr2 = (r3, cr3)"
    by fastforce
  obtain r4 cr4 where 4: "readTerminal cr3 = (r4, cr4)"
    by fastforce
  have verify: "io_bind verifyChunk (\<lambda>_ cr. if cr_undecoded cr = 0 then readTerminal cr else (Inr (), cr)) cr2 =
      (case r3 of Inl e \<Rightarrow> (Inl e, cr3) | Inr _ \<Rightarrow> if cr_undecoded cr3 = 0 then (r4, cr4) else (Inr (), cr3))"
    using 3 4 by (cases r3) simp_all
  have eq: "((data, e), cr') =
      (if err' \<noteq> None \<and> err' \<noteq> Some EOF then ((d, err'), cr2\<lparr> cr_err := err' \<rparr>)
       else if cr_remaining cr2 = 0 then
         (case (case r3 of Inl e \<Rightarrow> (Inl e, cr3) | Inr _ \<Rightarrow> if cr_undecoded cr3 = 0 then (r4, cr4) else (Inr (), cr3)) of
            (Inl e, cr2) \<Rightarrow> (([], Some e), cr2\<lparr> cr_err := Some e \<rparr>)
          | (Inr _, cr2) \<Rightarrow> ((d, None), cr2))
       else ((d, None), cr2))"
    using assms(6) unfolding readData_def raw prod.case Let_def cr2_def [symmetric] err'_def [symmetric] verify by simp
  have fin3: "chunked_base cr0 body L (D @ d) cr3 \<and> cr_chunkHash cr3 = []" if "r3 = Inr ()"
    using chunk_done [OF base] 3 that by simp
  have keep3: "cr3 = cr2\<lparr> cr_prevSig := cr_chunkSig cr2, cr_chunkHash := [] \<rparr>" if "r3 = Inr ()"
    using verifyChunk_spec(2) [OF 3 sgn that] by simp
  show "e \<noteq> Some EOF"
    using eq verifyChunk_spec(1) [OF 3 sgn] readTerminal_spec(1) [OF _ _ 4] fin3
    by (auto split: sum.splits if_splits)
  show "e = None \<Longrightarrow> decoding cr0 body L (D @ data) cr' \<and> cr_started cr' \<or>
      cr_eof cr' \<and> cr_err cr' = None \<and> body_verified cr0 body (D @ data) \<and> int (length (D @ data)) = L"
  proof -
    assume e: "e = None"
    consider (more) "cr_remaining cr2 \<noteq> 0" "data = d" "cr' = cr2"
      | (chunk) "cr_remaining cr2 = 0" "r3 = Inr ()" "cr_undecoded cr3 \<noteq> 0" "data = d" "cr' = cr3"
      | (full) "cr_remaining cr2 = 0" "r3 = Inr ()" "cr_undecoded cr3 = 0" "r4 = Inr ()" "data = d" "cr' = cr4"
      using eq e by (auto split: sum.splits if_splits)
    then show ?thesis
    proof cases
      case more
      then show ?thesis
        using base keep by (simp add: decoding_def)
    next
      case chunk
      then have "0 < cr_undecoded cr3"
        using fin3 by (simp add: chunked_base_def)
      then show ?thesis
        using chunk fin3 keep keep3 by (simp add: decoding_def)
    next
      case full
      then have "int (length (D @ d)) = L"
        using fin3 keep3 by (simp add: chunked_base_def)
      moreover have "cr_err cr3 = None"
        using full keep(3) keep3 by simp
      ultimately show ?thesis
        using full readTerminal_spec(2) [OF _ _ 4] fin3 by auto
    qed
  qed
qed

section \<open>A sequence of reads\<close>

text \<open>What a read says: at the end of the stream, and otherwise as long as it does not fail.\<close>

definition read_ok :: "chunkedReader \<Rightarrow> string \<Rightarrow> int \<Rightarrow> string \<Rightarrow> string \<Rightarrow> go_error option \<Rightarrow> chunkedReader \<Rightarrow> bool" where
  "read_ok cr0 body L D data e cr' \<longleftrightarrow>
    (e = Some EOF \<longrightarrow> data = [] \<and> body_verified cr0 body D \<and> int (length D) = L) \<and>
    (e = None \<longrightarrow> decoding cr0 body L (D @ data) cr' \<and> cr_started cr' \<or>
      cr_eof cr' \<and> cr_err cr' = None \<and> body_verified cr0 body (D @ data) \<and> int (length (D @ data)) = L)"

lemma readData_ok:
  assumes "chunked_base cr0 body L D cr \<and> 0 < cr_remaining cr \<and> cr_started cr \<and> \<not> cr_eof cr \<and> cr_err cr = None"
    "readData len ch cr = ((data, e), cr')"
  shows "read_ok cr0 body L D data e cr'"
  unfolding read_ok_def using readData_spec [of cr0 body L D cr len ch data e cr'] assms by auto

lemma chunked_Read_ok:
  assumes "decoding cr0 body L D cr" "chunked_Read len ch cr = ((data, e), cr')"
  shows "read_ok cr0 body L D data e cr'"
proof -
  have dec: "cr_err cr = None" "\<not> cr_eof cr"
    using assms(1) by (simp_all add: decoding_def)
  show ?thesis
  proof (cases "cr_remaining cr = 0")
    case True
    obtain r1 cr1 where 1: "nextChunk cr = (r1, cr1)"
      by fastforce
    note spec1 = nextChunk_spec [OF assms(1) True 1]
    have eq: "((data, e), cr') = (case r1 of Inl e \<Rightarrow> (([], Some e), cr1\<lparr> cr_err := Some e \<rparr>)
        | Inr b \<Rightarrow> if b then (([], Some EOF), cr1) else readData len ch cr1)"
      using assms(2) dec True 1 by (auto simp: chunked_Read_def split: sum.splits)
    show ?thesis
    proof (cases "r1 = Inr False")
      case True
      then show ?thesis
        using readData_ok [OF spec1(3) [OF True]] eq by simp
    next
      case False
      then show ?thesis
        using eq spec1(1,2) by (auto simp: read_ok_def split: sum.splits if_splits)
    qed
  next
    case False
    then have "readData len ch cr = ((data, e), cr')"
      "chunked_base cr0 body L D cr \<and> 0 < cr_remaining cr \<and> cr_started cr \<and> \<not> cr_eof cr \<and> cr_err cr = None"
      using assms dec by (auto simp: chunked_Read_def decoding_def chunked_base_def)
    then show ?thesis
      using readData_ok by blast
  qed
qed

lemma started_incomplete: "decoding cr0 body L D cr \<Longrightarrow> cr_started cr \<Longrightarrow> int (length D) < L"
  by (cases "cr_remaining cr = 0") (auto simp: decoding_def chunked_base_def)

lemma chunked_reads_spec:
  assumes "decoding cr0 body L D cr \<or> cr_eof cr \<and> cr_err cr = None \<and> body_verified cr0 body D \<and> int (length D) = L"
    "chunked_reads qs cr = (data, e, cr')" "e = None \<or> e = Some EOF"
    "e = Some EOF \<or> int (length (D @ data)) = L \<and> (qs = [] \<longrightarrow> cr_started cr \<or> cr_eof cr)"
  shows "body_verified cr0 body (D @ data) \<and> int (length (D @ data)) = L"
  using assms
proof (induction qs arbitrary: D cr data)
  case Nil
  then show ?case
    using started_incomplete [of cr0 body L D cr] by (auto simp: decoding_def)
next
  case (Cons q qs)
  obtain d e1 cr1 where 1: "chunked_Read (fst q) (snd q) cr = ((d, e1), cr1)"
    by (metis prod.exhaust)
  have finished: "cr_err cr = None \<Longrightarrow> cr_eof cr \<Longrightarrow> d = [] \<and> e1 = Some EOF"
    using 1 by (simp add: chunked_Read_def)
  show ?case
  proof (cases e1)
    case None
    obtain rest where 2: "chunked_reads qs cr1 = (rest, e, cr')" "data = d @ rest"
      using Cons.prems(2) 1 None by (auto split: prod.splits)
    have "decoding cr0 body L D cr"
      using Cons.prems(1) finished None by auto
    then have 3: "decoding cr0 body L (D @ d) cr1 \<and> cr_started cr1 \<or>
        cr_eof cr1 \<and> cr_err cr1 = None \<and> body_verified cr0 body (D @ d) \<and> int (length (D @ d)) = L"
      using chunked_Read_ok [OF _ 1] None unfolding read_ok_def by simp
    have "body_verified cr0 body ((D @ d) @ rest) \<and> int (length ((D @ d) @ rest)) = L"
      by (rule Cons.IH [OF _ 2(1) Cons.prems(3)]) (use 3 Cons.prems(4) 2(2) in auto)
    then show ?thesis
      using 2(2) by simp
  next
    case (Some e')
    then have e: "e = Some EOF" "data = d" "e1 = Some EOF"
      using Cons.prems(2,3) 1 by auto
    have "d = [] \<and> body_verified cr0 body D \<and> int (length D) = L"
    proof (cases "decoding cr0 body L D cr")
      case True
      then show ?thesis
        using chunked_Read_ok [OF True 1] e(3) unfolding read_ok_def by simp
    next
      case False
      then show ?thesis
        using Cons.prems(1) finished by blast
    qed
    then show ?thesis
      using e by simp
  qed
qed

end
