(* ===== verification/Chunked_Complete.thy ===== *)
theory Chunked_Complete
  imports Chunked_Sound
begin

text \<open>
  The other direction: a body a client frames and signs chunk by chunk is decoded to its payload, whatever the sizes of
  the reads and of what the network delivers.
\<close>

section \<open>Hexadecimal sizes\<close>

fun format_hex :: "nat \<Rightarrow> string" where
  "format_hex n = (if n < 16 then [hex_digit n] else format_hex (n div 16) @ [hex_digit (n mod 16)])"

declare format_hex.simps [simp del]

lemma digit_val_hex: "n < 16 \<Longrightarrow> digit_val 16 (hex_digit n) = Some n"
  by (auto simp: digit_val_def hex_digit_def Let_def of_char_of)

lemma digits_val_append: "digits_val base acc (s @ t) =
    (case digits_val base acc s of Some a \<Rightarrow> digits_val base a t | None \<Rightarrow> None)"
  by (induction base acc s rule: digits_val.induct) (auto split: option.splits)

lemma digits_val_format_hex: "digits_val 16 0 (format_hex n) = Some n"
proof (induction n rule: format_hex.induct)
  case (1 n)
  then show ?case
    by (cases "n < 16") (auto simp: format_hex.simps [of n] digits_val_append digit_val_hex)
qed

lemma format_hex_chars: "list_all lower_hex (format_hex n) \<and> format_hex n \<noteq> []"
proof (induction n rule: format_hex.induct)
  case (1 n)
  then show ?case
    by (cases "n < 16") (auto simp: format_hex.simps [of n] hex_digit_lower_hex)
qed

lemma format_hex_length: "n < 16 ^ Suc k \<Longrightarrow> length (format_hex n) \<le> Suc k"
proof (induction k arbitrary: n)
  case 0
  then show ?case
    by (simp add: format_hex.simps)
next
  case (Suc k)
  then have "n div 16 < 16 ^ Suc k"
    by (simp add: less_mult_imp_div_less mult.commute)
  then show ?case
    using Suc.IH [of "n div 16"] by (cases "n < 16") (auto simp: format_hex.simps [of n])
qed

lemma lower_hex_neq: "lower_hex c \<Longrightarrow> c \<notin> set '';=+-'' \<and> c \<noteq> CHR 0x0A \<and> c \<noteq> CHR 0x0D"
  by (auto simp: lower_hex_def Let_def)

lemma parse_format_hex: "int n < 2 ^ 63 \<Longrightarrow> parse_int 16 (format_hex n) = Some (int n)"
proof -
  assume n: "int n < 2 ^ 63"
  obtain c cs where s: "format_hex n = c # cs"
    using format_hex_chars by (meson list.exhaust)
  then have "c \<noteq> CHR ''+''" "c \<noteq> CHR ''-''"
    using format_hex_chars [of n] lower_hex_neq [of c] by auto
  then show ?thesis
    using n digits_val_format_hex [of n] by (simp add: parse_int_def s)
qed

section \<open>Lines\<close>

lemma readLine_loop_line:
  "CHR 0x0A \<notin> set l \<Longrightarrow> length sb + length l < maxChunkLineLen \<Longrightarrow>
    readLine_loop fin sb (l @ CRLF @ rest) = (Inr (trim_right (sb @ l @ [CHR 0x0D]) CRLF), rest)"
  by (induction l arbitrary: sb) auto

lemma trim_right_CR: "s \<noteq> [] \<Longrightarrow> last s \<notin> set CRLF \<Longrightarrow> trim_right (s @ [CHR 0x0D]) CRLF = s"
  by (cases s rule: rev_cases) (auto simp: trim_right_def)

definition chunk_line :: "nat \<Rightarrow> string \<Rightarrow> string" where
  "chunk_line n sig = format_hex n @ '';chunk-signature='' @ sig @ CRLF"

lemma readChunkHeader_line:
  assumes "cr_inp cr = chunk_line n sig @ rest" "int n < 2 ^ 63" "list_all lower_hex sig" "length sig = 64"
  shows "readChunkHeader cr = (Inr (int n), cr\<lparr> cr_inp := rest, cr_chunkSig := sig \<rparr>)"
proof -
  let ?l = "format_hex n @ '';chunk-signature='' @ sig"
  have hex: "\<forall>c\<in>set (format_hex n). lower_hex c" "\<forall>c\<in>set sig. lower_hex c"
    using format_hex_chars assms(3) by (simp_all add: list_all_iff)
  have "sig \<noteq> []"
    using assms(4) by auto
  then have last: "?l \<noteq> []" "last ?l \<notin> set CRLF"
    using hex(2) lower_hex_neq [of "last sig"] by auto
  have "n < 16 ^ Suc 15"
    using assms(2) by simp
  then have len: "length ?l < maxChunkLineLen"
    using format_hex_length [of n 15] assms(4) by (simp add: maxChunkLineLen_def)
  have "CHR 0x0A \<notin> set ?l"
    using hex lower_hex_neq by auto
  then have line: "readLine cr = (Inr ?l, cr\<lparr> cr_inp := rest \<rparr>)"
    using readLine_loop_line [of ?l "[]" "cr_fin cr" rest] len trim_right_CR [OF last] assms(1)
    by (simp add: readLine_def chunk_line_def)
  have "str_cut (CHR '';'') ?l = (format_hex n, ''chunk-signature='' @ sig, True)"
    using cut_append [of "CHR '';''" "format_hex n"] hex(1) lower_hex_neq by auto
  moreover have "str_cut (CHR ''='') (''chunk-signature='' @ sig) = (''chunk-signature'', sig, True)"
    using cut_append [of "CHR ''=''" "''chunk-signature''" sig] by simp
  ultimately have "parseChunkHeader ?l (cr\<lparr> cr_inp := rest \<rparr>) = (Inr (int n), cr\<lparr> cr_inp := rest, cr_chunkSig := sig \<rparr>)"
    using parse_format_hex [OF assms(2)] \<open>sig \<noteq> []\<close> by (simp add: parseChunkHeader_def)
  then show ?thesis
    using line by (simp add: readChunkHeader_def)
qed

section \<open>The body a client sends\<close>

fun chunk_wire :: "(string \<Rightarrow> string \<Rightarrow> string) \<Rightarrow> string \<Rightarrow> string list \<Rightarrow> string" where
  "chunk_wire sg prev [] = chunk_line 0 (sg prev []) @ CRLF"
| "chunk_wire sg prev (d # ds) = chunk_line (length d) (sg prev d) @ d @ CRLF @ chunk_wire sg (sg prev d) ds"

definition good_chunks :: "string list \<Rightarrow> bool" where
  "good_chunks ds \<longleftrightarrow> (\<forall>d\<in>set ds. d \<noteq> [] \<and> int (length d) < 2 ^ 63)"

lemma good_chunks_simps [simp]: "good_chunks []"
  "good_chunks (d # ds) \<longleftrightarrow> d \<noteq> [] \<and> int (length d) < 2 ^ 63 \<and> good_chunks ds"
  by (auto simp: good_chunks_def)

lemma good_chunks_Nil: "good_chunks ds \<Longrightarrow> concat ds = [] \<longleftrightarrow> ds = []"
  by (cases ds) auto

lemma sg_of_shape: "length (sg_of cr prev data) = 64" "list_all lower_hex (sg_of cr prev data)"
  unfolding sg_of_def chunk_signature_def list_all_iff using hex_encode_lower_hex by simp_all

lemma readCRLF_line: "cr_inp cr = CRLF @ rest \<Longrightarrow> readCRLF cr = (Inr (), cr\<lparr> cr_inp := rest \<rparr>)"
  by (simp add: readCRLF_def)

lemma verifyChunk_ok:
  "cr_signed cr \<Longrightarrow> cr_chunkSig cr = sg_of cr (cr_prevSig cr) (cr_chunkHash cr) \<Longrightarrow>
    verifyChunk cr = (Inr (), cr\<lparr> cr_prevSig := cr_chunkSig cr, cr_chunkHash := [] \<rparr>)"
  by (simp add: verifyChunk_def sg_of_def)

section \<open>Progress\<close>

text \<open>The reader will deliver \<open>P\<close>: before a chunk header, or inside a chunk.\<close>

definition at_header :: "string \<Rightarrow> chunkedReader \<Rightarrow> bool" where
  "at_header P cr \<longleftrightarrow> cr_remaining cr = 0 \<and> cr_chunkHash cr = [] \<and> (cr_started cr \<longrightarrow> P \<noteq> []) \<and>
    (\<exists>ds. cr_inp cr = (if cr_started cr then CRLF else []) @ chunk_wire (sg_of cr) (cr_prevSig cr) ds \<and>
      P = concat ds \<and> cr_undecoded cr = int (length P) \<and> good_chunks ds)"

definition in_chunk :: "string \<Rightarrow> chunkedReader \<Rightarrow> bool" where
  "in_chunk P cr \<longleftrightarrow> cr_started cr \<and>
    (\<exists>d ds. d \<noteq> [] \<and> cr_remaining cr = int (length d) \<and>
      cr_inp cr = d @ CRLF @ chunk_wire (sg_of cr) (cr_chunkSig cr) ds \<and>
      cr_chunkSig cr = sg_of cr (cr_prevSig cr) (cr_chunkHash cr @ d) \<and>
      P = d @ concat ds \<and> cr_undecoded cr = int (length (concat ds)) \<and> good_chunks ds)"

definition plain_signed :: "chunkedReader \<Rightarrow> bool" where
  "plain_signed cr \<longleftrightarrow> cr_signed cr \<and> \<not> cr_trailer cr \<and> cr_ckHash cr = None \<and> cr_err cr = None"

definition delivers :: "string \<Rightarrow> chunkedReader \<Rightarrow> bool" where
  "delivers P cr \<longleftrightarrow> plain_signed cr \<and>
    (if cr_eof cr then P = [] else at_header P cr \<or> in_chunk P cr)"

lemma discardTrailers_plain: "\<not> cr_trailer cr \<Longrightarrow> \<exists>i. discardTrailers cr = (Inr (), cr\<lparr> cr_inp := i \<rparr>)"
  by (cases "readCRLF cr") (auto simp: discardTrailers_def dest: readCRLF_spec(1))

lemma nextChunk_delivers:
  assumes "plain_signed cr" "\<not> cr_eof cr" "at_header P cr"
  shows "if P = [] then \<exists>cr'. nextChunk cr = (Inr True, cr')
    else \<exists>cr'. nextChunk cr = (Inr False, cr') \<and> plain_signed cr' \<and> \<not> cr_eof cr' \<and> in_chunk P cr'"
proof -
  obtain ds where ds: "cr_inp cr = (if cr_started cr then CRLF else []) @ chunk_wire (sg_of cr) (cr_prevSig cr) ds"
      "P = concat ds" "cr_undecoded cr = int (length P)" "good_chunks ds"
    using assms(3) by (auto simp: at_header_def)
  define cr1 where "cr1 = cr\<lparr> cr_inp := chunk_wire (sg_of cr) (cr_prevSig cr) ds \<rparr>"
  have 1: "(\<lambda>cr. if cr_started cr then readCRLF cr else (Inr (), cr)) cr = (Inr (), cr1)"
    using ds(1) readCRLF_line [of cr] by (auto simp: cr1_def)
  note next1 = nextChunk_def io_bind_simps(1) [where m = "\<lambda>cr. if cr_started cr then readCRLF cr else (Inr (), cr)", OF 1]
  show ?thesis
  proof (cases ds)
    case Nil
    then have 2: "readChunkHeader cr1 = (Inr 0, cr1\<lparr> cr_inp := CRLF, cr_chunkSig := sg_of cr (cr_prevSig cr) [] \<rparr>)"
      using readChunkHeader_line [of cr1 0 "sg_of cr (cr_prevSig cr) []" CRLF] sg_of_shape by (simp add: cr1_def)
    have "\<exists>cr'. nextChunk cr = (Inr True, cr')"
      unfolding next1 io_bind_simps(1) [where m = readChunkHeader, OF 2] Let_def
      using assms(1,3) ds(2,3) Nil
      by (simp add: io_bind_def verifyChunk_def discardTrailers_def cr1_def plain_signed_def at_header_def sg_of_def)
    then show ?thesis
      using ds(2) Nil by simp
  next
    case (Cons d ds')
    let ?sig = "sg_of cr (cr_prevSig cr) d"
    have 2: "readChunkHeader cr1 = (Inr (int (length d)),
        cr1\<lparr> cr_inp := d @ CRLF @ chunk_wire (sg_of cr) ?sig ds', cr_chunkSig := ?sig \<rparr>)"
      using readChunkHeader_line [of cr1 "length d" ?sig] Cons ds(4) sg_of_shape by (simp add: cr1_def)
    have "nextChunk cr = (Inr False, cr\<lparr> cr_inp := d @ CRLF @ chunk_wire (sg_of cr) ?sig ds', cr_chunkSig := ?sig,
        cr_started := True, cr_undecoded := int (length (concat ds')), cr_remaining := int (length d) \<rparr>)" (is "_ = (_, ?cr')")
      unfolding next1 io_bind_simps(1) [where m = readChunkHeader, OF 2] Let_def
      using ds(2-4) Cons by (simp add: cr1_def)
    moreover have "in_chunk P ?cr'"
      unfolding in_chunk_def using assms(3) ds(2,4) Cons by (auto simp: at_header_def)
    ultimately show ?thesis
      using ds(2,4) Cons assms(1,2) by (auto simp: plain_signed_def)
  qed
qed

lemma raw_read_in_chunk:
  assumes "cr_inp cr = d @ CRLF @ rest" "d \<noteq> []" "0 < len" "len \<le> length d"
  shows "\<exists>n. 0 < n \<and> n \<le> length d \<and> raw_read len ch cr = (take n d, None, cr\<lparr> cr_inp := drop n d @ CRLF @ rest \<rparr>)"
proof -
  define n where "n = max 1 (min (fst ch) (min len (length (cr_inp cr))))"
  have "0 < n" "n \<le> length d" "n < length (cr_inp cr)"
    using assms by (auto simp: n_def)
  moreover have pick: "(if len = 0 \<or> cr_inp cr = [] then 0 else max 1 (min (fst ch) (min len (length (cr_inp cr))))) = n"
    using assms by (simp add: n_def)
  ultimately have "raw_read len ch cr = (take n (cr_inp cr), None, cr\<lparr> cr_inp := drop n (cr_inp cr) \<rparr>)"
    unfolding raw_read_def pick by simp
  then show ?thesis
    using \<open>0 < n\<close> \<open>n \<le> length d\<close> assms(1) by auto
qed

lemma readTerminal_ok:
  assumes "plain_signed cr" "cr_chunkHash cr = []" "cr_inp cr = CRLF @ chunk_wire (sg_of cr) (cr_prevSig cr) []"
  shows "\<exists>cr'. readTerminal cr = (Inr (), cr') \<and> cr_eof cr' \<and> plain_signed cr'"
proof -
  let ?sig = "sg_of cr (cr_prevSig cr) []"
  define cr1 where "cr1 = cr\<lparr> cr_inp := chunk_line 0 ?sig @ CRLF \<rparr>"
  have 1: "readCRLF cr = (Inr (), cr1)"
    using readCRLF_line [OF assms(3)] by (simp add: cr1_def)
  have 2: "readChunkHeader cr1 = (Inr 0, cr1\<lparr> cr_inp := CRLF, cr_chunkSig := ?sig \<rparr>)"
    using readChunkHeader_line [of cr1 0 ?sig CRLF] sg_of_shape by (simp add: cr1_def)
  show ?thesis
    unfolding readTerminal_def io_bind_simps(1) [where m = readCRLF, OF 1] io_bind_simps(1) [where m = readChunkHeader, OF 2]
    using assms(1,2)
    by (simp add: io_bind_def verifyChunk_def discardTrailers_def cr1_def plain_signed_def sg_of_def readCRLF_def)
qed

lemma readData_delivers:
  assumes "plain_signed cr" "\<not> cr_eof cr" "in_chunk P cr" "0 < len"
  shows "\<exists>data P' cr'. readData len ch cr = ((data, None), cr') \<and> data \<noteq> [] \<and> P = data @ P' \<and> delivers P' cr'"
proof -
  obtain d ds where d: "d \<noteq> []" "cr_remaining cr = int (length d)" "cr_started cr"
      "cr_inp cr = d @ CRLF @ chunk_wire (sg_of cr) (cr_chunkSig cr) ds"
      "cr_chunkSig cr = sg_of cr (cr_prevSig cr) (cr_chunkHash cr @ d)"
      "P = d @ concat ds" "cr_undecoded cr = int (length (concat ds))" "good_chunks ds"
    using assms(3) by (auto simp: in_chunk_def)
  let ?rest = "CRLF @ chunk_wire (sg_of cr) (cr_chunkSig cr) ds"
  obtain n where n: "0 < n" "n \<le> length d"
      "raw_read (min len (nat (cr_remaining cr))) ch cr = (take n d, None, cr\<lparr> cr_inp := drop n d @ ?rest \<rparr>)"
    using raw_read_in_chunk [OF d(4,1), of "min len (nat (cr_remaining cr))" ch] d(1,2) assms(4) by auto
  define cr1 where "cr1 = cr\<lparr> cr_inp := drop n d @ ?rest, cr_remaining := int (length d) - int n,
      cr_chunkHash := cr_chunkHash cr @ take n d \<rparr>"
  have eq: "readData len ch cr =
      (if cr_remaining cr1 = 0 then
         (case io_bind verifyChunk (\<lambda>_ cr. if cr_undecoded cr = 0 then readTerminal cr else (Inr (), cr)) cr1 of
            (Inl e, cr2) \<Rightarrow> (([], Some e), cr2\<lparr> cr_err := Some e \<rparr>)
          | (Inr _, cr2) \<Rightarrow> ((take n d, None), cr2))
       else ((take n d, None), cr1))"
    unfolding readData_def n(3) using assms(1) n(2) d(2) by (simp add: cr1_def plain_signed_def)
  have data: "take n d \<noteq> []" "P = take n d @ (drop n d @ concat ds)"
    using n d(1,6) by auto
  show ?thesis
  proof (cases "n = length d")
    case False
    then have "in_chunk (drop n d @ concat ds) cr1"
      unfolding in_chunk_def using n d
      by (intro conjI exI [of _ "drop n d"] exI [of _ ds]) (auto simp: cr1_def)
    then have "delivers (drop n d @ concat ds) cr1"
      using assms(1,2) by (simp add: delivers_def plain_signed_def cr1_def)
    moreover have "cr_remaining cr1 \<noteq> 0"
      using n False by (simp add: cr1_def)
    ultimately show ?thesis
      using eq data by auto
  next
    case True
    define cr2 where "cr2 = cr1\<lparr> cr_prevSig := cr_chunkSig cr1, cr_chunkHash := [] \<rparr>"
    have 2: "verifyChunk cr1 = (Inr (), cr2)"
      unfolding cr2_def using assms(1) d(5) True by (intro verifyChunk_ok) (auto simp: cr1_def plain_signed_def)
    have plain: "plain_signed cr2" "cr_chunkHash cr2 = []" "cr_inp cr2 = CRLF @ chunk_wire (sg_of cr2) (cr_prevSig cr2) ds"
        "\<not> cr_eof cr2" "cr_undecoded cr2 = int (length (concat ds))" "cr_remaining cr2 = 0" "cr_started cr2"
      using assms(1,2) True d(3,7) by (auto simp: cr2_def cr1_def plain_signed_def)
    show ?thesis
    proof (cases "ds = []")
      case True
      then obtain cr3 where "readTerminal cr2 = (Inr (), cr3)" "cr_eof cr3" "plain_signed cr3"
        using readTerminal_ok [OF plain(1,2)] plain(3) by auto
      then show ?thesis
        using eq 2 data True \<open>n = length d\<close> plain(5) by (auto simp: cr1_def delivers_def)
    next
      case False
      then have "concat ds \<noteq> []"
        using good_chunks_Nil d(8) by blast
      then have "at_header (concat ds) cr2"
        unfolding at_header_def using plain d(8) by auto
      then show ?thesis
        using eq 2 data \<open>n = length d\<close> plain \<open>concat ds \<noteq> []\<close> by (auto simp: cr1_def delivers_def)
    qed
  qed
qed

lemma chunked_Read_delivers:
  assumes "delivers P cr" "0 < len"
  shows "if P = [] then \<exists>cr'. chunked_Read len ch cr = (([], Some EOF), cr')
    else \<exists>data P' cr'. chunked_Read len ch cr = ((data, None), cr') \<and> data \<noteq> [] \<and> P = data @ P' \<and> delivers P' cr'"
proof -
  have plain: "plain_signed cr" "cr_err cr = None"
    using assms(1) by (auto simp: delivers_def plain_signed_def)
  consider (eof) "cr_eof cr" "P = []" | (header) "\<not> cr_eof cr" "at_header P cr" | (chunk) "\<not> cr_eof cr" "in_chunk P cr"
    using assms(1) by (auto simp: delivers_def split: if_splits)
  then show ?thesis
  proof cases
    case eof
    then show ?thesis
      using plain(2) by (simp add: chunked_Read_def)
  next
    case header
    then have "cr_remaining cr = 0"
      by (simp add: at_header_def)
    then show ?thesis
      using nextChunk_delivers [OF plain(1) header] readData_delivers [of _ P len ch] assms(2) header(1) plain(2)
      by (fastforce simp: chunked_Read_def split: if_splits)
  next
    case chunk
    then have "cr_remaining cr \<noteq> 0" "P \<noteq> []"
      by (auto simp: in_chunk_def)
    then show ?thesis
      using readData_delivers [OF plain(1) chunk assms(2)] chunk(1) plain(2) by (auto simp: chunked_Read_def)
  qed
qed

lemma chunked_reads_delivers:
  assumes "delivers P cr" "\<forall>q\<in>set qs. 0 < fst q" "length P < length qs"
  shows "\<exists>cr'. chunked_reads qs cr = (P, Some EOF, cr')"
  using assms
proof (induction qs arbitrary: P cr)
  case (Cons q qs)
  show ?case
  proof (cases "P = []")
    case True
    then show ?thesis
      using chunked_Read_delivers [OF Cons.prems(1), of "fst q" "snd q"] Cons.prems(2) by auto
  next
    case False
    then obtain data P' cr1 where 1: "chunked_Read (fst q) (snd q) cr = ((data, None), cr1)" "data \<noteq> []" "P = data @ P'"
        "delivers P' cr1"
      using chunked_Read_delivers [OF Cons.prems(1), of "fst q" "snd q"] Cons.prems(2) by auto
    then have "length P' < length qs"
      using Cons.prems(3) by (cases data) auto
    then obtain cr' where "chunked_reads qs cr1 = (P', Some EOF, cr')"
      using Cons.IH [OF 1(4)] Cons.prems(2) by auto
    then show ?thesis
      using 1 by simp
  qed
qed simp

section \<open>What the reader guarantees\<close>

abbreviation chunk_sigs :: "verified \<Rightarrow> string \<Rightarrow> string \<Rightarrow> string" where
  "chunk_sigs v \<equiv> chunk_signature (ve_SigningKey v) (format_amz (ve_SigningTime v)) (ve_Scope v)"

lemma suffix_trailer: "\<not> has_suffix streamingSHA256 ''-TRAILER''" "streamingSHA256 \<noteq> streamingSHA256T"
  by code_simp+

lemma new_reader_delivers:
  assumes "ve_PayloadHash v = streamingSHA256" "good_chunks ds"
  shows "delivers (concat ds) (NewChunkedReader (chunk_wire (chunk_sigs v) (ve_Signature v) ds) fin v alg (int (length (concat ds))))"
proof -
  let ?cr = "NewChunkedReader (chunk_wire (chunk_sigs v) (ve_Signature v) ds) fin v alg (int (length (concat ds)))"
  have "sg_of ?cr = chunk_sigs v"
    by (rule ext)+ (simp add: sg_of_def NewChunkedReader_def Let_def assms(1))
  then have "at_header (concat ds) ?cr"
    unfolding at_header_def using assms by (auto simp: NewChunkedReader_def Let_def)
  then show ?thesis
    using assms(1) suffix_trailer by (simp add: delivers_def plain_signed_def NewChunkedReader_def Let_def)
qed

text \<open>
  C11. A body framed and signed chunk by chunk, each signature chained to the one before, is decoded to exactly its
  payload followed by the end of the stream, for any sizes of the reader's buffers and any fragmentation of the body;
  one read more than the payload has bytes is enough.
\<close>

theorem chunked_roundtrip:
  assumes "ve_PayloadHash v = streamingSHA256" "good_chunks ds" "\<forall>q\<in>set qs. 0 < fst q" "length (concat ds) < length qs"
  shows "\<exists>cr'. chunked_reads qs
      (NewChunkedReader (chunk_wire (chunk_sigs v) (ve_Signature v) ds) fin v alg (int (length (concat ds)))) =
    (concat ds, Some EOF, cr')"
  using chunked_reads_delivers [OF new_reader_delivers [OF assms(1,2)] assms(3,4)] .

definition example_streaming :: verified where
  "example_streaming = \<lparr> ve_AccessKeyID = ''AK1'', ve_SigningKey = ''key'', ve_Signature = ''5eed'', ve_SigningTime = 1709208000000000000,
    ve_Scope = ''20240229/us-east-1/s3/aws4_request'', ve_Region = ''us-east-1'', ve_PayloadHash = streamingSHA256,
    ve_SignedHeaders = [''host''] \<rparr>"

lemma example_chunks: "good_chunks [''hello '', ''world'']" "ve_PayloadHash example_streaming = streamingSHA256"
  by (simp_all add: example_streaming_def)

lemma example_reads: "\<forall>q\<in>set (replicate 20 (3, 2, True)). 0 < fst (q :: nat \<times> nat \<times> bool)"
  "length (concat [''hello '', ''world'']) < length (replicate 20 (3::nat, 2::nat, True))"
  by simp_all

theorem chunked_roundtrip_witness:
  "\<exists>cr'. chunked_reads (replicate 20 (3, 2, True))
      (NewChunkedReader (chunk_wire (chunk_sigs example_streaming) ''5eed'' [''hello '', ''world'']) EOF example_streaming [] 11) =
    (''hello world'', Some EOF, cr')"
  using chunked_roundtrip [OF example_chunks(2,1) example_reads, of EOF "[]"] by (simp add: example_streaming_def)

lemma chunked_complete:
  assumes "ve_PayloadHash v = streamingSHA256 \<or> ve_PayloadHash v = streamingSHA256T" "0 \<le> len"
    "cr = NewChunkedReader body fin v alg len" "chunked_reads qs cr = (data, e, cr')"
    "e = Some EOF \<or> e = None \<and> qs \<noteq> [] \<and> int (length data) = len"
  shows "int (length data) = len \<and> body_verified cr body data"
proof -
  have "decoding cr body len [] cr"
    using assms(1,2) unfolding assms(3)
    by (auto simp: decoding_def chunked_base_def same_config_def verified_so_far_def NewChunkedReader_def Let_def
        intro: exI [of _ "[]"])
  then show ?thesis
    using chunked_reads_spec [of cr body len "[]" cr, OF disjI1 assms(4)] assms(5) by auto
qed

text \<open>
  C10. A signed aws-chunked body that is delivered completely, to its declared length or to the end of the stream, is
  authentic: it has the declared length and is the data of chunks whose signatures form the chain that starts at the
  request's signature and ends with a verified terminal chunk, and a declared trailer checksum was in the body and
  matches. A truncated or altered stream never reads as a complete one.
\<close>

theorem chunked_body_verified:
  assumes "ve_PayloadHash v = streamingSHA256 \<or> ve_PayloadHash v = streamingSHA256T" "0 \<le> len"
    "cr = NewChunkedReader body fin v alg len" "chunked_reads qs cr = (data, e, cr')"
    "e = Some EOF \<or> e = None \<and> qs \<noteq> [] \<and> int (length data) = len"
  shows "int (length data) = len \<and> body_verified cr body data"
  using chunked_complete [OF assms] .

theorem chunked_body_verified_witness:
  "\<exists>cr cr'. cr = NewChunkedReader (chunk_wire (chunk_sigs example_streaming) ''5eed'' [''hello '', ''world'']) EOF example_streaming [] 11 \<and>
    chunked_reads (replicate 20 (3, 2, True)) cr = (''hello world'', Some EOF, cr') \<and>
    body_verified cr (chunk_wire (chunk_sigs example_streaming) ''5eed'' [''hello '', ''world'']) ''hello world''"
proof -
  let ?body = "chunk_wire (chunk_sigs example_streaming) ''5eed'' [''hello '', ''world'']"
  obtain cr' where reads: "chunked_reads (replicate 20 (3, 2, True)) (NewChunkedReader ?body EOF example_streaming [] 11) =
      (''hello world'', Some EOF, cr')"
    using chunked_reads_delivers [OF new_reader_delivers [OF example_chunks(2,1)] example_reads, of EOF "[]"]
    by (auto simp: example_streaming_def)
  then show ?thesis
    using chunked_body_verified [OF _ _ refl reads] example_chunks(2) by auto
qed

end
