(* ===== verification/Breaker.thy ===== *)
theory Breaker
  imports S3err Go_Time
begin

text \<open>
  The circuit breaker of \<open>src/s3gw/breaker.go\<close>: the outcome an attempt reports, the wrapper around the transport
  of every attempt, and the breaker that opens after consecutive failures. The operations read the clock, so the
  readings are arguments here; \<open>Allow\<close> reads it twice.
\<close>

section \<open>Attempts\<close>

text \<open>
  \<open>classifyAttempt\<close>: \<open>(ok, report)\<close> from the status of the raw response, if the attempt has one, and the error.
\<close>

definition status_verdict :: "int option \<Rightarrow> (bool \<times> bool) option" where
  "status_verdict s = (case s of Some n \<Rightarrow> if 100 \<le> n then Some (n < 500, True) else None | None \<Rightarrow> None)"

definition classifyAttempt :: "int option \<Rightarrow> go_error option \<Rightarrow> bool \<times> bool" where
  "classifyAttempt raw err =
    (if (case err of Some e \<Rightarrow> errors_is e Canceled | None \<Rightarrow> False) then (False, False)
     else if (case err of Some e \<Rightarrow> errors_is e DeadlineExceeded | None \<Rightarrow> False) then (False, True)
     else
       (case status_verdict raw of
          Some v \<Rightarrow> v
        | None \<Rightarrow>
            (case err of
               None \<Rightarrow> (True, True)
             | Some e \<Rightarrow>
                 (case status_verdict (first_some as_response_error (err_chain e)) of
                    Some v \<Rightarrow> v
                  | None \<Rightarrow> (False, True)))))"

text \<open>The cause of a refused attempt; the name of the backend is shown to the observer only.\<close>

definition BreakerOpen :: "string \<Rightarrow> go_error" where
  "BreakerOpen be = Errorf (lit (''backend circuit open: '' @ be)) []"

text \<open>
  One attempt under a breaker with the operations \<open>allow\<close> and \<open>report\<close>. The transport yields an output, the status
  of its raw response and an error; it is not called when the breaker refuses.
\<close>

definition breakerMiddleware ::
  "string \<Rightarrow> ('s \<Rightarrow> bool \<times> 's) \<Rightarrow> (bool \<Rightarrow> 's \<Rightarrow> 's) \<Rightarrow> ('s \<Rightarrow> ('o \<times> int option \<times> go_error option) \<times> 's) \<Rightarrow> 's \<Rightarrow>
    ('o option \<times> go_error option) \<times> 's" where
  "breakerMiddleware be allow report send s =
    (case allow s of
       (False, s1) \<Rightarrow>
         ((None, Some (S3e (WithCause (s3err_New 503 ''ServiceUnavailable'' (lit ''Service is unable to handle request.''))
             (BreakerOpen be)))), s1)
     | (True, s1) \<Rightarrow>
         (case send s1 of
            ((out, raw, err), s2) \<Rightarrow>
              (case classifyAttempt raw err of
                 (ok, rep) \<Rightarrow> ((Some out, err), if rep then report ok s2 else s2))))"

section \<open>The breaker of consecutive failures\<close>

datatype breakerState = BreakerClosed | BreakerIsOpen | BreakerHalfOpen

fun breakerState_String :: "breakerState \<Rightarrow> string" where
  "breakerState_String BreakerIsOpen = ''open''"
| "breakerState_String BreakerHalfOpen = ''half-open''"
| "breakerState_String BreakerClosed = ''closed''"

record consecutiveFailures =
  cf_n :: int
  cf_cooldown :: int
  cf_state :: breakerState
  cf_failures :: int
  cf_since :: int
  cf_lastProbe :: int

text \<open>The zero \<open>time.Time\<close>, the first instant of the year 1.\<close>

definition zero_time :: int where
  "zero_time = - 62135596800 * Second"

definition NewConsecutiveFailures :: "int \<Rightarrow> int \<Rightarrow> consecutiveFailures" where
  "NewConsecutiveFailures n cooldown =
    \<lparr> cf_n = (if n < 1 then 1 else n), cf_cooldown = cooldown, cf_state = BreakerClosed, cf_failures = 0,
       cf_since = zero_time, cf_lastProbe = zero_time \<rparr>"

definition cf_Allow :: "int \<Rightarrow> int \<Rightarrow> consecutiveFailures \<Rightarrow> bool \<times> consecutiveFailures" where
  "cf_Allow now now' b =
    (case cf_state b of
       BreakerClosed \<Rightarrow> (True, b)
     | BreakerIsOpen \<Rightarrow>
         if time_sub now (cf_since b) < cf_cooldown b then (False, b)
         else (True, b\<lparr> cf_state := BreakerHalfOpen, cf_lastProbe := now' \<rparr>)
     | BreakerHalfOpen \<Rightarrow>
         if time_sub now (cf_lastProbe b) < cf_cooldown b then (False, b)
         else (True, b\<lparr> cf_lastProbe := now' \<rparr>))"

definition cf_open :: "int \<Rightarrow> consecutiveFailures \<Rightarrow> consecutiveFailures" where
  "cf_open now b = b\<lparr> cf_state := BreakerIsOpen, cf_failures := 0, cf_since := now \<rparr>"

definition cf_Report :: "int \<Rightarrow> bool \<Rightarrow> consecutiveFailures \<Rightarrow> consecutiveFailures" where
  "cf_Report now ok b =
    (if ok then b\<lparr> cf_state := BreakerClosed, cf_failures := 0 \<rparr>
     else
       (case cf_state b of
          BreakerClosed \<Rightarrow>
            (let b' = b\<lparr> cf_failures := cf_failures b + 1 \<rparr> in
             if cf_n b' \<le> cf_failures b' then cf_open now b' else b')
        | BreakerHalfOpen \<Rightarrow> cf_open now b
        | BreakerIsOpen \<Rightarrow> b))"

definition cf_State :: "consecutiveFailures \<Rightarrow> string" where
  "cf_State b = breakerState_String (cf_state b)"

section \<open>Events\<close>

text \<open>
  Requests use one breaker concurrently; every call holds its lock, so a history is a sequence of calls with the
  readings of the clock they made. An attempt's report may come after any number of other calls.
\<close>

datatype breaker_event = Ev_allow int int | Ev_report int bool

fun ev_times :: "breaker_event \<Rightarrow> int list" where
  "ev_times (Ev_allow now now') = [now, now']"
| "ev_times (Ev_report now ok) = [now]"

fun cf_step :: "breaker_event \<Rightarrow> consecutiveFailures \<Rightarrow> consecutiveFailures" where
  "cf_step (Ev_allow now now') b = snd (cf_Allow now now' b)"
| "cf_step (Ev_report now ok) b = cf_Report now ok b"

primrec cf_run :: "breaker_event list \<Rightarrow> consecutiveFailures \<Rightarrow> consecutiveFailures" where
  "cf_run [] b = b"
| "cf_run (e # es) b = cf_run es (cf_step e b)"

text \<open>The calls of \<open>Allow\<close> that admitted an attempt, by the later reading, and whether all of them did.\<close>

fun admitted :: "breaker_event list \<Rightarrow> consecutiveFailures \<Rightarrow> int list" where
  "admitted [] b = []"
| "admitted (Ev_allow now now' # es) b =
    (if fst (cf_Allow now now' b) then [now'] else []) @ admitted es (snd (cf_Allow now now' b))"
| "admitted (Ev_report now ok # es) b = admitted es (cf_Report now ok b)"

fun all_admitted :: "breaker_event list \<Rightarrow> consecutiveFailures \<Rightarrow> bool" where
  "all_admitted [] b \<longleftrightarrow> True"
| "all_admitted (Ev_allow now now' # es) b \<longleftrightarrow> fst (cf_Allow now now' b) \<and> all_admitted es (snd (cf_Allow now now' b))"
| "all_admitted (Ev_report now ok # es) b \<longleftrightarrow> all_admitted es (cf_Report now ok b)"

fun is_failure :: "breaker_event \<Rightarrow> bool" where
  "is_failure (Ev_report now ok) \<longleftrightarrow> \<not> ok"
| "is_failure (Ev_allow now now') \<longleftrightarrow> False"

fun is_success :: "breaker_event \<Rightarrow> bool" where
  "is_success (Ev_report now ok) \<longleftrightarrow> ok"
| "is_success (Ev_allow now now') \<longleftrightarrow> False"

definition clock_ordered :: "breaker_event list \<Rightarrow> bool" where
  "clock_ordered es \<longleftrightarrow> sorted (concat (map ev_times es))"

text \<open>A duration of the configuration: a positive 64-bit number of nanoseconds.\<close>

definition duration_ok :: "int \<Rightarrow> bool" where
  "duration_ok d \<longleftrightarrow> 0 < d \<and> d < 2 ^ 63"

lemma time_sub_less: "duration_ok d \<Longrightarrow> time_sub t u < d \<longleftrightarrow> t < u + d"
  by (auto simp: time_sub_def duration_ok_def)

section \<open>Invariant\<close>

text \<open>At a time \<open>t\<close> no event is later than: the failures stay below the limit and the recorded instants are past.\<close>

definition breaker_inv :: "int \<Rightarrow> consecutiveFailures \<Rightarrow> bool" where
  "breaker_inv t b \<longleftrightarrow> 1 \<le> cf_n b \<and> duration_ok (cf_cooldown b) \<and> 0 \<le> cf_failures b \<and> cf_failures b < cf_n b \<and>
    (cf_state b = BreakerIsOpen \<longrightarrow> cf_since b \<le> t) \<and> (cf_state b = BreakerHalfOpen \<longrightarrow> cf_lastProbe b \<le> t)"

lemma breaker_inv_new: "duration_ok cooldown \<Longrightarrow> breaker_inv t (NewConsecutiveFailures n cooldown)"
  by (simp add: breaker_inv_def NewConsecutiveFailures_def)

lemma Allow_inv: "breaker_inv t b \<Longrightarrow> t \<le> now' \<Longrightarrow> breaker_inv now' (snd (cf_Allow now now' b))"
  by (auto simp: breaker_inv_def cf_Allow_def split: breakerState.splits)

lemma Report_inv: "breaker_inv t b \<Longrightarrow> t \<le> now \<Longrightarrow> breaker_inv now (cf_Report now ok b)"
  by (auto simp: breaker_inv_def cf_Report_def cf_open_def Let_def split: breakerState.splits)

lemma clock_ordered_Cons:
  "clock_ordered (e # es) \<longleftrightarrow> sorted (ev_times e) \<and> clock_ordered es \<and>
    (\<forall>u\<in>set (ev_times e). \<forall>v\<in>set (concat (map ev_times es)). u \<le> v)"
  by (auto simp: clock_ordered_def sorted_append)

lemma cf_step_inv:
  assumes "breaker_inv t b" "\<forall>u\<in>set (ev_times e). t \<le> u" "sorted (ev_times e)"
  shows "breaker_inv (last (ev_times e)) (cf_step e b)"
  using assms Allow_inv Report_inv by (cases e) auto

lemma cf_run_inv:
  assumes "breaker_inv t b" "clock_ordered es" "\<forall>u\<in>set (concat (map ev_times es)). t \<le> u"
  shows "\<exists>u. breaker_inv u (cf_run es b) \<and> (u = t \<or> u \<in> set (concat (map ev_times es)))"
  using assms
proof (induction es arbitrary: t b)
  case (Cons e es)
  have last: "last (ev_times e) \<in> set (ev_times e)"
    by (cases e) auto
  have "breaker_inv (last (ev_times e)) (cf_step e b)"
    using Cons.prems by (intro cf_step_inv) (auto simp: clock_ordered_Cons)
  then obtain u where u: "breaker_inv u (cf_run es (cf_step e b))"
      "u = last (ev_times e) \<or> u \<in> set (concat (map ev_times es))"
    using Cons.IH [of "last (ev_times e)" "cf_step e b"] Cons.prems(2) last by (auto simp: clock_ordered_Cons)
  then show ?case
    using last by auto
qed auto

lemma cf_config [simp]: "cf_n (snd (cf_Allow now now' b)) = cf_n b" "cf_n (cf_Report now ok b) = cf_n b"
  "cf_cooldown (snd (cf_Allow now now' b)) = cf_cooldown b" "cf_cooldown (cf_Report now ok b) = cf_cooldown b"
  by (auto simp: cf_Allow_def cf_Report_def cf_open_def Let_def split: breakerState.splits)

section \<open>The interface\<close>

text \<open>
  What a breaker promises the attempts it guards: it admits an attempt once its cooldown has passed since the last
  call on it, and it admits attempts again after a success.
\<close>

locale circuit =
  fixes allow :: "int \<Rightarrow> int \<Rightarrow> 's \<Rightarrow> bool \<times> 's"
    and report :: "int \<Rightarrow> bool \<Rightarrow> 's \<Rightarrow> 's"
    and inv :: "int \<Rightarrow> 's \<Rightarrow> bool"
    and cooldown :: "'s \<Rightarrow> int"
  assumes allow_inv: "inv t s \<Longrightarrow> t \<le> now' \<Longrightarrow> inv now' (snd (allow now now' s))"
    and report_inv: "inv t s \<Longrightarrow> t \<le> now \<Longrightarrow> inv now (report now ok s)"
    and admits: "inv t s \<Longrightarrow> t + cooldown s \<le> now \<Longrightarrow> fst (allow now now' s)"
    and success_closes: "fst (allow now now' (report now0 True s))"
begin

lemma attempt_sent:
  assumes "inv t s" "t + cooldown s \<le> now" "send (snd (allow now now' s)) = ((out, raw, err), s')"
  shows "breakerMiddleware be (allow now now') (report now0) send s =
    ((Some out, err), if snd (classifyAttempt raw err) then report now0 (fst (classifyAttempt raw err)) s' else s')"
  using admits [OF assms(1,2), of now'] assms(3)
  by (cases "allow now now' s") (auto simp: breakerMiddleware_def split: prod.splits)

lemma attempt_recovers:
  assumes "inv t s" "t + cooldown s \<le> now" "send (snd (allow now now' s)) = ((out, Some status, None), s')"
    "100 \<le> status" "status < 500"
  shows "fst (allow u u' (snd (breakerMiddleware be (allow now now') (report now0) send s)))"
  using attempt_sent [where send = send, OF assms(1-3)] assms(4,5) success_closes
  by (simp add: classifyAttempt_def status_verdict_def)

end

interpretation cf: circuit cf_Allow cf_Report breaker_inv cf_cooldown
proof (unfold_locales, goal_cases)
  case (1 t s now' now)
  then show ?case by (rule Allow_inv)
next
  case (2 t s now ok)
  then show ?case by (rule Report_inv)
next
  case (3 t s now now')
  then show ?case
    by (auto simp: cf_Allow_def breaker_inv_def time_sub_less split: breakerState.splits)
next
  case (4 now now' now0 s)
  show ?case
    by (simp add: cf_Allow_def cf_Report_def)
qed

section \<open>Closed: admits until the limit\<close>

text \<open>Fewer than \<open>n\<close> failures in a row, \<open>k\<close> of them before the list.\<close>

fun streak_below :: "int \<Rightarrow> int \<Rightarrow> breaker_event list \<Rightarrow> bool" where
  "streak_below n k [] \<longleftrightarrow> True"
| "streak_below n k (Ev_allow now now' # es) \<longleftrightarrow> streak_below n k es"
| "streak_below n k (Ev_report now ok # es) \<longleftrightarrow>
    (if ok then streak_below n 0 es else k + 1 < n \<and> streak_below n (k + 1) es)"

lemma closed_admits:
  "cf_state b = BreakerClosed \<Longrightarrow> streak_below (cf_n b) (cf_failures b) es \<Longrightarrow> all_admitted es b"
proof (induction es b rule: all_admitted.induct)
  case (2 now now' es b)
  then show ?case
    by (simp add: cf_Allow_def)
next
  case (3 now ok es b)
  then show ?case
    by (cases ok) (simp_all add: cf_Report_def)
qed simp

lemma opens_at_limit:
  "cf_state b = BreakerClosed \<Longrightarrow> cf_n b \<le> cf_failures b + 1 \<Longrightarrow>
    cf_state (cf_Report now False b) = BreakerIsOpen \<and> cf_since (cf_Report now False b) = now"
  by (simp add: cf_Report_def cf_open_def)

section \<open>Open: one probe per cooldown\<close>

definition last_mark :: "consecutiveFailures \<Rightarrow> int" where
  "last_mark b = (if cf_state b = BreakerIsOpen then cf_since b else cf_lastProbe b)"

lemma successively_earlier:
  "successively (\<lambda>u v. u + d \<le> v) (x # xs) \<Longrightarrow> y \<le> x \<Longrightarrow> successively (\<lambda>u v. u + d \<le> (v::int)) (y # xs)"
  by (cases xs) auto

lemma probes_spaced:
  assumes "breaker_inv t b" "cf_state b \<noteq> BreakerClosed" "clock_ordered es" "\<forall>u\<in>set (concat (map ev_times es)). t \<le> u"
    "\<not> list_ex is_success es"
  shows "successively (\<lambda>u v. u + cf_cooldown b \<le> v) (last_mark b # admitted es b)"
  using assms
proof (induction es b arbitrary: t rule: admitted.induct)
  case (2 now now' es b)
  let ?b' = "snd (cf_Allow now now' b)"
  have ord: "now \<le> now'" "clock_ordered es" "t \<le> now" "\<forall>u\<in>set (concat (map ev_times es)). now' \<le> u"
    using "2.prems" by (auto simp: clock_ordered_Cons)
  have "cf_state ?b' \<noteq> BreakerClosed"
    using "2.prems"(2) by (auto simp: cf_Allow_def split: breakerState.splits)
  then have IH: "successively (\<lambda>u v. u + cf_cooldown b \<le> v) (last_mark ?b' # admitted es ?b')"
    using "2.IH" [of now'] Allow_inv [OF "2.prems"(1), of now' now] ord "2.prems"(5) by simp
  show ?case
  proof (cases "fst (cf_Allow now now' b)")
    case True
    then have "last_mark ?b' = now'" "last_mark b + cf_cooldown b \<le> now'"
      using "2.prems"(1,2) ord(1)
      by (auto simp: cf_Allow_def last_mark_def breaker_inv_def time_sub_less split: breakerState.splits if_splits)
    then show ?thesis
      using IH True by simp
  next
    case False
    then have "?b' = b"
      by (auto simp: cf_Allow_def split: breakerState.splits if_splits)
    then show ?thesis
      using IH False by simp
  qed
next
  case (3 now ok es b)
  have ok: "\<not> ok" and ord: "clock_ordered es" "t \<le> now" "\<forall>u\<in>set (concat (map ev_times es)). now \<le> u"
    using "3.prems" by (auto simp: clock_ordered_Cons)
  have "cf_state (cf_Report now ok b) \<noteq> BreakerClosed" "last_mark b \<le> last_mark (cf_Report now ok b)"
    using "3.prems"(1,2) ok ord(2)
    by (auto simp: cf_Report_def cf_open_def last_mark_def breaker_inv_def split: breakerState.splits)
  then show ?case
    using "3.IH" [of now] Report_inv [OF "3.prems"(1), of now ok] ord "3.prems"(5) successively_earlier by auto
qed simp

section \<open>What the breaker guarantees\<close>

lemma cf_run_config [simp]: "cf_n (cf_run es b) = cf_n b" "cf_cooldown (cf_run es b) = cf_cooldown b"
proof (induction es arbitrary: b)
  case (Cons e es)
  { case 1 show ?case using Cons by (cases e) auto }
  { case 2 show ?case using Cons by (cases e) auto }
qed auto

lemma clock_ordered_append:
  "clock_ordered (es @ fs) \<longleftrightarrow> clock_ordered es \<and> clock_ordered fs \<and>
    (\<forall>u\<in>set (concat (map ev_times es)). \<forall>v\<in>set (concat (map ev_times fs)). u \<le> v)"
  by (simp add: clock_ordered_def sorted_append)

lemma sorted_between:
  assumes "sorted (xs @ ys)"
  shows "\<exists>t::int. (\<forall>u\<in>set xs. u \<le> t) \<and> (\<forall>v\<in>set ys. t \<le> v)"
proof (cases ys)
  case Nil
  then show ?thesis
    by (intro exI [of _ "Max (set (0 # xs))"]) simp
next
  case (Cons y ys')
  then show ?thesis
    using assms by (intro exI [of _ y]) (auto simp: sorted_append)
qed

text \<open>A history from a new breaker ends in a state that satisfies the invariant at any time not before its events.\<close>

lemma history_inv:
  assumes "duration_ok cooldown" "clock_ordered es" "\<forall>u\<in>set (concat (map ev_times es)). u \<le> t"
  shows "breaker_inv t (cf_run es (NewConsecutiveFailures n cooldown))"
proof -
  define s where "s = Min (set (t # concat (map ev_times es)))"
  have "s \<le> t" "\<forall>u\<in>set (concat (map ev_times es)). s \<le> u"
    by (simp_all add: s_def)
  then obtain u where u: "breaker_inv u (cf_run es (NewConsecutiveFailures n cooldown))" "u \<le> t"
    using cf_run_inv [OF breaker_inv_new [OF assms(1), of s n] assms(2)] assms(3) by blast
  then show ?thesis
    by (auto simp: breaker_inv_def)
qed

text \<open>
  While a breaker is not closed and no success is reported, it lets through at most one attempt per cooldown:
  any two admitted attempts are at least the cooldown apart, whatever requests call it in between.
\<close>

theorem breaker_probe_spacing:
  assumes "duration_ok cooldown" "clock_ordered (es @ fs)" "b = cf_run es (NewConsecutiveFailures n cooldown)"
    "cf_state b \<noteq> BreakerClosed" "\<not> list_ex is_success fs"
  shows "successively (\<lambda>u v. u + cooldown \<le> v) (admitted fs b)"
proof -
  have ord: "clock_ordered es" "clock_ordered fs"
    using assms(2) by (simp_all add: clock_ordered_append)
  obtain t where "\<forall>u\<in>set (concat (map ev_times es)). u \<le> t" "\<forall>v\<in>set (concat (map ev_times fs)). t \<le> v"
    using sorted_between [of "concat (map ev_times es)" "concat (map ev_times fs)"] assms(2) by (auto simp: clock_ordered_def)
  then have "successively (\<lambda>u v. u + cf_cooldown b \<le> v) (last_mark b # admitted fs b)"
    using probes_spaced history_inv [OF assms(1) ord(1)] assms(3,4,5) ord(2) by blast
  then show ?thesis
    by (cases "admitted fs b") (simp_all add: assms(3) NewConsecutiveFailures_def)
qed

text \<open>
  C34. A breaker never stays shut: after any history, the first attempt a cooldown later is admitted, and if it is
  reported a success every attempt after it is admitted until the limit of failures in a row is reached again.
\<close>

theorem breaker_recovers:
  assumes "duration_ok cooldown" "clock_ordered es" "\<forall>u\<in>set (concat (map ev_times es)). u + cooldown \<le> now"
    "b = cf_run es (NewConsecutiveFailures n cooldown)"
  shows "fst (cf_Allow now now' b) \<and>
    (\<forall>t fs. streak_below (max 1 n) 0 fs \<longrightarrow> all_admitted fs (cf_Report t True (snd (cf_Allow now now' b))))"
proof
  have "breaker_inv (now - cooldown) b"
    unfolding assms(4) by (rule history_inv [OF assms(1,2)]) (use assms(3) in \<open>simp add: algebra_simps\<close>)
  then show "fst (cf_Allow now now' b)"
    using cf.admits assms(4) by (simp add: NewConsecutiveFailures_def)
  have limit: "cf_n (cf_Report t True (snd (cf_Allow now now' b))) = max 1 n" for t
    using assms(4) by (simp add: NewConsecutiveFailures_def)
  show "\<forall>t fs. streak_below (max 1 n) 0 fs \<longrightarrow> all_admitted fs (cf_Report t True (snd (cf_Allow now now' b)))"
    by (intro allI impI closed_admits) (use limit in \<open>simp_all add: cf_Report_def\<close>)
qed

text \<open>Two failures open a breaker with a limit of two; the attempts at 5 and 12 are refused, the one at 11 is a probe.\<close>

definition example_history :: "breaker_event list" where
  "example_history = [Ev_allow 0 0, Ev_report 1 False, Ev_report 1 False]"

theorem breaker_probe_spacing_witness:
  "cf_state (cf_run example_history (NewConsecutiveFailures 2 10)) = BreakerIsOpen \<and>
    admitted [Ev_allow 5 5, Ev_allow 11 11, Ev_allow 12 12, Ev_report 13 False, Ev_allow 23 24]
      (cf_run example_history (NewConsecutiveFailures 2 10)) = [11, 24] \<and>
    successively (\<lambda>u v. u + 10 \<le> v) (admitted [Ev_allow 5 5, Ev_allow 11 11, Ev_allow 12 12, Ev_report 13 False, Ev_allow 23 24]
      (cf_run example_history (NewConsecutiveFailures 2 10)))"
proof -
  let ?fs = "[Ev_allow 5 5, Ev_allow 11 11, Ev_allow 12 12, Ev_report 13 False, Ev_allow 23 24]"
  have "duration_ok 10" "clock_ordered (example_history @ ?fs)" "\<not> list_ex is_success ?fs"
    "cf_state (cf_run example_history (NewConsecutiveFailures 2 10)) = BreakerIsOpen"
    "admitted ?fs (cf_run example_history (NewConsecutiveFailures 2 10)) = [11, 24]"
    by code_simp+
  then show ?thesis
    using breaker_probe_spacing [of 10 example_history ?fs _ 2] by simp
qed

theorem breaker_recovers_witness:
  "fst (cf_Allow 11 11 (cf_run example_history (NewConsecutiveFailures 2 10))) \<and>
    all_admitted [Ev_report 13 False, Ev_allow 13 13, Ev_report 14 True, Ev_report 15 False, Ev_allow 16 16]
      (cf_Report 12 True (snd (cf_Allow 11 11 (cf_run example_history (NewConsecutiveFailures 2 10)))))"
proof -
  have "duration_ok 10" "clock_ordered example_history" "\<forall>u\<in>set (concat (map ev_times example_history)). u + 10 \<le> 11"
    "streak_below (max 1 2) 0 [Ev_report 13 False, Ev_allow 13 13, Ev_report 14 True, Ev_report 15 False, Ev_allow 16 16]"
    by code_simp+
  then show ?thesis
    using breaker_recovers [of 10 example_history 11 _ 2 11] by blast
qed

end
