(* ===== verification/Policy_Eval.thy ===== *)
theory Policy_Eval
  imports Policy
begin

text \<open>
  What policy evaluation computes. The interface \<open>decision_list\<close> is the contract of a statement loop
  (skip, deny, allow); it is proved to compute the deny-overrides decision once, and interpreted on the
  loops of \<open>Policy.Decide\<close> and \<open>UserPolicy.Decide\<close>. The evaluators that pre-match principal and action
  are then related to \<open>Decide\<close>.
\<close>

section \<open>Deny overrides, first match\<close>

text \<open>The first denying element decides; otherwise the first allowing one; otherwise the base effect.\<close>

definition deny_overrides :: "('s \<Rightarrow> bool) \<Rightarrow> ('s \<Rightarrow> bool) \<Rightarrow> effect \<Rightarrow> 's list \<Rightarrow> decision" where
  "deny_overrides den alw base ss =
    (if 0 \<le> find_index den ss then \<lparr> dec_Effect = Effect_Deny, dec_Statement = find_index den ss \<rparr>
     else if 0 \<le> find_index alw ss
     then \<lparr> dec_Effect = Effect_Allow, dec_Statement = find_index alw ss \<rparr>
     else \<lparr> dec_Effect = base, dec_Statement = -1 \<rparr>)"

locale decision_list =
  fixes loop :: "int \<Rightarrow> 's list \<Rightarrow> decision \<Rightarrow> decision option"
    and good hits denies allows :: "'s \<Rightarrow> bool"
    and base :: effect
  assumes base: "base \<noteq> Effect_Allow"
    and loop_Nil: "loop i [] r = Some r"
    and loop_skip: "good s \<Longrightarrow> \<not> hits s \<Longrightarrow> loop i (s # ss) r = loop (i + 1) ss r"
    and loop_deny: "good s \<Longrightarrow> hits s \<Longrightarrow> denies s \<Longrightarrow>
      loop i (s # ss) r = Some \<lparr> dec_Effect = Effect_Deny, dec_Statement = i \<rparr>"
    and loop_allow: "good s \<Longrightarrow> hits s \<Longrightarrow> \<not> denies s \<Longrightarrow> allows s \<Longrightarrow> dec_Effect r = base \<Longrightarrow>
      loop i (s # ss) r = loop (i + 1) ss \<lparr> dec_Effect = Effect_Allow, dec_Statement = i \<rparr>"
    and loop_keep: "good s \<Longrightarrow> hits s \<Longrightarrow> \<not> denies s \<Longrightarrow> \<not> allows s \<or> dec_Effect r = Effect_Allow \<Longrightarrow>
      loop i (s # ss) r = loop (i + 1) ss r"
begin

definition den :: "'s \<Rightarrow> bool" where
  "den s \<longleftrightarrow> hits s \<and> denies s"

definition alw :: "'s \<Rightarrow> bool" where
  "alw s \<longleftrightarrow> hits s \<and> \<not> denies s \<and> allows s"

lemma loop_found:
  assumes "\<forall>s\<in>set ss. good s" "dec_Effect r = Effect_Allow"
  shows "loop i ss r =
    Some (if 0 \<le> find_index den ss
          then \<lparr> dec_Effect = Effect_Deny, dec_Statement = i + find_index den ss \<rparr> else r)"
  using assms
proof (induction ss arbitrary: i)
  case Nil
  then show ?case by (simp add: loop_Nil)
next
  case (Cons s ss)
  consider "\<not> hits s" | "hits s" "denies s" | "hits s" "\<not> denies s"
    by blast
  then show ?case
    using Cons
    by cases (auto simp: loop_skip loop_deny loop_keep den_def find_index_Cons)
qed

lemma loop_from_base:
  assumes "\<forall>s\<in>set ss. good s" "dec_Effect r = base"
  shows "loop i ss r =
    Some (if 0 \<le> find_index den ss
          then \<lparr> dec_Effect = Effect_Deny, dec_Statement = i + find_index den ss \<rparr>
          else if 0 \<le> find_index alw ss
          then \<lparr> dec_Effect = Effect_Allow, dec_Statement = i + find_index alw ss \<rparr> else r)"
  using assms
proof (induction ss arbitrary: i)
  case Nil
  then show ?case by (simp add: loop_Nil)
next
  case (Cons s ss)
  consider "\<not> hits s" | "hits s" "denies s" | "hits s" "\<not> denies s" "allows s"
    | "hits s" "\<not> denies s" "\<not> allows s"
    by blast
  then show ?case
  proof cases
    case 3
    then show ?thesis
      using Cons.prems loop_found [of ss "\<lparr> dec_Effect = Effect_Allow, dec_Statement = i \<rparr>" "i + 1"]
      by (auto simp: loop_allow den_def alw_def find_index_Cons)
  qed (use Cons in \<open>auto simp: loop_skip loop_deny loop_keep den_def alw_def find_index_Cons\<close>)
qed

theorem loop_decides:
  assumes "\<forall>s\<in>set ss. good s"
  shows "loop 0 ss \<lparr> dec_Effect = base, dec_Statement = -1 \<rparr> = Some (deny_overrides den alw base ss)"
  using loop_from_base [OF assms] by (simp add: deny_overrides_def)

end

section \<open>The two statement loops\<close>

definition has_principal :: "'a statement_scheme \<Rightarrow> bool" where
  "has_principal st \<longleftrightarrow> st_Principal st \<noteq> None \<or> st_NotPrincipal st \<noteq> None"

text \<open>Whether a statement's principal, condition and action cover a request.\<close>

definition stmt_covers :: "string \<Rightarrow> request_context \<Rightarrow> rune list \<Rightarrow> compiled_statement \<Rightarrow> bool" where
  "stmt_covers pr rc act st \<longleftrightarrow>
    matchPrincipal st pr = Some True \<and> matchCondition st rc \<and> matchAnyRunes (st_actionRunes st) act"

text \<open>Whether it also covers the resource, so that its effect applies.\<close>

definition stmt_hits ::
  "string \<Rightarrow> request_context \<Rightarrow> rune list \<Rightarrow> rune list \<Rightarrow> compiled_statement \<Rightarrow> bool" where
  "stmt_hits pr rc act res st \<longleftrightarrow>
    stmt_covers pr rc act st \<and> matchAnyRunes (st_resourceRunes st) res"

definition user_hits :: "rune list \<Rightarrow> action_statement \<Rightarrow> bool" where
  "user_hits act st \<longleftrightarrow> matchAnyRunes (lowerPatternRunes (as_Action st)) act"

lemma matchPrincipal_good: "has_principal st \<Longrightarrow> \<exists>b. matchPrincipal st pr = Some b"
  by (auto simp: has_principal_def matchPrincipal_def split: option.splits)

interpretation bucket_loop: decision_list "decide_loop pr rc act res" has_principal
  "stmt_hits pr rc act res" "\<lambda>st. st_Effect st = ''Deny''" "\<lambda>_. True" Effect_None
  for pr rc act res
proof (unfold_locales, goal_cases)
  case (3 s i ss r)
  then show ?case
    using matchPrincipal_good [of s pr] by (auto simp: stmt_hits_def stmt_covers_def)
qed (auto simp: stmt_hits_def stmt_covers_def)

interpretation user_loop: decision_list "\<lambda>i ss r. Some (user_decide_loop act i ss r)" "\<lambda>_. True"
  "user_hits act" "\<lambda>st. as_Effect st = ''Deny''" "\<lambda>st. as_Effect st = ''Allow''" Effect_Deny
  for act
  by unfold_locales (auto simp: user_hits_def)

text \<open>The deny-overrides decisions over the policy's statements.\<close>

definition bucket_verdict ::
  "policy \<Rightarrow> string \<Rightarrow> string \<Rightarrow> string \<Rightarrow> request_context \<Rightarrow> decision" where
  "bucket_verdict p pr action resource rc =
    (let hits = stmt_hits pr (unmap_context rc) (runes (to_lower action)) (runes resource) in
     deny_overrides (\<lambda>st. hits st \<and> st_Effect st = ''Deny'') (\<lambda>st. hits st \<and> st_Effect st \<noteq> ''Deny'')
       Effect_None (policy_compile p))"

definition user_verdict :: "user_policy \<Rightarrow> string \<Rightarrow> decision" where
  "user_verdict up action =
    (let hits = user_hits (runes (to_lower action)) in
     deny_overrides (\<lambda>st. hits st \<and> as_Effect st = ''Deny'') (\<lambda>st. hits st \<and> as_Effect st = ''Allow'')
       Effect_Deny (up_Statements up))"

definition policy_principals :: "policy \<Rightarrow> bool" where
  "policy_principals p \<longleftrightarrow> list_all has_principal (pol_Statement p)"

lemma compile_statement_fields [simp]:
  "st_Sid (compile_statement st) = st_Sid st"
  "st_Effect (compile_statement st) = st_Effect st"
  "st_Principal (compile_statement st) = st_Principal st"
  "st_NotPrincipal (compile_statement st) = st_NotPrincipal st"
  "st_Action (compile_statement st) = st_Action st"
  "st_Resource (compile_statement st) = st_Resource st"
  "st_Condition (compile_statement st) = st_Condition st"
  "st_actionRunes (compile_statement st) = lowerPatternRunes (st_Action st)"
  "st_resourceRunes (compile_statement st) = patternRunes (st_Resource st)"
  "st_compiled (compile_statement st) = map_option (\<lambda>c. fst (condition_compile c)) (st_Condition st)"
  by (simp_all add: compile_statement_def statement.extend_def)

lemma has_principal_compile [simp]: "has_principal (compile_statement st) = has_principal st"
  by (simp add: has_principal_def)

lemma compiled_good: "policy_principals p \<Longrightarrow> st \<in> set (policy_compile p) \<Longrightarrow> has_principal st"
  by (auto simp: policy_principals_def policy_compile_def list_all_iff)

lemma Decide_verdict:
  assumes "policy_principals p"
  shows "policy_Decide p pr action resource rc = Some (bucket_verdict p pr action resource rc)"
  using bucket_loop.loop_decides [of "policy_compile p"] compiled_good [OF assms]
  by (auto simp: policy_Decide_def bucket_verdict_def bucket_loop.den_def bucket_loop.alw_def
      Let_def intro!: arg_cong2 [of _ _ _ _ "\<lambda>d a. deny_overrides d a _ _"])

lemma user_Decide_verdict:
  "up_Statements up \<noteq> [] \<Longrightarrow> user_Decide (Some up) action = user_verdict up action"
  using user_loop.loop_decides [of "up_Statements up" "runes (to_lower action)"]
  by (auto simp: user_Decide_def user_verdict_def user_loop.den_def user_loop.alw_def
      Let_def intro!: arg_cong2 [of _ _ _ _ "\<lambda>d a. deny_overrides d a _ _"])

section \<open>The pre-matched evaluators\<close>

text \<open>The tag list of a concatenation: for every element of a segment the segment's index.\<close>

fun seg_tags :: "('a \<Rightarrow> 'b list) \<Rightarrow> int \<Rightarrow> 'a list \<Rightarrow> int list" where
  "seg_tags f i [] = []"
| "seg_tags f i (x # xs) = map (\<lambda>_. i) (f x) @ seg_tags f (i + 1) xs"

lemma find_index_append:
  "find_index P (xs @ ys) =
    (if \<exists>x\<in>set xs. P x then find_index P xs
     else if \<exists>y\<in>set ys. P y then int (length xs) + find_index P ys else -1)"
  by (induction xs) (auto simp: find_index_Cons)

lemma seg_tags_find_index:
  assumes "0 \<le> find_index P (concat (map f xs))"
  shows "seg_tags f i xs ! nat (find_index P (concat (map f xs))) =
    i + find_index (\<lambda>x. \<exists>y\<in>set (f x). P y) xs"
  using assms
proof (induction xs arbitrary: i)
  case (Cons x xs)
  show ?case
  proof (cases "\<exists>y\<in>set (f x). P y")
    case True
    then have "nat (find_index P (f x)) < length (f x)"
      using find_index_nth [of P "f x"] by simp
    then show ?thesis
      using True by (simp add: find_index_append find_index_Cons nth_append)
  next
    case False
    then have "\<exists>y\<in>set (concat (map f xs)). P y"
      using Cons.prems by (auto simp: find_index_append split: if_splits)
    then show ?thesis
      using False Cons.IH [of "i + 1"]
      by (auto simp: find_index_append find_index_Cons nth_append nat_add_distrib)
  qed
qed (simp add: find_index.simps)

abbreviation deny_segs :: "string \<Rightarrow> request_context \<Rightarrow> rune list \<Rightarrow> compiled_statement \<Rightarrow> rune list list" where
  "deny_segs pr rc act st \<equiv>
    (if st_Effect st = ''Deny'' \<and> stmt_covers pr rc act st then st_resourceRunes st else [])"

abbreviation allow_segs :: "string \<Rightarrow> request_context \<Rightarrow> rune list \<Rightarrow> compiled_statement \<Rightarrow> rune list list" where
  "allow_segs pr rc act st \<equiv>
    (if st_Effect st = ''Allow'' \<and> stmt_covers pr rc act st then st_resourceRunes st else [])"

lemma deny_matched_good:
  "has_principal st \<Longrightarrow>
    deny_matched pr rc act st = Some (st_Effect st = ''Deny'' \<and> stmt_covers pr rc act st)"
  using matchPrincipal_good [of st pr] by (auto simp: deny_matched_def stmt_covers_def)

lemma deny_collect_spec:
  assumes "\<forall>st\<in>set sts. has_principal st"
  shows "deny_collect pr rc act i sts e = Some
    \<lparr> de_denyResources = de_denyResources e @ concat (map (deny_segs pr rc act) sts),
      de_denyStatements = de_denyStatements e @ seg_tags (deny_segs pr rc act) i sts \<rparr>"
  using assms
  by (induction sts arbitrary: i e) (auto simp: deny_matched_good)

lemma allow_collect_spec:
  assumes "\<forall>st\<in>set sts. has_principal st"
  shows "allow_collect pr rc act sts e = Some
    \<lparr> ae_allowResources = ae_allowResources e @ concat (map (allow_segs pr rc act) sts) \<rparr>"
  using assms
proof (induction sts arbitrary: e)
  case (Cons st sts)
  then show ?case
    using matchPrincipal_good [of st pr] by (auto simp: stmt_covers_def)
qed simp

lemma DeniesRunes_iff [pol_simps]: "DeniesRunes e r \<longleftrightarrow> (\<exists>p\<in>set (de_denyResources e). match_runes p r)"
  by (auto simp: DeniesRunes_def matchAnyRunes_iff)

lemma AllowsRunes_iff [pol_simps]: "AllowsRunes e r \<longleftrightarrow> (\<exists>p\<in>set (ae_allowResources e). match_runes p r)"
  by (auto simp: AllowsRunes_def matchAnyRunes_iff)

text \<open>Every statement has one of the two effects that validation accepts.\<close>

definition policy_effects :: "policy \<Rightarrow> bool" where
  "policy_effects p \<longleftrightarrow>
    list_all (\<lambda>st. st_Effect st = ''Allow'' \<or> st_Effect st = ''Deny'') (pol_Statement p)"

lemma compiled_effects:
  "policy_effects p \<Longrightarrow> st \<in> set (policy_compile p) \<Longrightarrow> st_Effect st \<noteq> ''Deny'' \<longleftrightarrow> st_Effect st = ''Allow''"
  by (auto simp: policy_effects_def policy_compile_def list_all_iff)

lemma DenyingStatement_segs:
  "DenyingStatement \<lparr> de_denyResources = concat (map f sts), de_denyStatements = seg_tags f 0 sts \<rparr> res =
    find_index (\<lambda>st. \<exists>q\<in>set (f st). match_runes q res) sts"
proof (cases "\<exists>q\<in>set (concat (map f sts)). match_runes q res")
  case True
  then show ?thesis
    using seg_tags_find_index [of "\<lambda>q. match_runes q res" f sts 0]
    by (auto simp: DenyingStatement_def matchIndexRunes_def Let_def)
next
  case False
  then have "\<forall>st\<in>set sts. \<not> (\<exists>q\<in>set (f st). match_runes q res)"
    by auto
  then show ?thesis
    using False by (simp add: DenyingStatement_def matchIndexRunes_def)
qed

lemma deny_segs_hit:
  "(\<exists>q\<in>set (deny_segs pr rc act st). match_runes q res) \<longleftrightarrow>
    stmt_hits pr rc act res st \<and> st_Effect st = ''Deny''"
  by (auto simp: stmt_hits_def matchAnyRunes_iff)

lemma DenyEvaluatorFor_spec:
  assumes "policy_principals p"
  obtains de where "DenyEvaluatorFor p pr action rc = Some de"
    and "\<And>resource. Denies de resource \<longleftrightarrow>
      dec_Effect (bucket_verdict p pr action resource rc) = Effect_Deny"
    and "\<And>resource. DenyingStatement de (runes resource) =
      (if dec_Effect (bucket_verdict p pr action resource rc) = Effect_Deny
       then dec_Statement (bucket_verdict p pr action resource rc) else -1)"
proof -
  let ?seg = "deny_segs pr (unmap_context rc) (runes (to_lower action))"
  let ?de = "\<lparr> de_denyResources = concat (map ?seg (policy_compile p)),
    de_denyStatements = seg_tags ?seg 0 (policy_compile p) \<rparr>"
  have "DenyEvaluatorFor p pr action rc = Some ?de"
    using compiled_good [OF assms] by (simp add: DenyEvaluatorFor_def deny_collect_spec)
  moreover have "DeniesRunes ?de res \<longleftrightarrow> (\<exists>st\<in>set (policy_compile p).
      stmt_hits pr (unmap_context rc) (runes (to_lower action)) res st \<and> st_Effect st = ''Deny'')" for res
    by (fastforce simp: DeniesRunes_iff stmt_hits_def matchAnyRunes_iff)
  moreover have "DenyingStatement ?de res = find_index (\<lambda>st.
      stmt_hits pr (unmap_context rc) (runes (to_lower action)) res st \<and> st_Effect st = ''Deny'')
      (policy_compile p)" for res
    unfolding DenyingStatement_segs deny_segs_hit ..
  ultimately show ?thesis
    by (intro that) (auto simp: Denies_def bucket_verdict_def deny_overrides_def Let_def)
qed

lemma AllowEvaluatorFor_spec:
  assumes "policy_principals p" "policy_effects p"
  obtains ae where "AllowEvaluatorFor p pr action rc = Some ae"
    and "\<And>resource. dec_Effect (bucket_verdict p pr action resource rc) = Effect_Allow \<longleftrightarrow>
      AllowsRunes ae (runes resource) \<and>
      dec_Effect (bucket_verdict p pr action resource rc) \<noteq> Effect_Deny"
proof -
  let ?ae = "\<lparr> ae_allowResources = concat (map (allow_segs pr (unmap_context rc) (runes (to_lower action)))
    (policy_compile p)) \<rparr>"
  have "AllowEvaluatorFor p pr action rc = Some ?ae"
    using compiled_good [OF assms(1)] by (simp add: AllowEvaluatorFor_def allow_collect_spec)
  moreover have "AllowsRunes ?ae res \<longleftrightarrow> (\<exists>st\<in>set (policy_compile p).
      stmt_hits pr (unmap_context rc) (runes (to_lower action)) res st \<and> st_Effect st \<noteq> ''Deny'')" for res
    using compiled_effects [OF assms(2)]
    by (fastforce simp: AllowsRunes_iff stmt_hits_def matchAnyRunes_iff)
  ultimately show ?thesis
    by (intro that) (auto simp: bucket_verdict_def deny_overrides_def Let_def)
qed

lemma evaluators_total:
  assumes "policy_principals p"
  shows "\<exists>de. DenyEvaluatorFor p pr action rc = Some de" "\<exists>ae. AllowEvaluatorFor p pr action rc = Some ae"
  using compiled_good [OF assms]
  by (simp_all add: DenyEvaluatorFor_def deny_collect_spec AllowEvaluatorFor_def allow_collect_spec)

lemma Denies_verdict:
  assumes "policy_principals p" "DenyEvaluatorFor p pr action rc = Some de"
  shows "Denies de resource \<longleftrightarrow> dec_Effect (bucket_verdict p pr action resource rc) = Effect_Deny"
    and "DenyingStatement de (runes resource) =
      (if dec_Effect (bucket_verdict p pr action resource rc) = Effect_Deny
       then dec_Statement (bucket_verdict p pr action resource rc) else -1)"
  using DenyEvaluatorFor_spec [OF assms(1), of pr action rc] assms(2) by (metis option.inject)+

lemma Allows_verdict:
  assumes "policy_principals p" "policy_effects p" "AllowEvaluatorFor p pr action rc = Some ae"
  shows "dec_Effect (bucket_verdict p pr action resource rc) = Effect_Allow \<longleftrightarrow>
    AllowsRunes ae (runes resource) \<and>
    dec_Effect (bucket_verdict p pr action resource rc) \<noteq> Effect_Deny"
  using AllowEvaluatorFor_spec [OF assms(1,2), of pr action rc] assms(3) by (metis option.inject)

lemma verdict_deny_index:
  "dec_Effect (bucket_verdict p pr action resource rc) = Effect_Deny \<Longrightarrow>
    0 \<le> dec_Statement (bucket_verdict p pr action resource rc)"
  by (auto simp: bucket_verdict_def deny_overrides_def Let_def split: if_splits)

section \<open>Properties\<close>

text \<open>A small policy, used to evaluate the definitions on concrete requests.\<close>

definition example_policy :: policy where
  "example_policy = \<lparr> pol_Version = ''2012-10-17'', pol_Statement = [
    \<lparr> st_Sid = ''Read'', st_Effect = ''Allow'',
      st_Principal = Some \<lparr> prin_All = False, prin_Users = [''tb/*''] \<rparr>, st_NotPrincipal = None,
      st_Action = [''s3:Get*''], st_Resource = [''b/*''], st_Condition = None \<rparr>,
    \<lparr> st_Sid = [], st_Effect = ''Deny'',
      st_Principal = None, st_NotPrincipal = Some \<lparr> prin_All = False, prin_Users = [''ta/root''] \<rparr>,
      st_Action = [''s3:*''], st_Resource = [''b/log/*''],
      st_Condition = Some \<lparr> cond_IPAddress = [], cond_NotIPAddress = [''10.0.0.0/8''] \<rparr> \<rparr>] \<rparr>"

definition example_context :: request_context where
  "example_context = \<lparr> rc_SourceIP = Addr4 0x0A010203 \<rparr>"

text \<open>
  C5. Bucket policy evaluation is deny-overrides with first match: the first statement that covers the
  principal, condition, action and resource with effect Deny decides; without one the first other
  covering statement allows; without any the result is None at index -1. It never panics on a policy
  whose statements name a principal.
\<close>

theorem policy_Decide_deny_overrides:
  assumes "policy_principals p"
  shows "policy_Decide p pr action resource rc = Some (bucket_verdict p pr action resource rc)"
  using assms by (rule Decide_verdict)

theorem policy_Decide_deny_overrides_witness:
  "policy_principals example_policy \<and>
   policy_Decide example_policy ''tb/bob'' ''s3:GetObject'' ''b/k'' example_context =
     Some (bucket_verdict example_policy ''tb/bob'' ''s3:GetObject'' ''b/k'' example_context)"
  using policy_Decide_deny_overrides [of example_policy]
  by (simp add: policy_principals_def example_policy_def has_principal_def)

text \<open>
  C22. A user policy with statements grants an action exactly when an Allow statement matches it and no
  Deny statement does, whatever the order of the statements; a missing or empty policy grants every
  action; statements with any other effect never grant.
\<close>

theorem user_Allows_iff:
  "user_Allows up action \<longleftrightarrow>
    (case up of
       None \<Rightarrow> True
     | Some u \<Rightarrow> up_Statements u = [] \<or>
         (\<exists>st\<in>set (up_Statements u). user_hits (runes (to_lower action)) st \<and> as_Effect st = ''Allow'') \<and>
         \<not> (\<exists>st\<in>set (up_Statements u). user_hits (runes (to_lower action)) st \<and> as_Effect st = ''Deny''))"
proof (cases up)
  case (Some u)
  then show ?thesis
    by (cases "up_Statements u = []")
      (simp_all add: user_Allows_def user_Decide_verdict user_verdict_def deny_overrides_def Let_def,
       simp add: user_Decide_def)
qed (simp add: user_Allows_def user_Decide_def)

text \<open>
  C16. The per-object evaluators agree with full evaluation on every resource: the Deny evaluator denies
  exactly what \<open>Decide\<close> denies and names the same statement, and \<open>Decide\<close> allows exactly what the
  Allow evaluator allows and the Deny evaluator does not deny.
\<close>

theorem evaluators_agree:
  assumes "policy_principals p" "policy_effects p"
  shows "\<exists>d de ae.
    policy_Decide p pr action resource rc = Some d \<and>
    DenyEvaluatorFor p pr action rc = Some de \<and> AllowEvaluatorFor p pr action rc = Some ae \<and>
    (Denies de resource \<longleftrightarrow> dec_Effect d = Effect_Deny) \<and>
    DenyingStatement de (runes resource) =
      (if dec_Effect d = Effect_Deny then dec_Statement d else -1) \<and>
    (dec_Effect d = Effect_Allow \<longleftrightarrow> AllowsRunes ae (runes resource) \<and> \<not> Denies de resource)"
proof -
  obtain de ae where "DenyEvaluatorFor p pr action rc = Some de" "AllowEvaluatorFor p pr action rc = Some ae"
    using evaluators_total [OF assms(1)] by metis
  then show ?thesis
    using Decide_verdict [OF assms(1)] Denies_verdict [OF assms(1)] Allows_verdict [OF assms] by auto
qed

theorem evaluators_agree_witness:
  "policy_principals example_policy \<and> policy_effects example_policy \<and>
   (\<exists>d de ae. policy_Decide example_policy ''tb/bob'' ''s3:GetObject'' ''b/k'' example_context = Some d \<and>
    DenyEvaluatorFor example_policy ''tb/bob'' ''s3:GetObject'' example_context = Some de \<and>
    AllowEvaluatorFor example_policy ''tb/bob'' ''s3:GetObject'' example_context = Some ae \<and>
    (dec_Effect d = Effect_Allow \<longleftrightarrow> AllowsRunes ae (runes ''b/k'') \<and> \<not> Denies de ''b/k''))"
proof -
  have ok: "policy_principals example_policy" "policy_effects example_policy"
    by (simp_all add: policy_principals_def policy_effects_def example_policy_def has_principal_def)
  show ?thesis
    using ok evaluators_agree [OF ok, of "''tb/bob''" "''s3:GetObject''" "''b/k''" example_context]
    by blast
qed

end
