(* ===== verification/Go_Json.thy ===== *)
theory Go_Json
  imports Go_Strings "HOL-Library.Monad_Syntax"
begin

text \<open>
  JSON text as Go's \<open>encoding/json\<close> reads it. Policy documents and POST policies arrive as text; the
  parser yields a value that keeps the order and repetition of object members. The fuel of the
  mutually recursive parser is twice the length of the input and two, which is always enough:
  \<open>json_fuel\<close> shows that more of it changes nothing.
\<close>

datatype json =
    JNull | JBool bool | JNum string | JStr string | JArr "json list" | JObj "(string \<times> json) list"

fun skip_ws :: "string \<Rightarrow> string" where
  "skip_ws [] = []"
| "skip_ws (c # cs) = (if c \<in> set [CHR '' '', CHR 0x09, CHR 0x0A, CHR 0x0D] then skip_ws cs else c # cs)"

section \<open>Strings\<close>

text \<open>Four hexadecimal digits of a \<open>\u\<close> escape.\<close>

definition hex4 :: "string \<Rightarrow> (nat \<times> string) option" where
  "hex4 s =
    (if length s < 4 then None
     else map_option (\<lambda>n. (n, drop 4 s)) (digits_val 16 0 (take 4 s)))"

definition is_surrogate :: "nat \<Rightarrow> bool" where
  "is_surrogate r \<longleftrightarrow> 55296 \<le> r \<and> r < 57344"

text \<open>
  The escapes with one letter; \<open>None\<close> for a letter that is no escape.
\<close>

definition simple_escape :: "char \<Rightarrow> char option" where
  "simple_escape c =
    map_of [(CHR 0x22, CHR 0x22), (CHR 0x5C, CHR 0x5C), (CHR ''/'', CHR ''/''), (CHR ''b'', CHR 0x08),
      (CHR ''f'', CHR 0x0C), (CHR ''n'', CHR 0x0A), (CHR ''r'', CHR 0x0D), (CHR ''t'', CHR 0x09)] c"

text \<open>
  A \<open>\u\<close> escape after its letter: a surrogate pair is one rune, a lone surrogate the error rune.
\<close>

definition unicode_escape :: "string \<Rightarrow> (string \<times> string) option" where
  "unicode_escape s =
    (case hex4 s of
       None \<Rightarrow> None
     | Some (r1, rest) \<Rightarrow>
         if is_surrogate r1 then
           (case rest of
              a # b # rest2 \<Rightarrow>
                if a = CHR 0x5C \<and> b = CHR ''u'' then
                  (case hex4 rest2 of
                     Some (r2, rest3) \<Rightarrow>
                       if r1 < 56320 \<and> 56320 \<le> r2 \<and> r2 < 57344
                       then Some (encode_rune ((r1 - 55296) * 1024 + (r2 - 56320) + 65536), rest3)
                       else Some (encode_rune rune_error, rest)
                   | None \<Rightarrow> Some (encode_rune rune_error, rest))
                else Some (encode_rune rune_error, rest)
            | _ \<Rightarrow> Some (encode_rune rune_error, rest))
         else Some (encode_rune r1, rest))"

lemma hex4_length: "hex4 s = Some (n, rest) \<Longrightarrow> length rest < length s"
  by (auto simp: hex4_def split: if_splits)

lemma unicode_escape_length: "unicode_escape s = Some (out, rest) \<Longrightarrow> length rest < length s"
  by (auto simp: unicode_escape_def dest!: hex4_length split: option.splits list.splits if_splits)

text \<open>The body of a string literal after its opening quote: its value and the rest of the input.\<close>

function json_string :: "string \<Rightarrow> (string \<times> string) option" where
  "json_string [] = None"
| "json_string (c # cs) =
    (if c = CHR 0x22 then Some ([], cs)
     else if c = CHR 0x5C then
       (case cs of
          [] \<Rightarrow> None
        | e # rest \<Rightarrow>
            if e = CHR ''u'' then
              (case unicode_escape rest of
                 None \<Rightarrow> None
               | Some (out, rest') \<Rightarrow> map_option (\<lambda>(s, r). (out @ s, r)) (json_string rest'))
            else
              (case simple_escape e of
                 None \<Rightarrow> None
               | Some d \<Rightarrow> map_option (\<lambda>(s, r). (d # s, r)) (json_string rest)))
     else if byte_of c < 32 then None
     else if byte_of c < 128 then map_option (\<lambda>(s, r). (c # s, r)) (json_string cs)
     else
       (case decode_rune (c # cs) of
          (rn, w) \<Rightarrow> map_option (\<lambda>(s, r). (encode_rune rn @ s, r)) (json_string (drop w (c # cs)))))"
  by pat_completeness auto
termination
proof (relation "measure length", goal_cases)
  case (2 c cs e rest out rest')
  then show ?case
    using unicode_escape_length by fastforce
next
  case (5 c cs rn w)
  then have "0 < w"
    using decode_rune_width [of c cs] by (metis snd_conv)
  then show ?case
    by simp
qed auto

lemma json_string_length: "json_string s = Some (v, rest) \<Longrightarrow> length rest < length s"
proof (induction s arbitrary: v rest rule: length_induct)
  case (1 s)
  have IH: "length rest < length s" if "json_string t = Some (v, rest)" "length t < length s" for t v rest
    using that 1(1) by (meson less_trans)
  show ?case
  proof (cases s)
    case (Cons c cs)
    have w: "length (drop (snd (decode_rune (c # cs))) (c # cs)) < length s"
      using Cons decode_rune_width [of c cs] by simp
    show ?thesis
      using 1(2) w unfolding Cons
      by (auto split: if_splits list.splits option.splits prod.splits simp del: decode_rune.simps
          dest!: unicode_escape_length dest: IH simp: Cons)
  qed (use 1(2) in simp)
qed

section \<open>Numbers and values\<close>

definition is_digit :: "char \<Rightarrow> bool" where
  "is_digit c \<longleftrightarrow> CHR ''0'' \<le> c \<and> c \<le> CHR ''9''"

text \<open>A number token: sign, integer part, fraction and exponent, as the scanner accepts them.\<close>

definition number_exponent :: "string \<Rightarrow> (string \<times> string) option" where
  "number_exponent s =
    (case s of
       e # rest \<Rightarrow>
         if e = CHR ''e'' \<or> e = CHR ''E'' then
           (let (sg, rest1) = (case rest of c # r \<Rightarrow> if c = CHR ''+'' \<or> c = CHR ''-'' then ([c], r) else ([], rest)
                               | [] \<Rightarrow> ([], []));
                ds = takeWhile is_digit rest1
            in if ds = [] then None else Some (e # sg @ ds, drop (length ds) rest1))
         else Some ([], s)
     | [] \<Rightarrow> Some ([], []))"

definition number_fraction :: "string \<Rightarrow> (string \<times> string) option" where
  "number_fraction s =
    (case s of
       d # rest \<Rightarrow>
         if d = CHR ''.'' then
           (let ds = takeWhile is_digit rest
            in if ds = [] then None else Some (d # ds, drop (length ds) rest))
         else Some ([], s)
     | [] \<Rightarrow> Some ([], []))"

definition json_number :: "string \<Rightarrow> (string \<times> string) option" where
  "json_number s =
    (let (sg, s1) = (case s of c # r \<Rightarrow> if c = CHR ''-'' then ([c], r) else ([], s) | [] \<Rightarrow> ([], []));
         ds = (case s1 of c # r \<Rightarrow> if c = CHR ''0'' then [c] else takeWhile is_digit s1 | [] \<Rightarrow> [])
     in if ds = [] then None
        else case number_fraction (drop (length ds) s1) of
               None \<Rightarrow> None
             | Some (fr, s2) \<Rightarrow>
                 (case number_exponent s2 of
                    None \<Rightarrow> None
                  | Some (ex, s3) \<Rightarrow> Some (sg @ ds @ fr @ ex, s3)))"

text \<open>The next character that is no white space, and the rest.\<close>

definition next_tok :: "string \<Rightarrow> (char \<times> string) option" where
  "next_tok s = (case skip_ws s of [] \<Rightarrow> None | c # cs \<Rightarrow> Some (c, cs))"

text \<open>The literals true, false and null, and numbers: a value that starts with the given character.\<close>

definition json_scalar :: "char \<Rightarrow> string \<Rightarrow> (json \<times> string) option" where
  "json_scalar c cs =
    (if has_prefix (c # cs) ''true'' then Some (JBool True, drop 3 cs)
     else if has_prefix (c # cs) ''false'' then Some (JBool False, drop 4 cs)
     else if has_prefix (c # cs) ''null'' then Some (JNull, drop 3 cs)
     else do { (v, r) \<leftarrow> json_number (c # cs); Some (JNum v, r) })"

text \<open>
  Values, array elements after \<open>[\<close> and object members after \<open>{\<close>: fuel, remaining nesting depth, input.
\<close>

fun json_value :: "nat \<Rightarrow> nat \<Rightarrow> string \<Rightarrow> (json \<times> string) option"
  and json_elems :: "nat \<Rightarrow> nat \<Rightarrow> string \<Rightarrow> (json list \<times> string) option"
  and json_members :: "nat \<Rightarrow> nat \<Rightarrow> string \<Rightarrow> ((string \<times> json) list \<times> string) option" where
  "json_value 0 d s = None"
| "json_value (Suc n) d s =
    do {
      (c, cs) \<leftarrow> next_tok s;
      if c = CHR 0x22 then do { (v, r) \<leftarrow> json_string cs; Some (JStr v, r) }
      else if c = CHR ''{'' then
        if d = 0 then None
        else do {
          (e, r) \<leftarrow> next_tok cs;
          if e = CHR ''}'' then Some (JObj [], r)
          else do { (ms, r2) \<leftarrow> json_members n (d - 1) cs; Some (JObj ms, r2) }
        }
      else if c = CHR ''['' then
        if d = 0 then None
        else do {
          (e, r) \<leftarrow> next_tok cs;
          if e = CHR '']'' then Some (JArr [], r)
          else do { (vs, r2) \<leftarrow> json_elems n (d - 1) cs; Some (JArr vs, r2) }
        }
      else json_scalar c cs
    }"
| "json_elems 0 d s = None"
| "json_elems (Suc n) d s =
    do {
      (v, rest) \<leftarrow> json_value n d s;
      (c, cs) \<leftarrow> next_tok rest;
      if c = CHR '','' then do { (vs, r) \<leftarrow> json_elems n d cs; Some (v # vs, r) }
      else if c = CHR '']'' then Some ([v], cs)
      else None
    }"
| "json_members 0 d s = None"
| "json_members (Suc n) d s =
    do {
      (q, qs) \<leftarrow> next_tok s;
      (k, rest) \<leftarrow> (if q = CHR 0x22 then json_string qs else None);
      (c, cs) \<leftarrow> next_tok rest;
      (v, rest2) \<leftarrow> (if c = CHR '':'' then json_value n d cs else None);
      (e, es) \<leftarrow> next_tok rest2;
      if e = CHR '','' then do { (ms, r) \<leftarrow> json_members n d es; Some ((k, v) # ms, r) }
      else if e = CHR ''}'' then Some ([(k, v)], es)
      else None
    }"

definition json_parse :: "string \<Rightarrow> json option" where
  "json_parse src =
    do {
      (v, rest) \<leftarrow> json_value (2 * length src + 2) 10000 src;
      if skip_ws rest = [] then Some v else None
    }"

section \<open>Fuel\<close>

lemma skip_ws_length: "length (skip_ws s) \<le> length s"
  by (induction s) auto

lemma next_tok_length: "next_tok s = Some (c, cs) \<Longrightarrow> length cs < length s"
  using skip_ws_length [of s] by (auto simp: next_tok_def split: list.splits)

lemma json_number_length: "json_number s = Some (v, rest) \<Longrightarrow> length rest < length s"
proof -
  assume a: "json_number s = Some (v, rest)"
  have fr: "number_fraction t = Some (x, r) \<Longrightarrow> length r \<le> length t" for t x r
    by (auto simp: number_fraction_def Let_def split: list.splits if_splits)
  have ex: "number_exponent t = Some (x, r) \<Longrightarrow> length r \<le> length t" for t x r
    by (auto simp: number_exponent_def Let_def split: list.splits if_splits)
  show ?thesis
    using a
    by (auto simp: json_number_def Let_def split: list.splits if_splits option.splits prod.splits
        dest!: fr ex)
qed

lemma json_scalar_length: "json_scalar c cs = Some (v, r) \<Longrightarrow> length r \<le> length cs"
  by (auto simp: json_scalar_def bind_eq_Some_conv dest!: json_number_length split: if_splits)

lemma json_lengths:
  "(\<forall>d s v r. json_value n d s = Some (v, r) \<longrightarrow> length r < length s) \<and>
   (\<forall>d s vs r. json_elems n d s = Some (vs, r) \<longrightarrow> length r < length s) \<and>
   (\<forall>d s ms r. json_members n d s = Some (ms, r) \<longrightarrow> length r < length s)"
proof (induction n)
  case (Suc n)
  have val: "length r < length s" if "json_value n d s = Some (v, r)" for d s v r
    using that Suc by blast
  have elems: "length r < length s" if "json_elems n d s = Some (vs, r)" for d s vs r
    using that Suc by blast
  have members: "length r < length s" if "json_members n d s = Some (ms, r)" for d s ms r
    using that Suc by blast
  have "length r < length s" if "json_value (Suc n) d s = Some (v, r)" for d s v r
    using that
    by (auto simp: bind_eq_Some_conv split: if_splits
        dest!: next_tok_length json_string_length json_scalar_length elems members)
  moreover have "length r < length s" if "json_elems (Suc n) d s = Some (vs, r)" for d s vs r
    using that
    by (auto simp: bind_eq_Some_conv split: if_splits dest!: next_tok_length val elems)
  moreover have "length r < length s" if "json_members (Suc n) d s = Some (ms, r)" for d s ms r
    using that
    by (auto simp: bind_eq_Some_conv split: if_splits
        dest!: next_tok_length json_string_length val members)
  ultimately show ?case
    by blast
qed simp

text \<open>Any fuel above twice the length gives the same result.\<close>

lemma json_fuel:
  "(\<forall>m d s. 2 * length s < n \<longrightarrow> 2 * length s < m \<longrightarrow> json_value n d s = json_value m d s) \<and>
   (\<forall>m d s. 2 * length s + 1 < n \<longrightarrow> 2 * length s + 1 < m \<longrightarrow> json_elems n d s = json_elems m d s) \<and>
   (\<forall>m d s. 2 * length s < n \<longrightarrow> 2 * length s < m \<longrightarrow> json_members n d s = json_members m d s)"
proof (induction n)
  case (Suc n)
  have V: "json_value n d s = json_value m d s" if "2 * length s < n" "2 * length s < m" for m d s
    using that Suc by blast
  have E: "json_elems n d s = json_elems m d s" if "2 * length s + 1 < n" "2 * length s + 1 < m" for m d s
    using that Suc by blast
  have M: "json_members n d s = json_members m d s" if "2 * length s < n" "2 * length s < m" for m d s
    using that Suc by blast
  have len: "json_value k d s = Some (v, r) \<Longrightarrow> length r < length s" for k d s v r
    using json_lengths [of k] by blast
  have shorter: "json_value n e t = json_value k e t" "json_elems n e t = json_elems k e t"
    "json_members n e t = json_members k e t"
    if "length t < length s" "2 * length s \<le> n" "2 * length s \<le> k" for e t k s
    using that by (auto intro!: V E M)
  have "json_value (Suc n) d s = json_value m d s" if "2 * length s < Suc n" "2 * length s < m" for m d s
  proof (cases m)
    case (Suc k)
    then have "2 * length s \<le> n" "2 * length s \<le> k"
      using that by auto
    then show ?thesis
      by (auto intro!: Option.bind_cong dest!: next_tok_length simp: Suc shorter [of _ s k] split: if_splits)
  qed (use that in simp)
  moreover have "json_elems (Suc n) d s = json_elems m d s"
    if "2 * length s + 1 < Suc n" "2 * length s + 1 < m" for m d s
  proof (cases m)
    case (Suc k)
    then have k: "2 * length s < n" "2 * length s < k"
      using that by auto
    then show ?thesis
      by (auto intro!: Option.bind_cong dest!: next_tok_length len
          simp: Suc V [OF k] shorter(2) [of _ s k] split: if_splits)
  qed (use that in simp)
  moreover have "json_members (Suc n) d s = json_members m d s"
    if "2 * length s < Suc n" "2 * length s < m" for m d s
  proof (cases m)
    case (Suc k)
    then have k: "2 * length s \<le> n" "2 * length s \<le> k"
      using that by auto
    then show ?thesis
      by (auto intro!: Option.bind_cong dest!: next_tok_length json_string_length len
          simp: Suc shorter [of _ s k] split: if_splits)
  qed (use that in simp)
  ultimately show ?case
    by blast
qed simp

lemma json_parse_fuel:
  assumes "2 * length src + 2 \<le> n"
  shows "json_parse src = do { (v, rest) \<leftarrow> json_value n 10000 src; if skip_ws rest = [] then Some v else None }"
proof -
  have "json_value n 10000 src = json_value (2 * length src + 2) 10000 src"
    using json_fuel [of n] assms by (auto simp del: json_value.simps)
  then show ?thesis
    by (simp only: json_parse_def)
qed

declare json_value.simps(2) [simp del] json_elems.simps(2) [simp del] json_members.simps(2) [simp del]

end
