(* ===== verification/Policy_Parse.thy ===== *)
theory Policy_Parse
  imports Policy_Eval Go_Json
begin

text \<open>
  Parsing and validation of policy documents: the JSON decoding of \<open>src/policy/policy.go\<close> and
  \<open>src/policy/condition.go\<close>, \<open>src/policy/dialect.go\<close>, and the structural checks. Decoding starts from a JSON
  value; a field absent from an object keeps the value it had, a repeated member decodes again into the
  same field, as \<open>json.Unmarshal\<close> does. The members of a Go map are visited in document order.
\<close>

section \<open>Limits\<close>

definition MaxPolicyBytes :: nat where "MaxPolicyBytes = 20 * 1024"
definition MaxPrincipalUsers :: nat where "MaxPrincipalUsers = 100"
definition MaxStatements :: nat where "MaxStatements = 20"
definition MaxActionsPerStatement :: nat where "MaxActionsPerStatement = 30"
definition MaxResourcesPerStatement :: nat where "MaxResourcesPerStatement = 10"
definition MaxPatternLen :: nat where "MaxPatternLen = 128"
definition MaxConditionValues :: nat where "MaxConditionValues = 50"

section \<open>Decoding\<close>

definition json_type_error :: go_error where
  "json_type_error = Sentinel ''json: cannot unmarshal value''"

text \<open>A string field that held \<open>old\<close>: null leaves it alone.\<close>

fun decode_string :: "json \<Rightarrow> string \<Rightarrow> go_error + string" where
  "decode_string (JStr s) old = Inr s"
| "decode_string JNull old = Inr old"
| "decode_string _ old = Inl json_type_error"

text \<open>\<open>StringOrSlice.UnmarshalJSON\<close>: null reads as a single empty string.\<close>

fun StringOrSlice_Unmarshal :: "json \<Rightarrow> go_error + string list" where
  "StringOrSlice_Unmarshal (JStr s) = Inr [s]"
| "StringOrSlice_Unmarshal JNull = Inr [[]]"
| "StringOrSlice_Unmarshal (JArr vs) = map_res (\<lambda>v. decode_string v []) vs"
| "StringOrSlice_Unmarshal _ = Inl json_type_error"

text \<open>The members of an object decoded into a Go map: the last of equal keys stays, in first position.\<close>

fun json_map :: "(string \<times> 'v) list \<Rightarrow> (string \<times> 'v) list" where
  "json_map [] = []"
| "json_map ((k, v) # kvs) =
    (k, case map_of (rev kvs) k of Some w \<Rightarrow> w | None \<Rightarrow> v) # filter (\<lambda>p. fst p \<noteq> k) (json_map kvs)"

definition SourceIPKey :: string where "SourceIPKey = ''aws:SourceIp''"
definition opIPAddress :: string where "opIPAddress = ''IpAddress''"
definition opNotIPAddress :: string where "opNotIPAddress = ''NotIpAddress''"

text \<open>A \<open>map[string]StringOrSlice\<close>; null is the nil map.\<close>

fun decode_string_map :: "json \<Rightarrow> go_error + (string \<times> string list) list" where
  "decode_string_map (JObj kvs) =
    map_res (\<lambda>(k, v). and_then (StringOrSlice_Unmarshal v) (\<lambda>xs. Inr (k, xs))) (json_map kvs)"
| "decode_string_map JNull = Inr []"
| "decode_string_map _ = Inl json_type_error"

text \<open>The inner loop of \<open>Condition.UnmarshalJSON\<close> over one operator's keys, appending to the values.\<close>

fun condition_keys :: "(string \<times> string list) list \<Rightarrow> string list \<Rightarrow> go_error + string list" where
  "condition_keys [] dst = Inr dst"
| "condition_keys ((k, vs) # kvs) dst =
    (if equal_fold k SourceIPKey then condition_keys kvs (dst @ vs)
     else Inl (Errorf (Sprintf ''unknown condition key %q (only %s is supported)'' [FS k, FS SourceIPKey]) []))"

fun condition_ops ::
  "(string \<times> (string \<times> string list) list) list \<Rightarrow> condition \<Rightarrow> go_error + condition" where
  "condition_ops [] c = Inr c"
| "condition_ops ((op, keys) # ops) c =
    (let no_values = Errorf (Sprintf ''condition operator %s has no values'' [FS op]) [] in
     if op = opIPAddress then
       and_then (condition_keys keys (cond_IPAddress c)) (\<lambda>dst.
         guard_err (dst = []) no_values (condition_ops ops (c\<lparr> cond_IPAddress := dst \<rparr>)))
     else if op = opNotIPAddress then
       and_then (condition_keys keys (cond_NotIPAddress c)) (\<lambda>dst.
         guard_err (dst = []) no_values (condition_ops ops (c\<lparr> cond_NotIPAddress := dst \<rparr>)))
     else Inl (Errorf (Sprintf ''unknown condition operator %q (only %s and %s are supported)''
       [FS op, FS opIPAddress, FS opNotIPAddress]) []))"

definition empty_condition :: condition where
  "empty_condition = \<lparr> cond_IPAddress = [], cond_NotIPAddress = [] \<rparr>"

definition malformed :: "string \<Rightarrow> go_error \<Rightarrow> go_error" where
  "malformed what e = Errorf (lit what) [e]"

definition Condition_UnmarshalJSON :: "json \<Rightarrow> go_error + condition" where
  "Condition_UnmarshalJSON v =
    (case v of
       JObj kvs \<Rightarrow>
         (case map_res (\<lambda>(op, w). and_then (decode_string_map w) (\<lambda>m. Inr (op, m))) (json_map kvs) of
            Inl e \<Rightarrow> Inl (malformed ''malformed condition: %w'' e)
          | Inr raw \<Rightarrow> condition_ops raw empty_condition)
     | JNull \<Rightarrow> Inr empty_condition
     | _ \<Rightarrow> Inl (malformed ''malformed condition: %w'' json_type_error))"

definition Condition_MarshalJSON :: "condition \<Rightarrow> json" where
  "Condition_MarshalJSON c =
    (let arr = (\<lambda>vs. JObj [(SourceIPKey, JArr (map JStr vs))]) in
     JObj ((if cond_IPAddress c \<noteq> [] then [(opIPAddress, arr (cond_IPAddress c))] else []) @
           (if cond_NotIPAddress c \<noteq> [] then [(opNotIPAddress, arr (cond_NotIPAddress c))] else [])))"

section \<open>Principals\<close>

definition principal_error :: "string \<Rightarrow> go_error" where
  "principal_error key =
    Errorf (Sprintf ''principal must be %q or an object with the %s key'' [FS ''*'', FS key]) []"

text \<open>The value of a struct field among an object's members: exact name or a case-folded one.\<close>

definition field_values :: "string \<Rightarrow> (string \<times> json) list \<Rightarrow> json list" where
  "field_values name kvs = map snd (filter (\<lambda>p. equal_fold (fst p) name) kvs)"

definition Principal_UnmarshalJSON :: "json \<Rightarrow> go_error + principal" where
  "Principal_UnmarshalJSON v =
    (case v of
       JStr s \<Rightarrow> if s = ''*'' then Inr \<lparr> prin_All = True, prin_Users = [] \<rparr> else Inl (principal_error ''S3RP'')
     | JNull \<Rightarrow> Inl (principal_error ''S3RP'')
     | JObj kvs \<Rightarrow>
         (case map_res StringOrSlice_Unmarshal (field_values ''S3RP'' kvs) of
            Inl e \<Rightarrow> Inl (malformed ''malformed principal: %w'' e)
          | Inr uss \<Rightarrow>
              (let users = (if uss = [] then [] else last uss) in
               if users = [] then Inl (principal_error ''S3RP'')
               else Inr \<lparr> prin_All = False, prin_Users = users \<rparr>))
     | _ \<Rightarrow> Inl (malformed ''malformed principal: %w'' json_type_error))"

definition Principal_MarshalJSON :: "principal \<Rightarrow> json" where
  "Principal_MarshalJSON p =
    (if prin_All p then JStr ''*'' else JObj [(''S3RP'', JArr (map JStr (prin_Users p)))])"

section \<open>Dialects\<close>

record dialect =
  dl_PrincipalKey :: string
  dl_ResourcePrefix :: string
  dl_NormalizePrincipal :: "(string \<Rightarrow> go_error + string) option"
  dl_NormalizeResource :: "(string \<Rightarrow> go_error + string) option"

definition default_dialect :: dialect where
  "default_dialect = \<lparr> dl_PrincipalKey = [], dl_ResourcePrefix = [], dl_NormalizePrincipal = None,
    dl_NormalizeResource = None \<rparr>"

definition principalKey :: "dialect \<Rightarrow> string" where
  "principalKey d = (if dl_PrincipalKey d = [] then ''S3RP'' else dl_PrincipalKey d)"

text \<open>An absent \<open>json.RawMessage\<close> is \<open>None\<close>.\<close>

record raw_statement =
  rs_Sid :: string
  rs_Effect :: string
  rs_Principal :: "json option"
  rs_NotPrincipal :: "json option"
  rs_Action :: "string list"
  rs_Resource :: "string list"
  rs_Condition :: "condition option"

definition zero_statement :: raw_statement where
  "zero_statement = \<lparr> rs_Sid = [], rs_Effect = [], rs_Principal = None, rs_NotPrincipal = None,
    rs_Action = [], rs_Resource = [], rs_Condition = None \<rparr>"

fun decode_member :: "string \<times> json \<Rightarrow> raw_statement \<Rightarrow> go_error + raw_statement" where
  "decode_member (k, v) rs =
    (if equal_fold k ''Sid'' then
       and_then (decode_string v (rs_Sid rs)) (\<lambda>s. Inr (rs\<lparr> rs_Sid := s \<rparr>))
     else if equal_fold k ''Effect'' then
       and_then (decode_string v (rs_Effect rs)) (\<lambda>s. Inr (rs\<lparr> rs_Effect := s \<rparr>))
     else if equal_fold k ''Principal'' then Inr (rs\<lparr> rs_Principal := Some v \<rparr>)
     else if equal_fold k ''NotPrincipal'' then Inr (rs\<lparr> rs_NotPrincipal := Some v \<rparr>)
     else if equal_fold k ''Action'' then
       and_then (StringOrSlice_Unmarshal v) (\<lambda>xs. Inr (rs\<lparr> rs_Action := xs \<rparr>))
     else if equal_fold k ''Resource'' then
       and_then (StringOrSlice_Unmarshal v) (\<lambda>xs. Inr (rs\<lparr> rs_Resource := xs \<rparr>))
     else if equal_fold k ''Condition'' then
       (if v = JNull then Inr (rs\<lparr> rs_Condition := None \<rparr>)
        else and_then (Condition_UnmarshalJSON v) (\<lambda>c. Inr (rs\<lparr> rs_Condition := Some c \<rparr>)))
     else Inr rs)"

fun decode_statement :: "json \<Rightarrow> raw_statement \<Rightarrow> go_error + raw_statement" where
  "decode_statement (JObj kvs) rs = fold_res decode_member kvs rs"
| "decode_statement JNull rs = Inr rs"
| "decode_statement _ rs = Inl json_type_error"

text \<open>An array decodes into the elements the slice already had; new elements start at zero.\<close>

fun decode_statements :: "json list \<Rightarrow> raw_statement list \<Rightarrow> go_error + raw_statement list" where
  "decode_statements [] old = Inr []"
| "decode_statements (v # vs) old =
    (let (o1, rest) = (case old of [] \<Rightarrow> (zero_statement, []) | r # rs \<Rightarrow> (r, rs)) in
     and_then (decode_statement v o1) (\<lambda>r. and_then (decode_statements vs rest) (\<lambda>rs. Inr (r # rs))))"

fun decode_doc_member ::
  "string \<times> json \<Rightarrow> string \<times> raw_statement list \<Rightarrow> go_error + (string \<times> raw_statement list)" where
  "decode_doc_member (k, v) (ver, sts) =
    (if equal_fold k ''Version'' then and_then (decode_string v ver) (\<lambda>s. Inr (s, sts))
     else if equal_fold k ''Statement'' then
       (case v of
          JArr vs \<Rightarrow> and_then (decode_statements vs sts) (\<lambda>rs. Inr (ver, rs))
        | JNull \<Rightarrow> Inr (ver, [])
        | _ \<Rightarrow> Inl json_type_error)
     else Inr (ver, sts))"

definition decode_document :: "string \<Rightarrow> go_error + (string \<times> raw_statement list)" where
  "decode_document src =
    (case json_parse src of
       Some (JObj kvs) \<Rightarrow> fold_res decode_doc_member kvs ([], [])
     | Some JNull \<Rightarrow> Inr ([], [])
     | _ \<Rightarrow> Inl json_type_error)"

definition decodePrincipal :: "dialect \<Rightarrow> json option \<Rightarrow> go_error + principal option" where
  "decodePrincipal d data =
    (case data of
       None \<Rightarrow> Inr None
     | Some JNull \<Rightarrow> Inr None
     | Some (JStr s) \<Rightarrow>
         if s = ''*'' then Inr (Some \<lparr> prin_All = True, prin_Users = [] \<rparr>)
         else Inl (principal_error (principalKey d))
     | Some v \<Rightarrow>
         (case decode_string_map v of
            Inl e \<Rightarrow> Inl (malformed ''malformed principal: %w'' e)
          | Inr obj \<Rightarrow>
              (let users = (case map_of obj (principalKey d) of Some us \<Rightarrow> us | None \<Rightarrow> []) in
               if users = [] then Inl (principal_error (principalKey d))
               else
                 (case dl_NormalizePrincipal d of
                    None \<Rightarrow> Inr (Some \<lparr> prin_All = False, prin_Users = users \<rparr>)
                  | Some norm \<Rightarrow>
                      and_then (map_res (\<lambda>u. case norm u of
                          Inl e \<Rightarrow> Inl (Errorf (Sprintf ''principal %q: %w'' [FS u]) [e])
                        | Inr n \<Rightarrow> Inr n) users)
                        (\<lambda>us. Inr (Some \<lparr> prin_All = False, prin_Users = us \<rparr>))))))"

section \<open>Validation\<close>

definition statementName :: "string \<Rightarrow> nat \<Rightarrow> go_text" where
  "statementName sid i = (if sid = [] then Sprintf ''statement[%d]'' [FI (int i)] else lit sid)"

definition stmt_error :: "string \<Rightarrow> go_text \<Rightarrow> fmt_arg list \<Rightarrow> go_error" where
  "stmt_error fmt name args = Errorf (Sprintf fmt (FT name # args)) []"

definition stmt_wrap :: "go_text \<Rightarrow> go_error \<Rightarrow> go_error" where
  "stmt_wrap name e = Errorf (Sprintf ''%s: %w'' [FT name]) [e]"

text \<open>Prefix an error with the statement's name.\<close>

definition named :: "go_text \<Rightarrow> go_error + 'a \<Rightarrow> go_error + 'a" where
  "named name r = (case r of Inl e \<Rightarrow> Inl (stmt_wrap name e) | Inr x \<Rightarrow> Inr x)"

lemma named_Inr_iff [simp]: "named name r = Inr x \<longleftrightarrow> r = Inr x"
  by (auto simp: named_def split: sum.splits)

definition principal_char :: "char \<Rightarrow> bool" where
  "principal_char c \<longleftrightarrow>
    CHR ''a'' \<le> c \<and> c \<le> CHR ''z'' \<or> CHR ''0'' \<le> c \<and> c \<le> CHR ''9''"

text \<open>One half of \<open>principalRegexp\<close>: a letter or digit, then one or more of those, \<open>_\<close> and \<open>-\<close>.\<close>

definition principal_part :: "string \<Rightarrow> bool" where
  "principal_part s \<longleftrightarrow>
    2 \<le> length s \<and> principal_char (hd s) \<and>
    list_all (\<lambda>c. principal_char c \<or> c = CHR ''_'' \<or> c = CHR ''-'') (tl s)"

definition principalRegexp :: "string \<Rightarrow> bool" where
  "principalRegexp s =
    (case str_cut (CHR ''/'') s of
       (t, u, found) \<Rightarrow> found \<and> principal_part t \<and> (principal_part u \<or> u = ''*''))"

definition validatePrincipal :: "principal option \<Rightarrow> go_text \<Rightarrow> go_error + unit" where
  "validatePrincipal pr name =
    (case pr of
       None \<Rightarrow> Inr ()
     | Some p \<Rightarrow>
         guard_err (MaxPrincipalUsers < length (prin_Users p))
           (stmt_error ''%s: %d principal users, at most %d are allowed'' name
             [FI (int (length (prin_Users p))), FI (int MaxPrincipalUsers)])
         (for_each (\<lambda>u. if principalRegexp u then Inr ()
            else Inl (stmt_error ''%s: invalid principal %q (must be %q or %q)'' name
              [FS u, FS ''tenant/user'', FS ''tenant/*''])) (prin_Users p)))"

definition validateCondition :: "condition \<Rightarrow> go_text \<Rightarrow> go_error + unit" where
  "validateCondition c name =
    guard_err (cond_IPAddress c = [] \<and> cond_NotIPAddress c = [])
      (stmt_error ''%s: condition must contain at least one operator'' name [])
    (guard_err (MaxConditionValues < length (cond_IPAddress c))
      (stmt_error ''%s: %d %s values, at most %d are allowed'' name
        [FI (int (length (cond_IPAddress c))), FS opIPAddress, FI (int MaxConditionValues)])
    (guard_err (MaxConditionValues < length (cond_NotIPAddress c))
      (stmt_error ''%s: %d %s values, at most %d are allowed'' name
        [FI (int (length (cond_NotIPAddress c))), FS opNotIPAddress, FI (int MaxConditionValues)])
    (case snd (condition_compile c) of
       Some e \<Rightarrow> Inl (stmt_wrap name e)
     | None \<Rightarrow> Inr ())))"

definition validateAction :: "string \<Rightarrow> go_error + unit" where
  "validateAction a =
    guard_err (\<not> has_prefix (to_lower a) ''s3:'')
      (Errorf (Sprintf ''action %q must start with s3:'' [FS a]) [])
    (guard_err (MaxPatternLen < length a)
      (Errorf (Sprintf ''action pattern too long (%d bytes, max %d)''
        [FI (int (length a)), FI (int MaxPatternLen)]) [])
    (Inr ()))"

definition statement_validate :: "statement \<Rightarrow> go_text \<Rightarrow> go_error + unit" where
  "statement_validate st name =
    guard_err (st_Effect st \<noteq> ''Allow'' \<and> st_Effect st \<noteq> ''Deny'')
      (stmt_error ''%s: effect must be Allow or Deny'' name [])
    (guard_err ((st_Principal st = None) = (st_NotPrincipal st = None))
      (stmt_error ''%s: exactly one of Principal or NotPrincipal is required'' name [])
    (guard_err (case st_NotPrincipal st of Some np \<Rightarrow> prin_All np | None \<Rightarrow> False)
      (stmt_error ''%s: NotPrincipal %q matches nobody'' name [FS ''*''])
    (guard_err (st_NotPrincipal st \<noteq> None \<and> st_Effect st \<noteq> ''Deny'')
      (stmt_error ''%s: NotPrincipal is only allowed with Effect Deny'' name [])
    (and_then (for_each (\<lambda>pr. validatePrincipal pr name) [st_Principal st, st_NotPrincipal st]) (\<lambda>_.
    guard_err (st_Action st = [])
      (stmt_error ''%s: at least one action is required'' name [])
    (guard_err (MaxActionsPerStatement < length (st_Action st))
      (stmt_error ''%s: %d actions, at most %d are allowed'' name
        [FI (int (length (st_Action st))), FI (int MaxActionsPerStatement)])
    (and_then (named name (for_each validateAction (st_Action st))) (\<lambda>_.
    guard_err (st_Resource st = [])
      (stmt_error ''%s: at least one resource is required'' name [])
    (guard_err (MaxResourcesPerStatement < length (st_Resource st))
      (stmt_error ''%s: %d resources, at most %d are allowed'' name
        [FI (int (length (st_Resource st))), FI (int MaxResourcesPerStatement)])
    (and_then (for_each (\<lambda>res. if MaxPatternLen < length res
        then Inl (stmt_error ''%s: resource pattern too long (%d bytes, max %d)'' name
          [FI (int (length res)), FI (int MaxPatternLen)])
        else Inr ()) (st_Resource st)) (\<lambda>_.
    (case st_Condition st of None \<Rightarrow> Inr () | Some c \<Rightarrow> validateCondition c name))))))))))))"

text \<open>The statement loop of \<open>Policy.validate\<close>, with the Sids seen so far and their indices.\<close>

fun validate_statements ::
  "nat \<Rightarrow> statement list \<Rightarrow> (string \<times> nat) list \<Rightarrow> go_error + unit" where
  "validate_statements i [] sids = Inr ()"
| "validate_statements i (st # sts) sids =
    (case (if st_Sid st = [] then None else map_of sids (st_Sid st)) of
       Some j \<Rightarrow> Inl (Errorf (Sprintf ''duplicate Sid %q (statement[%d] and statement[%d])''
         [FS (st_Sid st), FI (int j), FI (int i)]) [])
     | None \<Rightarrow>
         and_then (statement_validate st (statementName (st_Sid st) i)) (\<lambda>_.
           validate_statements (i + 1) sts
             (if st_Sid st = [] then sids else (st_Sid st, i) # sids)))"

definition policy_validate :: "policy \<Rightarrow> go_error + unit" where
  "policy_validate p =
    guard_err (pol_Version p \<noteq> [] \<and> pol_Version p \<noteq> ''2012-10-17'' \<and> pol_Version p \<noteq> ''2008-10-17'')
      (Errorf (Sprintf ''unsupported policy version %q'' [FS (pol_Version p)]) [])
    (guard_err (pol_Statement p = [])
      (Errorf (lit ''policy must contain at least one statement'') [])
    (guard_err (MaxStatements < length (pol_Statement p))
      (Errorf (Sprintf ''policy has %d statements, at most %d are allowed''
        [FI (int (length (pol_Statement p))), FI (int MaxStatements)]) [])
    (validate_statements 0 (pol_Statement p) [])))"

definition ValidateResourcesFor :: "policy \<Rightarrow> string \<Rightarrow> go_error + unit" where
  "ValidateResourcesFor p bucket =
    for_each (\<lambda>(i, st). for_each (\<lambda>res.
        if res \<noteq> bucket \<and> \<not> has_prefix res (bucket @ ''/'')
        then Inl (stmt_error ''%s: resource %q does not refer to bucket %q'' (statementName (st_Sid st) i)
          [FS res, FS bucket])
        else Inr ()) (st_Resource st))
      (indexed (pol_Statement p))"

text \<open>
  An action checker reports an error for a pattern that matches no action; \<open>None\<close> is the nil checker. The
  errors of all statements are joined.
\<close>

type_synonym action_checker = "string \<Rightarrow> go_error option"

definition check_errors :: "action_checker \<Rightarrow> (string list \<times> string) list \<Rightarrow> go_error list" where
  "check_errors check sts =
    concat (map (\<lambda>(i, actions, sid).
      map (\<lambda>e. Errorf (Sprintf ''%s: %w''
          [if sid = [] then FT (Sprintf ''statement[%d]'' [FI (int i)])
           else FT (Sprintf ''statement[%d] %q'' [FI (int i), FS sid])]) [e])
        (List.map_filter check actions)) (indexed sts))"

definition checkActions :: "action_checker option \<Rightarrow> (string list \<times> string) list \<Rightarrow> go_error + unit" where
  "checkActions check sts =
    (case check of
       None \<Rightarrow> Inr ()
     | Some f \<Rightarrow> (case check_errors f sts of [] \<Rightarrow> Inr () | errs \<Rightarrow> Inl (Errorf (lit ''errors.Join'') errs)))"

text \<open>Stripping the resource prefix of a dialect, and its resource normalization.\<close>

definition strip_resources :: "dialect \<Rightarrow> go_text \<Rightarrow> string list \<Rightarrow> go_error + string list" where
  "strip_resources d name ress =
    (if dl_ResourcePrefix d = [] then Inr ress
     else map_res (\<lambda>res. case cut_prefix res (dl_ResourcePrefix d) of
         None \<Rightarrow> Inl (stmt_error ''%s: resource %q must start with %q'' name [FS res, FS (dl_ResourcePrefix d)])
       | Some r \<Rightarrow> Inr r) ress)"

definition normalize_resources :: "dialect \<Rightarrow> go_text \<Rightarrow> string list \<Rightarrow> go_error + string list" where
  "normalize_resources d name ress =
    (case dl_NormalizeResource d of
       None \<Rightarrow> Inr ress
     | Some norm \<Rightarrow> map_res (\<lambda>res. case norm res of
           Inl e \<Rightarrow> Inl (Errorf (Sprintf ''%s: resource %q: %w'' [FT name, FS res]) [e])
         | Inr n \<Rightarrow> Inr n) ress)"

definition parse_statement :: "dialect \<Rightarrow> nat \<times> raw_statement \<Rightarrow> go_error + statement" where
  "parse_statement d = (\<lambda>(i, rs).
    let name = statementName (rs_Sid rs) i in
    and_then (named name (decodePrincipal d (rs_Principal rs))) (\<lambda>pr.
    and_then (named name (decodePrincipal d (rs_NotPrincipal rs))) (\<lambda>npr.
    and_then (strip_resources d name (rs_Resource rs)) (\<lambda>ress.
    and_then (normalize_resources d name ress) (\<lambda>ress'.
      Inr \<lparr> st_Sid = rs_Sid rs, st_Effect = rs_Effect rs, st_Principal = pr, st_NotPrincipal = npr,
            st_Action = rs_Action rs, st_Resource = ress', st_Condition = rs_Condition rs \<rparr>)))))"

text \<open>\<open>Dialect.Parse\<close>, and \<open>Parse\<close> in the default dialect.\<close>

definition dialect_Parse ::
  "dialect \<Rightarrow> string \<Rightarrow> string \<Rightarrow> action_checker option \<Rightarrow> go_error + policy" where
  "dialect_Parse d bucket src check =
    guard_err (MaxPolicyBytes < length src)
      (Errorf (Sprintf ''policy is %d bytes, at most %d are allowed''
        [FI (int (length src)), FI (int MaxPolicyBytes)]) [])
    (case decode_document src of
       Inl e \<Rightarrow> Inl (malformed ''malformed policy JSON: %w'' e)
     | Inr (ver, rss) \<Rightarrow>
         and_then (map_res (parse_statement d) (indexed rss)) (\<lambda>sts.
           let p = \<lparr> pol_Version = ver, pol_Statement = sts \<rparr> in
           and_then (policy_validate p) (\<lambda>_.
           and_then (ValidateResourcesFor p bucket) (\<lambda>_.
           and_then (checkActions check (map (\<lambda>st. (st_Action st, st_Sid st)) (pol_Statement p))) (\<lambda>_.
             Inr p)))))"

definition policy_Parse :: "string \<Rightarrow> string \<Rightarrow> action_checker option \<Rightarrow> go_error + policy" where
  "policy_Parse bucket src check = dialect_Parse default_dialect bucket src check"

section \<open>User policies\<close>

definition validate_action_statement :: "nat \<times> action_statement \<Rightarrow> go_error + unit" where
  "validate_action_statement = (\<lambda>(i, st).
    let name = Sprintf ''statement[%d]'' [FI (int i)] in
    guard_err (as_Effect st \<noteq> ''Allow'' \<and> as_Effect st \<noteq> ''Deny'')
      (stmt_error ''%s: effect must be Allow or Deny'' name [])
    (guard_err (as_Action st = [])
      (stmt_error ''%s: at least one action is required'' name [])
    (guard_err (MaxActionsPerStatement < length (as_Action st))
      (stmt_error ''%s: %d actions, at most %d are allowed'' name
        [FI (int (length (as_Action st))), FI (int MaxActionsPerStatement)])
    (named name (for_each validateAction (as_Action st))))))"

definition ValidateUserPolicy :: "user_policy option \<Rightarrow> action_checker option \<Rightarrow> go_error + unit" where
  "ValidateUserPolicy up check =
    (case up of
       None \<Rightarrow> Inr ()
     | Some up \<Rightarrow>
         guard_err (MaxStatements < length (up_Statements up))
           (Errorf (Sprintf ''policy has %d statements, at most %d are allowed''
             [FI (int (length (up_Statements up))), FI (int MaxStatements)]) [])
         (and_then (for_each validate_action_statement (indexed (up_Statements up))) (\<lambda>_.
           checkActions check (map (\<lambda>st. (as_Action st, [])) (up_Statements up)))))"

text \<open>A string as \<open>json.Marshal\<close> writes it, with HTML characters escaped.\<close>

definition hex_lower :: "nat \<Rightarrow> char" where
  "hex_lower n = char_of (if n < 10 then 48 + n else 87 + n)"

definition json_escape_rune :: "rune \<times> string \<Rightarrow> string" where
  "json_escape_rune = (\<lambda>(r, bytes).
    if r = 34 \<or> r = 92 then CHR 0x5C # bytes
    else if r = 8 then [CHR 0x5C, CHR ''b''] else if r = 9 then [CHR 0x5C, CHR ''t'']
    else if r = 10 then [CHR 0x5C, CHR ''n''] else if r = 12 then [CHR 0x5C, CHR ''f'']
    else if r = 13 then [CHR 0x5C, CHR ''r'']
    else if r < 32 \<or> r = 38 \<or> r = 60 \<or> r = 62
    then [CHR 0x5C, CHR ''u'', CHR ''0'', CHR ''0'', hex_lower (r div 16), hex_lower (r mod 16)]
    else if r = rune_error \<and> length bytes = 1 then CHR 0x5C # ''ufffd''
    else if r = 8232 then CHR 0x5C # ''u2028'' else if r = 8233 then CHR 0x5C # ''u2029''
    else bytes)"

definition json_quote :: "string \<Rightarrow> string" where
  "json_quote s = CHR 0x22 # concat (map json_escape_rune (rune_segs s)) @ [CHR 0x22]"

definition json_array :: "string list \<Rightarrow> string" where
  "json_array xs = (if xs = [] then ''null'' else ''['' @ str_join '','' xs @ '']'')"

text \<open>A slice of the model is nil in Go when it is empty.\<close>

definition marshal_user_policy :: "user_policy option \<Rightarrow> string" where
  "marshal_user_policy up =
    (case up of
       None \<Rightarrow> ''null''
     | Some up \<Rightarrow>
         ''{'' @ json_quote ''policy'' @ '':'' @
         json_array (map (\<lambda>st. ''{'' @ json_quote ''effect'' @ '':'' @ json_quote (as_Effect st) @ '','' @
           json_quote ''action'' @ '':'' @ json_array (map json_quote (as_Action st)) @ ''}'')
           (up_Statements up)) @ ''}'')"

definition MarshalUserPolicy :: "user_policy option \<Rightarrow> go_error + string" where
  "MarshalUserPolicy up =
    (let data = marshal_user_policy up in
     guard_err (MaxPolicyBytes < length data)
       (Errorf (Sprintf ''policy is %d bytes, at most %d are allowed''
         [FI (int (length data)), FI (int MaxPolicyBytes)]) [])
     (Inr data))"

section \<open>What validation guarantees\<close>

lemma statement_validate_sound:
  assumes "statement_validate st name = Inr ()"
  shows "st_Effect st = ''Allow'' \<or> st_Effect st = ''Deny''"
    and "has_principal st" "st_NotPrincipal st = None \<or> st_Effect st = ''Deny''"
    and "(st_Principal st = None) \<noteq> (st_NotPrincipal st = None)"
    and "\<forall>pr \<in> set [st_Principal st, st_NotPrincipal st]. validatePrincipal pr name = Inr ()"
    and "\<forall>a\<in>set (st_Action st). validateAction a = Inr ()"
    and "0 < length (st_Action st) \<and> length (st_Action st) \<le> MaxActionsPerStatement"
    and "0 < length (st_Resource st) \<and> length (st_Resource st) \<le> MaxResourcesPerStatement"
    and "\<forall>r\<in>set (st_Resource st). length r \<le> MaxPatternLen"
    and "\<forall>c. st_Condition st = Some c \<longrightarrow> validateCondition c name = Inr ()"
  using assms
  by (auto simp: statement_validate_def has_principal_def split: if_splits option.splits)

lemma validateCondition_compiles:
  assumes "validateCondition c name = Inr ()"
  shows "\<not> cc_invalid (fst (condition_compile c))"
  using assms
  by (auto simp: validateCondition_def condition_compile_def split: option.splits sum.splits)

lemma validate_statements_sound:
  assumes "validate_statements i sts sids = Inr ()"
  shows "(\<forall>k<length sts. statement_validate (sts ! k) (statementName (st_Sid (sts ! k)) (i + k)) = Inr ()) \<and>
    distinct (filter (\<lambda>s. s \<noteq> []) (map st_Sid sts)) \<and>
    set (filter (\<lambda>s. s \<noteq> []) (map st_Sid sts)) \<inter> fst ` set sids = {}"
  using assms
proof (induction sts arbitrary: i sids)
  case (Cons st sts)
  then have hd: "statement_validate st (statementName (st_Sid st) i) = Inr ()"
    and tl: "validate_statements (i + 1) sts (if st_Sid st = [] then sids else (st_Sid st, i) # sids) = Inr ()"
    and new: "st_Sid st \<noteq> [] \<Longrightarrow> map_of sids (st_Sid st) = None"
    by (auto split: option.splits if_splits)
  note IH = Cons.IH [OF tl]
  have "statement_validate ((st # sts) ! k) (statementName (st_Sid ((st # sts) ! k)) (i + k)) = Inr ()"
    if "k < length (st # sts)" for k
    using that hd IH by (cases k) auto
  then show ?case
    using IH new by (auto simp: map_of_eq_None_iff split: if_splits)
qed simp

text \<open>The structural guarantees of a parsed policy, as one predicate.\<close>

definition policy_wf :: "policy \<Rightarrow> bool" where
  "policy_wf p \<longleftrightarrow>
    policy_principals p \<and> policy_effects p \<and>
    list_all (\<lambda>st. st_NotPrincipal st = None \<or> st_Effect st = ''Deny'') (pol_Statement p) \<and>
    0 < length (pol_Statement p) \<and> length (pol_Statement p) \<le> MaxStatements \<and>
    distinct (filter (\<lambda>s. s \<noteq> []) (map st_Sid (pol_Statement p))) \<and>
    list_all (\<lambda>st. 0 < length (st_Action st) \<and> length (st_Action st) \<le> MaxActionsPerStatement \<and>
      0 < length (st_Resource st) \<and> length (st_Resource st) \<le> MaxResourcesPerStatement \<and>
      list_all (\<lambda>r. length r \<le> MaxPatternLen) (st_Resource st) \<and>
      list_all (\<lambda>a. validateAction a = Inr ()) (st_Action st) \<and>
      (case st_Condition st of None \<Rightarrow> True | Some c \<Rightarrow> \<not> cc_invalid (fst (condition_compile c))))
      (pol_Statement p)"

lemma policy_validate_wf:
  assumes "policy_validate p = Inr ()"
  shows "policy_wf p"
proof -
  have n: "0 < length (pol_Statement p)" "length (pol_Statement p) \<le> MaxStatements"
    and v: "validate_statements 0 (pol_Statement p) [] = Inr ()"
    using assms by (auto simp: policy_validate_def)
  have st: "\<exists>name. statement_validate st name = Inr ()" if "st \<in> set (pol_Statement p)" for st
    using validate_statements_sound [OF v] that by (metis in_set_conv_nth)
  note sound = statement_validate_sound
  show ?thesis
    unfolding policy_wf_def policy_principals_def policy_effects_def list_all_iff
    using n validate_statements_sound [OF v] st
    by (auto dest: sound split: option.splits dest!: validateCondition_compiles [rotated])
qed

lemma map_filter_Nil_iff: "List.map_filter f xs = [] \<longleftrightarrow> (\<forall>x\<in>set xs. f x = None)"
  by (induction xs) (auto simp: List.map_filter_simps split: option.splits)

lemma checkActions_sound:
  assumes "checkActions (Some f) sts = Inr ()" "(as, sid) \<in> set sts" "a \<in> set as"
  shows "f a = None"
proof -
  have "check_errors f sts = []"
    using assms(1) by (auto simp: checkActions_def split: list.splits)
  moreover obtain i where "(i, as, sid) \<in> set (indexed sts)"
    using assms(2) by (metis in_set_conv_nth set_indexed)
  ultimately show ?thesis
    using assms(3) by (fastforce simp: check_errors_def map_filter_Nil_iff)
qed

text \<open>What a resource of a bucket policy refers to.\<close>

definition refers_to :: "string \<Rightarrow> string \<Rightarrow> bool" where
  "refers_to bucket res \<longleftrightarrow> res = bucket \<or> has_prefix res (bucket @ ''/'')"

lemma ValidateResourcesFor_sound:
  assumes "ValidateResourcesFor p bucket = Inr ()" "st \<in> set (pol_Statement p)" "res \<in> set (st_Resource st)"
  shows "refers_to bucket res"
proof -
  obtain i where "(i, st) \<in> set (indexed (pol_Statement p))"
    using assms(2) by (metis in_set_conv_nth set_indexed)
  then show ?thesis
    using assms(1,3) by (fastforce simp: ValidateResourcesFor_def refers_to_def split: if_splits)
qed


definition example_document :: string where
  "example_document = ''{\"Statement\":[{\"Effect\":\"Deny\",\"Principal\":\"*\",\"Action\":\"s3:*\",\"Resource\":\"b/*\"}]}''"


section \<open>Round trips\<close>

lemma equal_fold_refl [simp]: "equal_fold s s"
  by (simp add: equal_fold_def)

lemma map_res_JStr: "map_res (\<lambda>v. decode_string v []) (map JStr xs) = Inr xs"
  by (induction xs) auto

lemma op_names_distinct: "opIPAddress \<noteq> opNotIPAddress" "opNotIPAddress \<noteq> opIPAddress"
  by (simp_all add: opIPAddress_def opNotIPAddress_def)


text \<open>
  Marshalling a principal and reading it back yields the same principal, for the everyone principal
  and for a non-empty list of names.
\<close>

theorem Principal_roundtrip:
  assumes "prin_All p = (prin_Users p = [])"
  shows "Principal_UnmarshalJSON (Principal_MarshalJSON p) = Inr p"
  using assms
  by (cases p)
    (auto simp: Principal_UnmarshalJSON_def Principal_MarshalJSON_def field_values_def Let_def map_res_JStr)

theorem Principal_roundtrip_witness:
  "Principal_UnmarshalJSON (Principal_MarshalJSON \<lparr> prin_All = False, prin_Users = [''ta/alice''] \<rparr>) =
    Inr \<lparr> prin_All = False, prin_Users = [''ta/alice''] \<rparr>"
  using Principal_roundtrip [of "\<lparr> prin_All = False, prin_Users = [''ta/alice''] \<rparr>"] by simp

section \<open>Address conditions\<close>

lemma xor_zero_eq: "x XOR y = 0 \<Longrightarrow> x = y" for x y :: "'a::len word"
  by (metis bit_0_eq bit_eqI bit_xor_iff bot_apply bot_bool_def)

lemma mapped_prefix_disjoint:
  fixes a b :: "128 word"
  assumes "n \<le> 32" "drop_bit n (b XOR a) = 0" "is4in6 a"
  shows "is4in6 b"
proof -
  have "drop_bit 32 (b XOR a) = drop_bit (32 - n) (drop_bit n (b XOR a))"
    using assms(1) by (simp only: drop_bit_drop_bit le_add_diff_inverse2)
  then have "drop_bit 32 (b XOR a) = 0"
    by (simp only: assms(2) drop_bit_of_0)
  then have "drop_bit 32 b XOR drop_bit 32 a = 0"
    by (simp only: drop_bit_xor)
  then have "drop_bit 32 b = drop_bit 32 a"
    by (rule xor_zero_eq)
  then show ?thesis
    using assms(3) by (simp add: is4in6_def)
qed

text \<open>
  A condition value written as an IPv4-mapped prefix (\<open>::ffff:a.b.c.d/n\<close> with n from 96 on) is accepted
  and matches no source at all, since sources are unmapped before they are matched.
\<close>

theorem mapped_prefix_never_matches:
  assumes "pfx_addr p = Addr6 w z" "is4in6 w" "96 \<le> pfx_bits p"
  shows "\<not> Contains p (Unmap a)"
proof
  assume c: "Contains p (Unmap a)"
  then obtain b zb where b: "Unmap a = Addr6 b zb" "drop_bit (nat (128 - pfx_bits p)) (b XOR w) = 0"
    using assms(1) by (auto simp: Contains_def split: addr.splits)
  then have "is4in6 b"
    using assms(2,3) mapped_prefix_disjoint [of "nat (128 - pfx_bits p)" b w] by simp
  moreover have "\<not> is4in6 b"
    using b(1) by (cases a) (auto split: if_splits)
  ultimately show False
    by blast
qed

theorem mapped_prefix_never_matches_witness:
  "(\<exists>p. parseIPValue ''::ffff:10.0.0.0/104'' = Inr p) \<and>
   \<not> Contains \<lparr> pfx_addr = Addr6 0xFFFF0A000000 [], pfx_bits = 104 \<rparr> (Unmap (Addr4 0x0A010203))"
proof -
  have "\<not> isl (parseIPValue ''::ffff:10.0.0.0/104'')" "is4in6 0xFFFF0A000000"
    by code_simp+
  then show ?thesis
    using mapped_prefix_never_matches [of "\<lparr> pfx_addr = Addr6 0xFFFF0A000000 [], pfx_bits = 104 \<rparr>"
        "0xFFFF0A000000" "[]" "Addr4 0x0A010203"]
    by (cases "parseIPValue ''::ffff:10.0.0.0/104''") auto
qed

end
