(* ===== verification/S3op.thy ===== *)
theory S3op
  imports Policy_Parse
begin

text \<open>
  The catalogue of S3 operations and of the actions each one authorizes, \<open>src/s3op/s3op.go\<close> and
  \<open>src/s3op/s3op_gen.go\<close>, in the order the source lists them.
\<close>

section \<open>Types\<close>

datatype scope = ScopeService | ScopeBucket | ScopeObject

datatype support = Supported | Refused

datatype resource = OnTarget | OnCopySource | OnEachKey

datatype authorization =
  Auth (au_Action: string) (au_On: resource) (au_VersionAction: string) (au_Header: string)

datatype operation =
  Oper (o_Name: string) (o_Scope: scope) (o_Support: support) (o_Authorizations: "authorization list")
    (o_Note: string)

section \<open>The catalogue\<close>

abbreviation (input) OpListBuckets :: string where "OpListBuckets \<equiv> ''ListBuckets''"
abbreviation (input) OpHeadBucket :: string where "OpHeadBucket \<equiv> ''HeadBucket''"
abbreviation (input) OpListObjects :: string where "OpListObjects \<equiv> ''ListObjects''"
abbreviation (input) OpListObjectsV2 :: string where "OpListObjectsV2 \<equiv> ''ListObjectsV2''"
abbreviation (input) OpListObjectVersions :: string where "OpListObjectVersions \<equiv> ''ListObjectVersions''"
abbreviation (input) OpListMultipartUploads :: string where "OpListMultipartUploads \<equiv> ''ListMultipartUploads''"
abbreviation (input) OpGetBucketLocation :: string where "OpGetBucketLocation \<equiv> ''GetBucketLocation''"
abbreviation (input) OpGetBucketAcl :: string where "OpGetBucketAcl \<equiv> ''GetBucketAcl''"
abbreviation (input) OpGetBucketPolicy :: string where "OpGetBucketPolicy \<equiv> ''GetBucketPolicy''"
abbreviation (input) OpGetBucketPolicyStatus :: string where "OpGetBucketPolicyStatus \<equiv> ''GetBucketPolicyStatus''"
abbreviation (input) OpGetBucketCors :: string where "OpGetBucketCors \<equiv> ''GetBucketCors''"
abbreviation (input) OpGetBucketVersioning :: string where "OpGetBucketVersioning \<equiv> ''GetBucketVersioning''"
abbreviation (input) OpGetBucketEncryption :: string where "OpGetBucketEncryption \<equiv> ''GetBucketEncryption''"
abbreviation (input) OpGetBucketOwnershipControls :: string where "OpGetBucketOwnershipControls \<equiv> ''GetBucketOwnershipControls''"
abbreviation (input) OpGetPublicAccessBlock :: string where "OpGetPublicAccessBlock \<equiv> ''GetPublicAccessBlock''"
abbreviation (input) OpGetObjectLockConfiguration :: string where "OpGetObjectLockConfiguration \<equiv> ''GetObjectLockConfiguration''"
abbreviation (input) OpDeleteObjects :: string where "OpDeleteObjects \<equiv> ''DeleteObjects''"
abbreviation (input) OpPostObject :: string where "OpPostObject \<equiv> ''PostObject''"
abbreviation (input) OpCreateBucket :: string where "OpCreateBucket \<equiv> ''CreateBucket''"
abbreviation (input) OpDeleteBucket :: string where "OpDeleteBucket \<equiv> ''DeleteBucket''"
abbreviation (input) OpPutBucketAcl :: string where "OpPutBucketAcl \<equiv> ''PutBucketAcl''"
abbreviation (input) OpPutBucketPolicy :: string where "OpPutBucketPolicy \<equiv> ''PutBucketPolicy''"
abbreviation (input) OpDeleteBucketPolicy :: string where "OpDeleteBucketPolicy \<equiv> ''DeleteBucketPolicy''"
abbreviation (input) OpPutBucketCors :: string where "OpPutBucketCors \<equiv> ''PutBucketCors''"
abbreviation (input) OpDeleteBucketCors :: string where "OpDeleteBucketCors \<equiv> ''DeleteBucketCors''"
abbreviation (input) OpPutBucketVersioning :: string where "OpPutBucketVersioning \<equiv> ''PutBucketVersioning''"
abbreviation (input) OpPutObjectLockConfiguration :: string where "OpPutObjectLockConfiguration \<equiv> ''PutObjectLockConfiguration''"
abbreviation (input) OpPutBucketEncryption :: string where "OpPutBucketEncryption \<equiv> ''PutBucketEncryption''"
abbreviation (input) OpDeleteBucketEncryption :: string where "OpDeleteBucketEncryption \<equiv> ''DeleteBucketEncryption''"
abbreviation (input) OpPutBucketOwnershipControls :: string where "OpPutBucketOwnershipControls \<equiv> ''PutBucketOwnershipControls''"
abbreviation (input) OpDeleteBucketOwnershipControls :: string where "OpDeleteBucketOwnershipControls \<equiv> ''DeleteBucketOwnershipControls''"
abbreviation (input) OpPutPublicAccessBlock :: string where "OpPutPublicAccessBlock \<equiv> ''PutPublicAccessBlock''"
abbreviation (input) OpDeletePublicAccessBlock :: string where "OpDeletePublicAccessBlock \<equiv> ''DeletePublicAccessBlock''"
abbreviation (input) OpGetObject :: string where "OpGetObject \<equiv> ''GetObject''"
abbreviation (input) OpHeadObject :: string where "OpHeadObject \<equiv> ''HeadObject''"
abbreviation (input) OpGetObjectAttributes :: string where "OpGetObjectAttributes \<equiv> ''GetObjectAttributes''"
abbreviation (input) OpPutObject :: string where "OpPutObject \<equiv> ''PutObject''"
abbreviation (input) OpCopyObject :: string where "OpCopyObject \<equiv> ''CopyObject''"
abbreviation (input) OpDeleteObject :: string where "OpDeleteObject \<equiv> ''DeleteObject''"
abbreviation (input) OpGetObjectTagging :: string where "OpGetObjectTagging \<equiv> ''GetObjectTagging''"
abbreviation (input) OpPutObjectTagging :: string where "OpPutObjectTagging \<equiv> ''PutObjectTagging''"
abbreviation (input) OpDeleteObjectTagging :: string where "OpDeleteObjectTagging \<equiv> ''DeleteObjectTagging''"
abbreviation (input) OpGetObjectAcl :: string where "OpGetObjectAcl \<equiv> ''GetObjectAcl''"
abbreviation (input) OpGetObjectRetention :: string where "OpGetObjectRetention \<equiv> ''GetObjectRetention''"
abbreviation (input) OpPutObjectRetention :: string where "OpPutObjectRetention \<equiv> ''PutObjectRetention''"
abbreviation (input) OpGetObjectLegalHold :: string where "OpGetObjectLegalHold \<equiv> ''GetObjectLegalHold''"
abbreviation (input) OpPutObjectLegalHold :: string where "OpPutObjectLegalHold \<equiv> ''PutObjectLegalHold''"
abbreviation (input) OpPutObjectAcl :: string where "OpPutObjectAcl \<equiv> ''PutObjectAcl''"
abbreviation (input) OpCreateMultipartUpload :: string where "OpCreateMultipartUpload \<equiv> ''CreateMultipartUpload''"
abbreviation (input) OpUploadPart :: string where "OpUploadPart \<equiv> ''UploadPart''"
abbreviation (input) OpUploadPartCopy :: string where "OpUploadPartCopy \<equiv> ''UploadPartCopy''"
abbreviation (input) OpCompleteMultipartUpload :: string where "OpCompleteMultipartUpload \<equiv> ''CompleteMultipartUpload''"
abbreviation (input) OpAbortMultipartUpload :: string where "OpAbortMultipartUpload \<equiv> ''AbortMultipartUpload''"
abbreviation (input) OpListParts :: string where "OpListParts \<equiv> ''ListParts''"
abbreviation (input) ActionAbortMultipartUpload :: string where "ActionAbortMultipartUpload \<equiv> ''s3:AbortMultipartUpload''"
abbreviation (input) ActionBypassGovernanceRetention :: string where "ActionBypassGovernanceRetention \<equiv> ''s3:BypassGovernanceRetention''"
abbreviation (input) ActionDeleteObject :: string where "ActionDeleteObject \<equiv> ''s3:DeleteObject''"
abbreviation (input) ActionDeleteObjectTagging :: string where "ActionDeleteObjectTagging \<equiv> ''s3:DeleteObjectTagging''"
abbreviation (input) ActionDeleteObjectVersion :: string where "ActionDeleteObjectVersion \<equiv> ''s3:DeleteObjectVersion''"
abbreviation (input) ActionDeleteObjectVersionTagging :: string where "ActionDeleteObjectVersionTagging \<equiv> ''s3:DeleteObjectVersionTagging''"
abbreviation (input) ActionGetBucketAcl :: string where "ActionGetBucketAcl \<equiv> ''s3:GetBucketAcl''"
abbreviation (input) ActionGetBucketCORS :: string where "ActionGetBucketCORS \<equiv> ''s3:GetBucketCORS''"
abbreviation (input) ActionGetBucketLocation :: string where "ActionGetBucketLocation \<equiv> ''s3:GetBucketLocation''"
abbreviation (input) ActionGetBucketObjectLockConfiguration :: string where "ActionGetBucketObjectLockConfiguration \<equiv> ''s3:GetBucketObjectLockConfiguration''"
abbreviation (input) ActionGetBucketOwnershipControls :: string where "ActionGetBucketOwnershipControls \<equiv> ''s3:GetBucketOwnershipControls''"
abbreviation (input) ActionGetBucketPolicy :: string where "ActionGetBucketPolicy \<equiv> ''s3:GetBucketPolicy''"
abbreviation (input) ActionGetBucketPolicyStatus :: string where "ActionGetBucketPolicyStatus \<equiv> ''s3:GetBucketPolicyStatus''"
abbreviation (input) ActionGetBucketPublicAccessBlock :: string where "ActionGetBucketPublicAccessBlock \<equiv> ''s3:GetBucketPublicAccessBlock''"
abbreviation (input) ActionGetBucketVersioning :: string where "ActionGetBucketVersioning \<equiv> ''s3:GetBucketVersioning''"
abbreviation (input) ActionGetEncryptionConfiguration :: string where "ActionGetEncryptionConfiguration \<equiv> ''s3:GetEncryptionConfiguration''"
abbreviation (input) ActionGetObject :: string where "ActionGetObject \<equiv> ''s3:GetObject''"
abbreviation (input) ActionGetObjectAcl :: string where "ActionGetObjectAcl \<equiv> ''s3:GetObjectAcl''"
abbreviation (input) ActionGetObjectLegalHold :: string where "ActionGetObjectLegalHold \<equiv> ''s3:GetObjectLegalHold''"
abbreviation (input) ActionGetObjectRetention :: string where "ActionGetObjectRetention \<equiv> ''s3:GetObjectRetention''"
abbreviation (input) ActionGetObjectTagging :: string where "ActionGetObjectTagging \<equiv> ''s3:GetObjectTagging''"
abbreviation (input) ActionGetObjectVersion :: string where "ActionGetObjectVersion \<equiv> ''s3:GetObjectVersion''"
abbreviation (input) ActionGetObjectVersionAcl :: string where "ActionGetObjectVersionAcl \<equiv> ''s3:GetObjectVersionAcl''"
abbreviation (input) ActionGetObjectVersionTagging :: string where "ActionGetObjectVersionTagging \<equiv> ''s3:GetObjectVersionTagging''"
abbreviation (input) ActionListAllMyBuckets :: string where "ActionListAllMyBuckets \<equiv> ''s3:ListAllMyBuckets''"
abbreviation (input) ActionListBucket :: string where "ActionListBucket \<equiv> ''s3:ListBucket''"
abbreviation (input) ActionListBucketMultipartUploads :: string where "ActionListBucketMultipartUploads \<equiv> ''s3:ListBucketMultipartUploads''"
abbreviation (input) ActionListBucketVersions :: string where "ActionListBucketVersions \<equiv> ''s3:ListBucketVersions''"
abbreviation (input) ActionListMultipartUploadParts :: string where "ActionListMultipartUploadParts \<equiv> ''s3:ListMultipartUploadParts''"
abbreviation (input) ActionPutObject :: string where "ActionPutObject \<equiv> ''s3:PutObject''"
abbreviation (input) ActionPutObjectLegalHold :: string where "ActionPutObjectLegalHold \<equiv> ''s3:PutObjectLegalHold''"
abbreviation (input) ActionPutObjectRetention :: string where "ActionPutObjectRetention \<equiv> ''s3:PutObjectRetention''"
abbreviation (input) ActionPutObjectTagging :: string where "ActionPutObjectTagging \<equiv> ''s3:PutObjectTagging''"
abbreviation (input) ActionPutObjectVersionTagging :: string where "ActionPutObjectVersionTagging \<equiv> ''s3:PutObjectVersionTagging''"

definition operations_1 :: "operation list" where
  "operations_1 = [
    Oper OpListBuckets ScopeService Supported
      [Auth ActionListAllMyBuckets OnTarget [] []]
      (''answered from the store; lists the requester'' @ [CHR 0x27] @ ''s own buckets, authorized by the user policy alone''),
    Oper OpHeadBucket ScopeBucket Supported
      [Auth ActionListBucket OnTarget [] []]
      [],
    Oper OpListObjects ScopeBucket Supported
      [Auth ActionListBucket OnTarget [] []]
      [],
    Oper OpListObjectsV2 ScopeBucket Supported
      [Auth ActionListBucket OnTarget [] []]
      [],
    Oper OpListObjectVersions ScopeBucket Supported
      [Auth ActionListBucketVersions OnTarget [] []]
      [],
    Oper OpListMultipartUploads ScopeBucket Supported
      [Auth ActionListBucketMultipartUploads OnTarget [] []]
      [],
    Oper OpGetBucketLocation ScopeBucket Supported
      [Auth ActionGetBucketLocation OnTarget [] []]
      [],
    Oper OpGetBucketAcl ScopeBucket Supported
      [Auth ActionGetBucketAcl OnTarget [] []]
      [],
    Oper OpGetBucketPolicy ScopeBucket Supported
      [Auth ActionGetBucketPolicy OnTarget [] []]
      [],
    Oper OpGetBucketPolicyStatus ScopeBucket Supported
      [Auth ActionGetBucketPolicyStatus OnTarget [] []]
      [],
    Oper OpGetBucketCors ScopeBucket Supported
      [Auth ActionGetBucketCORS OnTarget [] []]
      [],
    Oper OpGetBucketVersioning ScopeBucket Supported
      [Auth ActionGetBucketVersioning OnTarget [] []]
      [],
    Oper OpGetBucketEncryption ScopeBucket Supported
      [Auth ActionGetEncryptionConfiguration OnTarget [] []]
      [],
    Oper OpGetBucketOwnershipControls ScopeBucket Supported
      [Auth ActionGetBucketOwnershipControls OnTarget [] []]
      [],
    Oper OpGetPublicAccessBlock ScopeBucket Supported
      [Auth ActionGetBucketPublicAccessBlock OnTarget [] []]
      [],
    Oper OpGetObjectLockConfiguration ScopeBucket Supported
      [Auth ActionGetBucketObjectLockConfiguration OnTarget [] []]
      [],
    Oper OpDeleteObjects ScopeBucket Supported
      [Auth ActionDeleteObject OnEachKey ActionDeleteObjectVersion [],
      Auth ActionBypassGovernanceRetention OnEachKey [] ''x-amz-bypass-governance-retention'']
      [],
    Oper OpPostObject ScopeBucket Supported
      [Auth ActionPutObject OnTarget [] [],
      Auth ActionPutObjectTagging OnTarget [] ''x-amz-tagging'']
      ''browser-based POST upload; header names the form field'']"

definition operations_2 :: "operation list" where
  "operations_2 = [
    Oper OpCreateBucket ScopeBucket Refused
      []
      ''buckets are created by the control plane'',
    Oper OpDeleteBucket ScopeBucket Refused
      []
      ''buckets are deleted by the control plane'',
    Oper OpPutBucketAcl ScopeBucket Refused
      []
      ''ACLs are disabled'',
    Oper OpPutBucketPolicy ScopeBucket Refused
      []
      ''bucket configuration is written where the bucket is created, not through the S3 API'',
    Oper OpDeleteBucketPolicy ScopeBucket Refused
      []
      ''bucket configuration is written where the bucket is created, not through the S3 API'',
    Oper OpPutBucketCors ScopeBucket Refused
      []
      ''bucket configuration is written where the bucket is created, not through the S3 API'',
    Oper OpDeleteBucketCors ScopeBucket Refused
      []
      ''bucket configuration is written where the bucket is created, not through the S3 API'',
    Oper OpPutBucketVersioning ScopeBucket Refused
      []
      ''bucket configuration is written where the bucket is created, not through the S3 API'',
    Oper OpPutObjectLockConfiguration ScopeBucket Refused
      []
      ''bucket configuration is written where the bucket is created, not through the S3 API'',
    Oper OpPutBucketEncryption ScopeBucket Refused
      []
      ''bucket configuration is written where the bucket is created, not through the S3 API'',
    Oper OpDeleteBucketEncryption ScopeBucket Refused
      []
      ''bucket configuration is written where the bucket is created, not through the S3 API'',
    Oper OpPutBucketOwnershipControls ScopeBucket Refused
      []
      ''bucket configuration is written where the bucket is created, not through the S3 API'',
    Oper OpDeleteBucketOwnershipControls ScopeBucket Refused
      []
      ''bucket configuration is written where the bucket is created, not through the S3 API'',
    Oper OpPutPublicAccessBlock ScopeBucket Refused
      []
      ''bucket configuration is written where the bucket is created, not through the S3 API'',
    Oper OpDeletePublicAccessBlock ScopeBucket Refused
      []
      ''bucket configuration is written where the bucket is created, not through the S3 API'']"

definition operations_3 :: "operation list" where
  "operations_3 = [
    Oper OpGetObject ScopeObject Supported
      [Auth ActionGetObject OnTarget ActionGetObjectVersion []]
      [],
    Oper OpHeadObject ScopeObject Supported
      [Auth ActionGetObject OnTarget ActionGetObjectVersion []]
      [],
    Oper OpGetObjectAttributes ScopeObject Supported
      [Auth ActionGetObject OnTarget ActionGetObjectVersion []]
      [],
    Oper OpPutObject ScopeObject Supported
      [Auth ActionPutObject OnTarget [] [],
      Auth ActionPutObjectTagging OnTarget [] ''x-amz-tagging'',
      Auth ActionPutObjectRetention OnTarget [] ''x-amz-object-lock-mode'',
      Auth ActionPutObjectRetention OnTarget [] ''x-amz-object-lock-retain-until-date'',
      Auth ActionPutObjectLegalHold OnTarget [] ''x-amz-object-lock-legal-hold'']
      [],
    Oper OpCopyObject ScopeObject Supported
      [Auth ActionPutObject OnTarget [] [],
      Auth ActionPutObjectTagging OnTarget [] ''x-amz-tagging'',
      Auth ActionPutObjectRetention OnTarget [] ''x-amz-object-lock-mode'',
      Auth ActionPutObjectRetention OnTarget [] ''x-amz-object-lock-retain-until-date'',
      Auth ActionPutObjectLegalHold OnTarget [] ''x-amz-object-lock-legal-hold'',
      Auth ActionGetObject OnCopySource ActionGetObjectVersion []]
      [],
    Oper OpDeleteObject ScopeObject Supported
      [Auth ActionDeleteObject OnTarget ActionDeleteObjectVersion [],
      Auth ActionBypassGovernanceRetention OnTarget [] ''x-amz-bypass-governance-retention'']
      [],
    Oper OpGetObjectTagging ScopeObject Supported
      [Auth ActionGetObjectTagging OnTarget ActionGetObjectVersionTagging []]
      [],
    Oper OpPutObjectTagging ScopeObject Supported
      [Auth ActionPutObjectTagging OnTarget ActionPutObjectVersionTagging []]
      [],
    Oper OpDeleteObjectTagging ScopeObject Supported
      [Auth ActionDeleteObjectTagging OnTarget ActionDeleteObjectVersionTagging []]
      [],
    Oper OpGetObjectAcl ScopeObject Supported
      [Auth ActionGetObjectAcl OnTarget ActionGetObjectVersionAcl []]
      [],
    Oper OpGetObjectRetention ScopeObject Supported
      [Auth ActionGetObjectRetention OnTarget [] []]
      [],
    Oper OpPutObjectRetention ScopeObject Supported
      [Auth ActionPutObjectRetention OnTarget [] [],
      Auth ActionBypassGovernanceRetention OnTarget [] ''x-amz-bypass-governance-retention'']
      [],
    Oper OpGetObjectLegalHold ScopeObject Supported
      [Auth ActionGetObjectLegalHold OnTarget [] []]
      []]"

definition operations_4 :: "operation list" where
  "operations_4 = [
    Oper OpPutObjectLegalHold ScopeObject Supported
      [Auth ActionPutObjectLegalHold OnTarget [] []]
      [],
    Oper OpPutObjectAcl ScopeObject Refused
      []
      ''ACLs are disabled'',
    Oper OpCreateMultipartUpload ScopeObject Supported
      [Auth ActionPutObject OnTarget [] [],
      Auth ActionPutObjectTagging OnTarget [] ''x-amz-tagging'',
      Auth ActionPutObjectRetention OnTarget [] ''x-amz-object-lock-mode'',
      Auth ActionPutObjectRetention OnTarget [] ''x-amz-object-lock-retain-until-date'',
      Auth ActionPutObjectLegalHold OnTarget [] ''x-amz-object-lock-legal-hold'']
      [],
    Oper OpUploadPart ScopeObject Supported
      [Auth ActionPutObject OnTarget [] []]
      [],
    Oper OpUploadPartCopy ScopeObject Supported
      [Auth ActionPutObject OnTarget [] [],
      Auth ActionGetObject OnCopySource ActionGetObjectVersion []]
      [],
    Oper OpCompleteMultipartUpload ScopeObject Supported
      [Auth ActionPutObject OnTarget [] []]
      [],
    Oper OpAbortMultipartUpload ScopeObject Supported
      [Auth ActionAbortMultipartUpload OnTarget [] []]
      [],
    Oper OpListParts ScopeObject Supported
      [Auth ActionListMultipartUploadParts OnTarget [] []]
      []]"

definition operations :: "operation list" where
  "operations = operations_1 @ operations_2 @ operations_3 @ operations_4"

definition actions :: "string list" where
  "actions = [
    ActionAbortMultipartUpload,
    ActionBypassGovernanceRetention,
    ActionDeleteObject,
    ActionDeleteObjectTagging,
    ActionDeleteObjectVersion,
    ActionDeleteObjectVersionTagging,
    ActionGetBucketAcl,
    ActionGetBucketCORS,
    ActionGetBucketLocation,
    ActionGetBucketObjectLockConfiguration,
    ActionGetBucketOwnershipControls,
    ActionGetBucketPolicy,
    ActionGetBucketPolicyStatus,
    ActionGetBucketPublicAccessBlock,
    ActionGetBucketVersioning,
    ActionGetEncryptionConfiguration,
    ActionGetObject,
    ActionGetObjectAcl,
    ActionGetObjectLegalHold,
    ActionGetObjectRetention,
    ActionGetObjectTagging,
    ActionGetObjectVersion,
    ActionGetObjectVersionAcl,
    ActionGetObjectVersionTagging,
    ActionListAllMyBuckets,
    ActionListBucket,
    ActionListBucketMultipartUploads,
    ActionListBucketVersions,
    ActionListMultipartUploadParts,
    ActionPutObject,
    ActionPutObjectLegalHold,
    ActionPutObjectRetention,
    ActionPutObjectTagging,
    ActionPutObjectVersionTagging]"

definition s3op_Lookup :: "string \<Rightarrow> operation option" where
  "s3op_Lookup name = find (\<lambda>op. o_Name op = name) operations"

definition ErrUnknownAction :: go_error where
  "ErrUnknownAction = Sentinel ''matches no action the gateway authorizes''"

definition UnknownActionError :: "string \<Rightarrow> go_error" where
  "UnknownActionError p =
    Errorf (Sprintf ''action %q %s'' [FS p, FS ''matches no action the gateway authorizes'']) [ErrUnknownAction]"

definition CheckActionPattern :: action_checker where
  "CheckActionPattern p =
    (let lp = to_lower p in
     if list_ex (\<lambda>a. policy_Match lp (to_lower a)) actions then None else Some (UnknownActionError p))"

section \<open>The catalogue is consistent\<close>

definition auth_actions :: "authorization \<Rightarrow> string list" where
  "auth_actions a = au_Action a # (if au_VersionAction a = [] then [] else [au_VersionAction a])"

definition operation_actions :: "operation \<Rightarrow> string list" where
  "operation_actions op = concat (map auth_actions (o_Authorizations op))"

lemma operation_names_distinct: "distinct (map o_Name operations)"
  by code_simp

lemma actions_sorted: "sorted_wrt (<) actions"
  by code_simp

lemma actions_exact: "set actions = set (concat (map operation_actions operations))"
  by code_simp

lemma refused_no_actions: "list_all (\<lambda>op. (o_Support op = Refused) = (o_Authorizations op = [])) operations"
  by code_simp

section \<open>What the pattern check guarantees\<close>

lemma deny_overrides_effect:
  "dec_Effect (deny_overrides den alw base ss) =
    (if list_ex den ss then Effect_Deny else if list_ex alw ss then Effect_Allow else base)"
  by (simp add: deny_overrides_def find_index_ge0_iff list_ex_iff)

lemma unknown_pattern_never_matches:
  assumes "CheckActionPattern q \<noteq> None" "a \<in> set actions"
  shows "\<not> match_runes (runes (to_lower q)) (runes (to_lower a))"
  using assms by (auto simp: CheckActionPattern_def Let_def list_ex_iff policy_Match_def split: if_splits)

text \<open>A statement some pattern of which is known.\<close>

definition known_statement :: "statement \<Rightarrow> bool" where
  "known_statement st \<longleftrightarrow> list_ex (\<lambda>q. CheckActionPattern q = None) (st_Action st)"

lemma unknown_statement_covers_nothing:
  assumes "\<not> known_statement st" "a \<in> set actions"
  shows "\<not> stmt_hits pr rc (runes (to_lower a)) res (compile_statement st)"
  using assms unknown_pattern_never_matches [of _ a]
  by (auto simp: known_statement_def stmt_hits_def stmt_covers_def matchAnyRunes_def matchIndexRunes_def
      lowerPatternRunes_def find_index_ge0_iff list_ex_iff)

text \<open>
  C37. A statement every action pattern of which \<open>CheckActionPattern\<close> reports is without effect: removing
  all such statements from a policy changes no decision on any action the gateway authorizes.
\<close>

theorem unknown_actions_inert:
  assumes "policy_principals p" "a \<in> set actions"
  shows "map_option dec_Effect (policy_Decide p pr a res rc) =
    map_option dec_Effect
      (policy_Decide (p\<lparr> pol_Statement := filter known_statement (pol_Statement p) \<rparr>) pr a res rc)"
proof -
  let ?p = "p\<lparr> pol_Statement := filter known_statement (pol_Statement p) \<rparr>"
  have "policy_principals ?p"
    using assms(1) by (auto simp: policy_principals_def list_all_iff)
  moreover have "dec_Effect (bucket_verdict p pr a res rc) = dec_Effect (bucket_verdict ?p pr a res rc)"
    using unknown_statement_covers_nothing [OF _ assms(2)]
    by (simp add: bucket_verdict_def Let_def deny_overrides_effect policy_compile_def list_ex_iff) blast
  ultimately show ?thesis
    using assms(1) by (simp add: Decide_verdict)
qed

theorem unknown_actions_inert_witness:
  "policy_principals example_policy \<and> ''s3:GetObject'' \<in> set actions \<and>
   map_option dec_Effect (policy_Decide example_policy ''tb/bob'' ''s3:GetObject'' ''b/k'' example_context) =
   map_option dec_Effect (policy_Decide
     (example_policy\<lparr> pol_Statement := filter known_statement (pol_Statement example_policy) \<rparr>)
     ''tb/bob'' ''s3:GetObject'' ''b/k'' example_context)"
proof -
  have "policy_principals example_policy"
    by (simp add: policy_principals_def example_policy_def has_principal_def)
  moreover have "''s3:GetObject'' \<in> set actions"
    by code_simp
  ultimately show ?thesis
    using unknown_actions_inert by blast
qed


end
