(* ===== verification/Authorize.thy ===== *)
theory Authorize
  imports Policy_Eval Store
begin

text \<open>
  Authorization in the gateway: \<open>src/s3gw/bucketpolicy.go\<close>, \<open>src/s3gw/denyreason.go\<close> and the identity part
  of \<open>src/s3gw/auth.go\<close>. As in policy evaluation, an outer \<open>None\<close> is a panic of a statement without any
  principal.
\<close>

section \<open>The requester\<close>

text \<open>The identity fields of \<open>verifiedRequest\<close>.\<close>

record identity =
  vr_Tenant :: string
  vr_User :: string
  vr_UserPolicy :: "user_policy option"
  vr_SourceIP :: addr

definition vr_principal :: "'a identity_scheme \<Rightarrow> string" where
  "vr_principal vr = vr_Tenant vr @ ''/'' @ vr_User vr"

definition requestContext :: "'a identity_scheme \<Rightarrow> request_context" where
  "requestContext vr = \<lparr> rc_SourceIP = vr_SourceIP vr \<rparr>"

text \<open>\<open>netip.ParseAddrPort\<close>, of which only the address is used.\<close>

definition ParseAddrPort :: "string \<Rightarrow> addr option" where
  "ParseAddrPort s =
    (case str_cut (CHR '':'') (rev s) of
       (rport, rip, True) \<Rightarrow>
         (let ip0 = rev rip; port = rev rport;
              v6 = (ip0 \<noteq> [] \<and> hd ip0 = CHR ''['');
              ip = (if v6 then butlast (tl ip0) else ip0)
          in if ip0 = [] \<or> port = [] then None
             else if v6 \<and> (length ip0 < 2 \<or> last ip0 \<noteq> CHR '']'') then None
             else
               (case digits_val 10 0 port of
                  None \<Rightarrow> None
                | Some n \<Rightarrow>
                    if 65535 < n then None
                    else
                      (case ParseAddr ip of
                         Some (Addr4 w) \<Rightarrow> if v6 then None else Some (Addr4 w)
                       | Some (Addr6 w z) \<Rightarrow> if v6 then Some (Addr6 w z) else None
                       | _ \<Rightarrow> None)))
     | _ \<Rightarrow> None)"

definition remoteIP :: "http_request \<Rightarrow> addr" where
  "remoteIP r =
    (case ParseAddrPort (r_RemoteAddr r) of
       Some a \<Rightarrow> a
     | None \<Rightarrow> (case ParseAddr (r_RemoteAddr r) of Some a \<Rightarrow> a | None \<Rightarrow> Addr_zero))"

section \<open>Reasons\<close>

definition LayerUserPolicy :: string where "LayerUserPolicy = ''user-policy''"
definition LayerBucketPolicy :: string where "LayerBucketPolicy = ''bucket-policy''"
definition LayerCrossTenant :: string where "LayerCrossTenant = ''cross-tenant''"
definition LayerVisibility :: string where "LayerVisibility = ''visibility''"
definition LayerCopySource :: string where "LayerCopySource = ''copy-source''"

lemmas layer_defs = LayerUserPolicy_def LayerBucketPolicy_def LayerCrossTenant_def
  LayerVisibility_def LayerCopySource_def

definition userPolicyReason :: "string \<Rightarrow> string \<Rightarrow> decision \<Rightarrow> go_error" where
  "userPolicyReason pr action d = Deny_reason LayerUserPolicy (dec_Statement d) [] pr action [] []"

definition denyStatementReason ::
  "policy option \<Rightarrow> string \<Rightarrow> string \<Rightarrow> string \<Rightarrow> int \<Rightarrow> go_error" where
  "denyStatementReason p pr action resource i =
    Deny_reason LayerBucketPolicy i
      (case p of
         None \<Rightarrow> []
       | Some p \<Rightarrow> if 0 \<le> i \<and> i < int (length (pol_Statement p)) then st_Sid (pol_Statement p ! nat i) else [])
      pr action resource []"

definition bucketPolicyReason ::
  "policy option \<Rightarrow> string \<Rightarrow> string \<Rightarrow> string \<Rightarrow> decision \<Rightarrow> go_error" where
  "bucketPolicyReason p pr action resource d =
    (if dec_Effect d \<noteq> Effect_Deny then Deny_reason LayerCrossTenant (-1) [] pr action resource []
     else denyStatementReason p pr action resource (dec_Statement d))"

definition visibilityReason :: "string \<Rightarrow> string \<Rightarrow> go_error" where
  "visibilityReason pr bucket = Deny_reason LayerVisibility (-1) [] pr [] bucket []"

definition copySourceReason :: "string \<Rightarrow> string \<Rightarrow> string \<Rightarrow> go_error option \<Rightarrow> go_error" where
  "copySourceReason pr action resource err =
    Deny_reason LayerCopySource (-1) [] pr action resource
      [case err of None \<Rightarrow> ErrNotFound | Some e \<Rightarrow> e]"

section \<open>authorize\<close>

text \<open>\<open>Some None\<close> is the nil error (allowed), \<open>Some (Some e)\<close> a refusal.\<close>

definition authorize ::
  "'a identity_scheme \<Rightarrow> bucket \<Rightarrow> string \<Rightarrow> string \<Rightarrow> s3error option option" where
  "authorize vr b action resource =
    (let pr = vr_principal vr; ud = user_Decide (vr_UserPolicy vr) action in
     if dec_Effect ud \<noteq> Effect_Allow
     then Some (Some (WithCause AccessDenied (userPolicyReason pr action ud)))
     else if b_Tenant b \<noteq> vr_Tenant vr then
       (case b_Policy b of
          None \<Rightarrow>
            Some (Some (WithCause AccessDenied (bucketPolicyReason None pr action resource
              \<lparr> dec_Effect = Effect_None, dec_Statement = -1 \<rparr>)))
        | Some p \<Rightarrow> do {
            d \<leftarrow> policy_Decide p pr action resource (requestContext vr);
            if dec_Effect d \<noteq> Effect_Allow
            then Some (Some (WithCause AccessDenied (bucketPolicyReason (Some p) pr action resource d)))
            else Some None
          })
     else
       (case b_Policy b of
          None \<Rightarrow> Some None
        | Some p \<Rightarrow> do {
            d \<leftarrow> policy_Decide p pr action resource (requestContext vr);
            if dec_Effect d = Effect_Deny
            then Some (Some (WithCause AccessDenied (bucketPolicyReason (Some p) pr action resource d)))
            else Some None
          }))"

section \<open>perObjectAuthorizer\<close>

record per_object_authorizer =
  poa_denyAll :: bool
  poa_eval :: deny_evaluator
  poa_requireAllow :: bool
  poa_allow :: allow_evaluator
  poa_principal :: string
  poa_action :: string
  poa_policy :: "policy option"
  poa_userDecision :: decision

definition perObjectAuthorizer ::
  "'a identity_scheme \<Rightarrow> bucket \<Rightarrow> string \<Rightarrow> per_object_authorizer option" where
  "perObjectAuthorizer vr b action =
    (let pr = vr_principal vr; rc = requestContext vr;
         a = \<lparr> poa_denyAll = False,
               poa_eval = \<lparr> de_denyResources = [], de_denyStatements = [] \<rparr>,
               poa_requireAllow = False, poa_allow = \<lparr> ae_allowResources = [] \<rparr>,
               poa_principal = pr, poa_action = action, poa_policy = b_Policy b,
               poa_userDecision = user_Decide (vr_UserPolicy vr) action \<rparr>
     in if dec_Effect (poa_userDecision a) \<noteq> Effect_Allow then Some (a\<lparr> poa_denyAll := True \<rparr>)
        else if b_Tenant b \<noteq> vr_Tenant vr then
          (let a = a\<lparr> poa_requireAllow := True \<rparr> in
           case b_Policy b of
             None \<Rightarrow> Some (a\<lparr> poa_denyAll := True \<rparr>)
           | Some p \<Rightarrow> do {
               allow \<leftarrow> AllowEvaluatorFor p pr action rc;
               let a = a\<lparr> poa_allow := allow \<rparr>;
               if AlwaysDenies allow then Some (a\<lparr> poa_denyAll := True \<rparr>)
               else do {
                 eval \<leftarrow> DenyEvaluatorFor p pr action rc;
                 Some (a\<lparr> poa_eval := eval \<rparr>)
               }
             })
        else
          (case b_Policy b of
             None \<Rightarrow> Some a
           | Some p \<Rightarrow> do {
               eval \<leftarrow> DenyEvaluatorFor p pr action rc;
               Some (a\<lparr> poa_eval := eval \<rparr>)
             }))"

definition poa_denies :: "per_object_authorizer \<Rightarrow> string \<Rightarrow> bool" where
  "poa_denies a resource =
    (if poa_denyAll a then True
     else if \<not> poa_requireAllow a then Denies (poa_eval a) resource
     else (let r = runes resource in \<not> AllowsRunes (poa_allow a) r \<or> DeniesRunes (poa_eval a) r))"

definition poa_denyReason :: "per_object_authorizer \<Rightarrow> string \<Rightarrow> go_error" where
  "poa_denyReason a resource =
    (if dec_Effect (poa_userDecision a) \<noteq> Effect_Allow
     then userPolicyReason (poa_principal a) (poa_action a) (poa_userDecision a)
     else
       (let i = DenyingStatement (poa_eval a) (runes resource) in
        if 0 \<le> i then denyStatementReason (poa_policy a) (poa_principal a) (poa_action a) resource i
        else Deny_reason LayerCrossTenant (-1) [] (poa_principal a) (poa_action a) resource []))"

definition allowsEverything :: "per_object_authorizer \<Rightarrow> bool" where
  "allowsEverything a \<longleftrightarrow> \<not> poa_denyAll a \<and> \<not> poa_requireAllow a \<and> AlwaysAllows (poa_eval a)"

section \<open>What authorization decides\<close>

text \<open>
  The access rule: the user policy must allow the action; in the requester's own tenant a bucket policy
  can only take access away by a Deny, in another tenant only an Allow that no Deny overrides grants it.
\<close>

definition access_granted :: "'a identity_scheme \<Rightarrow> bucket \<Rightarrow> string \<Rightarrow> string \<Rightarrow> bool" where
  "access_granted vr b action resource \<longleftrightarrow>
    user_Allows (vr_UserPolicy vr) action \<and>
    (if b_Tenant b = vr_Tenant vr
     then (case b_Policy b of
             None \<Rightarrow> True
           | Some p \<Rightarrow> dec_Effect (bucket_verdict p (vr_principal vr) action resource (requestContext vr))
               \<noteq> Effect_Deny)
     else (case b_Policy b of
             None \<Rightarrow> False
           | Some p \<Rightarrow> dec_Effect (bucket_verdict p (vr_principal vr) action resource (requestContext vr))
               = Effect_Allow))"

definition bucket_principals :: "bucket \<Rightarrow> bool" where
  "bucket_principals b \<longleftrightarrow> (case b_Policy b of None \<Rightarrow> True | Some p \<Rightarrow> policy_principals p)"

definition bucket_effects :: "bucket \<Rightarrow> bool" where
  "bucket_effects b \<longleftrightarrow> (case b_Policy b of None \<Rightarrow> True | Some p \<Rightarrow> policy_effects p)"

text \<open>The reason \<open>authorize\<close> attaches to a refusal.\<close>

definition refusal_reason :: "'a identity_scheme \<Rightarrow> bucket \<Rightarrow> string \<Rightarrow> string \<Rightarrow> go_error" where
  "refusal_reason vr b action resource =
    (if \<not> user_Allows (vr_UserPolicy vr) action
     then userPolicyReason (vr_principal vr) action (user_Decide (vr_UserPolicy vr) action)
     else bucketPolicyReason (b_Policy b) (vr_principal vr) action resource
       (case b_Policy b of
          None \<Rightarrow> \<lparr> dec_Effect = Effect_None, dec_Statement = -1 \<rparr>
        | Some p \<Rightarrow> bucket_verdict p (vr_principal vr) action resource (requestContext vr)))"

lemma authorize_eq:
  assumes "bucket_principals b"
  shows "authorize vr b action resource =
    Some (if access_granted vr b action resource then None
          else Some (WithCause AccessDenied (refusal_reason vr b action resource)))"
  using assms
  by (auto simp: authorize_def access_granted_def refusal_reason_def bucket_principals_def Decide_verdict
      user_Allows_def Let_def split: option.splits)

lemma AlwaysAllows_Denies: "AlwaysAllows de \<Longrightarrow> \<not> Denies de resource"
  by (simp add: AlwaysAllows_def Denies_def DeniesRunes_def)

lemma AlwaysDenies_Allows: "AlwaysDenies ae \<Longrightarrow> \<not> AllowsRunes ae r"
  by (simp add: AlwaysDenies_def AllowsRunes_def)

text \<open>The facts that evaluate an authorizer over a well-formed bucket.\<close>

lemmas poa_defs = perObjectAuthorizer_def access_granted_def user_Allows_def poa_denies_def
  poa_denyReason_def refusal_reason_def allowsEverything_def Let_def

lemma empty_evaluator [simp]:
  "\<not> Denies \<lparr> de_denyResources = [], de_denyStatements = sts \<rparr> resource"
  "DenyingStatement \<lparr> de_denyResources = [], de_denyStatements = sts \<rparr> r = -1"
  by (simp_all add: Denies_def DeniesRunes_def DenyingStatement_def matchIndexRunes_def)

lemma perObjectAuthorizer_total:
  assumes "bucket_principals b"
  shows "\<exists>a. perObjectAuthorizer vr b action = Some a"
proof (cases "b_Policy b")
  case (Some p)
  then have "policy_principals p"
    using assms by (simp add: bucket_principals_def)
  from evaluators_total [OF this, of "vr_principal vr" action "requestContext vr"] Some show ?thesis
    by (auto simp: perObjectAuthorizer_def Let_def)
qed (simp add: perObjectAuthorizer_def Let_def)

lemma poa_denies_iff:
  assumes "bucket_principals b" "bucket_effects b" "perObjectAuthorizer vr b action = Some a"
  shows "poa_denies a resource \<longleftrightarrow> \<not> access_granted vr b action resource"
proof (cases "b_Policy b")
  case None
  then show ?thesis
    using assms(3) by (auto simp: poa_defs split: if_splits)
next
  case (Some p)
  then have wf: "policy_principals p" "policy_effects p"
    using assms by (simp_all add: bucket_principals_def bucket_effects_def)
  from assms(3) Some show ?thesis
    by (auto simp: poa_defs Denies_verdict [OF wf(1)] Allows_verdict [OF wf]
        Denies_def [symmetric] AlwaysDenies_Allows bind_eq_Some_conv split: if_splits)
qed

lemma poa_denyReason_eq:
  assumes "bucket_principals b" "bucket_effects b" "perObjectAuthorizer vr b action = Some a"
    and "b_Tenant b = vr_Tenant vr \<or> \<not> poa_denyAll a" "\<not> access_granted vr b action resource"
  shows "poa_denyReason a resource = refusal_reason vr b action resource"
proof (cases "b_Policy b")
  case None
  then show ?thesis
    using assms(3-5) by (auto simp: poa_defs split: if_splits)
next
  case (Some p)
  then have wf: "policy_principals p" "policy_effects p"
    using assms by (simp_all add: bucket_principals_def bucket_effects_def)
  from assms(3-5) Some show ?thesis
    by (auto simp: poa_defs Denies_verdict [OF wf(1)] bucketPolicyReason_def bind_eq_Some_conv
        dest: verdict_deny_index split: if_splits)
qed

lemma allowsEverything_sound:
  assumes "bucket_principals b" "bucket_effects b" "perObjectAuthorizer vr b action = Some a"
    and "allowsEverything a"
  shows "access_granted vr b action resource"
proof -
  have "\<not> poa_denies a resource"
    using assms(4) AlwaysAllows_Denies by (auto simp: allowsEverything_def poa_denies_def)
  then show ?thesis
    using poa_denies_iff [OF assms(1-3)] by blast
qed

section \<open>Denials of a multi-object delete\<close>

record denial =
  dn_Reason :: go_error
  dn_Keys :: nat

definition denial_key :: "go_error \<Rightarrow> string \<times> int" where
  "denial_key r = (deny_layer r, deny_statement r)"

text \<open>\<open>addDenial\<close> on the list of an operation's denials.\<close>

fun addDenial :: "denial list \<Rightarrow> go_error \<Rightarrow> denial list" where
  "addDenial [] r = [\<lparr> dn_Reason = r, dn_Keys = 1 \<rparr>]"
| "addDenial (d # ds) r =
    (if deny_layer (dn_Reason d) = deny_layer r \<and> deny_statement (dn_Reason d) = deny_statement r
     then d\<lparr> dn_Keys := dn_Keys d + 1 \<rparr> # ds
     else d # addDenial ds r)"

abbreviation dn_key :: "denial \<Rightarrow> string \<times> int" where
  "dn_key d \<equiv> denial_key (dn_Reason d)"

definition denials_of :: "go_error list \<Rightarrow> denial list" where
  "denials_of rs = foldl addDenial [] rs"

lemma addDenial_keys:
  "map dn_key (addDenial ds r) = map dn_key ds @ (if denial_key r \<in> dn_key ` set ds then [] else [denial_key r])"
  by (induction ds) (auto simp: denial_key_def)

lemma addDenial_sum: "sum_list (map dn_Keys (addDenial ds r)) = sum_list (map dn_Keys ds) + 1"
  by (induction ds) auto

lemma addDenial_count:
  assumes "distinct (map dn_key ds)"
  shows "sum_list (map dn_Keys (filter (\<lambda>d. dn_key d = k) (addDenial ds r))) =
    sum_list (map dn_Keys (filter (\<lambda>d. dn_key d = k) ds)) + (if denial_key r = k then 1 else 0)"
  using assms by (induction ds) (auto simp: denial_key_def)

lemma denials_of_snoc: "denials_of (rs @ [r]) = addDenial (denials_of rs) r"
  by (simp add: denials_of_def)

lemma denials_of_distinct: "distinct (map dn_key (denials_of rs))"
proof (induction rs rule: rev_induct)
  case (snoc r rs)
  then show ?case
    by (auto simp: denials_of_snoc addDenial_keys)
qed (simp add: denials_of_def)

lemma denials_of_key_set: "set (map dn_key (denials_of rs)) = denial_key ` set rs"
proof (induction rs rule: rev_induct)
  case (snoc r rs)
  then show ?case
    by (auto simp: denials_of_snoc addDenial_keys)
qed (simp add: denials_of_def)

lemma denials_of_count:
  "sum_list (map dn_Keys (filter (\<lambda>d. dn_key d = k) (denials_of rs))) =
    length (filter (\<lambda>r. denial_key r = k) rs)"
proof (induction rs rule: rev_induct)
  case (snoc r rs)
  then show ?case
    using addDenial_count [OF denials_of_distinct] by (simp add: denials_of_snoc)
qed (simp add: denials_of_def)

section \<open>Tenants in principals\<close>

lemma tenant_wildcard:
  assumes "CHR ''/'' \<notin> set t" "CHR ''/'' \<notin> set t'"
  shows "matchAnyPrincipal [t @ ''/*''] (t' @ ''/'' @ u) \<longleftrightarrow> t = t'"
proof -
  have split: "t @ CHR ''/'' # xs = t' @ CHR ''/'' # ys \<longleftrightarrow> t = t' \<and> xs = ys" for xs ys
    using assms by (rule append_sep_eq_iff)
  have "take (length (t @ ''/*'') - 1) (t @ ''/*'') = t @ ''/''"
    by simp
  moreover have "has_suffix (t @ ''/*'') ''/*''"
    by (simp add: has_suffix_iff suffix_def)
  moreover have "has_prefix (t' @ ''/'' @ u) (t @ ''/'') \<longleftrightarrow> t = t'"
    using append_sep_eq_iff [OF assms(2,1), of u] by (auto simp: has_prefix_iff prefix_def)
  ultimately show ?thesis
    using split [of "''*''" u] by (auto simp: matchAnyPrincipal_def)
qed

text \<open>Validation accepts NotPrincipal with Deny only.\<close>

definition policy_notprincipal :: "policy \<Rightarrow> bool" where
  "policy_notprincipal p \<longleftrightarrow>
    list_all (\<lambda>st. st_NotPrincipal st = None \<or> st_Effect st = ''Deny'') (pol_Statement p)"

lemma Allow_mentions:
  assumes "policy_principals p" "policy_effects p" "policy_notprincipal p"
    and "dec_Effect (bucket_verdict p pr action resource rc) = Effect_Allow"
  shows "MentionsPrincipal p pr"
proof -
  obtain st where st: "st \<in> set (policy_compile p)" "st_Effect st \<noteq> ''Deny''"
      "matchPrincipal st pr = Some True"
    using assms(4)
    by (auto simp: bucket_verdict_def deny_overrides_def stmt_hits_def stmt_covers_def Let_def
        split: if_splits)
  then obtain s where s: "s \<in> set (pol_Statement p)" "st = compile_statement s"
    by (auto simp: policy_compile_def)
  have "st_Effect s = ''Allow''" "st_NotPrincipal s = None"
    using s st(2) assms(2,3) by (auto simp: policy_effects_def policy_notprincipal_def list_all_iff)
  then show ?thesis
    using s st(3)
    by (fastforce simp: MentionsPrincipal_def list_ex_iff matchPrincipal_def split: option.splits)
qed

section \<open>Properties\<close>

definition example_bucket :: bucket where
  "example_bucket = \<lparr> b_Tenant = ''ta'', b_Name = ''b'', b_Backend = None, b_CreatedAt = None,
    b_PolicyText = [], b_Policy = Some example_policy, b_CORS = [] \<rparr>"

definition example_bob :: identity where
  "example_bob = \<lparr> vr_Tenant = ''tb'', vr_User = ''bob'', vr_UserPolicy = None,
    vr_SourceIP = Addr4 0x0A010203 \<rparr>"

lemma example_policy_ok:
  "policy_principals example_policy" "policy_effects example_policy" "policy_notprincipal example_policy"
  by (simp_all add: policy_principals_def policy_effects_def policy_notprincipal_def example_policy_def
      has_principal_def)

lemma example_bucket_ok: "bucket_principals example_bucket" "bucket_effects example_bucket"
  by (simp_all add: bucket_principals_def bucket_effects_def example_bucket_def example_policy_ok)

text \<open>
  C6. Authorization follows the access rule: the user policy must allow the action; in the own tenant
  only a bucket policy Deny refuses, in another tenant only an Allow that no Deny overrides grants. Every
  refusal is AccessDenied with the deciding layer and statement as its cause.
\<close>

theorem authorize_access_rule:
  assumes "bucket_principals b"
  shows "authorize vr b action resource =
    Some (if access_granted vr b action resource then None
          else Some (WithCause AccessDenied (refusal_reason vr b action resource)))"
  using assms by (rule authorize_eq)

theorem authorize_access_rule_witness:
  "bucket_principals example_bucket \<and>
   authorize example_bob example_bucket ''s3:GetObject'' ''b/k'' = Some None"
proof -
  have "access_granted example_bob example_bucket ''s3:GetObject'' ''b/k''"
    by code_simp
  then show ?thesis
    using example_bucket_ok by (simp add: authorize_access_rule)
qed

text \<open>
  C17. The per-object authorizer of a multi-object delete decides every key exactly as \<open>authorize\<close> would,
  and its shortcut that skips the per-key check is taken only when no key can be refused.
\<close>

theorem per_object_agrees:
  assumes "bucket_principals b" "bucket_effects b"
  shows "\<exists>a. perObjectAuthorizer vr b action = Some a \<and>
    (poa_denies a resource \<longleftrightarrow> authorize vr b action resource \<noteq> Some None) \<and>
    (allowsEverything a \<longrightarrow> authorize vr b action resource = Some None)"
proof -
  obtain a where a: "perObjectAuthorizer vr b action = Some a"
    using perObjectAuthorizer_total [OF assms(1)] by blast
  then show ?thesis
    using poa_denies_iff [OF assms a] allowsEverything_sound [OF assms a]
    by (simp add: authorize_eq [OF assms(1)])
qed

theorem per_object_agrees_witness:
  "bucket_principals example_bucket \<and> bucket_effects example_bucket \<and>
   (\<exists>a. perObjectAuthorizer example_bob example_bucket ''s3:DeleteObject'' = Some a \<and>
    (poa_denies a ''b/k'' \<longleftrightarrow> authorize example_bob example_bucket ''s3:DeleteObject'' ''b/k'' \<noteq> Some None))"
  using example_bucket_ok per_object_agrees [OF example_bucket_ok, of example_bob "''s3:DeleteObject''" "''b/k''"]
  by blast

text \<open>
  When the evaluators were built (always in the own tenant, and in another tenant unless the
  authorizer refuses every key), the reason the per-object authorizer gives for a refused key is the one
  \<open>authorize\<close> gives.
\<close>

theorem per_object_reason:
  assumes "bucket_principals b" "bucket_effects b" "perObjectAuthorizer vr b action = Some a"
    and "b_Tenant b = vr_Tenant vr \<or> \<not> poa_denyAll a" "poa_denies a resource"
  shows "authorize vr b action resource =
    Some (Some (WithCause AccessDenied (poa_denyReason a resource)))"
  using poa_denyReason_eq [OF assms(1-4)] poa_denies_iff [OF assms(1-3)] assms(5)
  by (simp add: authorize_eq [OF assms(1)])

definition example_alice :: identity where
  "example_alice = \<lparr> vr_Tenant = ''ta'', vr_User = ''alice'', vr_UserPolicy = None,
    vr_SourceIP = Addr4 5 \<rparr>"

theorem per_object_reason_witness:
  "\<exists>a. perObjectAuthorizer example_alice example_bucket ''s3:DeleteObject'' = Some a \<and>
    poa_denies a ''b/log/1'' \<and>
    authorize example_alice example_bucket ''s3:DeleteObject'' ''b/log/1'' =
      Some (Some (WithCause AccessDenied (poa_denyReason a ''b/log/1'')))"
proof -
  obtain a where a: "perObjectAuthorizer example_alice example_bucket ''s3:DeleteObject'' = Some a"
    using perObjectAuthorizer_total [OF example_bucket_ok(1)] by blast
  have "\<not> access_granted example_alice example_bucket ''s3:DeleteObject'' ''b/log/1''"
    by code_simp
  then have "poa_denies a ''b/log/1''"
    using poa_denies_iff [OF example_bucket_ok a] by blast
  moreover have "b_Tenant example_bucket = vr_Tenant example_alice"
    by (simp add: example_bucket_def example_alice_def)
  ultimately show ?thesis
    using a per_object_reason [OF example_bucket_ok a] by blast
qed

text \<open>
  C23. The visibility gate loses nothing: a principal that no Allow statement of another tenant's bucket
  mentions is refused every action on every resource of it.
\<close>

theorem unmentioned_refused:
  assumes "b_Tenant b \<noteq> vr_Tenant vr" "b_Policy b = Some p"
    and "policy_principals p" "policy_effects p" "policy_notprincipal p"
    and "\<not> MentionsPrincipal p (vr_principal vr)"
  shows "\<exists>e. authorize vr b action resource = Some (Some e) \<and> err_code e = ''AccessDenied'' \<and> err_status e = 403"
proof -
  have "\<not> access_granted vr b action resource"
    using assms Allow_mentions [OF assms(3-5)] by (auto simp: access_granted_def)
  then show ?thesis
    using assms(2,3) by (simp add: authorize_eq bucket_principals_def AccessDenied_def s3err_New_def)
qed

theorem unmentioned_refused_witness:
  "\<exists>e. authorize (example_bob\<lparr> vr_Tenant := ''tc'' \<rparr>) example_bucket ''s3:GetObject'' ''b/k'' = Some (Some e) \<and>
    err_code e = ''AccessDenied'' \<and> err_status e = 403"
proof -
  have "\<not> MentionsPrincipal example_policy (vr_principal (example_bob\<lparr> vr_Tenant := ''tc'' \<rparr>))"
    by code_simp
  then show ?thesis
    using unmentioned_refused [of example_bucket "example_bob\<lparr> vr_Tenant := ''tc'' \<rparr>" example_policy]
      example_policy_ok
    by (simp add: example_bucket_def example_bob_def)
qed

text \<open>
  Where the two explanations differ: in another tenant's bucket, when no Allow statement covers the
  principal and action, the per-object authorizer never builds its Deny side, so a key that a Deny
  statement covers is explained as the cross-tenant baseline, while \<open>authorize\<close> names the statement.
\<close>

theorem per_object_reason_gap:
  assumes "b_Tenant b \<noteq> vr_Tenant vr" "b_Policy b = Some p" "policy_principals p"
    and "user_Allows (vr_UserPolicy vr) action" "perObjectAuthorizer vr b action = Some a" "poa_denyAll a"
    and "dec_Effect (bucket_verdict p (vr_principal vr) action resource (requestContext vr)) = Effect_Deny"
  shows "deny_layer (poa_denyReason a resource) = LayerCrossTenant \<and>
    (\<exists>i sid. authorize vr b action resource = Some (Some (WithCause AccessDenied
       (Deny_reason LayerBucketPolicy i sid (vr_principal vr) action resource []))) \<and> 0 \<le> i)"
proof
  show "deny_layer (poa_denyReason a resource) = LayerCrossTenant"
    using assms by (auto simp: poa_defs bind_eq_Some_conv split: if_splits)
  show "\<exists>i sid. authorize vr b action resource = Some (Some (WithCause AccessDenied
       (Deny_reason LayerBucketPolicy i sid (vr_principal vr) action resource []))) \<and> 0 \<le> i"
    using assms verdict_deny_index [OF assms(7)]
    by (auto simp: authorize_eq bucket_principals_def access_granted_def refusal_reason_def
        bucketPolicyReason_def denyStatementReason_def)
qed

definition example_deny_policy :: policy where
  "example_deny_policy = \<lparr> pol_Version = [], pol_Statement = [
    \<lparr> st_Sid = ''NoDelete'', st_Effect = ''Deny'',
      st_Principal = Some \<lparr> prin_All = True, prin_Users = [] \<rparr>, st_NotPrincipal = None,
      st_Action = [''s3:DeleteObject''], st_Resource = [''b/*''], st_Condition = None \<rparr>] \<rparr>"

definition example_deny_bucket :: bucket where
  "example_deny_bucket = example_bucket\<lparr> b_Policy := Some example_deny_policy \<rparr>"

lemma example_deny_ok: "policy_principals example_deny_policy" "policy_effects example_deny_policy"
  by (simp_all add: policy_principals_def policy_effects_def example_deny_policy_def has_principal_def)

theorem per_object_reason_gap_witness:
  "\<exists>a. perObjectAuthorizer example_bob example_deny_bucket ''s3:DeleteObject'' = Some a \<and>
    deny_layer (poa_denyReason a ''b/k'') = LayerCrossTenant \<and>
    (\<exists>i sid. authorize example_bob example_deny_bucket ''s3:DeleteObject'' ''b/k'' =
       Some (Some (WithCause AccessDenied
         (Deny_reason LayerBucketPolicy i sid (vr_principal example_bob) ''s3:DeleteObject'' ''b/k'' []))) \<and>
       0 \<le> i)"
proof -
  obtain a where a: "perObjectAuthorizer example_bob example_deny_bucket ''s3:DeleteObject'' = Some a"
    using perObjectAuthorizer_total [of example_deny_bucket] example_deny_ok
    by (auto simp: example_deny_bucket_def bucket_principals_def)
  moreover have "map_option poa_denyAll (perObjectAuthorizer example_bob example_deny_bucket ''s3:DeleteObject'') = Some True"
    by code_simp
  ultimately have "poa_denyAll a"
    by simp
  moreover have "dec_Effect (bucket_verdict example_deny_policy (vr_principal example_bob)
      ''s3:DeleteObject'' ''b/k'' (requestContext example_bob)) = Effect_Deny"
    by code_simp
  ultimately show ?thesis
    using a example_deny_ok
      per_object_reason_gap [of example_deny_bucket example_bob example_deny_policy "''s3:DeleteObject''" a]
    by (simp add: example_deny_bucket_def example_bucket_def example_bob_def user_Allows_def user_Decide_def)
qed


text \<open>
  The denial summary of a multi-object delete has one entry per layer and statement that refused a
  key, with exactly the number of keys it refused.
\<close>

theorem denial_summary:
  "distinct (map dn_key (denials_of rs)) \<and> set (map dn_key (denials_of rs)) = denial_key ` set rs \<and>
   sum_list (map dn_Keys (filter (\<lambda>d. dn_key d = k) (denials_of rs))) =
     length (filter (\<lambda>r. denial_key r = k) rs)"
  using denials_of_distinct denials_of_key_set denials_of_count by blast

text \<open>
  C24. A tenant wildcard covers exactly the users of that tenant: for names without a slash, \<open>t/*\<close> matches
  the principal of a user of tenant \<open>t'\<close> only if the tenants are the same.
\<close>

theorem tenant_wildcard_exact:
  assumes "principalPartRegexp t" "principalPartRegexp (vr_Tenant vr)"
  shows "matchAnyPrincipal [t @ ''/*''] (vr_principal vr) \<longleftrightarrow> t = vr_Tenant vr"
  using tenant_wildcard principalPart_chars(2) [OF assms(1)] principalPart_chars(2) [OF assms(2)]
  by (simp add: vr_principal_def)

theorem tenant_wildcard_exact_witness:
  "principalPartRegexp ''tb'' \<and> principalPartRegexp (vr_Tenant example_bob) \<and>
   (matchAnyPrincipal [''tb'' @ ''/*''] (vr_principal example_bob) \<longleftrightarrow> ''tb'' = vr_Tenant example_bob)"
proof -
  have "principalPartRegexp ''tb''" "principalPartRegexp (vr_Tenant example_bob)"
    by code_simp+
  then show ?thesis
    using tenant_wildcard_exact by blast
qed

end
