(* ===== verification/Config.thy ===== *)
theory Config
  imports S3op Authorize
begin

text \<open>
  The static configuration, \<open>src/config.go\<close>, and the store built from it, \<open>src/store.go\<close>: defaults, validation with
  what must be unique across tenants, and the four lookups of the gateway. The pointers of a configuration's lists
  are not nil.
\<close>

section \<open>The configuration\<close>

record keyConfig =
  kc_AccessKeyID :: string
  kc_SecretAccessKey :: string

record userConfig =
  uc_Name :: string
  uc_Keys :: "keyConfig list"
  uc_Policy :: "action_statement list"

record bucketConfig =
  bcf_Name :: string
  bcf_Backend :: "backend option"
  bcf_Policy :: string
  bcf_CORS :: "cors_rule list"
  bcf_CreatedAt :: "int option"

record tenantConfig =
  tc_Name :: string
  tc_Users :: "userConfig list"
  tc_Buckets :: "bucketConfig list"

record circuitBreakerConfig =
  cb_Failures :: int
  cb_Cooldown :: int

text \<open>Without the metrics settings, which validation does not read.\<close>

record config =
  cfg_Listen :: string
  cfg_VirtualHostSuffix :: string
  cfg_CircuitBreaker :: "circuitBreakerConfig option"
  cfg_StrictActions :: bool
  cfg_Tenants :: "tenantConfig list"

definition DefaultListen :: string where
  "DefaultListen = '':8080''"

definition bucket_SetDefaults :: "bucketConfig \<Rightarrow> bucketConfig" where
  "bucket_SetDefaults b = b\<lparr> bcf_Backend := map_option (\<lambda>be. backend_SetDefaults be (bcf_Name b)) (bcf_Backend b) \<rparr>"

definition config_SetDefaults :: "config \<Rightarrow> config" where
  "config_SetDefaults c =
    c\<lparr> cfg_Listen := (if cfg_Listen c = [] then DefaultListen else cfg_Listen c),
      cfg_Tenants := map (\<lambda>t. t\<lparr> tc_Buckets := map bucket_SetDefaults (tc_Buckets t) \<rparr>) (cfg_Tenants c) \<rparr>"

section \<open>Validation\<close>

definition circuitBreaker_validate :: "circuitBreakerConfig \<Rightarrow> go_error + unit" where
  "circuitBreaker_validate c =
    guard_err (cb_Failures c < 1) (Errorf (lit ''circuit_breaker.failures must be at least 1'') [])
    (guard_err (cb_Cooldown c \<le> 0) (Errorf (lit ''circuit_breaker.cooldown must be positive'') []) (Inr ()))"

text \<open>\<open>Backend.Validate\<close>; the argument is \<open>url.Parse\<close>, of which only the scheme is read.\<close>

definition backend_Validate :: "(string \<Rightarrow> go_error + string) \<Rightarrow> backend \<Rightarrow> go_error + unit" where
  "backend_Validate url_scheme b =
    and_then
      (if be_Endpoint b = [] then Inr ()
       else
         (case url_scheme (be_Endpoint b) of
            Inl err \<Rightarrow> Inl (Errorf (lit ''invalid backend endpoint: %w'') [err])
          | Inr scheme \<Rightarrow>
              guard_err (scheme \<noteq> ''http'' \<and> scheme \<noteq> ''https'')
                (Errorf (Sprintf ''backend endpoint must be an http(s) URL: %s'' [FS (be_Endpoint b)]) []) (Inr ())))
      (\<lambda>_. guard_err ((be_AccessKeyID b = []) \<noteq> (be_SecretAccessKey b = []))
        (Errorf (lit ''backend access_key_id and secret_access_key must be set together'') []) (Inr ()))"

text \<open>What must be unique across all tenants, and the unknown actions met so far.\<close>

record configNames =
  cn_bucketNames :: "string list"
  cn_keyIDs :: "string list"
  cn_backendOwner :: "(string \<times> string) list"
  cn_unknownActions :: "go_error list"

text \<open>The errors a joined error unwraps to.\<close>

fun joined_errors :: "go_error \<Rightarrow> go_error list" where
  "joined_errors (Errorf (Sprintf f args) es) = (if f = ''errors.Join'' then es else [Errorf (Sprintf f args) es])"
| "joined_errors e = [e]"

definition splitUnknownActions :: "go_error + 'a \<Rightarrow> go_text \<Rightarrow> configNames \<Rightarrow> go_error + configNames" where
  "splitUnknownActions r pre n =
    (case r of
       Inr _ \<Rightarrow> Inr n
     | Inl err \<Rightarrow>
         if \<not> errors_is err ErrUnknownAction then Inl err
         else Inr (n\<lparr> cn_unknownActions := cn_unknownActions n @
           map (\<lambda>e. Errorf (Sprintf ''%s%w'' [FT pre]) [e]) (joined_errors err) \<rparr>))"

definition wrap_err :: "go_text \<Rightarrow> go_error + 'a \<Rightarrow> go_error + 'a" where
  "wrap_err t r = (case r of Inl e \<Rightarrow> Inl (Errorf t [e]) | Inr x \<Rightarrow> Inr x)"

definition validate_key :: "keyConfig \<Rightarrow> configNames \<Rightarrow> go_error + configNames" where
  "validate_key k n =
    guard_err (kc_AccessKeyID k = [] \<or> kc_SecretAccessKey k = [])
      (Errorf (lit ''key access_key_id and secret_access_key are required'') [])
    (guard_err (kc_AccessKeyID k \<in> set (cn_keyIDs n))
      (Errorf (Sprintf ''duplicate access_key_id %q'' [FS (kc_AccessKeyID k)]) [])
      (Inr (n\<lparr> cn_keyIDs := kc_AccessKeyID k # cn_keyIDs n \<rparr>)))"

definition validateUser :: "string \<Rightarrow> userConfig \<Rightarrow> configNames \<Rightarrow> go_error + configNames" where
  "validateUser tenant u n =
    guard_err (uc_Keys u = []) (Errorf (lit ''at least one key is required'') [])
    (and_then (fold_res validate_key (uc_Keys u) n) (\<lambda>n1.
      if uc_Policy u = [] then Inr n1
      else
        (let up = Some \<lparr> up_Statements = uc_Policy u \<rparr> in
         and_then (wrap_err (lit ''invalid policy: %w'')
             (splitUnknownActions (ValidateUserPolicy up (Some CheckActionPattern))
               (Sprintf ''tenant %s: user %s: policy '' [FS tenant, FS (uc_Name u)]) n1)) (\<lambda>n2.
         and_then (wrap_err (lit ''invalid policy: %w'') (MarshalUserPolicy up)) (\<lambda>_. Inr n2)))))"

definition backend_target :: "bucketConfig \<Rightarrow> backend \<Rightarrow> string" where
  "backend_target b be = be_Endpoint be @ [CHR 0x00] @ (if be_Bucket be = [] then bcf_Name b else be_Bucket be)"

definition validate_backend ::
  "(string \<Rightarrow> go_error + string) \<Rightarrow> string \<Rightarrow> bucketConfig \<Rightarrow> configNames \<Rightarrow> go_error + configNames" where
  "validate_backend url_scheme tenant b n =
    (case bcf_Backend b of
       None \<Rightarrow> Inl (Errorf (Sprintf ''bucket %s: backend is required'' [FS (bcf_Name b)]) [])
     | Some be \<Rightarrow>
         and_then (wrap_err (Sprintf ''bucket %s: %w'' [FS (bcf_Name b)]) (backend_Validate url_scheme be)) (\<lambda>_.
         (let target = backend_target b be in
          case map_of (cn_backendOwner n) target of
            Some owner \<Rightarrow>
              guard_err (owner \<noteq> tenant)
                (Errorf (Sprintf
                  ''bucket %s: backend bucket %q on %q is already used by tenant %s (cross-tenant sharing is not allowed)''
                  [FS (bcf_Name b), FS (if be_Bucket be = [] then bcf_Name b else be_Bucket be), FS (be_Endpoint be), FS owner]) [])
                (Inr (n\<lparr> cn_backendOwner := (target, tenant) # cn_backendOwner n \<rparr>))
          | None \<Rightarrow> Inr (n\<lparr> cn_backendOwner := (target, tenant) # cn_backendOwner n \<rparr>))))"

definition validateBucket ::
  "(string \<Rightarrow> go_error + string) \<Rightarrow> string \<Rightarrow> bucketConfig \<Rightarrow> configNames \<Rightarrow> go_error + configNames" where
  "validateBucket url_scheme tenant b n =
    and_then (ValidateBucketName (bcf_Name b)) (\<lambda>_.
    guard_err (bcf_Name b \<in> set (cn_bucketNames n)) (Errorf (Sprintf ''duplicate bucket name %q'' [FS (bcf_Name b)]) [])
    (and_then (validate_backend url_scheme tenant b (n\<lparr> cn_bucketNames := bcf_Name b # cn_bucketNames n \<rparr>)) (\<lambda>n1.
     and_then
       (if bcf_Policy b = [] then Inr n1
        else wrap_err (Sprintf ''bucket %s: invalid policy: %w'' [FS (bcf_Name b)])
          (splitUnknownActions (policy_Parse (bcf_Name b) (bcf_Policy b) (Some CheckActionPattern))
            (Sprintf ''tenant %s: bucket %s: policy '' [FS tenant, FS (bcf_Name b)]) n1)) (\<lambda>n2.
     and_then (wrap_err (Sprintf ''bucket %s: %w'' [FS (bcf_Name b)]) (for_each cors_Validate (bcf_CORS b))) (\<lambda>_. Inr n2)))))"

text \<open>The loop over a tenant's users, with the names seen.\<close>

definition validate_user_entry ::
  "string \<Rightarrow> userConfig \<Rightarrow> string list \<times> configNames \<Rightarrow> go_error + string list \<times> configNames" where
  "validate_user_entry tenant u = (\<lambda>(names, n).
    and_then (wrap_err (Sprintf ''tenant %s: %w'' [FS tenant]) (ValidateUserName (uc_Name u))) (\<lambda>_.
    guard_err (uc_Name u \<in> set names)
      (Errorf (Sprintf ''tenant %s: duplicate user name %q'' [FS tenant, FS (uc_Name u)]) [])
    (and_then (wrap_err (Sprintf ''tenant %s: user %s: %w'' [FS tenant, FS (uc_Name u)]) (validateUser tenant u n)) (\<lambda>n'.
      Inr (uc_Name u # names, n')))))"

definition validateTenant :: "(string \<Rightarrow> go_error + string) \<Rightarrow> tenantConfig \<Rightarrow> configNames \<Rightarrow> go_error + configNames" where
  "validateTenant url_scheme t n =
    guard_err (tc_Users t = []) (Errorf (Sprintf ''tenant %s: at least one user is required'' [FS (tc_Name t)]) [])
    (and_then (fold_res (validate_user_entry (tc_Name t)) (tc_Users t) ([], n)) (\<lambda>(_, n1).
     guard_err (tc_Buckets t = []) (Errorf (Sprintf ''tenant %s: at least one bucket is required'' [FS (tc_Name t)]) [])
     (fold_res (validateBucket url_scheme (tc_Name t)) (tc_Buckets t) n1)))"

definition validate_tenant_entry ::
  "(string \<Rightarrow> go_error + string) \<Rightarrow> tenantConfig \<Rightarrow> string list \<times> configNames \<Rightarrow> go_error + string list \<times> configNames" where
  "validate_tenant_entry url_scheme t = (\<lambda>(names, n).
    and_then (ValidateTenantName (tc_Name t)) (\<lambda>_.
    guard_err (tc_Name t \<in> set names) (Errorf (Sprintf ''duplicate tenant name %q'' [FS (tc_Name t)]) [])
    (and_then (validateTenant url_scheme t n) (\<lambda>n'. Inr (tc_Name t # names, n')))))"

definition no_names :: configNames where
  "no_names = \<lparr> cn_bucketNames = [], cn_keyIDs = [], cn_backendOwner = [], cn_unknownActions = [] \<rparr>"

definition config_Validate :: "(string \<Rightarrow> go_error + string) \<Rightarrow> config \<Rightarrow> go_error + unit" where
  "config_Validate url_scheme c =
    guard_err (cfg_Tenants c = []) (Errorf (lit ''no tenants defined'') [])
    (and_then (case cfg_CircuitBreaker c of None \<Rightarrow> Inr () | Some cb \<Rightarrow> circuitBreaker_validate cb) (\<lambda>_.
     and_then (fold_res (validate_tenant_entry url_scheme) (cfg_Tenants c) ([], no_names)) (\<lambda>(_, n).
       (case cn_unknownActions n of
          [] \<Rightarrow> Inr ()
        | errs \<Rightarrow> Inl (Errorf (lit ''errors.Join'') errs)))))"

text \<open>
  \<open>LoadConfig\<close> on the content of the file: expansion of the environment and the YAML decoder are arguments. The
  warnings about unknown actions are not kept.
\<close>

definition LoadConfig ::
  "(string \<Rightarrow> go_error + string) \<Rightarrow> (string \<Rightarrow> string) \<Rightarrow> (string \<Rightarrow> go_error + config) \<Rightarrow> string \<Rightarrow> go_error + string \<Rightarrow>
    go_error + config" where
  "LoadConfig url_scheme expandEnv unmarshal path content =
    (case content of
       Inl err \<Rightarrow> Inl (Errorf (lit ''failed to read config file: %w'') [err])
     | Inr data \<Rightarrow>
         (case unmarshal (expandEnv data) of
            Inl err \<Rightarrow> Inl (Errorf (Sprintf ''failed to parse config file %s: %w'' [FS path]) [err])
          | Inr c0 \<Rightarrow>
              (let c = config_SetDefaults c0 in
               case config_Validate url_scheme c of
                 Inr _ \<Rightarrow> Inr c
               | Inl err \<Rightarrow>
                   if cfg_StrictActions c \<or> \<not> errors_is err ErrUnknownAction
                   then Inl (Errorf (Sprintf ''invalid config %s: %w'' [FS path]) [err])
                   else Inr c)))"

section \<open>The store\<close>

record configStore =
  cs_keys :: "(string \<times> key) list"
  cs_tenants :: "(string \<times> (string \<times> bucket) list) list"
  cs_byName :: "(string \<times> bucket) list"

text \<open>A bucket of a tenant; \<open>None\<close> is the panic about a policy that does not parse.\<close>

definition config_bucket :: "string \<Rightarrow> bucketConfig \<Rightarrow> bucket option" where
  "config_bucket tenant b =
    (let bucket = \<lparr> b_Tenant = tenant, b_Name = bcf_Name b, b_Backend = bcf_Backend b, b_CreatedAt = bcf_CreatedAt b,
           b_PolicyText = bcf_Policy b, b_Policy = None, b_CORS = bcf_CORS b \<rparr>
     in if bcf_Policy b = [] then Some bucket
        else
          (case policy_Parse (bcf_Name b) (bcf_Policy b) None of
             Inl _ \<Rightarrow> None
           | Inr p \<Rightarrow> Some (bucket\<lparr> b_Policy := Some p \<rparr>)))"

definition config_key :: "string \<Rightarrow> userConfig \<Rightarrow> keyConfig \<Rightarrow> key" where
  "config_key tenant u k =
    \<lparr> k_AccessKeyID = kc_AccessKeyID k, k_SecretAccessKey = kc_SecretAccessKey k, k_SigningKey = None, k_SecretVersion = [],
      k_Tenant = tenant, k_User = uc_Name u, k_SessionToken = [],
      k_Policy = (if uc_Policy u = [] then None else Some \<lparr> up_Statements = uc_Policy u \<rparr>) \<rparr>"

definition assoc_set_all :: "('k \<times> 'v) list \<Rightarrow> ('k \<times> 'v) list \<Rightarrow> ('k \<times> 'v) list" where
  "assoc_set_all kvs m = foldl (\<lambda>m (k, v). assoc_set k v m) m kvs"

definition tenant_buckets :: "tenantConfig \<Rightarrow> (string \<times> bucket) list option" where
  "tenant_buckets t = those (map (\<lambda>b. map_option (Pair (bcf_Name b)) (config_bucket (tc_Name t) b)) (tc_Buckets t))"

definition tenant_keys :: "tenantConfig \<Rightarrow> (string \<times> key) list" where
  "tenant_keys t =
    concat (map (\<lambda>u. map (\<lambda>k. (kc_AccessKeyID k, config_key (tc_Name t) u k)) (uc_Keys u)) (tc_Users t))"

definition add_tenant :: "tenantConfig \<Rightarrow> configStore \<Rightarrow> configStore option" where
  "add_tenant t s =
    (case tenant_buckets t of
       None \<Rightarrow> None
     | Some bs \<Rightarrow> Some \<lparr> cs_keys = assoc_set_all (tenant_keys t) (cs_keys s),
         cs_tenants = assoc_set (tc_Name t) (assoc_set_all bs []) (cs_tenants s),
         cs_byName = assoc_set_all bs (cs_byName s) \<rparr>)"

fun add_tenants :: "tenantConfig list \<Rightarrow> configStore \<Rightarrow> configStore option" where
  "add_tenants [] s = Some s"
| "add_tenants (t # ts) s = (case add_tenant t s of None \<Rightarrow> None | Some s' \<Rightarrow> add_tenants ts s')"

definition NewConfigStore :: "config \<Rightarrow> configStore option" where
  "NewConfigStore c = add_tenants (cfg_Tenants c) \<lparr> cs_keys = [], cs_tenants = [], cs_byName = [] \<rparr>"

text \<open>The methods; a listing is in the order of the configuration, a Go map has none.\<close>

definition found_or :: "'a option \<Rightarrow> go_error + 'a" where
  "found_or r = (case r of Some x \<Rightarrow> Inr x | None \<Rightarrow> Inl ErrNotFound)"

definition config_store :: "configStore \<Rightarrow> store" where
  "config_store s =
    \<lparr> GetKey = (\<lambda>akid token. found_or (map_of (cs_keys s) akid)),
      GetBucket = (\<lambda>tenant n. found_or (case map_of (cs_tenants s) tenant of None \<Rightarrow> None | Some bs \<Rightarrow> map_of bs n)),
      GetBucketByName = (\<lambda>n. found_or (map_of (cs_byName s) n)),
      ListBuckets = (\<lambda>tenant.
        (case map_of (cs_tenants s) tenant of
           None \<Rightarrow> Inl ErrNotFound
         | Some bs \<Rightarrow> Inr (map (\<lambda>(n, b). \<lparr> bent_Name = b_Name b, bent_CreatedAt = b_CreatedAt b \<rparr>) bs))) \<rparr>"

end
