(* ===== verification/Headers.thy ===== *)
theory Headers
  imports Checksum
begin

text \<open>
  Request headers in view of the signature, \<open>src/s3gw/headers.go\<close>, and the header checks of
  \<open>src/s3gw/sse.go\<close>, \<open>src/s3gw/acl.go\<close> and \<open>src/s3gw/objectlock.go\<close>.
\<close>

section \<open>Names\<close>

definition hdrStorageClass :: string where "hdrStorageClass = ''x-amz-storage-class''"
definition hdrCopySource :: string where "hdrCopySource = ''x-amz-copy-source''"
definition hdrTagging :: string where "hdrTagging = ''x-amz-tagging''"
definition hdrObjectLockMode :: string where "hdrObjectLockMode = ''x-amz-object-lock-mode''"
definition hdrObjectLockRetainUntil :: string where
  "hdrObjectLockRetainUntil = ''x-amz-object-lock-retain-until-date''"
definition hdrObjectLockLegalHold :: string where
  "hdrObjectLockLegalHold = ''x-amz-object-lock-legal-hold''"
definition hdrBypassGovernanceRetention :: string where
  "hdrBypassGovernanceRetention = ''x-amz-bypass-governance-retention''"
definition hdrSSE :: string where "hdrSSE = ''x-amz-server-side-encryption''"
definition hdrSSEKMSKeyID :: string where
  "hdrSSEKMSKeyID = ''x-amz-server-side-encryption-aws-kms-key-id''"
definition hdrSSECAlgo :: string where
  "hdrSSECAlgo = ''x-amz-server-side-encryption-customer-algorithm''"
definition hdrCopySSECAlgo :: string where
  "hdrCopySSECAlgo = ''x-amz-copy-source-server-side-encryption-customer-algorithm''"
definition amzMetaPrefix :: string where "amzMetaPrefix = ''x-amz-meta-''"

lemmas hdr_defs = hdrStorageClass_def hdrCopySource_def hdrTagging_def hdrObjectLockMode_def
  hdrObjectLockRetainUntil_def hdrObjectLockLegalHold_def hdrBypassGovernanceRetention_def hdrSSE_def
  hdrSSEKMSKeyID_def hdrSSECAlgo_def hdrCopySSECAlgo_def amzMetaPrefix_def

definition knownAmzHeaders :: "string list" where
  "knownAmzHeaders = [
    ''x-amz-date'', ''x-amz-content-sha256'', ''x-amz-security-token'',
    ''x-amz-decoded-content-length'', ''x-amz-trailer'',
    ''x-amz-user-agent'',
    ''x-amz-checksum-algorithm'', ''x-amz-checksum-type'', ''x-amz-checksum-mode'',
    ''x-amz-sdk-checksum-algorithm'',
    hdrStorageClass, hdrTagging, ''x-amz-tagging-directive'', ''x-amz-metadata-directive'',
    hdrCopySource, ''x-amz-copy-source-if-match'', ''x-amz-copy-source-if-none-match'',
    ''x-amz-copy-source-if-modified-since'', ''x-amz-copy-source-if-unmodified-since'',
    ''x-amz-copy-source-range'', ''x-amz-mp-object-size'',
    hdrSSE, hdrSSEKMSKeyID,
    ''x-amz-acl'', ''x-amz-grant-read'', ''x-amz-grant-write'',
    ''x-amz-grant-read-acp'', ''x-amz-grant-write-acp'', ''x-amz-grant-full-control'',
    hdrObjectLockMode, hdrObjectLockRetainUntil, hdrObjectLockLegalHold,
    ''x-amz-bypass-governance-retention'',
    ''x-amz-object-attributes'', ''x-amz-max-parts'', ''x-amz-part-number-marker'',
    ''x-amz-if-match-size'', ''x-amz-if-match-last-modified-time'']"

section \<open>signedHeader\<close>

text \<open>The headers of a request and the lower-cased names the signature covers.\<close>

record signed_header =
  sh_h :: header
  sh_signed :: "string list"

definition newSignedHeader :: "http_request \<Rightarrow> string list \<Rightarrow> signed_header" where
  "newSignedHeader r names = \<lparr> sh_h = r_Header r, sh_signed = names \<rparr>"

definition postFieldHeader :: "(string \<times> string) list \<Rightarrow> signed_header" where
  "postFieldHeader fs =
    \<lparr> sh_h = foldl (\<lambda>h (k, v). header_set k v h) [] fs, sh_signed = map (\<lambda>(k, v). to_lower k) fs \<rparr>"

definition sh_Signed :: "signed_header \<Rightarrow> string \<Rightarrow> string" where
  "sh_Signed s name = (if to_lower name \<notin> set (sh_signed s) then [] else header_get (sh_h s) name)"

definition sh_Attribute :: "signed_header \<Rightarrow> string \<Rightarrow> string" where
  "sh_Attribute s name = header_get (sh_h s) name"

definition sh_AttributeValues :: "signed_header \<Rightarrow> string \<Rightarrow> string list" where
  "sh_AttributeValues s name = header_values (sh_h s) name"

definition sh_SignedValues :: "signed_header \<Rightarrow> string \<Rightarrow> string list" where
  "sh_SignedValues s name = (if to_lower name \<notin> set (sh_signed s) then [] else header_values (sh_h s) name)"

definition AmzMeta :: "signed_header \<Rightarrow> (string \<times> string) list" where
  "AmzMeta s =
    foldl (\<lambda>md (k, vs). let lk = to_lower k in
      (case (cut_prefix lk amzMetaPrefix, vs) of
         (Some name, v # _) \<Rightarrow> if lk \<in> set (sh_signed s) then assoc_set name v md else md
       | _ \<Rightarrow> md)) [] (sh_h s)"

definition unknown_amz :: "checksum_policy \<Rightarrow> header \<Rightarrow> string list" where
  "unknown_amz checksums h =
    filter (\<lambda>lname. has_prefix lname ''x-amz-'' \<and> lname \<notin> set knownAmzHeaders \<and>
      \<not> knownHeader checksums lname \<and> \<not> has_prefix lname amzMetaPrefix)
      (map (\<lambda>(name, vs). to_lower name) h)"

definition checkKnownAmzHeaders :: "checksum_policy \<Rightarrow> signed_header \<Rightarrow> s3error + unit" where
  "checkKnownAmzHeaders checksums s =
    (let unknown = unknown_amz checksums (sh_h s) in
     if unknown = [] then Inr ()
     else Inl (NotImplemented (''header '' @ str_join '', '' (sort unknown))))"

section \<open>Refusals by header\<close>

definition checkSSEC :: "signed_header \<Rightarrow> s3error + unit" where
  "checkSSEC hdr =
    (if sh_Attribute hdr hdrSSECAlgo \<noteq> [] \<or> sh_Attribute hdr hdrCopySSECAlgo \<noteq> []
     then Inl (NotImplemented ''SSE-C'') else Inr ())"

definition checkSSE :: "signed_header \<Rightarrow> s3error + unit" where
  "checkSSE hdr =
    (let v = sh_Signed hdr hdrSSE in
     guard_err (v \<notin> {[], ''AES256'', ''aws:kms''})
       (s3err_New 400 ''InvalidArgument'' (lit ''The encryption method specified is not supported''))
     (guard_err (sh_Signed hdr hdrSSEKMSKeyID \<noteq> [] \<and> v \<noteq> ''aws:kms'')
       (s3err_New 400 ''InvalidArgument''
         (lit (hdrSSEKMSKeyID @ '' can only be used with aws:kms'')))
     (Inr ())))"

text \<open>
  \<open>applySSE\<close>: the encryption and key id of the backend request; the parameter is the key mapper's
  \<open>ToBackend\<close>, if one is installed, applied to the operation at hand.
\<close>

definition applySSE ::
  "(string \<Rightarrow> string) option \<Rightarrow> signed_header \<Rightarrow> s3error + (string \<times> string option)" where
  "applySSE toBackend hdr =
    and_then (checkSSE hdr) (\<lambda>_.
      let v = sh_Signed hdr hdrSSE;
          id0 = sh_Signed hdr hdrSSEKMSKeyID;
          id1 = (case toBackend of Some f \<Rightarrow> if v = ''aws:kms'' then f id0 else id0 | None \<Rightarrow> id0)
      in Inr (v, if id1 \<noteq> [] then Some id1 else None))"

definition clientKMSKeyID :: "(string \<Rightarrow> string) option \<Rightarrow> string option \<Rightarrow> string option" where
  "clientKMSKeyID toClient keyID =
    (case (keyID, toClient) of
       (Some k, Some f) \<Rightarrow> (let v = f k in if v \<noteq> [] then Some v else None)
     | _ \<Rightarrow> keyID)"

definition setSSEHeaders :: "header \<Rightarrow> string \<Rightarrow> string option \<Rightarrow> header" where
  "setSSEHeaders h enc kmsKeyID =
    (let h1 = (if enc \<noteq> [] then header_set hdrSSE enc h else h) in
     case kmsKeyID of Some k \<Rightarrow> header_set hdrSSEKMSKeyID k h1 | None \<Rightarrow> h1)"

definition errACLNotSupported :: s3error where
  "errACLNotSupported = s3err_New 400 ''AccessControlListNotSupported'' (lit ''The bucket does not allow ACLs'')"

definition aclGrantHeaders :: "string list" where
  "aclGrantHeaders = [''x-amz-grant-read'', ''x-amz-grant-write'', ''x-amz-grant-read-acp'',
    ''x-amz-grant-write-acp'', ''x-amz-grant-full-control'']"

definition checkACLHeader :: "signed_header \<Rightarrow> s3error + unit" where
  "checkACLHeader hdr =
    (if list_ex (\<lambda>name. sh_AttributeValues hdr name \<noteq> []) aclGrantHeaders then Inl errACLNotSupported
     else if sh_Attribute hdr ''x-amz-acl'' \<in> {[], ''private'', ''bucket-owner-full-control''} then Inr ()
     else Inl errACLNotSupported)"

definition bypassGovernanceRetention :: "signed_header \<Rightarrow> bool" where
  "bypassGovernanceRetention hdr \<longleftrightarrow> sh_Signed hdr hdrBypassGovernanceRetention = ''true''"

end
