(* ===== verification/Go_Codec.thy ===== *)
theory Go_Codec
  imports Go_Hash Go_Time Go_Http
begin

text \<open>
  Further encodings of Go's standard library the handlers use: \<open>strconv.ParseInt\<close> at 32 bits, upper case, the standard
  base64 decoder, and the time layouts of HTTP headers and S3 documents.
\<close>

section \<open>Integers\<close>

text \<open>\<open>strconv.ParseInt(s, 10, 32)\<close>; \<open>None\<close> is a syntax or range error.\<close>

definition parse_int32 :: "string \<Rightarrow> int option" where
  "parse_int32 s =
    (case parse_int 10 s of
       Some n \<Rightarrow> if - (2 ^ 31) \<le> n \<and> n < 2 ^ 31 then Some n else None
     | None \<Rightarrow> None)"

section \<open>Upper case\<close>

definition upper_table :: "(nat \<times> nat \<times> nat \<times> int) list" where
  "upper_table = [
    (181, 181, 1, 743), (224, 246, 1, -32), (248, 254, 1, -32), (255, 255, 1, 121),
    (257, 303, 2, -1), (305, 305, 1, -232), (307, 311, 2, -1), (314, 328, 2, -1),
    (331, 375, 2, -1), (378, 382, 2, -1), (383, 383, 1, -300), (384, 384, 1, 195),
    (387, 389, 2, -1), (392, 392, 1, -1), (396, 396, 1, -1), (402, 402, 1, -1),
    (405, 405, 1, 97), (409, 409, 1, -1), (410, 410, 1, 163), (414, 414, 1, 130),
    (417, 421, 2, -1), (424, 424, 1, -1), (429, 429, 1, -1), (432, 432, 1, -1),
    (436, 438, 2, -1), (441, 441, 1, -1), (445, 445, 1, -1), (447, 447, 1, 56),
    (453, 453, 1, -1), (454, 454, 1, -2), (456, 456, 1, -1), (457, 457, 1, -2),
    (459, 459, 1, -1), (460, 460, 1, -2), (462, 476, 2, -1), (477, 477, 1, -79),
    (479, 495, 2, -1), (498, 498, 1, -1), (499, 499, 1, -2), (501, 501, 1, -1),
    (505, 543, 2, -1), (547, 563, 2, -1), (572, 572, 1, -1), (575, 576, 1, 10815),
    (578, 578, 1, -1), (583, 591, 2, -1), (592, 592, 1, 10783), (593, 593, 1, 10780),
    (594, 594, 1, 10782), (595, 595, 1, -210), (596, 596, 1, -206), (598, 599, 1, -205),
    (601, 601, 1, -202), (603, 603, 1, -203), (604, 604, 1, 42319), (608, 608, 1, -205),
    (609, 609, 1, 42315), (611, 611, 1, -207), (613, 613, 1, 42280), (614, 614, 1, 42308),
    (616, 616, 1, -209), (617, 617, 1, -211), (618, 618, 1, 42308), (619, 619, 1, 10743),
    (620, 620, 1, 42305), (623, 623, 1, -211), (625, 625, 1, 10749), (626, 626, 1, -213),
    (629, 629, 1, -214), (637, 637, 1, 10727), (640, 640, 1, -218), (642, 642, 1, 42307),
    (643, 643, 1, -218), (647, 647, 1, 42282), (648, 648, 1, -218), (649, 649, 1, -69),
    (650, 651, 1, -217), (652, 652, 1, -71), (658, 658, 1, -219), (669, 669, 1, 42261),
    (670, 670, 1, 42258), (837, 837, 1, 84), (881, 883, 2, -1), (887, 887, 1, -1),
    (891, 893, 1, 130), (940, 940, 1, -38), (941, 943, 1, -37), (945, 961, 1, -32),
    (962, 962, 1, -31), (963, 971, 1, -32), (972, 972, 1, -64), (973, 974, 1, -63),
    (976, 976, 1, -62), (977, 977, 1, -57), (981, 981, 1, -47), (982, 982, 1, -54),
    (983, 983, 1, -8), (985, 1007, 2, -1), (1008, 1008, 1, -86), (1009, 1009, 1, -80),
    (1010, 1010, 1, 7), (1011, 1011, 1, -116), (1013, 1013, 1, -96), (1016, 1016, 1, -1),
    (1019, 1019, 1, -1), (1072, 1103, 1, -32), (1104, 1119, 1, -80), (1121, 1153, 2, -1),
    (1163, 1215, 2, -1), (1218, 1230, 2, -1), (1231, 1231, 1, -15), (1233, 1327, 2, -1),
    (1377, 1414, 1, -48), (4304, 4346, 1, 3008), (4349, 4351, 1, 3008), (5112, 5117, 1, -8),
    (7296, 7296, 1, -6254), (7297, 7297, 1, -6253), (7298, 7298, 1, -6244),
    (7299, 7300, 1, -6242), (7301, 7301, 1, -6243), (7302, 7302, 1, -6236),
    (7303, 7303, 1, -6181), (7304, 7304, 1, 35266), (7545, 7545, 1, 35332),
    (7549, 7549, 1, 3814), (7566, 7566, 1, 35384), (7681, 7829, 2, -1), (7835, 7835, 1, -59),
    (7841, 7935, 2, -1), (7936, 7943, 1, 8), (7952, 7957, 1, 8), (7968, 7975, 1, 8),
    (7984, 7991, 1, 8), (8000, 8005, 1, 8), (8017, 8023, 2, 8), (8032, 8039, 1, 8),
    (8048, 8049, 1, 74), (8050, 8053, 1, 86), (8054, 8055, 1, 100), (8056, 8057, 1, 128),
    (8058, 8059, 1, 112), (8060, 8061, 1, 126), (8064, 8071, 1, 8), (8080, 8087, 1, 8),
    (8096, 8103, 1, 8), (8112, 8113, 1, 8), (8115, 8115, 1, 9), (8126, 8126, 1, -7205),
    (8131, 8131, 1, 9), (8144, 8145, 1, 8), (8160, 8161, 1, 8), (8165, 8165, 1, 7),
    (8179, 8179, 1, 9), (8526, 8526, 1, -28), (8560, 8575, 1, -16), (8580, 8580, 1, -1),
    (9424, 9449, 1, -26), (11312, 11359, 1, -48), (11361, 11361, 1, -1),
    (11365, 11365, 1, -10795), (11366, 11366, 1, -10792), (11368, 11372, 2, -1),
    (11379, 11379, 1, -1), (11382, 11382, 1, -1), (11393, 11491, 2, -1), (11500, 11502, 2, -1),
    (11507, 11507, 1, -1), (11520, 11557, 1, -7264), (11559, 11559, 1, -7264),
    (11565, 11565, 1, -7264), (42561, 42605, 2, -1), (42625, 42651, 2, -1),
    (42787, 42799, 2, -1), (42803, 42863, 2, -1), (42874, 42876, 2, -1), (42879, 42887, 2, -1),
    (42892, 42892, 1, -1), (42897, 42899, 2, -1), (42900, 42900, 1, 48), (42903, 42921, 2, -1),
    (42933, 42947, 2, -1), (42952, 42954, 2, -1), (42961, 42961, 1, -1), (42967, 42969, 2, -1),
    (42998, 42998, 1, -1), (43859, 43859, 1, -928), (43888, 43967, 1, -38864),
    (65345, 65370, 1, -32), (66600, 66639, 1, -40), (66776, 66811, 1, -40),
    (66967, 66977, 1, -39), (66979, 66993, 1, -39), (66995, 67001, 1, -39),
    (67003, 67004, 1, -39), (68800, 68850, 1, -64), (71872, 71903, 1, -32),
    (93792, 93823, 1, -32), (125218, 125251, 1, -34)]"

text \<open>\<open>unicode.ToUpper\<close> and \<open>strings.ToUpper\<close>.\<close>

definition upper_rune :: "rune \<Rightarrow> rune" where
  "upper_rune r =
    (if r < 128 then (if 97 \<le> r \<and> r \<le> 122 then r - 32 else r) else lower_lookup upper_table r)"

definition to_upper :: "string \<Rightarrow> string" where
  "to_upper s =
    (if is_ascii s then map upper_char s
     else concat (map (\<lambda>r. encode_rune (upper_rune r)) (runes s)))"

section \<open>Base64\<close>

definition base64_val :: "char \<Rightarrow> nat option" where
  "base64_val c =
    (let b = byte_of c in
     if 65 \<le> b \<and> b \<le> 90 then Some (b - 65)
     else if 97 \<le> b \<and> b \<le> 122 then Some (b - 71)
     else if 48 \<le> b \<and> b \<le> 57 then Some (b + 4)
     else if c = CHR ''+'' then Some 62 else if c = CHR ''/'' then Some 63 else None)"

text \<open>
  Groups of four characters, with padding in the last one only; as in Go the bits below the last byte of a
  padded group are not checked.
\<close>

fun base64_groups :: "string \<Rightarrow> string option" where
  "base64_groups [] = Some []"
| "base64_groups (a # b # c # d # rest) =
    (case (base64_val a, base64_val b) of
       (Some x, Some y) \<Rightarrow>
         (let p = char_of (x * 4 + y div 16) in
          if c = CHR ''='' then (if d = CHR ''='' \<and> rest = [] then Some [p] else None)
          else
            (case base64_val c of
               None \<Rightarrow> None
             | Some z \<Rightarrow>
                 (let q = char_of (y mod 16 * 16 + z div 4) in
                  if d = CHR ''='' then (if rest = [] then Some [p, q] else None)
                  else
                    (case (base64_val d, base64_groups rest) of
                       (Some v, Some out) \<Rightarrow> Some (p # q # char_of (z mod 4 * 64 + v) # out)
                     | _ \<Rightarrow> None))))
     | _ \<Rightarrow> None)"
| "base64_groups _ = None"

text \<open>\<open>base64.StdEncoding.DecodeString\<close>, which skips line breaks.\<close>

definition base64_decode :: "string \<Rightarrow> string option" where
  "base64_decode s = base64_groups (filter (\<lambda>c. byte_of c \<noteq> 10 \<and> byte_of c \<noteq> 13) s)"

lemma base64_val_char: "n < 64 \<Longrightarrow> base64_val (base64_char n) = Some n"
  by (auto simp: base64_val_def base64_char_def Let_def of_char_of)

lemma base64_char_plain:
  "n < 64 \<Longrightarrow> base64_char n \<noteq> CHR ''=''"
  "n < 64 \<Longrightarrow> byte_of (base64_char n) \<noteq> 10 \<and> byte_of (base64_char n) \<noteq> 13"
  by (auto simp: base64_char_def of_char_of dest: arg_cong [of _ _ byte_of])

lemma byte_bounds: "byte_of c div 4 < 64" "byte_of c div 16 < 16" "byte_of c div 64 < 4"
  using nat_of_char_less_256 [of c] by linarith+

lemma base64_bits: "byte_of c div 16 mod 16 = byte_of c div 16" "byte_of c div 64 mod 4 = byte_of c div 64"
  "byte_of c div 16 div 16 = 0" "byte_of c div 64 div 4 = 0"
  by (rule mod_less div_less, rule byte_bounds)+

lemma base64_digit:
  "byte_of a mod 4 * 16 + byte_of b div 16 < 64" "byte_of b mod 16 * 4 + byte_of c div 64 < 64"
  "byte_of a mod 4 * 16 < 64" "byte_of b mod 16 * 4 < 64" "byte_of c mod 64 < 64"
proof -
  have bound: "u < 4 \<Longrightarrow> v < 16 \<Longrightarrow> u * 16 + v < 64" "v < 16 \<Longrightarrow> u < 4 \<Longrightarrow> v * 4 + u < 64" for u v :: nat
    by simp_all
  show "byte_of a mod 4 * 16 + byte_of b div 16 < 64" "byte_of b mod 16 * 4 + byte_of c div 64 < 64"
    by (rule bound, simp, rule byte_bounds)+
  show "byte_of a mod 4 * 16 < 64" "byte_of b mod 16 * 4 < 64" "byte_of c mod 64 < 64"
    using bound(1) [of "byte_of a mod 4" 0] bound(2) [of "byte_of b mod 16" 0] by simp_all
qed

lemma div_mod_id: "n div m * m + n mod m = n" for n m :: nat
  by simp

lemma base64_groups_encode: "base64_groups (base64_encode s) = Some s"
proof (induction s rule: base64_encode.induct)
  case (4 a b c rest)
  then show ?case
    using 4 byte_bounds(1) [of a] by (simp add: base64_digit Let_def base64_val_char base64_char_plain base64_bits div_mod_id)
next
  case (3 a b)
  then show ?case
    using byte_bounds(1) [of a] by (simp add: base64_digit Let_def base64_val_char base64_char_plain base64_bits div_mod_id)
next
  case (2 a)
  then show ?case
    using byte_bounds(1) [of a] by (simp add: base64_digit Let_def base64_val_char base64_char_plain div_mod_id)
qed simp

lemma base64_encode_plain: "c \<in> set (base64_encode s) \<Longrightarrow> byte_of c \<noteq> 10 \<and> byte_of c \<noteq> 13"
proof (induction s rule: base64_encode.induct)
  case (4 a b c' rest)
  then show ?case
    using 4 byte_bounds(1) [of a] by (auto simp: base64_digit Let_def base64_char_plain)
next
  case (3 a b)
  then show ?case
    using 3 byte_bounds(1) [of a] by (auto simp: base64_digit Let_def base64_char_plain)
next
  case (2 a)
  then show ?case
    using 2 byte_bounds(1) [of a] by (auto simp: base64_digit Let_def base64_char_plain)
qed simp

lemma base64_decode_encode [simp]: "base64_decode (base64_encode s) = Some s"
proof -
  have "filter (\<lambda>c. byte_of c \<noteq> 10 \<and> byte_of c \<noteq> 13) (base64_encode s) = base64_encode s"
    using base64_encode_plain [of _ s] by (intro filter_True) auto
  then show ?thesis
    by (simp only: base64_decode_def base64_groups_encode)
qed

section \<open>Time layouts\<close>

text \<open>A year is written with at least four digits.\<close>

definition format_year :: "int \<Rightarrow> string" where
  "format_year y =
    (let ds = format_nat (nat (abs y)) in
     (if y < 0 then ''-'' else []) @ replicate (4 - length ds) (CHR ''0'') @ ds)"

definition format_clock :: "int \<Rightarrow> string" where
  "format_clock t =
    (let s = t div Second mod 86400 in
     pad2 (s div 3600) @ '':'' @ pad2 (s div 60 mod 60) @ '':'' @ pad2 (s mod 60))"

definition format_ymd :: "int \<Rightarrow> string" where
  "format_ymd t =
    (case civil_from_days (t div (86400 * Second)) of
       (y, m, d) \<Rightarrow> format_year y @ ''-'' @ pad2 m @ ''-'' @ pad2 d)"

text \<open>\<open>Format("2006-01-02T15:04:05.000Z")\<close> and \<open>Format(time.RFC3339)\<close> of a UTC instant.\<close>

definition format_millis :: "int \<Rightarrow> string" where
  "format_millis t =
    (let ms = t div 1000000 mod 1000 in
     format_ymd t @ ''T'' @ format_clock t @ ''.'' @ char_of (48 + nat (ms div 100)) # pad2 (ms mod 100) @ ''Z'')"

definition format_rfc3339 :: "int \<Rightarrow> string" where
  "format_rfc3339 t = format_ymd t @ ''T'' @ format_clock t @ ''Z''"

definition short_days :: "string list" where
  "short_days = [''Sun'', ''Mon'', ''Tue'', ''Wed'', ''Thu'', ''Fri'', ''Sat'']"

definition short_months :: "string list" where
  "short_months = [''Jan'', ''Feb'', ''Mar'', ''Apr'', ''May'', ''Jun'', ''Jul'', ''Aug'', ''Sep'', ''Oct'', ''Nov'', ''Dec'']"

text \<open>\<open>Format(http.TimeFormat)\<close> of a UTC instant; the epoch was a Thursday.\<close>

definition format_http :: "int \<Rightarrow> string" where
  "format_http t =
    (let days = t div (86400 * Second) in
     case civil_from_days days of
       (y, m, d) \<Rightarrow>
         short_days ! nat ((days + 4) mod 7) @ '', '' @ pad2 d @ '' '' @ short_months ! nat (m - 1) @ '' '' @
         format_year y @ '' '' @ format_clock t @ '' GMT'')"

text \<open>One or two digits, and the date and clock of a layout; an hour may have one digit.\<close>

definition take_num :: "string \<Rightarrow> (int \<times> string) option" where
  "take_num s = (case take_digits 2 s of Some r \<Rightarrow> Some r | None \<Rightarrow> take_digits 1 s)"

definition take_ymd :: "string \<Rightarrow> (int \<times> string) option" where
  "take_ymd s0 = do {
     (y, s1) \<leftarrow> take_digits 4 s0;
     s2 \<leftarrow> cut_prefix s1 ''-'';
     (mo, s3) \<leftarrow> take_digits 2 s2;
     s4 \<leftarrow> cut_prefix s3 ''-'';
     (d, s5) \<leftarrow> take_digits 2 s4;
     if mo < 1 \<or> 12 < mo \<or> d < 1 \<or> days_in mo y < d then None else Some (days_from_civil y mo d, s5)
   }"

definition take_clock :: "string \<Rightarrow> (int \<times> string) option" where
  "take_clock s0 = do {
     (h, s1) \<leftarrow> take_num s0;
     s2 \<leftarrow> cut_prefix s1 '':'';
     (mi, s3) \<leftarrow> take_digits 2 s2;
     s4 \<leftarrow> cut_prefix s3 '':'';
     (sec, s5) \<leftarrow> take_digits 2 s4;
     if 24 \<le> h \<or> 60 \<le> mi \<or> 60 \<le> sec then None else Some ((h * 60 + mi) * 60 + sec, s5)
   }"

text \<open>\<open>time.Parse("2006-01-02T15:04:05.000Z", s)\<close>: exactly three digits of a fraction.\<close>

definition parse_millis :: "string \<Rightarrow> int option" where
  "parse_millis s0 = do {
     (days, s1) \<leftarrow> take_ymd s0;
     s2 \<leftarrow> cut_prefix s1 ''T'';
     (secs, s3) \<leftarrow> take_clock s2;
     (case s3 of
        p # s4 \<Rightarrow>
          if p = CHR ''.'' \<or> p = CHR '','' then do {
            (ms, s5) \<leftarrow> take_digits 3 s4;
            if s5 = ''Z'' then Some ((days * 86400 + secs) * Second + ms * 1000000) else None
          }
          else None
      | [] \<Rightarrow> None)
   }"

text \<open>The zone of an RFC 3339 time, an offset in seconds; offsets of 24 hours and of 60 minutes are accepted.\<close>

definition parse_zone :: "string \<Rightarrow> int option" where
  "parse_zone s =
    (if s = ''Z'' then Some 0
     else
       (case s of
          [] \<Rightarrow> None
        | sg # s1 \<Rightarrow> do {
            (hh, s2) \<leftarrow> take_digits 2 s1;
            s3 \<leftarrow> cut_prefix s2 '':'';
            (mm, s4) \<leftarrow> take_digits 2 s3;
            if s4 \<noteq> [] \<or> 24 < hh \<or> 60 < mm then None
            else if sg = CHR ''+'' then Some ((hh * 60 + mm) * 60)
            else if sg = CHR ''-'' then Some (- ((hh * 60 + mm) * 60))
            else None
          }))"

text \<open>\<open>time.Parse(time.RFC3339, s)\<close>.\<close>

definition parse_rfc3339 :: "string \<Rightarrow> int option" where
  "parse_rfc3339 s0 = do {
     (days, s1) \<leftarrow> take_ymd s0;
     s2 \<leftarrow> cut_prefix s1 ''T'';
     (secs, s3) \<leftarrow> take_clock s2;
     (case take_fraction s3 of
        (ns, s4) \<Rightarrow> do {
          off \<leftarrow> parse_zone s4;
          Some ((days * 86400 + secs - off) * Second + ns)
        })
   }"

end
