(* ===== verification/Body.thy ===== *)
theory Body
  imports Chunked_Complete Headers Go_Codec
begin

text \<open>
  The payload of a request as the handlers read it: \<open>requestBody\<close>, \<open>readXMLBody\<close> and the payload verifier of
  \<open>src/s3gw/proxy.go\<close>. A body on the wire is its bytes and the error that follows them; how many bytes a read
  yields is a choice, as for the chunked reader.
\<close>

section \<open>Bodies on the wire\<close>

record wire =
  wi_inp :: string
  wi_fin :: go_error

definition wire_Read :: "nat \<Rightarrow> nat \<times> bool \<Rightarrow> wire \<Rightarrow> (string \<times> go_error option) \<times> wire" where
  "wire_Read len ch w =
    (let n = (if len = 0 \<or> wi_inp w = [] then 0 else max 1 (min (fst ch) (min len (length (wi_inp w)))))
     in ((take n (wi_inp w),
          if n = length (wi_inp w) \<and> (snd ch \<or> len \<noteq> 0 \<and> n = 0) then Some (wi_fin w) else None),
         w\<lparr> wi_inp := drop n (wi_inp w) \<rparr>))"

section \<open>Verification of the payload hash\<close>

definition isHexSHA256 :: "string \<Rightarrow> bool" where
  "isHexSHA256 s \<longleftrightarrow> length s = 64 \<and>
    list_all (\<lambda>c. let b = byte_of c in 48 \<le> b \<and> b \<le> 57 \<or> 97 \<le> b \<and> b \<le> 102 \<or> 65 \<le> b \<and> b \<le> 70) s"

text \<open>The running hash is the list of the bytes written to it.\<close>

record payloadVerifier =
  pv_r :: wire
  pv_h :: string
  pv_want :: string
  pv_remaining :: int
  pv_done :: bool

definition newPayloadVerifier :: "wire \<Rightarrow> string \<Rightarrow> int \<Rightarrow> payloadVerifier" where
  "newPayloadVerifier r want len =
    \<lparr> pv_r = r, pv_h = [], pv_want = to_lower want, pv_remaining = len, pv_done = False \<rparr>"

definition pv_Read :: "nat \<Rightarrow> nat \<times> bool \<Rightarrow> payloadVerifier \<Rightarrow> (string \<times> go_error option) \<times> payloadVerifier" where
  "pv_Read len ch v =
    (case wire_Read len ch (pv_r v) of
       ((data, err), r') \<Rightarrow>
         (let v1 = v\<lparr> pv_r := r', pv_h := pv_h v @ data, pv_remaining := pv_remaining v - int (length data) \<rparr> in
          if \<not> pv_done v1 \<and> (pv_remaining v1 \<le> 0 \<or> err = Some EOF) then
            (let v2 = v1\<lparr> pv_done := True \<rparr> in
             if hex_encode (sha256 (pv_h v2)) \<noteq> pv_want v2 then (([], Some (S3e ContentSHA256Mismatch)), v2)
             else ((data, err), v2))
          else ((data, err), v1)))"

section \<open>Browser uploads\<close>

text \<open>\<open>lengthBoundedBody\<close> of \<open>src/s3gw/postobject.go\<close>: the file of a form, up to the size its policy permits.\<close>

record lengthBoundedBody =
  lb_r :: wire
  lb_n :: int
  lb_max :: int

definition err_entity_too_large :: s3error where
  "err_entity_too_large = s3err_New 400 ''EntityTooLarge'' (lit ''Your proposed upload exceeds the maximum allowed size'')"

definition lb_Read :: "nat \<Rightarrow> nat \<times> bool \<Rightarrow> lengthBoundedBody \<Rightarrow> (string \<times> go_error option) \<times> lengthBoundedBody" where
  "lb_Read len ch b =
    (case wire_Read len ch (lb_r b) of
       ((data, err), r') \<Rightarrow>
         (let b' = b\<lparr> lb_r := r', lb_n := lb_n b + int (length data) \<rparr> in
          ((data, if lb_max b' < lb_n b' then Some (S3e err_entity_too_large) else err), b')))"

section \<open>The body of a request\<close>

datatype body_reader =
    Body_raw wire | Body_verifier payloadVerifier | Body_chunked chunkedReader | Body_bounded lengthBoundedBody

fun body_Read :: "nat \<Rightarrow> nat \<times> bool \<Rightarrow> body_reader \<Rightarrow> (string \<times> go_error option) \<times> body_reader" where
  "body_Read len ch (Body_raw w) = map_prod id Body_raw (wire_Read len ch w)"
| "body_Read len ch (Body_verifier v) = map_prod id Body_verifier (pv_Read len ch v)"
| "body_Read len ch (Body_chunked cr) = map_prod id Body_chunked (chunked_Read len ch cr)"
| "body_Read len ch (Body_bounded b) = map_prod id Body_bounded (lb_Read len ch b)"

text \<open>A consumer that reads until an error, with the sizes of its buffers.\<close>

primrec body_reads :: "(nat \<times> nat \<times> bool) list \<Rightarrow> body_reader \<Rightarrow> string \<times> go_error option \<times> body_reader" where
  "body_reads [] br = ([], None, br)"
| "body_reads (q # qs) br =
    (case body_Read (fst q) (snd q) br of
       ((data, Some e), br') \<Rightarrow> (data, Some e, br')
     | ((data, None), br') \<Rightarrow> (case body_reads qs br' of (rest, e, br'') \<Rightarrow> (data @ rest, e, br'')))"

definition err_trailer_unsupported :: s3error where
  "err_trailer_unsupported = s3err_New 501 ''NotImplemented'' (lit ''The trailer declared by x-amz-trailer is not supported.'')"

definition requestBody ::
  "checksum_policy \<Rightarrow> http_request \<Rightarrow> wire \<Rightarrow> verified \<Rightarrow> signed_header \<Rightarrow> s3error + body_reader \<times> int" where
  "requestBody checksums r body vr hdr =
    (case TrailerAlgorithm (r_Header r) of
       Inl err \<Rightarrow> Inl (WithCause err_trailer_unsupported err)
     | Inr trailerAlg \<Rightarrow>
         and_then (checkTrailer checksums trailerAlg) (\<lambda>_.
         guard_err (trailerAlg \<noteq> [] \<and> \<not> has_suffix (ve_PayloadHash vr) ''-TRAILER'')
           (s3err_New 400 ''InvalidRequest'' (lit ''x-amz-trailer is declared but the payload carries no trailer.''))
         (if IsStreaming (ve_PayloadHash vr) then
            (let decodedLength = sh_Signed hdr ''x-amz-decoded-content-length'' in
             guard_err (decodedLength = [])
               (s3err_New 411 ''MissingContentLength'' (lit ''You must provide the x-amz-decoded-content-length HTTP header.''))
             (case parse_int 10 decodedLength of
                Some len \<Rightarrow>
                  guard_err (len < 0) (s3err_New 400 ''InvalidRequest'' (lit ''Invalid x-amz-decoded-content-length header''))
                  (Inr (Body_chunked (NewChunkedReader (wi_inp body) (wi_fin body) vr trailerAlg len), len))
              | None \<Rightarrow> Inl (s3err_New 400 ''InvalidRequest'' (lit ''Invalid x-amz-decoded-content-length header''))))
          else
            guard_err (r_ContentLength r < 0)
              (s3err_New 411 ''MissingContentLength'' (lit ''You must provide the Content-Length HTTP header.''))
            (Inr (if isHexSHA256 (ve_PayloadHash vr)
                  then Body_verifier (newPayloadVerifier body (ve_PayloadHash vr) (r_ContentLength r))
                  else Body_raw body,
                r_ContentLength r)))))"

section \<open>XML bodies\<close>

definition maxXMLBodySize :: nat where
  "maxXMLBodySize = 16 * 1024 * 1024"

text \<open>
  \<open>io.ReadAll(io.LimitReader(body, n))\<close>: reads until the end or until \<open>n\<close> bytes came. The list gives the free
  space of the buffer at each read; \<open>None\<close> is a reading that has not ended within it.
\<close>

primrec read_limited ::
  "(nat \<times> nat \<times> bool) list \<Rightarrow> nat \<Rightarrow> body_reader \<Rightarrow> (go_error + string) option \<times> body_reader" where
  "read_limited [] n br = (None, br)"
| "read_limited (q # qs) n br =
    (if n = 0 then (Some (Inr []), br)
     else
       (case body_Read (min (fst q) n) (snd q) br of
          ((data, Some e), br') \<Rightarrow> (Some (if e = EOF then Inr data else Inl e), br')
        | ((data, None), br') \<Rightarrow>
            (case read_limited qs (n - length data) br' of
               (r, br'') \<Rightarrow> (map_option (map_sum id (\<lambda>rest. data @ rest)) r, br''))))"

definition err_malformed_xml :: s3error where
  "err_malformed_xml = s3err_New 400 ''MalformedXML''
    (lit ''The XML you provided was not well-formed or did not validate against our published schema.'')"

text \<open>
  \<open>io.ReadAll\<close> always has free space in its buffer, how much is the choice. A body on the wire is finite and every
  read takes a byte of it or ends, so two reads more than it has bytes reach the end.
\<close>

fun body_size :: "body_reader \<Rightarrow> nat" where
  "body_size (Body_raw w) = length (wi_inp w)"
| "body_size (Body_verifier v) = length (wi_inp (pv_r v))"
| "body_size (Body_chunked cr) = length (cr_inp cr)"
| "body_size (Body_bounded b) = length (wi_inp (lb_r b))"

definition read_script :: "(nat \<Rightarrow> nat \<times> nat \<times> bool) \<Rightarrow> body_reader \<Rightarrow> (nat \<times> nat \<times> bool) list" where
  "read_script choice br = map (\<lambda>i. (max 1 (fst (choice i)), snd (choice i))) [0..<body_size br + 2]"

text \<open>The decoder of the document, \<open>xml.Unmarshal\<close> into the request's type, is an argument.\<close>

definition ErrNoProgress :: go_error where
  "ErrNoProgress = Sentinel ''multiple Read calls return no data or error''"

definition readXMLBody ::
  "(string \<Rightarrow> go_error + 'a) \<Rightarrow> (nat \<Rightarrow> nat \<times> nat \<times> bool) \<Rightarrow> checksum_policy \<Rightarrow> http_request \<Rightarrow> wire \<Rightarrow> verified \<Rightarrow>
    signed_header \<Rightarrow> s3error + 'a" where
  "readXMLBody unmarshal choice checksums r body vr hdr =
    and_then (requestBody checksums r body vr hdr) (\<lambda>(br, _).
      (case fst (read_limited (read_script choice br) maxXMLBodySize br) of
         Some (Inr data) \<Rightarrow>
           (case unmarshal data of
              Inl err \<Rightarrow> Inl (WithCause err_malformed_xml err)
            | Inr v \<Rightarrow> Inr v)
       | Some (Inl err) \<Rightarrow>
           Inl (case first_some as_s3error (err_chain err) of
             Some s3e \<Rightarrow> s3e
           | None \<Rightarrow> WithCause (s3err_New 400 ''InvalidRequest'' (lit ''failed to read request body'')) err)
       | None \<Rightarrow> Inl (s3err_Internal ErrNoProgress (lit ''failed to read request body''))))"

section \<open>Headers of uploads\<close>

definition contentMD5Header :: "signed_header \<Rightarrow> s3error + string option" where
  "contentMD5Header hdr =
    (case sh_AttributeValues hdr ''Content-MD5'' of
       [] \<Rightarrow> Inr None
     | v # _ \<Rightarrow>
         (case base64_decode v of
            Some b \<Rightarrow>
              if length b = 16 then Inr (Some v)
              else Inl (s3err_New 400 ''InvalidDigest'' (lit ''The Content-MD5 you specified was invalid.''))
          | None \<Rightarrow> Inl (s3err_New 400 ''InvalidDigest'' (lit ''The Content-MD5 you specified was invalid.''))))"

definition contentEncodingWithoutAWSChunked :: "string \<Rightarrow> string" where
  "contentEncodingWithoutAWSChunked v =
    (if v = [] then []
     else str_join '', '' (filter (\<lambda>e. e \<noteq> [] \<and> e \<noteq> ''aws-chunked'') (map trim_space (str_split (CHR '','') v))))"


section \<open>What a complete body is\<close>

text \<open>
  A consumer has a body completely when it read to the end of it, or when it read as many bytes as were declared.
\<close>

definition body_complete :: "(nat \<times> nat \<times> bool) list \<Rightarrow> int \<Rightarrow> string \<Rightarrow> go_error option \<Rightarrow> bool" where
  "body_complete qs len data e \<longleftrightarrow>
    e = Some EOF \<and> int (length data) \<le> len \<or> e = None \<and> qs \<noteq> [] \<and> int (length data) = len"

text \<open>The bytes a verifier passed on: once it has compared the hash, it did so at the declared length.\<close>

definition hash_checked :: "string \<Rightarrow> int \<Rightarrow> string \<Rightarrow> bool" where
  "hash_checked want len D \<longleftrightarrow> (\<exists>D0. prefix D0 D \<and> len \<le> int (length D0) \<and> hex_encode (sha256 D0) = want)"

lemma hash_checked_append: "hash_checked want len D \<Longrightarrow> hash_checked want len (D @ D')"
  by (auto simp: hash_checked_def intro: prefix_prefix)

lemma hash_checked_self: "len \<le> int (length D) \<Longrightarrow> hex_encode (sha256 D) = want \<Longrightarrow> hash_checked want len D"
  by (auto simp: hash_checked_def)

lemma hash_checked_whole:
  assumes "hash_checked want len D" "int (length D) \<le> len"
  shows "hex_encode (sha256 D) = want"
proof -
  obtain D0 zs where D0: "D = D0 @ zs" "len \<le> int (length D0)" "hex_encode (sha256 D0) = want"
    using assms(1) by (auto simp: hash_checked_def prefix_def)
  then have "int (length zs) \<le> 0"
    using assms(2) by (simp del: length_0_conv)
  then show ?thesis
    using D0 by simp
qed

definition pv_inv :: "string \<Rightarrow> int \<Rightarrow> string \<Rightarrow> payloadVerifier \<Rightarrow> bool" where
  "pv_inv want len D v \<longleftrightarrow>
    pv_want v = want \<and> pv_h v = D \<and> pv_remaining v = len - int (length D) \<and>
    (pv_done v \<longrightarrow> hash_checked want len D)"

lemma pv_Read_inv:
  assumes "pv_inv want len D v" "pv_Read n ch v = ((data, e), v')"
  shows "e = None \<Longrightarrow> pv_inv want len (D @ data) v' \<and> (pv_done v' \<or> int (length (D @ data)) < len)"
    and "e = Some EOF \<Longrightarrow> hex_encode (sha256 (D @ data)) = want \<or> hash_checked want len (D @ data)"
  using assms
  by (auto simp: pv_Read_def pv_inv_def Let_def split: prod.splits if_splits
      intro: hash_checked_append hash_checked_self)

lemma pv_reads_inv:
  assumes "pv_inv want len D v" "body_reads qs (Body_verifier v) = (data, e, br')"
    "body_complete qs len (D @ data) e"
  shows "hex_encode (sha256 (D @ data)) = want"
  using assms
proof (induction qs arbitrary: D v data)
  case Nil
  then show ?case by (simp add: body_complete_def)
next
  case (Cons q qs)
  obtain d1 e1 v1 where read: "pv_Read (fst q) (snd q) v = ((d1, e1), v1)"
    by (metis prod.exhaust)
  have whole: "hash_checked want len (D @ data) \<Longrightarrow> hex_encode (sha256 (D @ data)) = want"
    using hash_checked_whole Cons.prems(3) by (auto simp: body_complete_def)
  show ?case
  proof (cases e1)
    case None
    then obtain d2 where rest: "body_reads qs (Body_verifier v1) = (d2, e, br')" "data = d1 @ d2"
      using Cons.prems(2) read by (auto split: prod.splits)
    have inv: "pv_inv want len (D @ d1) v1" "pv_done v1 \<or> int (length (D @ d1)) < len"
      using pv_Read_inv(1) [OF Cons.prems(1) read None] by auto
    show ?thesis
    proof (cases "body_complete qs len ((D @ d1) @ d2) e")
      case True
      then show ?thesis
        using Cons.IH [OF inv(1) rest(1)] rest(2) by simp
    next
      case False
      then have "qs = []" "e = None" "int (length (D @ data)) = len"
        using Cons.prems(3) rest(2) by (auto simp: body_complete_def)
      then show ?thesis
        using inv rest whole by (auto simp: pv_inv_def)
    qed
  next
    case (Some x)
    then have "data = d1" "e = Some x" "x = EOF"
      using Cons.prems(2,3) read by (auto simp: body_complete_def)
    then show ?thesis
      using pv_Read_inv(2) [OF Cons.prems(1) read] Some whole by auto
  qed
qed

lemma chunked_body_reads:
  "body_reads qs (Body_chunked cr) = map_prod id (map_prod id Body_chunked) (chunked_reads qs cr)"
  by (induction qs arbitrary: cr) (auto split: prod.splits option.splits)


lemma map_result_Inr: "map_option (map_sum id f) r = Some (Inr y) \<longleftrightarrow> (\<exists>x. r = Some (Inr x) \<and> y = f x)"
proof (cases r)
  case (Some z)
  then show ?thesis by (cases z) auto
qed simp

lemma map_prod_eq: "map_prod f g p = (a, b) \<longleftrightarrow> (\<exists>x y. p = (x, y) \<and> a = f x \<and> b = g y)"
  by (cases p) auto

lemma read_size_le: "(if n = 0 \<or> b then 0 else max 1 (min a (min n l))) \<le> n" for a l n :: nat
  by (cases "n = 0") (simp_all add: min.coboundedI2)

lemma take_size_le: "k \<le> n \<Longrightarrow> length (take k xs) \<le> n"
  by simp

lemma wire_Read_length: "wire_Read n ch w = ((data, e), w') \<Longrightarrow> length data \<le> n"
  using take_size_le [OF read_size_le] unfolding wire_Read_def Let_def by (metis prod.inject)

lemma raw_read_length: "raw_read n ch cr = (data, e, cr') \<Longrightarrow> length data \<le> n"
  using take_size_le [OF read_size_le] unfolding raw_read_def Let_def by (metis prod.inject)

lemma readData_length:
  assumes "readData n ch cr = ((data, e), cr')"
  shows "length data \<le> n"
proof -
  obtain d e1 cr1 where raw: "raw_read (min n (nat (cr_remaining cr))) ch cr = (d, e1, cr1)"
    by (metis prod.exhaust)
  have "data = d \<or> data = []"
    using assms by (simp add: readData_def raw Let_def split: if_splits prod.splits sum.splits)
  then show ?thesis
    using raw_read_length [OF raw] by auto
qed

lemma chunked_Read_length:
  assumes "chunked_Read n ch cr = ((data, e), cr')"
  shows "length data \<le> n"
  using assms by (auto simp: chunked_Read_def dest: readData_length split: option.splits if_splits prod.splits sum.splits bool.splits)

lemma body_Read_length: "body_Read n ch br = ((data, e), br') \<Longrightarrow> length data \<le> n"
  by (cases br)
    (auto simp: pv_Read_def lb_Read_def Let_def map_prod_eq split: prod.splits if_splits
      dest: wire_Read_length chunked_Read_length)

lemma body_reads_limited:
  assumes "read_limited qs n br = (Some (Inr data), br')"
  shows "\<exists>qs' e. body_reads qs' br = (data, e, br') \<and> (e = Some EOF \<or> e = None \<and> length data = n \<and> (n \<noteq> 0 \<longrightarrow> qs' \<noteq> []))"
  using assms
proof (induction qs arbitrary: n br data)
  case (Cons q qs)
  show ?case
  proof (cases "n = 0")
    case True
    then show ?thesis
      using Cons.prems by (intro exI [of _ "[]"]) auto
  next
    case False
    obtain d1 e1 br1 where read: "body_Read (min (fst q) n) (snd q) br = ((d1, e1), br1)"
      by (metis prod.exhaust)
    show ?thesis
    proof (cases e1)
      case None
      then obtain d2 where rest: "read_limited qs (n - length d1) br1 = (Some (Inr d2), br')" "data = d1 @ d2"
        using Cons.prems read False
        by (auto split: prod.splits simp: map_result_Inr simp del: map_option_eq_Some)
      obtain qs' e where "body_reads qs' br1 = (d2, e, br')" "e = Some EOF \<or> e = None \<and> length d2 = n - length d1"
        using Cons.IH [OF rest(1)] by blast
      then show ?thesis
        using read rest(2) None False body_Read_length [OF read]
        by (intro exI [of _ "(min (fst q) n, snd q) # qs'"] exI [of _ e]) auto
    next
      case (Some x)
      then show ?thesis
        using read Cons.prems False
        by (intro exI [of _ "[(min (fst q) n, snd q)]"] exI [of _ "Some EOF"]) (auto split: if_splits)
    qed
  qed
qed simp


text \<open>A read through a verifier takes its bytes from the wire.\<close>

lemma wire_Read_append: "wire_Read n ch w = ((data, e), w') \<Longrightarrow> wi_inp w = data @ wi_inp w'"
  by (auto simp: wire_Read_def Let_def)

lemma pv_Read_wire:
  assumes "pv_Read n ch v = ((data, e), v')"
  shows "length data + length (wi_inp (pv_r v')) \<le> length (wi_inp (pv_r v))"
proof -
  obtain d e1 w where read: "wire_Read n ch (pv_r v) = ((d, e1), w)"
    by (metis prod.exhaust)
  then have "pv_r v' = w" "data = d \<or> data = []"
    using assms by (auto simp: pv_Read_def Let_def split: if_splits)
  then show ?thesis
    using wire_Read_append [OF read] by auto
qed

lemma verifier_reads_length:
  "body_reads qs (Body_verifier v) = (data, e, br') \<Longrightarrow> length data \<le> length (wi_inp (pv_r v))"
proof (induction qs arbitrary: v data)
  case (Cons q qs)
  obtain d1 e1 v1 where read: "pv_Read (fst q) (snd q) v = ((d1, e1), v1)"
    by (metis prod.exhaust)
  show ?case
  proof (cases e1)
    case None
    then obtain d2 where "body_reads qs (Body_verifier v1) = (d2, e, br')" "data = d1 @ d2"
      using Cons.prems read by (auto split: prod.splits)
    then show ?thesis
      using Cons.IH pv_Read_wire [OF read] by fastforce
  next
    case (Some x)
    then show ?thesis
      using Cons.prems read pv_Read_wire [OF read] by auto
  qed
qed simp

lemma read_unverified:
  assumes "\<not> pv_done v" "int n < pv_remaining v" "n < length (wi_inp (pv_r v))" "\<forall>q\<in>set qs. 0 < fst q" "n < length qs"
  shows "fst (read_limited qs n (Body_verifier v)) = Some (Inr (take n (wi_inp (pv_r v))))"
  using assms
proof (induction qs arbitrary: n v)
  case (Cons q qs)
  let ?w = "wi_inp (pv_r v)"
  show ?case
  proof (cases "n = 0")
    case False
    define k where "k = max 1 (min (fst (snd q)) (min (min (fst q) n) (length ?w)))"
    have k: "0 < k" "k \<le> n" "k < length ?w"
      using False Cons.prems by (auto simp: k_def)
    have wire: "wire_Read (min (fst q) n) (snd q) (pv_r v) = ((take k ?w, None), (pv_r v)\<lparr> wi_inp := drop k ?w \<rparr>)"
    proof -
      have "(if min (fst q) n = 0 \<or> ?w = [] then 0 else max 1 (min (fst (snd q)) (min (min (fst q) n) (length ?w)))) = k"
        unfolding k_def using False Cons.prems by auto
      then show ?thesis
        unfolding wire_Read_def Let_def using k by (simp only:) simp
    qed
    define v1 where "v1 = v\<lparr> pv_r := (pv_r v)\<lparr> wi_inp := drop k ?w \<rparr>, pv_h := pv_h v @ take k ?w,
      pv_remaining := pv_remaining v - int k \<rparr>"
    have read: "pv_Read (min (fst q) n) (snd q) v = ((take k ?w, None), v1)"
      using wire k Cons.prems(1,2) by (simp add: pv_Read_def v1_def)
    have "fst (read_limited qs (n - k) (Body_verifier v1)) = Some (Inr (take (n - k) (drop k ?w)))"
      using Cons.IH [of v1 "n - k"] Cons.prems k by (auto simp: v1_def)
    moreover have "take k ?w @ take (n - k) (drop k ?w) = take n ?w"
      using k take_add [of k "n - k" ?w] by simp
    ultimately show ?thesis
      using read k False by (auto split: prod.splits)
  qed simp
qed simp

section \<open>Reading ends\<close>

text \<open>A step of the chunked reader never puts bytes back, and only reading data uses up a chunk.\<close>

definition consumes :: "(chunkedReader, 'a) io \<Rightarrow> bool" where
  "consumes m \<longleftrightarrow> (\<forall>cr. suffix (cr_inp (snd (m cr))) (cr_inp cr) \<and> cr_remaining (snd (m cr)) = cr_remaining cr)"

lemma consumesD:
  "consumes m \<Longrightarrow> m cr = (r, cr') \<Longrightarrow> suffix (cr_inp cr') (cr_inp cr) \<and> cr_remaining cr' = cr_remaining cr"
  unfolding consumes_def by (metis snd_conv)

lemma consumesI:
  "(\<And>cr r cr'. m cr = (r, cr') \<Longrightarrow> suffix (cr_inp cr') (cr_inp cr) \<and> cr_remaining cr' = cr_remaining cr) \<Longrightarrow> consumes m"
  unfolding consumes_def by (simp add: prod_eq_iff)

lemma consumes_bind:
  assumes "consumes m" "\<And>x. consumes (f x)"
  shows "consumes (io_bind m f)"
proof (rule consumesI)
  fix cr r cr'
  assume eq: "io_bind m f cr = (r, cr')"
  obtain r1 cr1 where m: "m cr = (r1, cr1)"
    by fastforce
  show "suffix (cr_inp cr') (cr_inp cr) \<and> cr_remaining cr' = cr_remaining cr"
  proof (cases r1)
    case (Inl e)
    then show ?thesis
      using m eq consumesD [OF assms(1) m] by simp
  next
    case (Inr x)
    then have "f x cr1 = (r, cr')"
      using m eq by simp
    then show ?thesis
      using consumesD [OF assms(1) m] consumesD [OF assms(2)] suffix_order.trans by metis
  qed
qed

lemma consumes_basic:
  "consumes readCRLF" "consumes readChunkHeader" "consumes verifyChunk" "consumes discardTrailers"
  "consumes (io_return x)" "consumes (io_fail e)" "consumes (io_modify (\<lambda>cr. cr\<lparr> cr_eof := b \<rparr>))"
proof -
  show "consumes readCRLF"
    by (rule consumesI) (auto dest: readCRLF_spec(1))
  show "consumes readChunkHeader"
    by (rule consumesI) (auto dest: readChunkHeader_spec(1))
  show "consumes discardTrailers"
    by (rule consumesI) (auto dest: discardTrailers_spec)
  show "consumes verifyChunk"
    by (rule consumesI) (auto simp: verifyChunk_def split: if_splits)
qed (simp_all add: consumes_def)

lemma consumes_readTerminal: "consumes readTerminal"
  unfolding readTerminal_def by (auto intro!: consumes_bind consumes_basic)

lemma consumes_if: "consumes m \<Longrightarrow> consumes m' \<Longrightarrow> consumes (\<lambda>cr. if P cr then m cr else m' cr)"
  by (simp add: consumes_def)

lemma consumes_skip: "consumes (\<lambda>cr. (Inr (), cr))"
  by (simp add: consumes_def)

lemma nextChunk_progress:
  assumes "nextChunk cr = (Inr False, cr')"
  shows "suffix (cr_inp cr') (cr_inp cr) \<and> 0 < cr_remaining cr'"
proof -
  obtain cr1 sz cr2 where 1: "(if cr_started cr then readCRLF cr else (Inr (), cr)) = (Inr (), cr1)"
      and 2: "readChunkHeader cr1 = (Inr sz, cr2)" and 3: "sz \<noteq> 0"
        "cr' = cr2\<lparr> cr_started := True, cr_undecoded := cr_undecoded cr2 - sz, cr_remaining := sz \<rparr>"
    using assms unfolding nextChunk_def io_bind_Inr_iff by (auto simp: Let_def io_bind_Inr_iff split: if_splits)
  have "suffix (cr_inp cr1) (cr_inp cr)"
    using consumesD [OF consumes_basic(1)] 1 by (auto split: if_splits)
  then show ?thesis
    using consumesD [OF consumes_basic(2) 2] readChunkHeader_spec(2) [OF 2 refl] 3 suffix_order.trans by auto
qed

lemma read_size_pos: "(if n = 0 \<or> inp = [] then 0 else max 1 (min a b)) = 0 \<longleftrightarrow> n = 0 \<or> inp = []" for a b n :: nat
  by (simp add: max_def)

lemma raw_read_progress:
  assumes "raw_read n ch cr = (d, e, cr1)" "0 < n"
  shows "cr_inp cr = d @ cr_inp cr1 \<and> cr_remaining cr1 = cr_remaining cr" "d = [] \<Longrightarrow> e = Some (cr_fin cr)"
proof -
  define k where "k = (if n = 0 \<or> cr_inp cr = [] then 0 else max 1 (min (fst ch) (min n (length (cr_inp cr)))))"
  have eq: "(take k (cr_inp cr), if k = length (cr_inp cr) \<and> (snd ch \<or> n \<noteq> 0 \<and> k = 0) then Some (cr_fin cr) else None,
      cr\<lparr> cr_inp := drop k (cr_inp cr) \<rparr>) = (d, e, cr1)"
    using assms(1) unfolding raw_read_def Let_def k_def .
  have k: "k = 0 \<longleftrightarrow> cr_inp cr = []"
    unfolding k_def read_size_pos using assms(2) by simp
  show "cr_inp cr = d @ cr_inp cr1 \<and> cr_remaining cr1 = cr_remaining cr" "d = [] \<Longrightarrow> e = Some (cr_fin cr)"
    using eq k assms(2) by auto
qed

lemma readData_progress:
  assumes "readData n ch cr = ((data, None), cr')" "0 < n" "0 < cr_remaining cr"
  shows "length (cr_inp cr') < length (cr_inp cr) \<and> 0 \<le> cr_remaining cr'"
proof -
  obtain d e1 cr1 where raw: "raw_read (min n (nat (cr_remaining cr))) ch cr = (d, e1, cr1)"
    by (metis prod.exhaust)
  have pos: "0 < min n (nat (cr_remaining cr))"
    using assms(2,3) by simp
  note spec = raw_read_progress [OF raw pos]
  have len: "int (length d) \<le> cr_remaining cr"
    using raw_read_length [OF raw] assms(3) by linarith
  define cr2 where "cr2 = cr1\<lparr> cr_remaining := cr_remaining cr1 - int (length d),
      cr_chunkHash := (if cr_signed cr1 then cr_chunkHash cr1 @ d else cr_chunkHash cr1),
      cr_ckData := (if cr_ckHash cr1 \<noteq> None then cr_ckData cr1 @ d else cr_ckData cr1) \<rparr>"
  define err where "err = (if e1 = Some EOF \<and> 0 < cr_remaining cr2 then Some (incompleteBody ErrUnexpectedEOF) else e1)"
  let ?m = "io_bind verifyChunk (\<lambda>_ cr. if cr_undecoded cr = 0 then readTerminal cr else (Inr (), cr))"
  have eq: "((data, None), cr') =
      (if err \<noteq> None \<and> err \<noteq> Some EOF then ((d, err), cr2\<lparr> cr_err := err \<rparr>)
       else if cr_remaining cr2 = 0 then
         (case ?m cr2 of (Inl e, cr3) \<Rightarrow> (([], Some e), cr3\<lparr> cr_err := Some e \<rparr>) | (Inr _, cr3) \<Rightarrow> ((d, None), cr3))
       else ((d, None), cr2))"
    using assms(1) unfolding readData_def raw prod.case Let_def cr2_def [symmetric] err_def by simp
  have "d \<noteq> []"
  proof
    assume "d = []"
    then have "err \<noteq> None" "err \<noteq> Some EOF"
      using spec assms(3) by (auto simp: err_def cr2_def incompleteBody_def)
    then show False
      using eq by auto
  qed
  moreover have "cr' = cr2 \<or> (\<exists>r. ?m cr2 = (r, cr'))"
    using eq by (auto split: if_splits prod.splits sum.splits)
  moreover have "consumes ?m"
    by (intro consumes_bind consumes_basic consumes_if consumes_readTerminal consumes_skip)
  ultimately have "d \<noteq> [] \<and> suffix (cr_inp cr') (cr_inp cr2) \<and> cr_remaining cr' = cr_remaining cr2"
    using consumesD [of ?m cr2] by auto
  then show ?thesis
    using spec(1) len suffix_length_le [of "cr_inp cr'" "cr_inp cr2"]
    by (cases d) (auto simp: cr2_def)
qed

lemma chunked_Read_progress:
  assumes "chunked_Read n ch cr = ((data, None), cr')" "0 < n" "0 \<le> cr_remaining cr"
  shows "length (cr_inp cr') < length (cr_inp cr) \<and> 0 \<le> cr_remaining cr'"
proof (cases "cr_remaining cr = 0")
  case True
  then obtain cr1 where 1: "nextChunk cr = (Inr False, cr1)" and 2: "readData n ch cr1 = ((data, None), cr')"
    using assms(1) by (auto simp: chunked_Read_def split: option.splits if_splits prod.splits sum.splits bool.splits)
  have nxt: "suffix (cr_inp cr1) (cr_inp cr)" "0 < cr_remaining cr1"
    using nextChunk_progress [OF 1] by auto
  show ?thesis
    using readData_progress [OF 2 assms(2) nxt(2)] suffix_length_le [OF nxt(1)] by linarith
next
  case False
  then have "readData n ch cr = ((data, None), cr')"
    using assms(1) by (auto simp: chunked_Read_def split: option.splits if_splits)
  then show ?thesis
    using readData_progress assms(2,3) False by simp
qed

fun body_ok :: "body_reader \<Rightarrow> bool" where
  "body_ok (Body_chunked cr) \<longleftrightarrow> 0 \<le> cr_remaining cr"
| "body_ok _ \<longleftrightarrow> True"

lemma read_script_pos: "\<forall>q\<in>set (read_script choice br). 0 < fst q" "length (read_script choice br) = body_size br + 2"
  by (auto simp: read_script_def)

lemma wire_Read_progress:
  assumes "wire_Read n ch w = ((data, None), w')" "0 < n"
  shows "length (wi_inp w') < length (wi_inp w)"
proof -
  define k where "k = (if n = 0 \<or> wi_inp w = [] then 0 else max 1 (min (fst ch) (min n (length (wi_inp w)))))"
  have eq: "((take k (wi_inp w), if k = length (wi_inp w) \<and> (snd ch \<or> n \<noteq> 0 \<and> k = 0) then Some (wi_fin w) else None),
      w\<lparr> wi_inp := drop k (wi_inp w) \<rparr>) = ((data, None), w')"
    using assms(1) unfolding wire_Read_def Let_def k_def .
  have k: "k = 0 \<longleftrightarrow> wi_inp w = []"
    unfolding k_def read_size_pos using assms(2) by simp
  show ?thesis
    using eq k assms(2) by (auto split: if_splits)
qed

lemma pv_Read_progress:
  assumes "pv_Read n ch v = ((data, None), v')" "0 < n"
  shows "length (wi_inp (pv_r v')) < length (wi_inp (pv_r v))"
proof -
  obtain d e1 w where read: "wire_Read n ch (pv_r v) = ((d, e1), w)"
    by (metis prod.exhaust)
  then have "pv_r v' = w" "e1 = None"
    using assms(1) by (auto simp: pv_Read_def Let_def split: if_splits)
  then show ?thesis
    using wire_Read_progress read assms(2) by auto
qed

lemma lb_Read_progress:
  assumes "lb_Read n ch b = ((data, None), b')" "0 < n"
  shows "length (wi_inp (lb_r b')) < length (wi_inp (lb_r b))"
  using assms wire_Read_progress [of n ch "lb_r b"] by (auto simp: lb_Read_def Let_def split: prod.splits if_splits)

lemma body_Read_progress:
  assumes "body_Read n ch br = ((data, None), br')" "0 < n" "body_ok br"
  shows "body_size br' < body_size br \<and> body_ok br'"
  using assms
  by (cases br) (auto simp: map_prod_eq dest: wire_Read_progress pv_Read_progress lb_Read_progress chunked_Read_progress)

lemma read_limited_ends:
  assumes "body_ok br" "\<forall>q\<in>set qs. 0 < fst q" "body_size br + 1 < length qs"
  shows "fst (read_limited qs n br) \<noteq> None"
  using assms
proof (induction qs arbitrary: n br)
  case (Cons q qs)
  obtain d e br1 where read: "body_Read (min (fst q) n) (snd q) br = ((d, e), br1)"
    by (metis prod.exhaust)
  show ?case
  proof (cases "n = 0 \<or> e \<noteq> None")
    case True
    then show ?thesis
      using read by auto
  next
    case False
    then have "body_size br1 < body_size br \<and> body_ok br1"
      using body_Read_progress [of "min (fst q) n" "snd q" br d br1] read Cons.prems by auto
    then have "fst (read_limited qs (n - length d) br1) \<noteq> None"
      using Cons.IH Cons.prems by auto
    then show ?thesis
      using read False by (auto split: prod.splits)
  qed
qed simp

section \<open>Payload integrity\<close>

lemma requestBody_cases:
  assumes "requestBody checksums r body ve hdr = Inr (br, len)"
  obtains (chunked) alg where "IsStreaming (ve_PayloadHash ve)" "TrailerAlgorithm (r_Header r) = Inr alg" "0 \<le> len"
      "br = Body_chunked (NewChunkedReader (wi_inp body) (wi_fin body) ve alg len)"
  | (hashed) "\<not> IsStreaming (ve_PayloadHash ve)" "isHexSHA256 (ve_PayloadHash ve)" "len = r_ContentLength r"
      "br = Body_verifier (newPayloadVerifier body (ve_PayloadHash ve) len)"
  | (raw) "\<not> IsStreaming (ve_PayloadHash ve)" "\<not> isHexSHA256 (ve_PayloadHash ve)"
  using assms
  by (auto simp: requestBody_def guard_err_def Let_def split: sum.splits if_splits option.splits)

lemma streaming_not_hex: "IsStreaming h \<Longrightarrow> \<not> isHexSHA256 h"
  by (auto simp: IsStreaming_def isHexSHA256_def streamingSHA256_def streamingSHA256T_def streamingUnsignedT_def)

lemma new_verifier_inv: "pv_inv (to_lower want) len [] (newPayloadVerifier body want len)"
  by (simp add: pv_inv_def newPayloadVerifier_def)

text \<open>What the signature of a request says of its payload.\<close>

definition payload_matches :: "verified \<Rightarrow> wire \<Rightarrow> string \<Rightarrow> int \<Rightarrow> string \<Rightarrow> bool" where
  "payload_matches ve body alg len data \<longleftrightarrow>
    (if isHexSHA256 (ve_PayloadHash ve) then hex_encode (sha256 data) = to_lower (ve_PayloadHash ve)
     else int (length data) = len \<and>
       body_verified (NewChunkedReader (wi_inp body) (wi_fin body) ve alg len) (wi_inp body) data)"

lemma complete_body_matches:
  assumes "requestBody checksums r body ve hdr = Inr (br, len)"
    "isHexSHA256 (ve_PayloadHash ve) \<or> ve_PayloadHash ve \<in> {streamingSHA256, streamingSHA256T}"
    "body_reads qs br = (data, e, br')" "body_complete qs len data e"
  shows "\<exists>alg. TrailerAlgorithm (r_Header r) = Inr alg \<and> payload_matches ve body alg len data"
  using assms(1)
proof (cases rule: requestBody_cases)
  case (chunked alg)
  then obtain cr' where "chunked_reads qs (NewChunkedReader (wi_inp body) (wi_fin body) ve alg len) = (data, e, cr')"
    using assms(3) by (auto simp: chunked_body_reads map_prod_eq)
  from chunked_complete [OF _ chunked(3) refl this] show ?thesis
    using assms(2,4) chunked streaming_not_hex by (auto simp: payload_matches_def body_complete_def)
next
  case hashed
  have "hex_encode (sha256 ([] @ data)) = to_lower (ve_PayloadHash ve)"
    using assms(3,4) hashed by (intro pv_reads_inv [OF new_verifier_inv]) auto
  moreover obtain alg where "TrailerAlgorithm (r_Header r) = Inr alg"
    using assms(1) by (auto simp: requestBody_def split: sum.splits)
  ultimately show ?thesis
    using hashed by (auto simp: payload_matches_def)
next
  case raw
  then show ?thesis
    using assms(2) by (auto simp: IsStreaming_def)
qed

text \<open>
  C9. The payload of a request is what its signature commits to: when a handler's consumer has a body completely, by
  its declared length or to its end, then a signed payload hash is the SHA-256 of the bytes delivered, and a signed
  aws-chunked body has the declared length, a complete chain of chunk signatures and its declared trailer checksum.
\<close>

theorem payload_authentic:
  assumes "requestBody checksums r body ve hdr = Inr (br, len)"
    "isHexSHA256 (ve_PayloadHash ve) \<or> ve_PayloadHash ve \<in> {streamingSHA256, streamingSHA256T}"
    "body_reads qs br = (data, e, br')" "body_complete qs len data e"
  shows "\<exists>alg. TrailerAlgorithm (r_Header r) = Inr alg \<and> payload_matches ve body alg len data"
  using complete_body_matches [OF assms] .


lemma lower_hex_lower: "lower_hex c \<Longrightarrow> byte_of c < 128 \<and> lower_char c = c"
  by (auto simp: lower_hex_def lower_char_def Let_def)

lemma to_lower_hex [simp]: "to_lower (hex_encode s) = hex_encode s"
proof -
  have "is_ascii (hex_encode s)" "map lower_char (hex_encode s) = hex_encode s"
    using lower_hex_lower hex_encode_lower_hex [of _ s] by (auto simp: is_ascii_def list_all_iff intro: map_idI)
  then show ?thesis
    by (simp add: to_lower_def)
qed

lemma isHexSHA256_hash [simp]: "isHexSHA256 (hex_encode (sha256 s))"
  using hex_encode_lower_hex [of _ "sha256 s"] by (auto simp: isHexSHA256_def list_all_iff lower_hex_def Let_def)

text \<open>A request that uploads a small document with its hash signed.\<close>

definition example_upload :: "string \<Rightarrow> verified" where
  "example_upload doc = example_streaming\<lparr> ve_PayloadHash := hex_encode (sha256 doc) \<rparr>"

definition example_put :: "int \<Rightarrow> http_request" where
  "example_put len = \<lparr> r_Method = ''PUT'', r_Host = ''s3.example'', r_Path = ''/b/k'', r_EscapedPath = ''/b/k'', r_Opaque = [],
    r_RawQuery = [], r_Header = [], r_RemoteAddr = ''192.0.2.1:80'', r_ContentLength = len \<rparr>"

definition no_checksums :: checksum_policy where
  "no_checksums = \<lparr> cp_byName = [], cp_byHeader = [] \<rparr>"

definition no_headers :: signed_header where
  "no_headers = \<lparr> sh_h = [], sh_signed = [] \<rparr>"

lemma example_trailer: "TrailerAlgorithm [] = Inr []"
  by code_simp

lemma example_body:
  "requestBody no_checksums (example_put len) body (example_upload doc) no_headers =
    (if len < 0 then Inl (s3err_New 411 ''MissingContentLength'' (lit ''You must provide the Content-Length HTTP header.''))
     else Inr (Body_verifier (newPayloadVerifier body (hex_encode (sha256 doc)) len), len))"
  using streaming_not_hex [of "hex_encode (sha256 doc)"]
  by (auto simp: requestBody_def example_put_def example_trailer example_upload_def checkTrailer_def guard_err_def)

lemma example_reads_body:
  "body_reads [(512, 512, False), (512, 512, False)]
    (Body_verifier (newPayloadVerifier \<lparr> wi_inp = ''<Tagging/>'', wi_fin = EOF \<rparr> (hex_encode (sha256 ''<Tagging/>'')) 10)) =
    (''<Tagging/>'', Some EOF, Body_verifier \<lparr> pv_r = \<lparr> wi_inp = [], wi_fin = EOF \<rparr>, pv_h = ''<Tagging/>'',
      pv_want = hex_encode (sha256 ''<Tagging/>''), pv_remaining = 0, pv_done = True \<rparr>)"
  by (simp add: newPayloadVerifier_def pv_Read_def wire_Read_def)

theorem payload_authentic_witness:
  "body_reads [(512, 512, False), (512, 512, False)] (Body_verifier (newPayloadVerifier \<lparr> wi_inp = ''<Tagging/>'', wi_fin = EOF \<rparr>
      (hex_encode (sha256 ''<Tagging/>'')) 10)) =
    (''<Tagging/>'', Some EOF, Body_verifier \<lparr> pv_r = \<lparr> wi_inp = [], wi_fin = EOF \<rparr>, pv_h = ''<Tagging/>'',
      pv_want = hex_encode (sha256 ''<Tagging/>''), pv_remaining = 0, pv_done = True \<rparr>) \<and>
    (\<exists>alg. payload_matches (example_upload ''<Tagging/>'') \<lparr> wi_inp = ''<Tagging/>'', wi_fin = EOF \<rparr> alg 10 ''<Tagging/>'')"
proof -
  have body: "requestBody no_checksums (example_put 10) \<lparr> wi_inp = ''<Tagging/>'', wi_fin = EOF \<rparr> (example_upload ''<Tagging/>'') no_headers =
      Inr (Body_verifier (newPayloadVerifier \<lparr> wi_inp = ''<Tagging/>'', wi_fin = EOF \<rparr> (hex_encode (sha256 ''<Tagging/>'')) 10), 10)"
    by (simp add: example_body)
  show ?thesis
    using payload_authentic [OF body _ example_reads_body] example_reads_body
    by (simp add: example_upload_def body_complete_def) blast
qed

lemma readXMLBody_Inr:
  assumes "readXMLBody unmarshal choice checksums r body ve hdr = Inr doc"
  shows "\<exists>br len data br'. requestBody checksums r body ve hdr = Inr (br, len) \<and>
    read_limited (read_script choice br) maxXMLBodySize br = (Some (Inr data), br') \<and> unmarshal data = Inr doc"
proof -
  obtain br len where body: "requestBody checksums r body ve hdr = Inr (br, len)"
    using assms by (cases "requestBody checksums r body ve hdr") (auto simp: readXMLBody_def)
  obtain res br' where "read_limited (read_script choice br) maxXMLBodySize br = (res, br')"
    by fastforce
  then show ?thesis
    using assms body by (auto simp: readXMLBody_def split: option.splits sum.splits)
qed

text \<open>Reading an XML body ends: the bound on the number of reads is never what stops it.\<close>

lemma xml_body_ends:
  assumes "requestBody checksums r body ve hdr = Inr (br, len)"
  shows "fst (read_limited (read_script choice br) n br) \<noteq> None"
proof (rule read_limited_ends)
  show "body_ok br"
    using assms by (auto simp: requestBody_def guard_err_def Let_def NewChunkedReader_def
        split: sum.splits if_splits option.splits)
qed (simp_all add: read_script_pos)

text \<open>
  C33. The document of an XML request body that is declared to fit the limit is decoded from bytes the signature
  commits to.
\<close>

theorem xml_body_authentic:
  assumes "readXMLBody unmarshal choice checksums r body ve hdr = Inr doc"
    "isHexSHA256 (ve_PayloadHash ve)" "r_ContentLength r \<le> int maxXMLBodySize"
    "int (length (wi_inp body)) \<le> r_ContentLength r"
  shows "\<exists>data. unmarshal data = Inr doc \<and> hex_encode (sha256 data) = to_lower (ve_PayloadHash ve)"
proof -
  obtain br len data br' where body: "requestBody checksums r body ve hdr = Inr (br, len)"
      and read: "read_limited (read_script choice br) maxXMLBodySize br = (Some (Inr data), br')"
      and doc: "unmarshal data = Inr doc"
    using readXMLBody_Inr [OF assms(1)] by blast
  obtain qs' e where reads: "body_reads qs' br = (data, e, br')"
      "e = Some EOF \<or> e = None \<and> length data = maxXMLBodySize \<and> qs' \<noteq> []"
    using body_reads_limited [OF read] by (auto simp: maxXMLBodySize_def)
  have hashed: "len = r_ContentLength r" "br = Body_verifier (newPayloadVerifier body (ve_PayloadHash ve) len)"
    using body assms(2) streaming_not_hex by (auto elim: requestBody_cases)
  have "int (length data) \<le> len"
    using verifier_reads_length [of qs' "newPayloadVerifier body (ve_PayloadHash ve) len"] reads(1) hashed assms(4)
    by (auto simp: newPayloadVerifier_def)
  then have "body_complete qs' len data e"
    using reads(2) assms(3) hashed(1) by (auto simp: body_complete_def)
  then show ?thesis
    using complete_body_matches [OF body _ reads(1)] assms(2) doc by (auto simp: payload_matches_def)
qed

definition example_choice :: "nat \<Rightarrow> nat \<times> nat \<times> bool" where
  "example_choice i = (512, 512, False)"

lemma example_read_limited:
  "fst (read_limited (read_script example_choice (Body_verifier v)) maxXMLBodySize (Body_verifier v)) = Some (Inr ''<Tagging/>'')"
  if "v = newPayloadVerifier \<lparr> wi_inp = ''<Tagging/>'', wi_fin = EOF \<rparr> (hex_encode (sha256 ''<Tagging/>'')) 10"
  unfolding that
  by (simp add: newPayloadVerifier_def pv_Read_def wire_Read_def maxXMLBodySize_def read_script_def example_choice_def upt_conv_Cons)

theorem xml_body_authentic_witness:
  "readXMLBody Inr example_choice no_checksums (example_put 10) \<lparr> wi_inp = ''<Tagging/>'', wi_fin = EOF \<rparr>
      (example_upload ''<Tagging/>'') no_headers = Inr ''<Tagging/>'' \<and>
    (\<exists>data. Inr data = (Inr ''<Tagging/>'' :: go_error + string) \<and>
      hex_encode (sha256 data) = to_lower (ve_PayloadHash (example_upload ''<Tagging/>'')))"
proof -
  have doc: "readXMLBody Inr example_choice no_checksums (example_put 10)
      \<lparr> wi_inp = ''<Tagging/>'', wi_fin = EOF \<rparr> (example_upload ''<Tagging/>'') no_headers = Inr ''<Tagging/>''"
    by (simp add: readXMLBody_def example_body example_read_limited)
  show ?thesis
    using xml_body_authentic [OF doc] doc by (simp add: example_upload_def example_put_def maxXMLBodySize_def)
qed

text \<open>
  A longer XML body is cut off at the limit and decoded without its hash being compared: whatever the signed
  payload hash is, the document is read from the first 16 MiB.
\<close>

theorem xml_body_over_limit:
  assumes "isHexSHA256 (ve_PayloadHash ve)" "TrailerAlgorithm (r_Header r) = Inr []"
    "int maxXMLBodySize < r_ContentLength r" "maxXMLBodySize < length (wi_inp body)"
  shows "readXMLBody unmarshal choice checksums r body ve hdr =
    map_sum (WithCause err_malformed_xml) id (unmarshal (take maxXMLBodySize (wi_inp body)))"
proof -
  let ?v = "newPayloadVerifier body (ve_PayloadHash ve) (r_ContentLength r)"
  have "requestBody checksums r body ve hdr = Inr (Body_verifier ?v, r_ContentLength r)"
    using assms(1-3) streaming_not_hex
    by (auto simp: requestBody_def guard_err_def checkTrailer_def)
  moreover have "fst (read_limited (read_script choice (Body_verifier ?v)) maxXMLBodySize (Body_verifier ?v)) =
      Some (Inr (take maxXMLBodySize (wi_inp body)))"
    using read_unverified [of ?v maxXMLBodySize "read_script choice (Body_verifier ?v)"] assms(3,4)
    by (simp add: newPayloadVerifier_def read_script_pos)
  ultimately show ?thesis
    by (auto simp: readXMLBody_def map_sum_def split: sum.splits)
qed

theorem xml_body_over_limit_witness:
  "readXMLBody Inr example_choice no_checksums (example_put (int maxXMLBodySize + 10))
      \<lparr> wi_inp = ''<Altered/>'' @ replicate maxXMLBodySize (CHR '' ''), wi_fin = EOF \<rparr> (example_upload ''<Tagging/>'') no_headers =
    Inr (take maxXMLBodySize (''<Altered/>'' @ replicate maxXMLBodySize (CHR '' '')))"
proof -
  let ?body = "\<lparr> wi_inp = ''<Altered/>'' @ replicate maxXMLBodySize (CHR '' ''), wi_fin = EOF \<rparr>"
  have "isHexSHA256 (ve_PayloadHash (example_upload ''<Tagging/>''))"
    "TrailerAlgorithm (r_Header (example_put (int maxXMLBodySize + 10))) = Inr []"
    "int maxXMLBodySize < r_ContentLength (example_put (int maxXMLBodySize + 10))" "maxXMLBodySize < length (wi_inp ?body)"
    by (simp_all add: example_upload_def example_put_def example_trailer)
  from xml_body_over_limit [OF this, of Inr example_choice no_checksums no_headers] show ?thesis
    by (simp del: take_append)
qed

end
