(* ===== verification/S3xml.thy ===== *)
theory S3xml
  imports Checksum Go_Codec
begin

text \<open>
  The XML bodies of \<open>src/s3xml/s3xml.go\<close> and how \<open>encoding/xml\<close> marshals them: a record per Go struct, a function
  to an element tree that follows the struct's tags, and the rendering of a tree with its escaping.
\<close>

section \<open>Marshalling\<close>

datatype xml = El string "(string \<times> string) list" "xml list" | Tx string

definition in_char_range :: "rune \<Rightarrow> bool" where
  "in_char_range r \<longleftrightarrow> r = 9 \<or> r = 10 \<or> r = 13 \<or> 32 \<le> r \<and> r \<le> 55295 \<or> 57344 \<le> r \<and> r \<le> 65533 \<or>
    65536 \<le> r \<and> r \<le> 1114111"

text \<open>One rune, with the bytes it was decoded from.\<close>

definition escape_rune :: "rune \<times> string \<Rightarrow> string" where
  "escape_rune = (\<lambda>(r, bs).
    if r = 34 then ''&#34;'' else if r = 39 then ''&#39;'' else if r = 38 then ''&amp;''
    else if r = 60 then ''&lt;'' else if r = 62 then ''&gt;''
    else if r = 9 then ''&#x9;'' else if r = 10 then ''&#xA;'' else if r = 13 then ''&#xD;''
    else if \<not> in_char_range r \<or> r = rune_error \<and> length bs = 1 then encode_rune rune_error
    else bs)"

definition escape_string :: "string \<Rightarrow> string" where
  "escape_string s = concat (map escape_rune (rune_segs s))"

fun xml_render :: "xml \<Rightarrow> string" where
  "xml_render (Tx s) = escape_string s"
| "xml_render (El n ats xs) =
    ''<'' @ n @ concat (map (\<lambda>(k, v). '' '' @ k @ ''='' @ [CHR 0x22] @ escape_string v @ [CHR 0x22]) ats) @ ''>'' @
    concat (map xml_render xs) @ ''</'' @ n @ ''>''"

definition xml_header :: string where
  "xml_header = ''<?xml version='' @ [CHR 0x22] @ ''1.0'' @ [CHR 0x22] @ '' encoding='' @ [CHR 0x22] @ ''UTF-8'' @
    [CHR 0x22] @ ''?>'' @ [CHR 0x0A]"

text \<open>Fields of a struct: a string, one marked \<open>omitempty\<close>, an integer, a truth value, and a pointer.\<close>

abbreviation x_str :: "string \<Rightarrow> string \<Rightarrow> xml list" where
  "x_str n s \<equiv> [El n [] [Tx s]]"

abbreviation x_omit :: "string \<Rightarrow> string \<Rightarrow> xml list" where
  "x_omit n s \<equiv> (if s = [] then [] else [El n [] [Tx s]])"

abbreviation x_int :: "string \<Rightarrow> int \<Rightarrow> xml list" where
  "x_int n i \<equiv> [El n [] [Tx (format_int i)]]"

abbreviation x_omit_int :: "string \<Rightarrow> int \<Rightarrow> xml list" where
  "x_omit_int n i \<equiv> (if i = 0 then [] else [El n [] [Tx (format_int i)]])"

abbreviation x_bool :: "string \<Rightarrow> bool \<Rightarrow> xml list" where
  "x_bool n b \<equiv> [El n [] [Tx (if b then ''true'' else ''false'')]]"

abbreviation x_omit_bool :: "string \<Rightarrow> bool \<Rightarrow> xml list" where
  "x_omit_bool n b \<equiv> (if b then [El n [] [Tx ''true'']] else [])"

abbreviation x_ptr :: "('a \<Rightarrow> xml list) \<Rightarrow> 'a option \<Rightarrow> xml list" where
  "x_ptr f p \<equiv> (case p of None \<Rightarrow> [] | Some x \<Rightarrow> f x)"

abbreviation x_list :: "('a \<Rightarrow> xml list) \<Rightarrow> 'a list \<Rightarrow> xml list" where
  "x_list f xs \<equiv> concat (map f xs)"

abbreviation x_ns :: "string \<Rightarrow> (string \<times> string) list" where
  "x_ns ns \<equiv> [(''xmlns'', ns)]"

abbreviation x_ns_omit :: "string \<Rightarrow> (string \<times> string) list" where
  "x_ns_omit ns \<equiv> (if ns = [] then [] else [(''xmlns'', ns)])"

section \<open>Shared parts\<close>

definition Namespace :: string where
  "Namespace = ''http://s3.amazonaws.com/doc/2006-03-01/''"

definition FormatTime :: "int \<Rightarrow> string" where
  "FormatTime t = format_millis t"

record xml_owner =
  xo_ID :: string
  xo_DisplayName :: string

definition owner_xml :: "string \<Rightarrow> xml_owner \<Rightarrow> xml list" where
  "owner_xml n x = [El n [] (x_str ''ID'' (xo_ID x) @ x_str ''DisplayName'' (xo_DisplayName x))]"

record xml_checksums =
  xc_CRC32 :: string
  xc_CRC32C :: string
  xc_CRC64NVME :: string
  xc_SHA1 :: string
  xc_SHA256 :: string
  xc_SHA512 :: string
  xc_MD5 :: string
  xc_XXHASH64 :: string
  xc_XXHASH3 :: string
  xc_XXHASH128 :: string

definition checksums_xml :: "xml_checksums \<Rightarrow> xml list" where
  "checksums_xml c =
    x_omit ''ChecksumCRC32'' (xc_CRC32 c) @ x_omit ''ChecksumCRC32C'' (xc_CRC32C c) @
    x_omit ''ChecksumCRC64NVME'' (xc_CRC64NVME c) @ x_omit ''ChecksumSHA1'' (xc_SHA1 c) @
    x_omit ''ChecksumSHA256'' (xc_SHA256 c) @ x_omit ''ChecksumSHA512'' (xc_SHA512 c) @
    x_omit ''ChecksumMD5'' (xc_MD5 c) @ x_omit ''ChecksumXXHASH64'' (xc_XXHASH64 c) @
    x_omit ''ChecksumXXHASH3'' (xc_XXHASH3 c) @ x_omit ''ChecksumXXHASH128'' (xc_XXHASH128 c)"

text \<open>A list of common prefixes is the list of their \<open>Prefix\<close> members.\<close>

definition common_prefix_xml :: "string \<Rightarrow> xml list" where
  "common_prefix_xml p = [El ''CommonPrefixes'' [] (x_str ''Prefix'' p)]"

section \<open>Listings\<close>

record xml_object =
  xob_Key :: string
  xob_LastModified :: string
  xob_ETag :: string
  xob_ChecksumAlgorithm :: "string list"
  xob_ChecksumType :: string
  xob_Size :: int
  xob_StorageClass :: string
  xob_Owner :: "xml_owner option"

definition object_xml :: "xml_object \<Rightarrow> xml list" where
  "object_xml x = [El ''Contents'' []
    (x_str ''Key'' (xob_Key x) @ x_str ''LastModified'' (xob_LastModified x) @ x_str ''ETag'' (xob_ETag x) @
     x_list (x_str ''ChecksumAlgorithm'') (xob_ChecksumAlgorithm x) @ x_omit ''ChecksumType'' (xob_ChecksumType x) @
     x_int ''Size'' (xob_Size x) @ x_omit ''StorageClass'' (xob_StorageClass x) @
     x_ptr (owner_xml ''Owner'') (xob_Owner x))]"

record listBucketResult =
  lbr_XMLNS :: string
  lbr_Name :: string
  lbr_Prefix :: string
  lbr_StartAfter :: string
  lbr_ContinuationToken :: "string option"
  lbr_NextContinuationToken :: string
  lbr_KeyCount :: int
  lbr_MaxKeys :: int
  lbr_Delimiter :: string
  lbr_EncodingType :: string
  lbr_IsTruncated :: bool
  lbr_Contents :: "xml_object list"
  lbr_CommonPrefixes :: "string list"

definition listBucketResult_xml :: "listBucketResult \<Rightarrow> xml" where
  "listBucketResult_xml x = El ''ListBucketResult'' (x_ns (lbr_XMLNS x))
    (x_str ''Name'' (lbr_Name x) @ x_str ''Prefix'' (lbr_Prefix x) @ x_omit ''StartAfter'' (lbr_StartAfter x) @
     x_ptr (x_str ''ContinuationToken'') (lbr_ContinuationToken x) @
     x_omit ''NextContinuationToken'' (lbr_NextContinuationToken x) @ x_int ''KeyCount'' (lbr_KeyCount x) @
     x_int ''MaxKeys'' (lbr_MaxKeys x) @ x_omit ''Delimiter'' (lbr_Delimiter x) @
     x_omit ''EncodingType'' (lbr_EncodingType x) @ x_bool ''IsTruncated'' (lbr_IsTruncated x) @
     x_list object_xml (lbr_Contents x) @ x_list common_prefix_xml (lbr_CommonPrefixes x))"

record listBucketResultV1 =
  lb1_XMLNS :: string
  lb1_Name :: string
  lb1_Prefix :: string
  lb1_Marker :: string
  lb1_NextMarker :: string
  lb1_MaxKeys :: int
  lb1_Delimiter :: string
  lb1_EncodingType :: string
  lb1_IsTruncated :: bool
  lb1_Contents :: "xml_object list"
  lb1_CommonPrefixes :: "string list"

definition listBucketResultV1_xml :: "listBucketResultV1 \<Rightarrow> xml" where
  "listBucketResultV1_xml x = El ''ListBucketResult'' (x_ns (lb1_XMLNS x))
    (x_str ''Name'' (lb1_Name x) @ x_str ''Prefix'' (lb1_Prefix x) @ x_str ''Marker'' (lb1_Marker x) @
     x_omit ''NextMarker'' (lb1_NextMarker x) @ x_int ''MaxKeys'' (lb1_MaxKeys x) @
     x_omit ''Delimiter'' (lb1_Delimiter x) @ x_omit ''EncodingType'' (lb1_EncodingType x) @
     x_bool ''IsTruncated'' (lb1_IsTruncated x) @
     x_list object_xml (lb1_Contents x) @ x_list common_prefix_xml (lb1_CommonPrefixes x))"

record xml_version =
  xv_Key :: string
  xv_VersionID :: string
  xv_IsLatest :: bool
  xv_LastModified :: string
  xv_ETag :: string
  xv_ChecksumAlgorithm :: "string list"
  xv_ChecksumType :: string
  xv_Size :: int
  xv_StorageClass :: string
  xv_Owner :: "xml_owner option"

definition version_xml :: "xml_version \<Rightarrow> xml list" where
  "version_xml x = [El ''Version'' []
    (x_str ''Key'' (xv_Key x) @ x_str ''VersionId'' (xv_VersionID x) @ x_bool ''IsLatest'' (xv_IsLatest x) @
     x_omit ''LastModified'' (xv_LastModified x) @ x_str ''ETag'' (xv_ETag x) @
     x_list (x_str ''ChecksumAlgorithm'') (xv_ChecksumAlgorithm x) @ x_omit ''ChecksumType'' (xv_ChecksumType x) @
     x_int ''Size'' (xv_Size x) @ x_omit ''StorageClass'' (xv_StorageClass x) @
     x_ptr (owner_xml ''Owner'') (xv_Owner x))]"

record xml_delete_marker =
  xdm_Key :: string
  xdm_VersionID :: string
  xdm_IsLatest :: bool
  xdm_LastModified :: string
  xdm_Owner :: "xml_owner option"

definition delete_marker_xml :: "xml_delete_marker \<Rightarrow> xml list" where
  "delete_marker_xml x = [El ''DeleteMarker'' []
    (x_str ''Key'' (xdm_Key x) @ x_str ''VersionId'' (xdm_VersionID x) @ x_bool ''IsLatest'' (xdm_IsLatest x) @
     x_omit ''LastModified'' (xdm_LastModified x) @ x_ptr (owner_xml ''Owner'') (xdm_Owner x))]"

record listVersionsResult =
  lvr_XMLNS :: string
  lvr_Name :: string
  lvr_Prefix :: string
  lvr_KeyMarker :: string
  lvr_VersionIDMarker :: string
  lvr_NextKeyMarker :: string
  lvr_NextVersionIDMarker :: string
  lvr_MaxKeys :: int
  lvr_Delimiter :: string
  lvr_EncodingType :: string
  lvr_IsTruncated :: bool
  lvr_Versions :: "xml_version list"
  lvr_DeleteMarkers :: "xml_delete_marker list"
  lvr_CommonPrefixes :: "string list"

definition listVersionsResult_xml :: "listVersionsResult \<Rightarrow> xml" where
  "listVersionsResult_xml x = El ''ListVersionsResult'' (x_ns (lvr_XMLNS x))
    (x_str ''Name'' (lvr_Name x) @ x_str ''Prefix'' (lvr_Prefix x) @ x_str ''KeyMarker'' (lvr_KeyMarker x) @
     x_str ''VersionIdMarker'' (lvr_VersionIDMarker x) @ x_omit ''NextKeyMarker'' (lvr_NextKeyMarker x) @
     x_omit ''NextVersionIdMarker'' (lvr_NextVersionIDMarker x) @ x_int ''MaxKeys'' (lvr_MaxKeys x) @
     x_omit ''Delimiter'' (lvr_Delimiter x) @ x_omit ''EncodingType'' (lvr_EncodingType x) @
     x_bool ''IsTruncated'' (lvr_IsTruncated x) @ x_list version_xml (lvr_Versions x) @
     x_list delete_marker_xml (lvr_DeleteMarkers x) @ x_list common_prefix_xml (lvr_CommonPrefixes x))"

record xml_bucket_entry =
  xbe_Name :: string
  xbe_CreationDate :: string

record listAllMyBucketsResult =
  lab_XMLNS :: string
  lab_Owner :: xml_owner
  lab_Buckets :: "xml_bucket_entry list"
  lab_ContinuationToken :: string

definition listAllMyBucketsResult_xml :: "listAllMyBucketsResult \<Rightarrow> xml" where
  "listAllMyBucketsResult_xml x = El ''ListAllMyBucketsResult'' (x_ns (lab_XMLNS x))
    (owner_xml ''Owner'' (lab_Owner x) @
     [El ''Buckets'' [] (x_list (\<lambda>b. [El ''Bucket'' []
       (x_str ''Name'' (xbe_Name b) @ x_str ''CreationDate'' (xbe_CreationDate b))]) (lab_Buckets x))] @
     x_omit ''ContinuationToken'' (lab_ContinuationToken x))"

section \<open>Deletes and copies\<close>

record deleteRequestObject =
  dro_Key :: string
  dro_VersionID :: string
  dro_ETag :: string
  dro_LastModifiedTime :: string
  dro_Size :: "int option"

record deleteRequest =
  drq_Quiet :: bool
  drq_Objects :: "deleteRequestObject list"

record deletedObject =
  dob_Key :: string
  dob_VersionID :: string
  dob_DeleteMarker :: bool
  dob_DeleteMarkerVersionID :: string

record deleteError =
  der_Key :: string
  der_VersionID :: string
  der_Code :: string
  der_Message :: string

record deleteResult =
  drs_XMLNS :: string
  drs_Deleted :: "deletedObject list"
  drs_Errors :: "deleteError list"

definition deleteResult_xml :: "deleteResult \<Rightarrow> xml" where
  "deleteResult_xml x = El ''DeleteResult'' (x_ns (drs_XMLNS x))
    (x_list (\<lambda>d. [El ''Deleted'' []
       (x_str ''Key'' (dob_Key d) @ x_omit ''VersionId'' (dob_VersionID d) @
        x_omit_bool ''DeleteMarker'' (dob_DeleteMarker d) @
        x_omit ''DeleteMarkerVersionId'' (dob_DeleteMarkerVersionID d))]) (drs_Deleted x) @
     x_list (\<lambda>e. [El ''Error'' []
       (x_str ''Key'' (der_Key e) @ x_omit ''VersionId'' (der_VersionID e) @ x_str ''Code'' (der_Code e) @
        x_str ''Message'' (der_Message e))]) (drs_Errors x))"

record copyObjectResult =
  cor_XMLNS :: string
  cor_ETag :: string
  cor_LastModified :: string
  cor_ChecksumType :: string
  cor_Checksums :: xml_checksums

definition copyObjectResult_xml :: "copyObjectResult \<Rightarrow> xml" where
  "copyObjectResult_xml x = El ''CopyObjectResult'' (x_ns (cor_XMLNS x))
    (x_str ''ETag'' (cor_ETag x) @ x_omit ''LastModified'' (cor_LastModified x) @
     x_omit ''ChecksumType'' (cor_ChecksumType x) @ checksums_xml (cor_Checksums x))"

record copyPartResult =
  cpr_XMLNS :: string
  cpr_ETag :: string
  cpr_LastModified :: string
  cpr_Checksums :: xml_checksums

definition copyPartResult_xml :: "copyPartResult \<Rightarrow> xml" where
  "copyPartResult_xml x = El ''CopyPartResult'' (x_ns (cpr_XMLNS x))
    (x_str ''ETag'' (cpr_ETag x) @ x_omit ''LastModified'' (cpr_LastModified x) @ checksums_xml (cpr_Checksums x))"

section \<open>Multipart uploads\<close>

record initiateMultipartUploadResult =
  imu_XMLNS :: string
  imu_Bucket :: string
  imu_Key :: string
  imu_UploadID :: string

definition initiateMultipartUploadResult_xml :: "initiateMultipartUploadResult \<Rightarrow> xml" where
  "initiateMultipartUploadResult_xml x = El ''InitiateMultipartUploadResult'' (x_ns (imu_XMLNS x))
    (x_str ''Bucket'' (imu_Bucket x) @ x_str ''Key'' (imu_Key x) @ x_str ''UploadId'' (imu_UploadID x))"

record completeMultipartUploadResult =
  cmr_XMLNS :: string
  cmr_Location :: string
  cmr_Bucket :: string
  cmr_Key :: string
  cmr_ETag :: string
  cmr_Checksums :: xml_checksums
  cmr_ChecksumType :: string

definition completeMultipartUploadResult_xml :: "completeMultipartUploadResult \<Rightarrow> xml" where
  "completeMultipartUploadResult_xml x = El ''CompleteMultipartUploadResult'' (x_ns (cmr_XMLNS x))
    (x_str ''Location'' (cmr_Location x) @ x_str ''Bucket'' (cmr_Bucket x) @ x_str ''Key'' (cmr_Key x) @
     x_str ''ETag'' (cmr_ETag x) @ checksums_xml (cmr_Checksums x) @ x_omit ''ChecksumType'' (cmr_ChecksumType x))"

record completePart =
  cpt_PartNumber :: int
  cpt_ETag :: string
  cpt_Checksums :: xml_checksums

record completeMultipartUploadRequest =
  cmq_Parts :: "completePart list"

record xml_part =
  xp_PartNumber :: int
  xp_LastModified :: string
  xp_ETag :: string
  xp_Size :: int
  xp_Checksums :: xml_checksums

definition part_xml :: "xml_part \<Rightarrow> xml list" where
  "part_xml x = [El ''Part'' []
    (x_int ''PartNumber'' (xp_PartNumber x) @ x_omit ''LastModified'' (xp_LastModified x) @ x_str ''ETag'' (xp_ETag x) @
     x_int ''Size'' (xp_Size x) @ checksums_xml (xp_Checksums x))]"

record listPartsResult =
  lpr_XMLNS :: string
  lpr_Bucket :: string
  lpr_Key :: string
  lpr_UploadID :: string
  lpr_PartNumberMarker :: string
  lpr_NextPartNumberMarker :: string
  lpr_MaxParts :: int
  lpr_IsTruncated :: bool
  lpr_Parts :: "xml_part list"
  lpr_Initiator :: "xml_owner option"
  lpr_Owner :: "xml_owner option"
  lpr_StorageClass :: string
  lpr_ChecksumAlgorithm :: string
  lpr_ChecksumType :: string

definition listPartsResult_xml :: "listPartsResult \<Rightarrow> xml" where
  "listPartsResult_xml x = El ''ListPartsResult'' (x_ns (lpr_XMLNS x))
    (x_str ''Bucket'' (lpr_Bucket x) @ x_str ''Key'' (lpr_Key x) @ x_str ''UploadId'' (lpr_UploadID x) @
     x_omit ''PartNumberMarker'' (lpr_PartNumberMarker x) @ x_omit ''NextPartNumberMarker'' (lpr_NextPartNumberMarker x) @
     x_int ''MaxParts'' (lpr_MaxParts x) @ x_bool ''IsTruncated'' (lpr_IsTruncated x) @ x_list part_xml (lpr_Parts x) @
     x_ptr (owner_xml ''Initiator'') (lpr_Initiator x) @ x_ptr (owner_xml ''Owner'') (lpr_Owner x) @
     x_omit ''StorageClass'' (lpr_StorageClass x) @ x_omit ''ChecksumAlgorithm'' (lpr_ChecksumAlgorithm x) @
     x_omit ''ChecksumType'' (lpr_ChecksumType x))"

record xml_upload =
  xu_Key :: string
  xu_UploadID :: string
  xu_Initiator :: "xml_owner option"
  xu_Owner :: "xml_owner option"
  xu_StorageClass :: string
  xu_Initiated :: string
  xu_ChecksumAlgorithm :: string
  xu_ChecksumType :: string

definition upload_xml :: "xml_upload \<Rightarrow> xml list" where
  "upload_xml x = [El ''Upload'' []
    (x_str ''Key'' (xu_Key x) @ x_str ''UploadId'' (xu_UploadID x) @ x_ptr (owner_xml ''Initiator'') (xu_Initiator x) @
     x_ptr (owner_xml ''Owner'') (xu_Owner x) @ x_omit ''StorageClass'' (xu_StorageClass x) @
     x_omit ''Initiated'' (xu_Initiated x) @ x_omit ''ChecksumAlgorithm'' (xu_ChecksumAlgorithm x) @
     x_omit ''ChecksumType'' (xu_ChecksumType x))]"

record listMultipartUploadsResult =
  lmu_XMLNS :: string
  lmu_Bucket :: string
  lmu_KeyMarker :: string
  lmu_UploadIDMarker :: string
  lmu_NextKeyMarker :: string
  lmu_NextUploadIDMarker :: string
  lmu_Delimiter :: string
  lmu_Prefix :: string
  lmu_MaxUploads :: int
  lmu_IsTruncated :: bool
  lmu_Uploads :: "xml_upload list"
  lmu_CommonPrefixes :: "string list"

definition listMultipartUploadsResult_xml :: "listMultipartUploadsResult \<Rightarrow> xml" where
  "listMultipartUploadsResult_xml x = El ''ListMultipartUploadsResult'' (x_ns (lmu_XMLNS x))
    (x_str ''Bucket'' (lmu_Bucket x) @ x_omit ''KeyMarker'' (lmu_KeyMarker x) @
     x_omit ''UploadIdMarker'' (lmu_UploadIDMarker x) @ x_omit ''NextKeyMarker'' (lmu_NextKeyMarker x) @
     x_omit ''NextUploadIdMarker'' (lmu_NextUploadIDMarker x) @ x_omit ''Delimiter'' (lmu_Delimiter x) @
     x_omit ''Prefix'' (lmu_Prefix x) @ x_int ''MaxUploads'' (lmu_MaxUploads x) @
     x_bool ''IsTruncated'' (lmu_IsTruncated x) @ x_list upload_xml (lmu_Uploads x) @
     x_list common_prefix_xml (lmu_CommonPrefixes x))"

section \<open>Bucket configuration\<close>

definition locationConstraint_xml :: "string \<Rightarrow> string \<Rightarrow> xml" where
  "locationConstraint_xml ns v = El ''LocationConstraint'' (x_ns ns) [Tx v]"

definition versioningConfiguration_xml :: "string \<Rightarrow> string \<Rightarrow> xml" where
  "versioningConfiguration_xml ns status = El ''VersioningConfiguration'' (x_ns_omit ns) (x_omit ''Status'' status)"

definition policyStatus_xml :: "string \<Rightarrow> bool \<Rightarrow> xml" where
  "policyStatus_xml ns isPublic = El ''PolicyStatus'' (x_ns_omit ns) (x_bool ''IsPublic'' isPublic)"

text \<open>The rules of the ownership controls are the list of their \<open>ObjectOwnership\<close> members.\<close>

definition ownershipControls_xml :: "string \<Rightarrow> string list \<Rightarrow> xml" where
  "ownershipControls_xml ns rules = El ''OwnershipControls'' (x_ns_omit ns)
    (x_list (\<lambda>r. [El ''Rule'' [] (x_str ''ObjectOwnership'' r)]) rules)"

record publicAccessBlockConfiguration =
  pab_XMLNS :: string
  pab_BlockPublicAcls :: bool
  pab_IgnorePublicAcls :: bool
  pab_BlockPublicPolicy :: bool
  pab_RestrictPublicBuckets :: bool

definition publicAccessBlock_xml :: "publicAccessBlockConfiguration \<Rightarrow> xml" where
  "publicAccessBlock_xml x = El ''PublicAccessBlockConfiguration'' (x_ns_omit (pab_XMLNS x))
    (x_bool ''BlockPublicAcls'' (pab_BlockPublicAcls x) @ x_bool ''IgnorePublicAcls'' (pab_IgnorePublicAcls x) @
     x_bool ''BlockPublicPolicy'' (pab_BlockPublicPolicy x) @
     x_bool ''RestrictPublicBuckets'' (pab_RestrictPublicBuckets x))"

record sseRule =
  ssr_Default :: "(string \<times> string) option"
  ssr_BucketKeyEnabled :: "bool option"

text \<open>A default is its algorithm and its key id.\<close>

definition sseConfiguration_xml :: "string \<Rightarrow> sseRule list \<Rightarrow> xml" where
  "sseConfiguration_xml ns rules = El ''ServerSideEncryptionConfiguration'' (x_ns_omit ns)
    (x_list (\<lambda>r. [El ''Rule'' []
       (x_ptr (\<lambda>(alg, key). [El ''ApplyServerSideEncryptionByDefault'' []
          (x_str ''SSEAlgorithm'' alg @ x_omit ''KMSMasterKeyID'' key)]) (ssr_Default r) @
        x_ptr (x_bool ''BucketKeyEnabled'') (ssr_BucketKeyEnabled r))]) rules)"

section \<open>Object lock, tags, CORS and ACLs\<close>

record defaultRetention =
  drt_Mode :: string
  drt_Days :: int
  drt_Years :: int

definition objectLockConfiguration_xml :: "string \<Rightarrow> string \<Rightarrow> defaultRetention option \<Rightarrow> xml" where
  "objectLockConfiguration_xml ns enabled rule = El ''ObjectLockConfiguration'' (x_ns_omit ns)
    (x_omit ''ObjectLockEnabled'' enabled @
     x_ptr (\<lambda>d. [El ''Rule'' [] [El ''DefaultRetention'' []
       (x_omit ''Mode'' (drt_Mode d) @ x_omit_int ''Days'' (drt_Days d) @ x_omit_int ''Years'' (drt_Years d))]]) rule)"

record objectLockRetention =
  olr_Mode :: string
  olr_RetainUntilDate :: string

definition objectLockRetention_xml :: "string \<Rightarrow> objectLockRetention \<Rightarrow> xml" where
  "objectLockRetention_xml ns x = El ''Retention'' (x_ns_omit ns)
    (x_omit ''Mode'' (olr_Mode x) @ x_omit ''RetainUntilDate'' (olr_RetainUntilDate x))"

definition objectLockLegalHold_xml :: "string \<Rightarrow> string \<Rightarrow> xml" where
  "objectLockLegalHold_xml ns status = El ''LegalHold'' (x_ns_omit ns) (x_omit ''Status'' status)"

text \<open>A tag set is the list of its keys and values.\<close>

definition tagging_xml :: "string \<Rightarrow> (string \<times> string) list \<Rightarrow> xml" where
  "tagging_xml ns tags = El ''Tagging'' (x_ns_omit ns)
    [El ''TagSet'' [] (x_list (\<lambda>(k, v). [El ''Tag'' [] (x_str ''Key'' k @ x_str ''Value'' v)]) tags)]"

record corsRuleXML =
  crx_AllowedOrigin :: "string list"
  crx_AllowedMethod :: "string list"
  crx_AllowedHeader :: "string list"
  crx_ExposeHeader :: "string list"
  crx_MaxAgeSeconds :: int

definition corsConfiguration_xml :: "string \<Rightarrow> corsRuleXML list \<Rightarrow> xml" where
  "corsConfiguration_xml ns rules = El ''CORSConfiguration'' (x_ns ns)
    (x_list (\<lambda>r. [El ''CORSRule'' []
      (x_list (x_str ''AllowedOrigin'') (crx_AllowedOrigin r) @ x_list (x_str ''AllowedMethod'') (crx_AllowedMethod r) @
       x_list (x_str ''AllowedHeader'') (crx_AllowedHeader r) @ x_list (x_str ''ExposeHeader'') (crx_ExposeHeader r) @
       x_omit_int ''MaxAgeSeconds'' (crx_MaxAgeSeconds r))]) rules)"

record grantee =
  gr_XMLNSXSI :: string
  gr_Type :: string
  gr_ID :: string
  gr_DisplayName :: string

text \<open>A grant is its grantee and permission.\<close>

record accessControlPolicy =
  acp_XMLNS :: string
  acp_Owner :: xml_owner
  acp_Grants :: "(grantee \<times> string) list"

definition accessControlPolicy_xml :: "accessControlPolicy \<Rightarrow> xml" where
  "accessControlPolicy_xml x = El ''AccessControlPolicy'' (x_ns (acp_XMLNS x))
    (owner_xml ''Owner'' (acp_Owner x) @
     [El ''AccessControlList'' [] (x_list (\<lambda>(g, perm). [El ''Grant'' []
       ([El ''Grantee'' [(''xmlns:xsi'', gr_XMLNSXSI g), (''xsi:type'', gr_Type g)]
          (x_str ''ID'' (gr_ID g) @ x_omit ''DisplayName'' (gr_DisplayName g))] @
        x_str ''Permission'' perm)]) (acp_Grants x))])"

section \<open>Object attributes and browser uploads\<close>

record attributePart =
  oap_PartNumber :: int
  oap_Size :: int
  oap_Checksums :: xml_checksums

record objectAttributeParts =
  oaps_IsTruncated :: bool
  oaps_MaxParts :: "int option"
  oaps_NextPartNumberMarker :: string
  oaps_PartNumberMarker :: string
  oaps_PartsCount :: "int option"
  oaps_Parts :: "attributePart list"

definition attributeParts_xml :: "objectAttributeParts \<Rightarrow> xml list" where
  "attributeParts_xml x = [El ''ObjectParts'' []
    (x_bool ''IsTruncated'' (oaps_IsTruncated x) @ x_ptr (x_int ''MaxParts'') (oaps_MaxParts x) @
     x_omit ''NextPartNumberMarker'' (oaps_NextPartNumberMarker x) @ x_omit ''PartNumberMarker'' (oaps_PartNumberMarker x) @
     x_ptr (x_int ''PartsCount'') (oaps_PartsCount x) @
     x_list (\<lambda>p. [El ''Part'' [] (x_int ''PartNumber'' (oap_PartNumber p) @ x_int ''Size'' (oap_Size p) @
       checksums_xml (oap_Checksums p))]) (oaps_Parts x))]"

record attributesChecksum =
  atc_Checksums :: xml_checksums
  atc_ChecksumType :: string

record getObjectAttributesResult =
  oar_XMLNS :: string
  oar_ETag :: string
  oar_Checksum :: "attributesChecksum option"
  oar_ObjectParts :: "objectAttributeParts option"
  oar_StorageClass :: string
  oar_ObjectSize :: "int option"

definition getObjectAttributesResult_xml :: "getObjectAttributesResult \<Rightarrow> xml" where
  "getObjectAttributesResult_xml x = El ''GetObjectAttributesResponse'' (x_ns (oar_XMLNS x))
    (x_omit ''ETag'' (oar_ETag x) @
     x_ptr (\<lambda>c. [El ''Checksum'' [] (checksums_xml (atc_Checksums c) @ x_omit ''ChecksumType'' (atc_ChecksumType c))])
       (oar_Checksum x) @
     x_ptr attributeParts_xml (oar_ObjectParts x) @ x_omit ''StorageClass'' (oar_StorageClass x) @
     x_ptr (x_int ''ObjectSize'') (oar_ObjectSize x))"

record postResponse =
  por_XMLNS :: string
  por_Location :: string
  por_Bucket :: string
  por_Key :: string
  por_ETag :: string

definition postResponse_xml :: "postResponse \<Rightarrow> xml" where
  "postResponse_xml x = El ''PostResponse'' (x_ns_omit (por_XMLNS x))
    (x_str ''Location'' (por_Location x) @ x_str ''Bucket'' (por_Bucket x) @ x_str ''Key'' (por_Key x) @
     x_str ''ETag'' (por_ETag x))"

end
