(* ===== verification/Intercept.thy ===== *)
theory Intercept
  imports Authorize Headers Go_Io "HOL-Library.Monad_Syntax"
begin

text \<open>
  The operation record the hooks see and the hooks themselves, \<open>src/s3gw/intercept.go\<close>: object
  attributes, storage class mapping, \<open>runOp\<close>, and the counting and pacing of bodies, with the response
  writer of \<open>src/s3gw/handler.go\<close>. Hooks, limiters and the underlying reader and writer belong to the
  service or to \<open>net/http\<close>: they are arguments, functions on a world of their own.
\<close>

section \<open>The operation record\<close>

definition OpUnknown :: string where
  "OpUnknown = ''Unknown''"

text \<open>A missing metadata map and an empty one are the same: the empty list.\<close>

record op_request =
  oreq_SSE :: string
  oreq_SSEKMSKeyID :: string
  oreq_StorageClass :: string
  oreq_Metadata :: "(string \<times> string) list"

definition OpRequest_empty :: "op_request \<Rightarrow> bool" where
  "OpRequest_empty r \<longleftrightarrow>
    oreq_SSE r = [] \<and> oreq_SSEKMSKeyID r = [] \<and> oreq_StorageClass r = [] \<and> oreq_Metadata r = []"

record op_response =
  ores_SSE :: string
  ores_SSEKMSKeyID :: string
  ores_StorageClass :: string
  ores_Metadata :: "(string \<times> string) list"
  ores_ETag :: string
  ores_VersionID :: string

definition OpResponse_empty :: "op_response \<Rightarrow> bool" where
  "OpResponse_empty r \<longleftrightarrow>
    ores_SSE r = [] \<and> ores_SSEKMSKeyID r = [] \<and> ores_StorageClass r = [] \<and> ores_ETag r = [] \<and>
    ores_VersionID r = [] \<and> ores_Metadata r = []"

record op =
  op_Method :: string
  op_Operation :: string
  op_Actions :: "string list"
  op_Tenant :: string
  op_User :: string
  op_Bucket :: string
  op_BucketOwner :: string
  op_Key :: string
  op_Request :: "op_request option"
  op_Response :: "op_response option"
  op_BytesIn :: int
  op_BytesOut :: int
  op_Denials :: "denial list"

definition objectRequest :: "signed_header \<Rightarrow> bool \<Rightarrow> op_request option" where
  "objectRequest hdr withAttrs =
    (if \<not> withAttrs then None
     else
       (let req = \<lparr> oreq_SSE = sh_Signed hdr hdrSSE, oreq_SSEKMSKeyID = sh_Signed hdr hdrSSEKMSKeyID,
              oreq_StorageClass = sh_Signed hdr hdrStorageClass, oreq_Metadata = AmzMeta hdr \<rparr>
        in if OpRequest_empty req then None else Some req))"

definition setResponse :: "op_response \<Rightarrow> op \<Rightarrow> op" where
  "setResponse res p = (if OpResponse_empty res then p else p\<lparr> op_Response := Some res \<rparr>)"

section \<open>Storage classes\<close>

definition SizeUnknown :: int where
  "SizeUnknown = -1"

record storage_class_mapper =
  sc_ToBackend :: "op \<Rightarrow> int \<Rightarrow> string"
  sc_ToClient :: "op \<Rightarrow> string \<Rightarrow> string"

definition backendStorageClass ::
  "storage_class_mapper option \<Rightarrow> op \<Rightarrow> string \<Rightarrow> int \<Rightarrow> string" where
  "backendStorageClass m p requested sz =
    (case m of Some m \<Rightarrow> sc_ToBackend m p sz | None \<Rightarrow> requested)"

definition clientStorageClass :: "storage_class_mapper option \<Rightarrow> op \<Rightarrow> string \<Rightarrow> string" where
  "clientStorageClass m p backendClass =
    (case m of Some m \<Rightarrow> sc_ToClient m p backendClass | None \<Rightarrow> backendClass)"

section \<open>Hooks\<close>

text \<open>
  A step of an operation reads and writes the operation record and the world, and returns an error or
  none. An interceptor turns the step it wraps into another.
\<close>

type_synonym 'w opstep = "op \<Rightarrow> 'w \<Rightarrow> go_error option \<times> op \<times> 'w"

definition counted :: "('w \<Rightarrow> int \<times> int) \<Rightarrow> 'w opstep \<Rightarrow> 'w opstep" where
  "counted transferred run = (\<lambda>p w.
    (case run p w of
       (err, p', w') \<Rightarrow>
         (case transferred w' of (i, out) \<Rightarrow> (err, p'\<lparr> op_BytesIn := i, op_BytesOut := out \<rparr>, w'))))"

definition runOp ::
  "'w opstep option \<Rightarrow> (op \<Rightarrow> 'w \<Rightarrow> 'w) option \<Rightarrow> ('w opstep \<Rightarrow> 'w opstep) list \<Rightarrow>
    ('w \<Rightarrow> int \<times> int) \<Rightarrow> 'w opstep \<Rightarrow> 'w opstep" where
  "runOp authorizer bandwidthLimit interceptors transferred run = (\<lambda>p w.
    (case (case authorizer of None \<Rightarrow> (None, p, w) | Some a \<Rightarrow> a p w) of
       (Some err, p', w') \<Rightarrow> (Some err, p', w')
     | (None, p', w') \<Rightarrow>
         (let w'' = (case bandwidthLimit of None \<Rightarrow> w' | Some arm \<Rightarrow> arm p' w')
          in foldr (\<lambda>i nxt. i nxt) interceptors (counted transferred run) p' w'')))"

section \<open>Pacing and counting\<close>

definition waitChunk :: nat where
  "waitChunk = 32 * 1024"

text \<open>A limiter's \<open>WaitN\<close>.\<close>

type_synonym 'w wait = "nat \<Rightarrow> 'w \<Rightarrow> go_error option \<times> 'w"

function waitBandwidth :: "'w wait \<Rightarrow> nat \<Rightarrow> 'w \<Rightarrow> go_error option \<times> 'w" where
  "waitBandwidth wait n w =
    (if n = 0 then (None, w)
     else
       (let c = min n waitChunk in
        case wait c w of
          (Some err, w') \<Rightarrow> (Some err, w')
        | (None, w') \<Rightarrow> waitBandwidth wait (n - c) w'))"
  by pat_completeness auto
termination
  by (relation "measure (\<lambda>(_, n, _). n)") (auto simp: waitChunk_def)

declare waitBandwidth.simps [simp del]

text \<open>
  The status writer: the underlying writer returns how many bytes it took and an error. A writer that
  takes nothing and reports no error makes the loop run forever, the value \<open>None\<close>.
\<close>

record status_writer =
  sw_status :: int
  sw_started :: bool
  sw_written :: int

type_synonym 'w writer = "string \<Rightarrow> 'w \<Rightarrow> nat \<times> go_error option \<times> 'w"

definition sw_WriteHeader :: "int \<Rightarrow> status_writer \<Rightarrow> status_writer" where
  "sw_WriteHeader status sw = sw\<lparr> sw_status := status, sw_started := True \<rparr>"

partial_function (option) paced_write ::
  "'w wait \<Rightarrow> 'w writer \<Rightarrow> string \<Rightarrow> nat \<Rightarrow> status_writer \<Rightarrow> 'w \<Rightarrow>
    (nat \<times> go_error option \<times> status_writer \<times> 'w) option" where
  "paced_write wait wr p done_n sw w =
    (if length p \<le> done_n then Some (done_n, None, sw, w)
     else
       (let endp = min (done_n + waitChunk) (length p) in
        case wait (endp - done_n) w of
          (Some err, w1) \<Rightarrow> Some (done_n, Some err, sw, w1)
        | (None, w1) \<Rightarrow>
            (case wr (take (endp - done_n) (drop done_n p)) w1 of
               (n, err, w2) \<Rightarrow>
                 (let sw' = sw\<lparr> sw_written := sw_written sw + int n \<rparr> in
                  case err of
                    Some e \<Rightarrow> Some (done_n + n, Some e, sw', w2)
                  | None \<Rightarrow> paced_write wait wr p (done_n + n) sw' w2))))"

declare paced_write.simps [code]

definition sw_Write ::
  "'w wait option \<Rightarrow> 'w writer \<Rightarrow> string \<Rightarrow> status_writer \<Rightarrow> 'w \<Rightarrow>
    (nat \<times> go_error option \<times> status_writer \<times> 'w) option" where
  "sw_Write limiter wr p sw0 w =
    (let sw = sw0\<lparr> sw_started := True \<rparr> in
     case limiter of
       None \<Rightarrow>
         (case wr p w of (n, err, w') \<Rightarrow> Some (n, err, sw\<lparr> sw_written := sw_written sw + int n \<rparr>, w'))
     | Some wait \<Rightarrow> paced_write wait wr p 0 sw w)"

text \<open>The counting body: the underlying reader yields bytes and an error (\<open>io.EOF\<close> at the end).\<close>

definition cb_Read ::
  "'w wait option \<Rightarrow> 'w reader \<Rightarrow> nat \<Rightarrow> int \<Rightarrow> 'w \<Rightarrow> string \<times> go_error option \<times> int \<times> 'w" where
  "cb_Read limiter rd len n w =
    (case rd len w of
       (bs, err, w1) \<Rightarrow>
         (let n' = n + int (length bs) in
          case limiter of
            None \<Rightarrow> (bs, err, n', w1)
          | Some wait \<Rightarrow>
              if bs = [] then (bs, err, n', w1)
              else
                (case waitBandwidth wait (length bs) w1 of
                   (Some werr, w2) \<Rightarrow> (bs, Some werr, n', w2)
                 | (None, w2) \<Rightarrow> (bs, err, n', w2))))"

section \<open>Pacing is bounded, writing ends\<close>

text \<open>The contract of \<open>io.Writer\<close>: it takes all the bytes, or fewer and says why.\<close>

definition io_writer :: "'w writer \<Rightarrow> bool" where
  "io_writer wr \<longleftrightarrow> (\<forall>s w. case wr s w of (n, err, _) \<Rightarrow> n \<le> length s \<and> (err = None \<longrightarrow> n = length s))"

lemma io_writerD:
  "io_writer wr \<Longrightarrow> wr s w = (n, err, w') \<Longrightarrow> n \<le> length s"
  "io_writer wr \<Longrightarrow> wr s w = (n, None, w') \<Longrightarrow> n = length s"
  unfolding io_writer_def by (metis (mono_tags, lifting) case_prod_conv)+

lemma paced_write_total:
  assumes "io_writer wr" "done_n \<le> length p"
  shows "\<exists>n err sw' w'. paced_write wait wr p done_n sw w = Some (n, err, sw', w') \<and>
    sw_written sw' = sw_written sw + int n - int done_n \<and> n \<le> length p \<and> (err = None \<longrightarrow> n = length p)"
  using assms(2)
proof (induction "length p - done_n" arbitrary: done_n sw w rule: less_induct)
  case less
  let ?e = "min (done_n + waitChunk) (length p)"
  let ?s = "take (?e - done_n) (drop done_n p)"
  show ?case
  proof (cases "length p \<le> done_n")
    case True
    then show ?thesis
      using less.prems by (subst paced_write.simps) simp
  next
    case False
    then have len: "length ?s = ?e - done_n" "0 < length ?s" "done_n + length ?s \<le> length p"
      by (auto simp: waitChunk_def)
    obtain e1 w1 where w1: "wait (?e - done_n) w = (e1, w1)"
      by fastforce
    obtain n err w2 where w2: "wr ?s w1 = (n, err, w2)"
      by (cases "wr ?s w1") auto
    consider e where "e1 = Some e" | e where "e1 = None" "err = Some e" | "e1 = None" "err = None"
      by (cases e1; cases err) auto
    then show ?thesis
    proof cases
      case 1
      then show ?thesis
        using False w1 by (subst paced_write.simps) (simp add: Let_def)
    next
      case 2
      moreover have "done_n + n \<le> length p"
        using len(3) io_writerD(1) [OF assms(1) w2] by linarith
      ultimately show ?thesis
        using False w1 w2
        by (subst paced_write.simps) (simp add: Let_def)
    next
      case 3
      then have n: "n = length ?s"
        using io_writerD(2) [OF assms(1), of ?s w1 n w2] w2 by simp
      let ?sw = "sw\<lparr> sw_written := sw_written sw + int n \<rparr>"
      have "paced_write wait wr p done_n sw w = paced_write wait wr p (done_n + n) ?sw w2"
        using False w1 w2 3 by (subst paced_write.simps) (simp add: Let_def)
      moreover have "length p - (done_n + n) < length p - done_n" "done_n + n \<le> length p"
        using len n by linarith+
      ultimately show ?thesis
        using less.hyps [of "done_n + n" ?sw w2] by (auto simp: algebra_simps)
    qed
  qed
qed


definition example_writer :: "string writer" where
  "example_writer s w = (length s, None, w @ s)"


lemma waitBandwidth_cong:
  assumes "\<And>n w. 0 < n \<Longrightarrow> n \<le> waitChunk \<Longrightarrow> wait n w = wait' n w"
  shows "waitBandwidth wait n w = waitBandwidth wait' n w"
proof (induction n arbitrary: w rule: less_induct)
  case (less n)
  show ?case
  proof (cases "n = 0")
    case True
    then show ?thesis by (simp add: waitBandwidth.simps)
  next
    case False
    let ?c = "min n waitChunk"
    have c: "0 < ?c" "?c \<le> waitChunk"
      using False by (auto simp: waitChunk_def)
    then show ?thesis
      using False less.IH [of "n - ?c"] assms [OF c]
      by (subst (1 2) waitBandwidth.simps) (auto simp: Let_def split: prod.splits option.splits)
  qed
qed

text \<open>
  A limiter that paces a request body is only ever asked for between one byte and \<open>waitChunk\<close>: two
  limiters that agree on those amounts pace every read alike.
\<close>

theorem cb_Read_wait_bound:
  assumes "\<And>n w. 0 < n \<Longrightarrow> n \<le> waitChunk \<Longrightarrow> wait n w = wait' n w"
  shows "cb_Read (Some wait) rd len n w = cb_Read (Some wait') rd len n w"
  using waitBandwidth_cong [of wait wait', OF assms]
  by (auto simp: cb_Read_def Let_def split: prod.splits)

theorem cb_Read_wait_bound_witness:
  "cb_Read (Some (\<lambda>n w. (None, w + n))) (\<lambda>len w. (''ab'', None, w)) 2 0 (0 :: nat) =
   cb_Read (Some (\<lambda>n w. if n \<le> waitChunk then (None, w + n) else (Some EOF, w)))
     (\<lambda>len w. (''ab'', None, w)) 2 0 0"
  by (rule cb_Read_wait_bound) simp

end
