(* ===== verification/Sdk.thy ===== *)
theory Sdk
  imports Body S3xml Intercept
begin

text \<open>
  The interface to the backend, \<open>BackendClient\<close> of \<open>src/s3gw/backend.go\<close>. The inputs and outputs are records of the
  members the gateway writes and reads; members it always sets are not options. A client is a record of one function per method, on a
  world of its own, so every answer and every error a backend can give is covered.
\<close>

section \<open>Checksums\<close>

text \<open>The ten checksum members the SDK's structs share.\<close>

record sdk_checksums =
  ck_CRC32 :: "string option"
  ck_CRC32C :: "string option"
  ck_CRC64NVME :: "string option"
  ck_SHA1 :: "string option"
  ck_SHA256 :: "string option"
  ck_SHA512 :: "string option"
  ck_MD5 :: "string option"
  ck_XXHASH64 :: "string option"
  ck_XXHASH3 :: "string option"
  ck_XXHASH128 :: "string option"

definition addChecksum :: "string \<Rightarrow> string option \<Rightarrow> checksum_values \<Rightarrow> checksum_values" where
  "addChecksum name p v = (case p of None \<Rightarrow> v | Some s \<Rightarrow> if s = [] then v else assoc_set name s v)"

definition checksumPtr :: "checksum_values \<Rightarrow> string \<Rightarrow> string option" where
  "checksumPtr v name = (let s = cv_get v name in if s \<noteq> [] then Some s else None)"

definition checksums_from :: "sdk_checksums \<Rightarrow> checksum_values" where
  "checksums_from x = addChecksum ''XXHASH128'' (ck_XXHASH128 x) (addChecksum ''XXHASH3'' (ck_XXHASH3 x)
    (addChecksum ''XXHASH64'' (ck_XXHASH64 x) (addChecksum ''MD5'' (ck_MD5 x) (addChecksum ''SHA512'' (ck_SHA512 x)
    (addChecksum ''SHA256'' (ck_SHA256 x) (addChecksum ''SHA1'' (ck_SHA1 x) (addChecksum ''CRC64NVME'' (ck_CRC64NVME x)
    (addChecksum ''CRC32C'' (ck_CRC32C x) (addChecksum ''CRC32'' (ck_CRC32 x) [])))))))))"

definition checksums_to :: "checksum_values \<Rightarrow> sdk_checksums" where
  "checksums_to v = \<lparr> ck_CRC32 = checksumPtr v ''CRC32'', ck_CRC32C = checksumPtr v ''CRC32C'',
    ck_CRC64NVME = checksumPtr v ''CRC64NVME'', ck_SHA1 = checksumPtr v ''SHA1'', ck_SHA256 = checksumPtr v ''SHA256'',
    ck_SHA512 = checksumPtr v ''SHA512'', ck_MD5 = checksumPtr v ''MD5'', ck_XXHASH64 = checksumPtr v ''XXHASH64'',
    ck_XXHASH3 = checksumPtr v ''XXHASH3'', ck_XXHASH128 = checksumPtr v ''XXHASH128'' \<rparr>"

definition no_sdk_checksums :: sdk_checksums where
  "no_sdk_checksums = checksums_to []"

definition xmlChecksums :: "checksum_values \<Rightarrow> xml_checksums" where
  "xmlChecksums v = \<lparr> xc_CRC32 = cv_get v ''CRC32'', xc_CRC32C = cv_get v ''CRC32C'', xc_CRC64NVME = cv_get v ''CRC64NVME'',
    xc_SHA1 = cv_get v ''SHA1'', xc_SHA256 = cv_get v ''SHA256'', xc_SHA512 = cv_get v ''SHA512'', xc_MD5 = cv_get v ''MD5'',
    xc_XXHASH64 = cv_get v ''XXHASH64'', xc_XXHASH3 = cv_get v ''XXHASH3'', xc_XXHASH128 = cv_get v ''XXHASH128'' \<rparr>"

definition checksumsFromXML :: "xml_checksums \<Rightarrow> checksum_values" where
  "checksumsFromXML c = addChecksum ''XXHASH128'' (Some (xc_XXHASH128 c)) (addChecksum ''XXHASH3'' (Some (xc_XXHASH3 c))
    (addChecksum ''XXHASH64'' (Some (xc_XXHASH64 c)) (addChecksum ''MD5'' (Some (xc_MD5 c))
    (addChecksum ''SHA512'' (Some (xc_SHA512 c)) (addChecksum ''SHA256'' (Some (xc_SHA256 c))
    (addChecksum ''SHA1'' (Some (xc_SHA1 c)) (addChecksum ''CRC64NVME'' (Some (xc_CRC64NVME c))
    (addChecksum ''CRC32C'' (Some (xc_CRC32C c)) (addChecksum ''CRC32'' (Some (xc_CRC32 c)) [])))))))))"

section \<open>Objects\<close>

text \<open>The preconditions of a read, and the object lock members of an upload.\<close>

record conditions =
  cn_IfMatch :: "string option"
  cn_IfNoneMatch :: "string option"
  cn_IfModifiedSince :: "int option"
  cn_IfUnmodifiedSince :: "int option"

record lock_params =
  lk_Mode :: string
  lk_RetainUntil :: "int option"
  lk_LegalHold :: string

record headObjectInput =
  hoi_Bucket :: string
  hoi_Key :: string
  hoi_Conditions :: conditions
  hoi_Range :: "string option"
  hoi_VersionId :: "string option"
  hoi_PartNumber :: "int option"
  hoi_ChecksumMode :: string

record getObjectInput =
  goi_Bucket :: string
  goi_Key :: string
  goi_Conditions :: conditions
  goi_Range :: "string option"
  goi_VersionId :: "string option"
  goi_PartNumber :: "int option"
  goi_ChecksumMode :: string
  goi_ResponseContentType :: "string option"
  goi_ResponseContentDisposition :: "string option"
  goi_ResponseCacheControl :: "string option"
  goi_ResponseContentEncoding :: "string option"
  goi_ResponseContentLanguage :: "string option"
  goi_ResponseExpires :: "int option"

record headObjectOutput =
  hoo_ContentType :: "string option"
  hoo_ContentLength :: "int option"
  hoo_ETag :: "string option"
  hoo_LastModified :: "int option"
  hoo_CacheControl :: "string option"
  hoo_ContentDisposition :: "string option"
  hoo_ContentEncoding :: "string option"
  hoo_ContentLanguage :: "string option"
  hoo_ExpiresString :: "string option"
  hoo_StorageClass :: string
  hoo_VersionId :: "string option"
  hoo_SSE :: string
  hoo_SSEKMSKeyId :: "string option"
  hoo_Metadata :: "(string \<times> string) list"
  hoo_AcceptRanges :: "string option"
  hoo_PartsCount :: "int option"
  hoo_Checksums :: sdk_checksums
  hoo_ChecksumType :: string
  hoo_Lock :: lock_params

record getObjectOutput = headObjectOutput +
  goo_TagCount :: "int option"
  goo_ContentRange :: "string option"
  goo_Body :: wire

record putObjectInput =
  poi_Bucket :: string
  poi_Key :: string
  poi_Body :: body_reader
  poi_ContentLength :: "int option"
  poi_IfMatch :: "string option"
  poi_IfNoneMatch :: "string option"
  poi_ContentType :: "string option"
  poi_ContentMD5 :: "string option"
  poi_CacheControl :: "string option"
  poi_ContentDisposition :: "string option"
  poi_ContentEncoding :: "string option"
  poi_ContentLanguage :: "string option"
  poi_Expires :: "int option"
  poi_StorageClass :: string
  poi_Tagging :: "string option"
  poi_SSE :: string
  poi_SSEKMSKeyId :: "string option"
  poi_Lock :: lock_params
  poi_Metadata :: "(string \<times> string) list"
  poi_Checksums :: sdk_checksums
  poi_ChecksumAlgorithm :: string

record putObjectOutput =
  poo_ETag :: "string option"
  poo_VersionId :: "string option"
  poo_SSE :: string
  poo_SSEKMSKeyId :: "string option"
  poo_Checksums :: sdk_checksums
  poo_ChecksumType :: string

record deleteObjectInput =
  doi_Bucket :: string
  doi_Key :: string
  doi_VersionId :: "string option"
  doi_BypassGovernanceRetention :: "bool option"
  doi_IfMatch :: "string option"
  doi_IfMatchLastModifiedTime :: "int option"
  doi_IfMatchSize :: "int option"

record deleteObjectOutput =
  doo_VersionId :: "string option"
  doo_DeleteMarker :: "bool option"

record objectIdentifier =
  oid_Key :: string
  oid_VersionId :: "string option"
  oid_ETag :: "string option"
  oid_LastModifiedTime :: "int option"
  oid_Size :: "int option"

record deleteObjectsInput =
  dsi_Bucket :: string
  dsi_Objects :: "objectIdentifier list"
  dsi_Quiet :: bool
  dsi_BypassGovernanceRetention :: "bool option"

record sdk_deleted =
  sdd_Key :: "string option"
  sdd_VersionId :: "string option"
  sdd_DeleteMarker :: "bool option"
  sdd_DeleteMarkerVersionId :: "string option"

record sdk_delete_error =
  sde_Key :: "string option"
  sde_VersionId :: "string option"
  sde_Code :: "string option"
  sde_Message :: "string option"

record deleteObjectsOutput =
  dso_Deleted :: "sdk_deleted list"
  dso_Errors :: "sdk_delete_error list"

record copyObjectInput =
  coi_Bucket :: string
  coi_Key :: string
  coi_CopySource :: string
  coi_MetadataDirective :: string
  coi_ContentType :: "string option"
  coi_StorageClass :: string
  coi_ChecksumAlgorithm :: string
  coi_TaggingDirective :: string
  coi_Tagging :: "string option"
  coi_Lock :: lock_params
  coi_Metadata :: "(string \<times> string) list"
  coi_SourceConditions :: conditions
  coi_SSE :: string
  coi_SSEKMSKeyId :: "string option"

record sdk_copy_result =
  scr_ETag :: "string option"
  scr_LastModified :: "int option"
  scr_ChecksumType :: string
  scr_Checksums :: sdk_checksums

record copyObjectOutput =
  coo_SSE :: string
  coo_SSEKMSKeyId :: "string option"
  coo_VersionId :: "string option"
  coo_CopySourceVersionId :: "string option"
  coo_Result :: "sdk_copy_result option"

section \<open>Attributes, tags and object lock\<close>

text \<open>A request for an object or one of its versions.\<close>

record versionInput =
  vin_Bucket :: string
  vin_Key :: string
  vin_VersionId :: "string option"

record getObjectAttributesInput =
  gai_Bucket :: string
  gai_Key :: string
  gai_ObjectAttributes :: "string list"
  gai_VersionId :: "string option"
  gai_MaxParts :: "int option"
  gai_PartNumberMarker :: "string option"

record sdk_object_part =
  sop_PartNumber :: "int option"
  sop_Size :: "int option"
  sop_Checksums :: sdk_checksums

record sdk_object_parts =
  sps_IsTruncated :: "bool option"
  sps_MaxParts :: "int option"
  sps_NextPartNumberMarker :: "string option"
  sps_PartNumberMarker :: "string option"
  sps_TotalPartsCount :: "int option"
  sps_Parts :: "sdk_object_part list"

text \<open>The checksum member of object attributes is its values and its type.\<close>

record getObjectAttributesOutput =
  gao_StorageClass :: string
  gao_ETag :: "string option"
  gao_VersionId :: "string option"
  gao_LastModified :: "int option"
  gao_DeleteMarker :: "bool option"
  gao_ObjectSize :: "int option"
  gao_Checksum :: "(sdk_checksums \<times> string) option"
  gao_ObjectParts :: "sdk_object_parts option"

text \<open>A tag is its key and value.\<close>

record getObjectTaggingOutput =
  gto_VersionId :: "string option"
  gto_TagSet :: "(string option \<times> string option) list"

record putObjectTaggingInput =
  pti_Target :: versionInput
  pti_TagSet :: "(string \<times> string) list"

record sdk_default_retention =
  sdr_Mode :: string
  sdr_Days :: "int option"
  sdr_Years :: "int option"

text \<open>An object lock configuration: whether it is enabled and the default retention of its rule, if it has one.\<close>

type_synonym sdk_lock_configuration = "(string \<times> sdk_default_retention option option) option"

record putObjectRetentionInput =
  pri_Target :: versionInput
  pri_Mode :: string
  pri_RetainUntilDate :: "int option"
  pri_BypassGovernanceRetention :: "bool option"

record putObjectLegalHoldInput =
  phi_Target :: versionInput
  phi_Status :: string

section \<open>Listings\<close>

record sdk_object =
  sob_Key :: "string option"
  sob_LastModified :: "int option"
  sob_ETag :: "string option"
  sob_Size :: "int option"
  sob_StorageClass :: string
  sob_ChecksumAlgorithm :: "string list"
  sob_ChecksumType :: string

record listObjectsV2Input =
  l2i_Bucket :: string
  l2i_Prefix :: "string option"
  l2i_Delimiter :: "string option"
  l2i_MaxKeys :: "int option"
  l2i_ContinuationToken :: "string option"
  l2i_StartAfter :: "string option"
  l2i_FetchOwner :: "bool option"
  l2i_EncodingType :: string

text \<open>A common prefix of a listing is its \<open>Prefix\<close> member.\<close>

record listObjectsV2Output =
  l2o_Prefix :: "string option"
  l2o_Delimiter :: "string option"
  l2o_StartAfter :: "string option"
  l2o_NextContinuationToken :: "string option"
  l2o_KeyCount :: "int option"
  l2o_MaxKeys :: "int option"
  l2o_EncodingType :: string
  l2o_IsTruncated :: "bool option"
  l2o_Contents :: "sdk_object list"
  l2o_CommonPrefixes :: "string option list"

record listObjectsInput =
  l1i_Bucket :: string
  l1i_Prefix :: "string option"
  l1i_Delimiter :: "string option"
  l1i_Marker :: "string option"
  l1i_MaxKeys :: "int option"
  l1i_EncodingType :: string

record listObjectsOutput =
  l1o_Prefix :: "string option"
  l1o_Delimiter :: "string option"
  l1o_Marker :: "string option"
  l1o_NextMarker :: "string option"
  l1o_MaxKeys :: "int option"
  l1o_EncodingType :: string
  l1o_IsTruncated :: "bool option"
  l1o_Contents :: "sdk_object list"
  l1o_CommonPrefixes :: "string option list"

record listObjectVersionsInput =
  lvi_Bucket :: string
  lvi_Prefix :: "string option"
  lvi_Delimiter :: "string option"
  lvi_KeyMarker :: "string option"
  lvi_VersionIdMarker :: "string option"
  lvi_MaxKeys :: "int option"
  lvi_EncodingType :: string

record sdk_version =
  svr_Key :: "string option"
  svr_VersionId :: "string option"
  svr_IsLatest :: "bool option"
  svr_LastModified :: "int option"
  svr_ETag :: "string option"
  svr_Size :: "int option"
  svr_StorageClass :: string
  svr_ChecksumAlgorithm :: "string list"
  svr_ChecksumType :: string

record sdk_delete_marker =
  sdm_Key :: "string option"
  sdm_VersionId :: "string option"
  sdm_IsLatest :: "bool option"
  sdm_LastModified :: "int option"

record listObjectVersionsOutput =
  lvo_Prefix :: "string option"
  lvo_Delimiter :: "string option"
  lvo_KeyMarker :: "string option"
  lvo_VersionIdMarker :: "string option"
  lvo_NextKeyMarker :: "string option"
  lvo_NextVersionIdMarker :: "string option"
  lvo_MaxKeys :: "int option"
  lvo_EncodingType :: string
  lvo_IsTruncated :: "bool option"
  lvo_Versions :: "sdk_version list"
  lvo_DeleteMarkers :: "sdk_delete_marker list"
  lvo_CommonPrefixes :: "string option list"

section \<open>Multipart uploads\<close>

record createMultipartUploadInput =
  cmi_Bucket :: string
  cmi_Key :: string
  cmi_ContentType :: "string option"
  cmi_CacheControl :: "string option"
  cmi_ContentDisposition :: "string option"
  cmi_ContentEncoding :: "string option"
  cmi_ContentLanguage :: "string option"
  cmi_Expires :: "int option"
  cmi_StorageClass :: string
  cmi_Tagging :: "string option"
  cmi_Lock :: lock_params
  cmi_Metadata :: "(string \<times> string) list"
  cmi_ChecksumAlgorithm :: string
  cmi_ChecksumType :: string
  cmi_SSE :: string
  cmi_SSEKMSKeyId :: "string option"

record createMultipartUploadOutput =
  cmo_UploadId :: "string option"
  cmo_SSE :: string
  cmo_SSEKMSKeyId :: "string option"
  cmo_ChecksumAlgorithm :: string
  cmo_ChecksumType :: string

record uploadPartInput =
  upi_Bucket :: string
  upi_Key :: string
  upi_UploadId :: string
  upi_PartNumber :: int
  upi_Body :: body_reader
  upi_ContentLength :: int
  upi_ContentMD5 :: "string option"
  upi_Checksums :: sdk_checksums
  upi_ChecksumAlgorithm :: string

record uploadPartOutput =
  upo_ETag :: "string option"
  upo_SSE :: string
  upo_SSEKMSKeyId :: "string option"
  upo_Checksums :: sdk_checksums

record uploadPartCopyInput =
  uci_Bucket :: string
  uci_Key :: string
  uci_UploadId :: string
  uci_PartNumber :: int
  uci_CopySource :: string
  uci_CopySourceRange :: "string option"

record uploadPartCopyOutput =
  uco_CopySourceVersionId :: "string option"
  uco_SSE :: string
  uco_SSEKMSKeyId :: "string option"
  uco_Result :: "sdk_copy_result option"

record completedPart =
  cdp_PartNumber :: int
  cdp_ETag :: string
  cdp_Checksums :: sdk_checksums

record completeMultipartUploadInput =
  cpi_Bucket :: string
  cpi_Key :: string
  cpi_UploadId :: string
  cpi_Parts :: "completedPart list"
  cpi_IfMatch :: "string option"
  cpi_IfNoneMatch :: "string option"
  cpi_ChecksumType :: string
  cpi_Checksums :: sdk_checksums
  cpi_MpuObjectSize :: "int option"

record completeMultipartUploadOutput =
  cpo_ETag :: "string option"
  cpo_VersionId :: "string option"
  cpo_SSE :: string
  cpo_SSEKMSKeyId :: "string option"
  cpo_Checksums :: sdk_checksums
  cpo_ChecksumType :: string

record abortMultipartUploadInput =
  ami_Bucket :: string
  ami_Key :: string
  ami_UploadId :: string

record listPartsInput =
  lpi_Bucket :: string
  lpi_Key :: string
  lpi_UploadId :: string
  lpi_MaxParts :: "int option"
  lpi_PartNumberMarker :: "string option"

record sdk_part =
  spt_PartNumber :: "int option"
  spt_ETag :: "string option"
  spt_Size :: "int option"
  spt_LastModified :: "int option"
  spt_Checksums :: sdk_checksums

record listPartsOutput =
  lpo_StorageClass :: string
  lpo_PartNumberMarker :: "string option"
  lpo_NextPartNumberMarker :: "string option"
  lpo_MaxParts :: "int option"
  lpo_IsTruncated :: "bool option"
  lpo_ChecksumAlgorithm :: string
  lpo_ChecksumType :: string
  lpo_Parts :: "sdk_part list"

record listMultipartUploadsInput =
  lui_Bucket :: string
  lui_Prefix :: "string option"
  lui_Delimiter :: "string option"
  lui_KeyMarker :: "string option"
  lui_UploadIdMarker :: "string option"
  lui_MaxUploads :: "int option"
  lui_EncodingType :: string

record sdk_upload =
  sup_Key :: "string option"
  sup_UploadId :: "string option"
  sup_StorageClass :: string
  sup_Initiated :: "int option"
  sup_ChecksumAlgorithm :: string
  sup_ChecksumType :: string

record listMultipartUploadsOutput =
  luo_KeyMarker :: "string option"
  luo_UploadIdMarker :: "string option"
  luo_NextKeyMarker :: "string option"
  luo_NextUploadIdMarker :: "string option"
  luo_Delimiter :: "string option"
  luo_Prefix :: "string option"
  luo_MaxUploads :: "int option"
  luo_IsTruncated :: "bool option"
  luo_Uploads :: "sdk_upload list"
  luo_CommonPrefixes :: "string option list"

section \<open>Bucket encryption\<close>

text \<open>The default encryption of a rule is its algorithm and key id.\<close>

record sdk_sse_rule =
  sse_Default :: "(string \<times> string option) option"
  sse_BucketKeyEnabled :: "bool option"

section \<open>The client\<close>

type_synonym ('w, 'i, 'o) call = "'i \<Rightarrow> 'w \<Rightarrow> (go_error + 'o) \<times> 'w"

text \<open>Requests for a bucket as a whole name the bucket only.\<close>

record 'w backendClient =
  bc_GetObject :: "('w, getObjectInput, getObjectOutput) call"
  bc_GetObjectAttributes :: "('w, getObjectAttributesInput, getObjectAttributesOutput) call"
  bc_PutObject :: "('w, putObjectInput, putObjectOutput) call"
  bc_HeadObject :: "('w, headObjectInput, headObjectOutput) call"
  bc_DeleteObject :: "('w, deleteObjectInput, deleteObjectOutput) call"
  bc_ListObjectsV2 :: "('w, listObjectsV2Input, listObjectsV2Output) call"
  bc_HeadBucket :: "('w, string, unit) call"
  bc_CreateMultipartUpload :: "('w, createMultipartUploadInput, createMultipartUploadOutput) call"
  bc_UploadPart :: "('w, uploadPartInput, uploadPartOutput) call"
  bc_CompleteMultipartUpload :: "('w, completeMultipartUploadInput, completeMultipartUploadOutput) call"
  bc_AbortMultipartUpload :: "('w, abortMultipartUploadInput, unit) call"
  bc_ListParts :: "('w, listPartsInput, listPartsOutput) call"
  bc_ListMultipartUploads :: "('w, listMultipartUploadsInput, listMultipartUploadsOutput) call"
  bc_ListObjects :: "('w, listObjectsInput, listObjectsOutput) call"
  bc_DeleteObjects :: "('w, deleteObjectsInput, deleteObjectsOutput) call"
  bc_CopyObject :: "('w, copyObjectInput, copyObjectOutput) call"
  bc_UploadPartCopy :: "('w, uploadPartCopyInput, uploadPartCopyOutput) call"
  bc_GetBucketVersioning :: "('w, string, string) call"
  bc_GetBucketEncryption :: "('w, string, sdk_sse_rule list option) call"
  bc_ListObjectVersions :: "('w, listObjectVersionsInput, listObjectVersionsOutput) call"
  bc_GetObjectTagging :: "('w, versionInput, getObjectTaggingOutput) call"
  bc_PutObjectTagging :: "('w, putObjectTaggingInput, string option) call"
  bc_DeleteObjectTagging :: "('w, versionInput, string option) call"
  bc_GetObjectLockConfiguration :: "('w, string, sdk_lock_configuration) call"
  bc_GetObjectRetention :: "('w, versionInput, (string \<times> int option) option) call"
  bc_PutObjectRetention :: "('w, putObjectRetentionInput, unit) call"
  bc_GetObjectLegalHold :: "('w, versionInput, string option) call"
  bc_PutObjectLegalHold :: "('w, putObjectLegalHoldInput, unit) call"

end
