(* ===== verification/Routes.thy ===== *)
theory Routes
  imports Intercept S3op
begin

text \<open>
  The route tables of \<open>src/s3gw/handler.go\<close>: one entry per operation with its query discriminator and its
  accepted parameters, bound to the operation catalogue for the actions it authorizes.
\<close>

section \<open>Routes\<close>

text \<open>The handlers the tables name.\<close>

datatype handler =
    H_listMultipartUploads | H_getBucketLocation | H_getBucketACL | H_getBucketPolicy | H_getBucketCors
  | H_getObjectLockConfiguration | H_getBucketVersioning | H_getBucketEncryption | H_getBucketPolicyStatus
  | H_getBucketOwnershipControls | H_getPublicAccessBlock | H_listObjectVersions | H_listObjectsV2
  | H_listObjectsV1 | H_headBucket | H_rejectACL | H_deleteObjects | H_listParts | H_getObjectTagging
  | H_getObjectACL | H_getObjectRetention | H_getObjectLegalHold | H_getObjectAttributes | H_getObject
  | H_headObject | H_putObjectTagging | H_putObjectRetention | H_putObjectLegalHold | H_uploadPartOrCopy
  | H_putObjectOrCopy | H_abortMultipartUpload | H_deleteObjectTagging | H_deleteObject
  | H_createMultipartUpload | H_completeMultipartUpload
  | H_notImplemented string

type_synonym header_action = "(signed_header \<Rightarrow> bool) \<times> string"

record route =
  rt_match :: "(url_values \<Rightarrow> bool) option"
  rt_params :: "string list option"
  rt_aclHdr :: bool
  rt_attrs :: bool
  rt_name :: string
  rt_copy :: string
  rt_handle :: handler
  rt_action :: string
  rt_versionAction :: string
  rt_hdrActions :: "header_action list"
  rt_copyAction :: string
  rt_copyVersionAction :: string

definition signedPresent :: "string \<Rightarrow> signed_header \<Rightarrow> bool" where
  "signedPresent name h \<longleftrightarrow> sh_Signed h name \<noteq> []"

definition headerPresence :: "string \<Rightarrow> (signed_header \<Rightarrow> bool) option" where
  "headerPresence = map_of [
    (hdrTagging, signedPresent hdrTagging),
    (hdrObjectLockMode, signedPresent hdrObjectLockMode),
    (hdrObjectLockRetainUntil, signedPresent hdrObjectLockRetainUntil),
    (hdrObjectLockLegalHold, signedPresent hdrObjectLockLegalHold),
    (hdrBypassGovernanceRetention, bypassGovernanceRetention)]"

definition onTarget :: "operation \<Rightarrow> authorization list" where
  "onTarget oper = filter (\<lambda>a. au_On a = OnTarget) (o_Authorizations oper)"

text \<open>The loop of \<open>targetAuthorizations\<close>; \<open>None\<close> is its panic.\<close>

fun target_loop ::
  "authorization list \<Rightarrow> string \<Rightarrow> string \<Rightarrow> header_action list \<Rightarrow>
    (string \<times> string \<times> header_action list) option" where
  "target_loop [] action versionAction hdr = Some (action, versionAction, hdr)"
| "target_loop (a # as) action versionAction hdr =
    (if au_Header a = [] then
       (if action \<noteq> [] then None else target_loop as (au_Action a) (au_VersionAction a) hdr)
     else
       (case headerPresence (au_Header a) of
          None \<Rightarrow> None
        | Some present \<Rightarrow> target_loop as action versionAction (hdr @ [(present, au_Action a)])))"

definition targetAuthorizations :: "operation \<Rightarrow> (string \<times> string \<times> header_action list) option" where
  "targetAuthorizations oper = target_loop (onTarget oper) [] [] []"

definition bind_copy :: "operation \<Rightarrow> route \<Rightarrow> route option" where
  "bind_copy oper rt =
    (if rt_copy rt = [] then Some rt
     else
       (case s3op_Lookup (rt_copy rt) of
          None \<Rightarrow> None
        | Some cp \<Rightarrow>
            (let src = filter (\<lambda>a. au_On a = OnCopySource) (o_Authorizations cp) in
             if onTarget cp \<noteq> onTarget oper \<or> length src \<noteq> 1 \<or> au_Header (hd src) \<noteq> [] \<or>
                length (onTarget cp) + 1 \<noteq> length (o_Authorizations cp)
             then None
             else Some (rt\<lparr> rt_copyAction := au_Action (hd src),
                            rt_copyVersionAction := au_VersionAction (hd src) \<rparr>))))"

definition bind_route :: "route \<Rightarrow> route option" where
  "bind_route rt =
    (if rt_name rt = OpUnknown then Some rt
     else
       (case s3op_Lookup (rt_name rt) of
          None \<Rightarrow> None
        | Some oper \<Rightarrow>
            (case targetAuthorizations oper of
               None \<Rightarrow> None
             | Some (action, versionAction, hdr) \<Rightarrow>
                 bind_copy oper (rt\<lparr> rt_action := action, rt_versionAction := versionAction,
                   rt_hdrActions := hdr \<rparr>))))"

definition versioned :: "string \<Rightarrow> string \<Rightarrow> bool \<Rightarrow> string" where
  "versioned action versionAction version =
    (if version \<and> versionAction \<noteq> [] then versionAction else action)"

section \<open>Query parameters\<close>

text \<open>The check walks a Go map; the model walks the parameters in the order of the query.\<close>

definition paramSet_check :: "string list \<Rightarrow> url_values \<Rightarrow> s3error + unit" where
  "paramSet_check p query =
    for_each (\<lambda>(k, vs).
      if k = ''x-id'' \<or> has_prefix (to_lower k) ''x-amz-'' \<or> k \<in> set p then Inr ()
      else Inl (NotImplemented (''query parameter '' @ k))) query"

definition q_has :: "string \<Rightarrow> url_values \<Rightarrow> bool" where
  "q_has k q = values_has q k"

abbreviation (input) subACL :: string where "subACL \<equiv> ''acl''"
abbreviation (input) subCORS :: string where "subCORS \<equiv> ''cors''"
abbreviation (input) subDelete :: string where "subDelete \<equiv> ''delete''"
abbreviation (input) subEncryption :: string where "subEncryption \<equiv> ''encryption''"
abbreviation (input) subLegalHold :: string where "subLegalHold \<equiv> ''legal-hold''"
abbreviation (input) subLocation :: string where "subLocation \<equiv> ''location''"
abbreviation (input) subObjectLock :: string where "subObjectLock \<equiv> ''object-lock''"
abbreviation (input) subOwnership :: string where "subOwnership \<equiv> ''ownershipControls''"
abbreviation (input) subPolicy :: string where "subPolicy \<equiv> ''policy''"
abbreviation (input) subPolicyStatus :: string where "subPolicyStatus \<equiv> ''policyStatus''"
abbreviation (input) subPublicAccess :: string where "subPublicAccess \<equiv> ''publicAccessBlock''"
abbreviation (input) subAttributes :: string where "subAttributes \<equiv> ''attributes''"
abbreviation (input) subRetention :: string where "subRetention \<equiv> ''retention''"
abbreviation (input) subTagging :: string where "subTagging \<equiv> ''tagging''"
abbreviation (input) subUploads :: string where "subUploads \<equiv> ''uploads''"
abbreviation (input) subVersioning :: string where "subVersioning \<equiv> ''versioning''"
abbreviation (input) subVersions :: string where "subVersions \<equiv> ''versions''"
abbreviation (input) qpUploadID :: string where "qpUploadID \<equiv> ''uploadId''"
abbreviation (input) qpPartNumber :: string where "qpPartNumber \<equiv> ''partNumber''"
abbreviation (input) qpListType :: string where "qpListType \<equiv> ''list-type''"
abbreviation (input) qpVersionID :: string where "qpVersionID \<equiv> ''versionId''"

definition hasListTypeV2 :: "url_values \<Rightarrow> bool" where
  "hasListTypeV2 q \<longleftrightarrow> values_get q qpListType = ''2''"

definition hasUploadPart :: "url_values \<Rightarrow> bool" where
  "hasUploadPart q \<longleftrightarrow> values_has q qpUploadID \<or> values_has q qpPartNumber"

definition noQuery :: "url_values \<Rightarrow> bool" where
  "noQuery q \<longleftrightarrow> q = []"

definition listMultipartUploadsParams :: "string list" where
  "listMultipartUploadsParams =
    [subUploads, ''prefix'', ''delimiter'', ''key-marker'', ''upload-id-marker'', ''max-uploads'', ''encoding-type'']"
definition listObjectVersionsParams :: "string list" where
  "listObjectVersionsParams =
    [subVersions, ''prefix'', ''delimiter'', ''key-marker'', ''version-id-marker'', ''max-keys'', ''encoding-type'']"
definition listObjectsV2Params :: "string list" where
  "listObjectsV2Params =
    [qpListType, ''prefix'', ''delimiter'', ''max-keys'', ''continuation-token'', ''start-after'', ''fetch-owner'',
     ''encoding-type'']"
definition listObjectsV1Params :: "string list" where
  "listObjectsV1Params = [''prefix'', ''delimiter'', ''marker'', ''max-keys'', ''encoding-type'']"
definition getObjectParams :: "string list" where
  "getObjectParams =
    [qpVersionID, qpPartNumber, ''response-content-type'', ''response-content-disposition'', ''response-cache-control'',
     ''response-content-encoding'', ''response-content-language'', ''response-expires'']"
definition listPartsParams :: "string list" where
  "listPartsParams = [qpUploadID, ''max-parts'', ''part-number-marker'']"
definition listBucketsParams :: "string list" where
  "listBucketsParams = [''max-buckets'', ''continuation-token'']"

section \<open>The tables\<close>

definition operation_route ::
  "(url_values \<Rightarrow> bool) option \<Rightarrow> string list option \<Rightarrow> string \<Rightarrow> handler \<Rightarrow> route" where
  "operation_route mt ps name h =
    \<lparr> rt_match = mt, rt_params = ps, rt_aclHdr = False, rt_attrs = False, rt_name = name, rt_copy = [],
       rt_handle = h, rt_action = [], rt_versionAction = [], rt_hdrActions = [], rt_copyAction = [],
       rt_copyVersionAction = [] \<rparr>"

definition notImplemented :: "(url_values \<Rightarrow> bool) option \<Rightarrow> string \<Rightarrow> route" where
  "notImplemented mt name = operation_route mt None name (H_notImplemented name)"

definition unknownOperation :: "string \<Rightarrow> route" where
  "unknownOperation what = operation_route None None OpUnknown (H_notImplemented what)"

definition bucketRoutes_unbound :: "(string \<times> route list) list" where
  "bucketRoutes_unbound = [
     (''GET'', [
      operation_route (Some (q_has subUploads)) (Some listMultipartUploadsParams) OpListMultipartUploads H_listMultipartUploads,
      operation_route (Some (q_has subLocation)) (Some [subLocation]) OpGetBucketLocation H_getBucketLocation,
      operation_route (Some (q_has subACL)) (Some [subACL]) OpGetBucketAcl H_getBucketACL,
      operation_route (Some (q_has subPolicy)) (Some [subPolicy]) OpGetBucketPolicy H_getBucketPolicy,
      operation_route (Some (q_has subCORS)) (Some [subCORS]) OpGetBucketCors H_getBucketCors,
      operation_route (Some (q_has subObjectLock)) (Some [subObjectLock]) OpGetObjectLockConfiguration H_getObjectLockConfiguration,
      operation_route (Some (q_has subVersioning)) (Some [subVersioning]) OpGetBucketVersioning H_getBucketVersioning,
      operation_route (Some (q_has subEncryption)) (Some [subEncryption]) OpGetBucketEncryption H_getBucketEncryption,
      operation_route (Some (q_has subPolicyStatus)) (Some [subPolicyStatus]) OpGetBucketPolicyStatus H_getBucketPolicyStatus,
      operation_route (Some (q_has subOwnership)) (Some [subOwnership]) OpGetBucketOwnershipControls H_getBucketOwnershipControls,
      operation_route (Some (q_has subPublicAccess)) (Some [subPublicAccess]) OpGetPublicAccessBlock H_getPublicAccessBlock,
      operation_route (Some (q_has subVersions)) (Some listObjectVersionsParams) OpListObjectVersions H_listObjectVersions,
      operation_route (Some hasListTypeV2) (Some listObjectsV2Params) OpListObjectsV2 H_listObjectsV2,
      operation_route None (Some listObjectsV1Params) OpListObjects H_listObjectsV1]),
     (''HEAD'', [
      operation_route None None OpHeadBucket H_headBucket]),
     (''PUT'', [
      operation_route (Some (q_has subACL)) None OpPutBucketAcl H_rejectACL,
      notImplemented (Some (q_has subVersioning)) OpPutBucketVersioning,
      notImplemented (Some (q_has subObjectLock)) OpPutObjectLockConfiguration,
      notImplemented (Some (q_has subPolicy)) OpPutBucketPolicy,
      notImplemented (Some (q_has subCORS)) OpPutBucketCors,
      notImplemented (Some (q_has subEncryption)) OpPutBucketEncryption,
      notImplemented (Some (q_has subOwnership)) OpPutBucketOwnershipControls,
      notImplemented (Some (q_has subPublicAccess)) OpPutPublicAccessBlock,
      notImplemented (Some noQuery) OpCreateBucket,
      unknownOperation ''this bucket operation'']),
     (''DELETE'', [
      notImplemented (Some (q_has subPolicy)) OpDeleteBucketPolicy,
      notImplemented (Some (q_has subCORS)) OpDeleteBucketCors,
      notImplemented (Some (q_has subEncryption)) OpDeleteBucketEncryption,
      notImplemented (Some (q_has subOwnership)) OpDeleteBucketOwnershipControls,
      notImplemented (Some (q_has subPublicAccess)) OpDeletePublicAccessBlock,
      notImplemented (Some noQuery) OpDeleteBucket,
      unknownOperation ''this bucket operation'']),
     (''POST'', [
      operation_route (Some (q_has subDelete)) (Some [subDelete]) OpDeleteObjects H_deleteObjects,
      unknownOperation ''this bucket operation''])]"

definition objectRoutes_unbound :: "(string \<times> route list) list" where
  "objectRoutes_unbound = [
     (''GET'', [
      operation_route (Some (q_has qpUploadID)) (Some listPartsParams) OpListParts H_listParts,
      operation_route (Some (q_has subTagging)) (Some [subTagging, qpVersionID]) OpGetObjectTagging H_getObjectTagging,
      operation_route (Some (q_has subACL)) (Some [subACL, qpVersionID]) OpGetObjectAcl H_getObjectACL,
      operation_route (Some (q_has subRetention)) (Some [subRetention, qpVersionID]) OpGetObjectRetention H_getObjectRetention,
      operation_route (Some (q_has subLegalHold)) (Some [subLegalHold, qpVersionID]) OpGetObjectLegalHold H_getObjectLegalHold,
      operation_route (Some (q_has subAttributes)) (Some [subAttributes, qpVersionID]) OpGetObjectAttributes H_getObjectAttributes,
      operation_route None (Some getObjectParams) OpGetObject H_getObject]),
     (''HEAD'', [
      operation_route None (Some [qpVersionID, qpPartNumber]) OpHeadObject H_headObject]),
     (''PUT'', [
      operation_route (Some (q_has subTagging)) (Some [subTagging, qpVersionID]) OpPutObjectTagging H_putObjectTagging,
      operation_route (Some (q_has subACL)) None OpPutObjectAcl H_rejectACL,
      operation_route (Some (q_has subRetention)) (Some [subRetention, qpVersionID]) OpPutObjectRetention H_putObjectRetention,
      operation_route (Some (q_has subLegalHold)) (Some [subLegalHold, qpVersionID]) OpPutObjectLegalHold H_putObjectLegalHold,
      (operation_route (Some hasUploadPart) (Some [qpUploadID, qpPartNumber]) OpUploadPart H_uploadPartOrCopy)\<lparr> rt_copy := OpUploadPartCopy \<rparr>,
      (operation_route None (Some []) OpPutObject H_putObjectOrCopy)\<lparr> rt_aclHdr := True, rt_attrs := True, rt_copy := OpCopyObject \<rparr>]),
     (''DELETE'', [
      operation_route (Some (q_has qpUploadID)) (Some [qpUploadID]) OpAbortMultipartUpload H_abortMultipartUpload,
      operation_route (Some (q_has subTagging)) (Some [subTagging, qpVersionID]) OpDeleteObjectTagging H_deleteObjectTagging,
      operation_route None (Some [qpVersionID]) OpDeleteObject H_deleteObject]),
     (''POST'', [
      (operation_route (Some (q_has subUploads)) (Some [subUploads]) OpCreateMultipartUpload H_createMultipartUpload)\<lparr> rt_aclHdr := True, rt_attrs := True \<rparr>,
      operation_route (Some (q_has qpUploadID)) (Some [qpUploadID]) OpCompleteMultipartUpload H_completeMultipartUpload,
      unknownOperation ''this operation''])]"

text \<open>\<open>bindRoutes\<close> at package initialization; \<open>None\<close> is its panic.\<close>

definition bindRoutes :: "(string \<times> route list) list \<Rightarrow> (string \<times> route list) list option" where
  "bindRoutes routes =
    those (map (\<lambda>(m, rs). map_option (Pair m) (those (map bind_route rs))) routes)"

definition bucketRoutes :: "(string \<times> route list) list" where
  "bucketRoutes = the (bindRoutes bucketRoutes_unbound)"

definition objectRoutes :: "(string \<times> route list) list" where
  "objectRoutes = the (bindRoutes objectRoutes_unbound)"

lemma bindRoutes_bucket: "bindRoutes bucketRoutes_unbound \<noteq> None"
  by code_simp

lemma bindRoutes_object: "bindRoutes objectRoutes_unbound \<noteq> None"
  by code_simp

section \<open>What the tables guarantee\<close>

lemma those_member: "those (map f xs) = Some ys \<Longrightarrow> y \<in> set ys \<Longrightarrow> \<exists>x\<in>set xs. f x = Some y"
  by (induction xs arbitrary: ys) (auto split: option.splits)

lemma bindRoutes_bound:
  assumes "bindRoutes tab = Some tab'" "(m, rts) \<in> set tab'" "rt \<in> set rts"
  shows "\<exists>m rs rt0. (m, rs) \<in> set tab \<and> rt0 \<in> set rs \<and> bind_route rt0 = Some rt"
proof -
  obtain x where x: "x \<in> set tab" "(\<lambda>(m, rs). map_option (Pair m) (those (map bind_route rs))) x = Some (m, rts)"
    using those_member [OF assms(1) [unfolded bindRoutes_def] assms(2)] by auto
  then obtain n rs where "(n, rs) \<in> set tab" "those (map bind_route rs) = Some rts"
    by (auto split: prod.splits)
  then show ?thesis
    using those_member [of bind_route rs rts rt] assms(3) by auto
qed

text \<open>A route as the tables hold it: the result of binding.\<close>

definition bound_route :: "route \<Rightarrow> bool" where
  "bound_route rt \<longleftrightarrow> (\<exists>m rs rt0. (m, rs) \<in> set (bucketRoutes_unbound @ objectRoutes_unbound) \<and>
    rt0 \<in> set rs \<and> bind_route rt0 = Some rt)"

lemma tables_bound:
  assumes "(m, rts) \<in> set bucketRoutes \<union> set objectRoutes" "rt \<in> set rts"
  shows "bound_route rt"
proof -
  have "bindRoutes bucketRoutes_unbound = Some bucketRoutes" "bindRoutes objectRoutes_unbound = Some objectRoutes"
    using bindRoutes_bucket bindRoutes_object by (auto simp: bucketRoutes_def objectRoutes_def)
  then show ?thesis
    using assms bindRoutes_bound [of _ bucketRoutes m rts rt] bindRoutes_bound [of _ objectRoutes m rts rt]
    unfolding bound_route_def by (metis Un_iff set_append)
qed

text \<open>When an authorization of the catalogue applies to a request, and the action it then needs.\<close>

definition applies :: "signed_header \<Rightarrow> authorization \<Rightarrow> bool" where
  "applies hdr a \<longleftrightarrow>
    au_Header a = [] \<or> (case headerPresence (au_Header a) of Some present \<Rightarrow> present hdr | None \<Rightarrow> False)"

definition needed_action :: "bool \<Rightarrow> authorization \<Rightarrow> string" where
  "needed_action version a =
    (if au_Header a = [] then versioned (au_Action a) (au_VersionAction a) version else au_Action a)"

lemma target_loop_spec:
  assumes "target_loop as act va has = Some (act', va', has')" "list_all (\<lambda>a. au_Action a \<noteq> []) as"
  shows "set has \<subseteq> set has'"
    and "act \<noteq> [] \<Longrightarrow> act' = act \<and> va' = va"
    and "\<forall>a\<in>set as. au_Header a = [] \<longrightarrow> act' = au_Action a \<and> va' = au_VersionAction a"
    and "\<forall>a\<in>set as. au_Header a \<noteq> [] \<longrightarrow>
      (\<exists>present. headerPresence (au_Header a) = Some present \<and> (present, au_Action a) \<in> set has')"
proof -
  have "set has \<subseteq> set has' \<and> (act \<noteq> [] \<longrightarrow> act' = act \<and> va' = va) \<and>
    (\<forall>a\<in>set as. au_Header a = [] \<longrightarrow> act' = au_Action a \<and> va' = au_VersionAction a) \<and>
    (\<forall>a\<in>set as. au_Header a \<noteq> [] \<longrightarrow>
      (\<exists>present. headerPresence (au_Header a) = Some present \<and> (present, au_Action a) \<in> set has'))"
    using assms
  proof (induction as act va has rule: target_loop.induct)
    case (2 a as action versionAction hdr)
    show ?case
    proof (cases "au_Header a = []")
      case True
      then have "action = []" "target_loop as (au_Action a) (au_VersionAction a) hdr = Some (act', va', has')"
        "list_all (\<lambda>a. au_Action a \<noteq> []) as" "au_Action a \<noteq> []"
        using "2.prems" by (simp_all split: if_splits)
      from "2.IH"(1) [OF True _ this(2,3)] this(1,4) show ?thesis
        using True by auto
    next
      case False
      then obtain present where present: "headerPresence (au_Header a) = Some present"
        using "2.prems" by (auto split: option.splits)
      then have "target_loop as action versionAction (hdr @ [(present, au_Action a)]) = Some (act', va', has')"
        "list_all (\<lambda>a. au_Action a \<noteq> []) as"
        using "2.prems" False by simp_all
      from "2.IH"(2) [OF False present this] show ?thesis
        using False present by simp
    qed
  qed simp
  then show "set has \<subseteq> set has'" "act \<noteq> [] \<Longrightarrow> act' = act \<and> va' = va"
    "\<forall>a\<in>set as. au_Header a = [] \<longrightarrow> act' = au_Action a \<and> va' = au_VersionAction a"
    "\<forall>a\<in>set as. au_Header a \<noteq> [] \<longrightarrow>
      (\<exists>present. headerPresence (au_Header a) = Some present \<and> (present, au_Action a) \<in> set has')"
    by blast+
qed

lemma catalog_action_nonempty: "list_all (\<lambda>oper. list_all (\<lambda>a. au_Action a \<noteq> []) (o_Authorizations oper)) operations"
  by code_simp

lemma Lookup_action_nonempty:
  "s3op_Lookup name = Some oper \<Longrightarrow> a \<in> set (o_Authorizations oper) \<Longrightarrow> au_Action a \<noteq> []"
  using catalog_action_nonempty by (auto simp: s3op_Lookup_def find_Some_iff list_all_iff)

text \<open>A route's own operation reads no copy source; only its copy variant does.\<close>

definition no_copy_source :: "string \<Rightarrow> bool" where
  "no_copy_source name \<longleftrightarrow>
    (case s3op_Lookup name of
       Some oper \<Rightarrow> list_all (\<lambda>a. au_On a \<noteq> OnCopySource) (o_Authorizations oper)
     | None \<Rightarrow> True)"

lemma copy_source_operations:
  "list_all (\<lambda>oper. list_ex (\<lambda>a. au_On a = OnCopySource) (o_Authorizations oper) \<longrightarrow>
    o_Name oper = OpCopyObject \<or> o_Name oper = OpUploadPartCopy) operations"
  by code_simp

lemma no_copy_source_other:
  assumes "name \<noteq> OpCopyObject" "name \<noteq> OpUploadPartCopy"
  shows "no_copy_source name"
  using assms copy_source_operations
  by (auto simp: no_copy_source_def s3op_Lookup_def find_Some_iff list_all_iff list_ex_iff split: option.splits)

lemma tables_no_copy_source:
  "list_all (\<lambda>(m, rs). list_all (\<lambda>rt. rt_name rt \<noteq> OpCopyObject \<and> rt_name rt \<noteq> OpUploadPartCopy) rs)
    (bucketRoutes_unbound @ objectRoutes_unbound)"
  by (simp add: bucketRoutes_unbound_def objectRoutes_unbound_def operation_route_def unknownOperation_def
      notImplemented_def OpUnknown_def)

lemma bind_route_name: "bind_route rt0 = Some rt \<Longrightarrow> rt_name rt = rt_name rt0"
  by (auto simp: bind_route_def bind_copy_def Let_def split: if_splits option.splits)

lemma bound_route_no_copy_source:
  assumes "bound_route rt"
  shows "no_copy_source (rt_name rt)"
proof -
  obtain m rs rt0 where rt0: "(m, rs) \<in> set (bucketRoutes_unbound @ objectRoutes_unbound)" "rt0 \<in> set rs"
      "bind_route rt0 = Some rt"
    using assms by (auto simp: bound_route_def)
  have "list_all (\<lambda>rt. rt_name rt \<noteq> OpCopyObject \<and> rt_name rt \<noteq> OpUploadPartCopy) rs"
    using tables_no_copy_source [unfolded list_all_iff, THEN bspec, OF rt0(1)] by (simp add: list_all_iff)
  then show ?thesis
    using rt0(2) by (simp add: list_all_iff bind_route_name [OF rt0(3)] no_copy_source_other)
qed

text \<open>Each table ends with a route that matches every query.\<close>

lemma tables_fallback:
  "list_all (\<lambda>(m, rs). rs \<noteq> [] \<and> rt_match (last rs) = None) (bucketRoutes_unbound @ objectRoutes_unbound)"
  by (simp add: bucketRoutes_unbound_def objectRoutes_unbound_def operation_route_def unknownOperation_def)

lemma tables_unknown_copy:
  "list_all (\<lambda>(m, rs). list_all (\<lambda>rt. rt_name rt = OpUnknown \<longrightarrow> rt_copy rt = []) rs)
    (bucketRoutes_unbound @ objectRoutes_unbound)"
  by (simp add: bucketRoutes_unbound_def objectRoutes_unbound_def operation_route_def unknownOperation_def
      notImplemented_def OpUnknown_def)

lemma bound_unknown_copy:
  assumes "bound_route rt" "rt_name rt = OpUnknown"
  shows "rt_copy rt = []"
proof -
  obtain m rs rt0 where rt0: "(m, rs) \<in> set (bucketRoutes_unbound @ objectRoutes_unbound)" "rt0 \<in> set rs"
      "bind_route rt0 = Some rt"
    using assms by (auto simp: bound_route_def)
  have "list_all (\<lambda>rt. rt_name rt = OpUnknown \<longrightarrow> rt_copy rt = []) rs"
    using tables_unknown_copy [unfolded list_all_iff, THEN bspec, OF rt0(1)] by (simp add: list_all_iff)
  then show ?thesis
    using rt0(2,3) assms(2) bind_route_name [OF rt0(3)] by (auto simp: list_all_iff bind_route_def)
qed

end
