(* ===== verification/Addressing.thy ===== *)
theory Addressing
  imports Authorize
begin

text \<open>
  Which bucket and key a request addresses: \<open>src/s3gw/addressing.go\<close> and the path functions of
  \<open>src/s3gw/handler.go\<close>, with the parts of \<open>net\<close>, \<open>net/url\<close> and \<open>net/http.ServeMux\<close> they use.
\<close>

section \<open>Standard library\<close>

text \<open>\<open>net.SplitHostPort\<close>, with \<open>None\<close> for any of its errors.\<close>

definition SplitHostPort :: "string \<Rightarrow> (string \<times> string) option" where
  "SplitHostPort hostport =
    (case str_cut (CHR '':'') (rev hostport) of
       (rport, rhost, True) \<Rightarrow>
         (let host0 = rev rhost; port = rev rport in
          if hostport \<noteq> [] \<and> hd hostport = CHR ''['' then
            (if host0 = [] \<or> last host0 \<noteq> CHR '']'' then None
             else
               (let host = butlast (tl host0) in
                if CHR '']'' \<in> set host \<or> CHR ''['' \<in> set host \<or> CHR ''['' \<in> set port \<or> CHR '']'' \<in> set port
                then None else Some (host, port)))
          else if CHR '':'' \<in> set host0 \<or> CHR ''['' \<in> set hostport \<or> CHR '']'' \<in> set hostport then None
          else Some (host0, port))
     | _ \<Rightarrow> None)"

text \<open>The escaping of \<open>URL.EscapedPath\<close> for a URL built from its decoded path.\<close>

definition path_safe :: "char \<Rightarrow> bool" where
  "path_safe c \<longleftrightarrow> unreserved c \<or> c \<in> set ''$&+,/:;=@''"

definition path_escape :: "string \<Rightarrow> string" where
  "path_escape s = concat (map (\<lambda>c. if path_safe c then [c] else percent_byte c) s)"

text \<open>\<open>url.PathUnescape\<close>.\<close>

definition EscapeError :: go_error where
  "EscapeError = Errorf (lit ''invalid URL escape'') []"

definition PathUnescape :: "string \<Rightarrow> go_error + string" where
  "PathUnescape s = (case unescape False s of Some t \<Rightarrow> Inr t | None \<Rightarrow> Inl EscapeError)"

section \<open>Paths\<close>

definition unescapeKey :: "string \<Rightarrow> go_error + string" where
  "unescapeKey rawKey =
    and_then (map_res PathUnescape (str_split (CHR ''/'') rawKey)) (\<lambda>segments. Inr (str_join ''/'' segments))"

definition splitPath :: "string \<Rightarrow> go_error + string \<times> string" where
  "splitPath escapedPath =
    (let p = trim_prefix escapedPath ''/'';
         (rawBucket, rawKey, _) = str_cut (CHR ''/'') p
     in and_then (PathUnescape rawBucket) (\<lambda>bucket.
        and_then (unescapeKey rawKey) (\<lambda>key. Inr (bucket, key))))"

section \<open>Targets\<close>

record target =
  t_bucket :: string
  t_key :: string
  t_vhost :: bool

definition SetVirtualHostSuffix :: "string \<Rightarrow> string" where
  "SetVirtualHostSuffix suffix0 =
    (let s1 = (case SplitHostPort suffix0 of Some (h, _) \<Rightarrow> h | None \<Rightarrow> suffix0);
         s2 = to_lower (case cut_suffix s1 ''.'' of Some s \<Rightarrow> s | None \<Rightarrow> s1)
     in if s2 \<noteq> [] \<and> \<not> has_prefix s2 ''.'' then ''.'' @ s2 else s2)"

definition virtualHostBucket :: "string \<Rightarrow> string \<Rightarrow> string option" where
  "virtualHostBucket vhostSuffix hostport =
    (if vhostSuffix = [] then None
     else
       (let host = to_lower (case SplitHostPort hostport of Some (h, _) \<Rightarrow> h | None \<Rightarrow> hostport) in
        case cut_suffix host vhostSuffix of
          None \<Rightarrow> None
        | Some label \<Rightarrow> if label = [] \<or> CHR ''.'' \<in> set label then None else Some label))"

definition requestTarget :: "string \<Rightarrow> http_request \<Rightarrow> go_error + target" where
  "requestTarget vhostSuffix r =
    (case virtualHostBucket vhostSuffix (r_Host r) of
       Some bucket \<Rightarrow>
         and_then (unescapeKey (trim_prefix (r_EscapedPath r) ''/'')) (\<lambda>key.
           Inr \<lparr> t_bucket = bucket, t_key = key, t_vhost = True \<rparr>)
     | None \<Rightarrow>
         and_then (splitPath (r_EscapedPath r)) (\<lambda>(bucket, key).
           Inr \<lparr> t_bucket = bucket, t_key = key, t_vhost = False \<rparr>))"

text \<open>The flag says whether the request came over TLS.\<close>

definition objectURL :: "bool \<Rightarrow> http_request \<Rightarrow> target \<Rightarrow> string \<Rightarrow> string" where
  "objectURL tls r t key =
    (let scheme = (if tls then ''https'' else ''http'');
         path = (if t_vhost t then ''/'' @ key else ''/'' @ t_bucket t @ ''/'' @ key)
     in scheme @ ''://'' @ r_Host r @ path_escape path)"

section \<open>Unescaping segment by segment\<close>

lemma digit_val_slash [simp]: "digit_val 16 (CHR ''/'') = None"
  by code_simp

lemma unescape_append_slash:
  "unescape False (p @ CHR ''/'' # s) =
    (case (unescape False p, unescape False s) of (Some a, Some b) \<Rightarrow> Some (a @ CHR ''/'' # b) | _ \<Rightarrow> None)"
proof (induction p rule: length_induct)
  case (1 p)
  show ?case
  proof (cases p)
    case Nil
    then show ?thesis by (simp split: option.splits)
  next
    case (Cons c cs)
    show ?thesis
    proof (cases "c = CHR ''%''")
      case False
      then show ?thesis
        using Cons 1 [rule_format, of cs] by (simp split: option.splits)
    next
      case True
      consider "cs = []" | a where "cs = [a]" | a b rest where "cs = a # b # rest"
        by (cases cs rule: remdups_adj.cases) auto
      then show ?thesis
      proof cases
        case 1
        then show ?thesis using True Cons by (cases s) auto
      next
        case 2
        then show ?thesis using True Cons by (simp split: option.splits)
      next
        case 3
        then show ?thesis
          using True Cons "1.IH" [rule_format, of rest] by (simp split: option.splits)
      qed
    qed
  qed
qed

lemma PathUnescape_Inr_iff: "PathUnescape s = Inr t \<longleftrightarrow> unescape False s = Some t"
  by (auto simp: PathUnescape_def split: option.splits)

lemma unescapeKey_eq: "unescapeKey s = PathUnescape s"
proof (induction s rule: length_induct)
  case (1 s)
  show ?case
  proof (cases "CHR ''/'' \<in> set s")
    case False
    then show ?thesis
      by (auto simp: unescapeKey_def split_single PathUnescape_def split: option.splits)
  next
    case True
    then obtain p t where s: "s = p @ CHR ''/'' # t" and p: "CHR ''/'' \<notin> set p"
      using split_list_first by metis
    then have "unescapeKey t = PathUnescape t"
      using 1 by simp
    moreover have "str_join ''/'' (a # xs) = a @ ''/'' @ str_join ''/'' xs"
      if "map_res PathUnescape (str_split (CHR ''/'') t) = Inr xs" for a xs
      using that by (intro join_Cons) (auto simp: map_res_Inr_iff)
    ultimately show ?thesis
      using s p
      by (auto simp: unescapeKey_def split_append PathUnescape_def unescape_append_slash
          split: option.splits sum.splits elim!: and_then.elims)
  qed
qed

text \<open>
  Unescaping an object key segment by segment is unescaping it as a whole: an escaped slash is a slash
  of the key like any other.
\<close>

theorem unescapeKey_whole: "unescapeKey s = PathUnescape s"
  by (rule unescapeKey_eq)

section \<open>The URLs handed back\<close>

lemma unescape_path_escape: "unescape False (path_escape s) = Some s"
  by (induction s) (auto simp: path_escape_def unescape_percent path_safe_def unreserved_def Let_def)

lemma slash_hex_upper: "n < 16 \<Longrightarrow> hex_upper n \<noteq> CHR ''/''"
  using digit_val_hex_upper [of n] by auto

lemma path_escape_append: "path_escape (s @ t) = path_escape s @ path_escape t"
  by (simp add: path_escape_def)

lemma path_escape_slash: "path_escape (CHR ''/'' # s) = CHR ''/'' # path_escape s"
  by (simp add: path_escape_def path_safe_def)

lemma percent_byte_no_slash: "CHR ''/'' \<notin> set (percent_byte c)"
proof -
  have "byte_of c div 16 < 16"
    using nat_of_char_less_256 [of c] by linarith
  then show ?thesis
    using slash_hex_upper [of "byte_of c div 16"] slash_hex_upper [of "byte_of c mod 16"]
    by (auto simp: percent_byte_def)
qed

lemma path_escape_no_slash: "CHR ''/'' \<notin> set s \<Longrightarrow> CHR ''/'' \<notin> set (path_escape s)"
  by (auto simp: path_escape_def percent_byte_no_slash split: if_splits)

lemma trim_prefix_Cons: "trim_prefix (c # s) [c] = s"
  by (simp add: trim_prefix_def cut_prefix_def)

lemma splitPath_escape:
  assumes "CHR ''/'' \<notin> set bucket"
  shows "splitPath (path_escape (''/'' @ bucket @ ''/'' @ key)) = Inr (bucket, key)"
  using assms
  by (simp add: splitPath_def path_escape_slash path_escape_append trim_prefix_Cons cut_append
      path_escape_no_slash unescapeKey_eq PathUnescape_def unescape_path_escape)


definition example_request :: http_request where
  "example_request = \<lparr> r_Method = ''GET'', r_Host = ''s3.example.com'', r_Path = ''/photos/a b'',
    r_EscapedPath = ''/photos/a%20b'', r_Opaque = [], r_RawQuery = [], r_Header = [],
    r_RemoteAddr = ''10.0.0.1:1234'', r_ContentLength = 0 \<rparr>"


section \<open>Virtual hosts\<close>

text \<open>A byte of a lower-case host name.\<close>

definition host_char :: "char \<Rightarrow> bool" where
  "host_char c \<longleftrightarrow> lower_alnum c \<or> c = CHR ''-'' \<or> c = CHR ''.''"

lemma host_char_lower: "host_char c \<Longrightarrow> byte_of c < 128 \<and> lower_char c = c"
  by (auto simp: host_char_def lower_alnum_def lower_char_def less_eq_char_def)

lemma to_lower_host: "\<forall>c\<in>set s. host_char c \<Longrightarrow> to_lower s = s"
  using host_char_lower by (auto simp: to_lower_def is_ascii_def list_all_iff intro: map_idI)

lemma SplitHostPort_plain: "CHR '':'' \<notin> set s \<Longrightarrow> SplitHostPort s = None"
  using cut_missing_iff [of "CHR '':''" "rev s" "rev s" "[]"] by (simp add: SplitHostPort_def)

lemma SplitHostPort_port:
  assumes "CHR '':'' \<notin> set h" "CHR '':'' \<notin> set p" "\<forall>c\<in>set (h @ p). c \<noteq> CHR ''['' \<and> c \<noteq> CHR '']''"
  shows "SplitHostPort (h @ '':'' @ p) = Some (h, p)"
proof -
  have "str_cut (CHR '':'') (rev (h @ '':'' @ p)) = (rev p, rev h, True)"
    using assms(2) cut_append [of "CHR '':''" "rev p" "rev h"] by simp
  then show ?thesis
    using assms by (cases h) (auto simp: SplitHostPort_def)
qed

lemma bucketName_host_char: "bucketNameRegexp b \<Longrightarrow> \<forall>c\<in>set b. host_char c"
proof -
  assume b: "bucketNameRegexp b"
  then obtain x ys z where s: "b = x # ys @ [z]"
    by (cases b; cases "tl b" rule: rev_cases) (auto simp: bucketNameRegexp_def)
  then show ?thesis
    using b by (auto simp: bucketNameRegexp_def host_char_def list_all_iff butlast_append)
qed

lemma host_char_neq [simp]: "\<not> host_char (CHR '':'')" "\<not> host_char (CHR ''['')" "\<not> host_char (CHR '']'')"
  by code_simp+

lemma SetVirtualHostSuffix_host:
  assumes "\<forall>c\<in>set h. host_char c" "h \<noteq> []" "hd h \<noteq> CHR ''.''" "last h \<noteq> CHR ''.''"
  shows "SetVirtualHostSuffix h = ''.'' @ h"
proof -
  have "cut_suffix h ''.'' = None"
    using assms(2,4) by (cases h rule: rev_cases) (auto simp: cut_suffix_def has_suffix_def)
  moreover have "\<not> has_prefix h ''.''"
    using assms(2,3) by (cases h) auto
  moreover have "SplitHostPort h = None"
    using assms(1) by (intro SplitHostPort_plain) auto
  ultimately show ?thesis
    using assms to_lower_host [of h] by (simp add: SetVirtualHostSuffix_def)
qed

lemma virtualHostBucket_label:
  assumes "\<forall>c\<in>set (b @ sfx). host_char c" "sfx \<noteq> []" "b \<noteq> []" "CHR ''.'' \<notin> set b"
    "SplitHostPort hp = None \<and> hp = b @ sfx \<or> SplitHostPort hp = Some (b @ sfx, port)"
  shows "virtualHostBucket sfx hp = Some b"
proof -
  have "cut_suffix (b @ sfx) sfx = Some b"
    by (simp add: cut_suffix_Some_iff)
  then show ?thesis
    using assms to_lower_host [of "b @ sfx"] by (auto simp: virtualHostBucket_def)
qed

text \<open>
  With the endpoint's host name as suffix, a bucket's subdomain names that bucket, with or without a
  port, and the bare endpoint names none, so it stays path-style.
\<close>

theorem virtual_host_names_bucket:
  assumes "\<forall>c\<in>set h. host_char c" "h \<noteq> []" "hd h \<noteq> CHR ''.''" "last h \<noteq> CHR ''.''"
    "bucketNameRegexp b" "\<forall>c\<in>set port. c \<notin> set '':[]''"
  shows "virtualHostBucket (SetVirtualHostSuffix h) (b @ ''.'' @ h) = Some b \<and>
    virtualHostBucket (SetVirtualHostSuffix h) (b @ ''.'' @ h @ '':'' @ port) = Some b \<and>
    virtualHostBucket (SetVirtualHostSuffix h) h = None"
proof -
  have all: "\<forall>c\<in>set (b @ ''.'' @ h). host_char c"
    using assms(1) bucketName_host_char [OF assms(5)] by (auto simp: host_char_def)
  have no: "\<forall>c\<in>set s. host_char c \<Longrightarrow> CHR '':'' \<notin> set s \<and> CHR ''['' \<notin> set s \<and> CHR '']'' \<notin> set s" for s
    by auto
  have "CHR '':'' \<notin> set port" "CHR ''['' \<notin> set port" "CHR '']'' \<notin> set port"
    using assms(6) by auto
  then have "SplitHostPort ((b @ ''.'' @ h) @ '':'' @ port) = Some (b @ ''.'' @ h, port)"
    using no [OF all] by (intro SplitHostPort_port) auto
  moreover have "SplitHostPort (b @ ''.'' @ h) = None" "SplitHostPort h = None"
    using no [OF all] no [OF assms(1)] by (simp_all add: SplitHostPort_plain)
  moreover have "cut_suffix h (''.'' @ h) = None"
    by (simp add: cut_suffix_def has_suffix_iff suffix_def)
  ultimately show ?thesis
    using virtualHostBucket_label [OF all _ bucketName_chars(1,3) [OF assms(5)], of _ port]
    by (simp add: SetVirtualHostSuffix_host [OF assms(1-4)] to_lower_host [OF assms(1)]
        virtualHostBucket_def [of _ h])
qed

theorem virtual_host_names_bucket_witness:
  "virtualHostBucket (SetVirtualHostSuffix ''s3.example.com'') ''photos.s3.example.com:8080'' = Some ''photos'' \<and>
   virtualHostBucket (SetVirtualHostSuffix ''s3.example.com'') ''s3.example.com'' = None"
proof -
  have "\<forall>c\<in>set ''s3.example.com''. host_char c" "bucketNameRegexp ''photos''"
    by code_simp+
  then show ?thesis
    using virtual_host_names_bucket [of "''s3.example.com''" "''photos''" "''8080''"] by simp
qed

section \<open>The mux in front of the gateway\<close>

text \<open>
  \<open>path.Clean\<close> on a rooted path: empty and dot segments are dropped, a dot-dot segment removes the one
  before it. The stack is kept in reverse.
\<close>

fun clean_segments :: "string list \<Rightarrow> string list \<Rightarrow> string list" where
  "clean_segments stack [] = rev stack"
| "clean_segments stack (s # ss) =
    (if s = [] \<or> s = ''.'' then clean_segments stack ss
     else if s = ''..'' then clean_segments (tl stack) ss
     else clean_segments (s # stack) ss)"

definition path_Clean :: "string \<Rightarrow> string" where
  "path_Clean p = ''/'' @ str_join ''/'' (clean_segments [] (str_split (CHR ''/'') p))"

text \<open>\<open>cleanPath\<close> of \<open>net/http\<close>: the trailing slash is kept.\<close>

definition cleanPath :: "string \<Rightarrow> string" where
  "cleanPath p0 =
    (if p0 = [] then ''/''
     else
       (let p = (if hd p0 = CHR ''/'' then p0 else CHR ''/'' # p0); np = path_Clean p
        in if last p = CHR ''/'' \<and> np \<noteq> ''/'' then np @ ''/'' else np))"

text \<open>What a \<open>ServeMux\<close> with the single pattern \<open>/\<close> does with a request.\<close>

datatype mux_result = Mux_serve | Mux_redirect string | Mux_bad_request

definition serve_mux :: "http_request \<Rightarrow> mux_result" where
  "serve_mux r =
    (if r_EscapedPath r = ''*'' then Mux_bad_request
     else if r_Method r = ''CONNECT'' then Mux_serve
     else
       (let p = cleanPath (r_EscapedPath r) in
        if p \<noteq> r_EscapedPath r then Mux_redirect p else Mux_serve))"

text \<open>\<open>Gateway.Handler\<close> puts the whole gateway behind such a mux.\<close>

definition Gateway_Handler :: "(http_request \<Rightarrow> 'a) \<Rightarrow> (mux_result \<Rightarrow> 'a) \<Rightarrow> http_request \<Rightarrow> 'a" where
  "Gateway_Handler wrapped answer r = (case serve_mux r of Mux_serve \<Rightarrow> wrapped r | m \<Rightarrow> answer m)"

lemma clean_segments_subset: "set (clean_segments stack ss) \<subseteq> set stack \<union> (set ss - {[]})"
proof (induction stack ss rule: clean_segments.induct)
  case (2 stack s ss)
  have "set (tl stack) \<subseteq> set stack"
    by (cases stack) auto
  then show ?case
    using 2 by (simp split: if_splits) blast+
qed simp

lemma split_append_sep: "str_split sep (a @ sep # s) = str_split sep a @ str_split sep s"
proof (induction a rule: length_induct)
  case (1 a)
  show ?case
  proof (cases "sep \<in> set a")
    case True
    then obtain p t where "a = p @ sep # t" "sep \<notin> set p"
      using split_list_first by metis
    then show ?thesis
      using 1 by (simp add: split_append)
  next
    case False
    then show ?thesis by (simp add: split_append split_single)
  qed
qed

lemma split_cleanPath:
  "\<exists>segs tl. str_split (CHR ''/'') (cleanPath p) = [] # segs @ tl \<and> (\<forall>s\<in>set segs. s \<noteq> []) \<and> tl \<in> {[], [[]]}"
proof -
  define segs where "segs = clean_segments [] (str_split (CHR ''/'') (if hd p = CHR ''/'' then p else CHR ''/'' # p))"
  have ok: "\<forall>s\<in>set segs. s \<noteq> [] \<and> CHR ''/'' \<notin> set s"
    unfolding segs_def using clean_segments_subset [of "[]"] split_no_sep by fastforce
  have sp: "str_split (CHR ''/'') (CHR ''/'' # str_join ''/'' segs) = [] # (if segs = [] then [[]] else segs)"
    using ok split_append [of "CHR ''/''" "[]"] split_join [of segs "CHR ''/''"]
    by (cases segs) auto
  have "cleanPath p \<in> {''/'', CHR ''/'' # str_join ''/'' segs, (CHR ''/'' # str_join ''/'' segs) @ ''/''} \<and>
      (segs = [] \<longrightarrow> cleanPath p = ''/'')"
    by (simp add: cleanPath_def path_Clean_def segs_def Let_def)
  then consider "cleanPath p = ''/''" | "cleanPath p = CHR ''/'' # str_join ''/'' segs" "segs \<noteq> []"
    | "cleanPath p = (CHR ''/'' # str_join ''/'' segs) @ CHR ''/'' # []" "segs \<noteq> []"
    by blast
  then show ?thesis
  proof cases
    case 1
    then show ?thesis
      by (intro exI [of _ "[]"] exI [of _ "[[]]"]) simp
  next
    case 2
    then show ?thesis
      using sp ok by (intro exI [of _ segs] exI [of _ "[]"]) simp
  next
    case 3
    then show ?thesis
      using sp ok split_append_sep [of "CHR ''/''" "CHR ''/'' # str_join ''/'' segs" "[]"]
      by (intro exI [of _ segs] exI [of _ "[[]]"]) (simp del: append.simps)
  qed
qed

text \<open>
  Behind the mux a path with a doubled slash never reaches the gateway (CONNECT apart): the
  client is redirected to the cleaned path, so a key with an empty segment cannot be addressed.
\<close>

theorem double_slash_not_served:
  assumes "r_EscapedPath r = a @ ''//'' @ s" "r_Method r \<noteq> ''CONNECT''"
  shows "Gateway_Handler wrapped answer r = answer (Mux_redirect (cleanPath (r_EscapedPath r)))"
proof -
  have "cleanPath (r_EscapedPath r) \<noteq> r_EscapedPath r"
  proof
    assume eq: "cleanPath (r_EscapedPath r) = r_EscapedPath r"
    obtain segs tl where *: "str_split (CHR ''/'') (a @ CHR ''/'' # CHR ''/'' # s) = [] # segs @ tl"
      "\<forall>s\<in>set segs. s \<noteq> []" "tl \<in> {[], [[]]}"
      using split_cleanPath [of "r_EscapedPath r"] eq assms(1) by auto
    have "str_split (CHR ''/'') (a @ CHR ''/'' # CHR ''/'' # s) =
        str_split (CHR ''/'') a @ [] # str_split (CHR ''/'') s"
      using split_append_sep [of "CHR ''/''" a "CHR ''/'' # s"] split_append [of "CHR ''/''" "[]" s] by simp
    moreover obtain x xs y ys where "str_split (CHR ''/'') a = x # xs" "str_split (CHR ''/'') s = ys @ [y]"
      by (metis list.exhaust rev_exhaust split_not_Nil)
    ultimately have "segs @ tl = (xs @ [] # ys) @ [y]"
      using *(1) by simp
    then have "[] \<in> set segs"
      using *(3) append1_eq_conv [of segs "[]" "xs @ [] # ys" y] by auto
    with *(2) show False by blast
  qed
  moreover have "r_EscapedPath r \<noteq> ''*''"
    using assms(1) by (auto simp: Cons_eq_append_conv)
  ultimately show ?thesis
    using assms(2) by (simp add: Gateway_Handler_def serve_mux_def Let_def)
qed

theorem double_slash_not_served_witness:
  "Gateway_Handler (\<lambda>_. None) Some (example_request\<lparr> r_EscapedPath := ''/photos/a//b'' \<rparr>) =
     Some (Mux_redirect ''/photos/a/b'')"
proof -
  have "cleanPath ''/photos/a//b'' = ''/photos/a/b''"
    by code_simp
  then show ?thesis
    using double_slash_not_served [of "example_request\<lparr> r_EscapedPath := ''/photos/a//b'' \<rparr>" "''/photos/a''" "''b''"
        "\<lambda>_. None" Some]
    by (simp add: example_request_def)
qed

end
