(* ===== verification/Dispatch.thy ===== *)
theory Dispatch
  imports Routes Addressing
begin

text \<open>
  The checks and authorizations \<open>dispatch\<close> of \<open>src/s3gw/handler.go\<close> runs before a handler, with the copy
  source of \<open>src/s3gw/copy.go\<close> and bucket resolution. As in authorization an outer \<open>None\<close> is a panic.
\<close>

section \<open>Dispatch\<close>

definition c_resource :: "bucket \<Rightarrow> string \<Rightarrow> string" where
  "c_resource b key = (if key = [] then b_Name b else b_Name b @ ''/'' @ key)"

definition c_authorize :: "identity \<Rightarrow> bucket \<Rightarrow> string \<Rightarrow> string \<Rightarrow> s3error option option" where
  "c_authorize vr b key action = authorize vr b action (c_resource b key)"

fun authorize_headers ::
  "(string \<Rightarrow> s3error option option) \<Rightarrow> signed_header \<Rightarrow> header_action list \<Rightarrow> string list \<Rightarrow>
    (s3error + string list) option" where
  "authorize_headers auth hdr [] acts = Some (Inr acts)"
| "authorize_headers auth hdr ((present, action) # has) acts =
    (if \<not> present hdr \<or> contains acts action then authorize_headers auth hdr has acts
     else do {
       r \<leftarrow> auth action;
       (case r of
          Some e \<Rightarrow> Some (Inl e)
        | None \<Rightarrow> authorize_headers auth hdr has (acts @ [action]))
     })"

definition authorizeRoute ::
  "(string \<Rightarrow> s3error option option) \<Rightarrow> route \<Rightarrow> signed_header \<Rightarrow> bool \<Rightarrow> (s3error + string list) option" where
  "authorizeRoute auth rt hdr version =
    (if rt_action rt = [] then authorize_headers auth hdr (rt_hdrActions rt) []
     else do {
       let action = versioned (rt_action rt) (rt_versionAction rt) version;
       r \<leftarrow> auth action;
       (case r of
          Some e \<Rightarrow> Some (Inl e)
        | None \<Rightarrow> authorize_headers auth hdr (rt_hdrActions rt) [action])
     })"

text \<open>
  The copy source: resolved in the requester's own tenant, authorized for reading, and on the same backend
  as the target. A bucket without a backend definition is a nil dereference.
\<close>

definition invalid_copy_source :: "go_error \<Rightarrow> s3error" where
  "invalid_copy_source e = WithCause (s3err_New 400 ''InvalidArgument'' (lit ''Invalid copy source'')) e"

definition copy_backend :: "bucket \<Rightarrow> bucket \<Rightarrow> string \<Rightarrow> string \<Rightarrow> (s3error + string) option" where
  "copy_backend src b srcKey versionID = do {
     sb \<leftarrow> b_Backend src;
     db \<leftarrow> b_Backend b;
     if be_Endpoint sb \<noteq> be_Endpoint db \<or> be_Region sb \<noteq> be_Region db \<or>
        be_AccessKeyID sb \<noteq> be_AccessKeyID db
     then Some (Inl (NotImplemented ''copying between different backends''))
     else
       (let copySource = tl (path_escape (''/'' @ be_Bucket sb @ ''/'' @ srcKey)) in
        Some (Inr (if versionID \<noteq> [] then copySource @ ''?'' @ versionID else copySource)))
   }"

definition resolveCopySource ::
  "store \<Rightarrow> identity \<Rightarrow> bucket \<Rightarrow> signed_header \<Rightarrow> route \<Rightarrow> (s3error + string \<times> string) option" where
  "resolveCopySource st vr b hdr rt =
    (let raw = trim_prefix (sh_Signed hdr hdrCopySource) ''/'';
         (rawPath, versionID, _) = str_cut (CHR ''?'') raw;
         (rawBucket, rawKey, ok) = str_cut (CHR ''/'') rawPath
     in if \<not> ok \<or> rawKey = []
        then Some (Inl (s3err_New 400 ''InvalidArgument''
          (lit ''Copy Source must mention the source bucket and key: sourcebucket/sourcekey'')))
        else
          (case PathUnescape rawBucket of
             Inl e \<Rightarrow> Some (Inl (invalid_copy_source e))
           | Inr srcBucket \<Rightarrow>
          (case unescapeKey rawKey of
             Inl e \<Rightarrow> Some (Inl (invalid_copy_source e))
           | Inr srcKey \<Rightarrow>
          (case parse_query versionID of
             (_, True) \<Rightarrow> Some (Inl (invalid_copy_source EscapeError))
           | (query, False) \<Rightarrow>
          (let action = versioned (rt_copyAction rt) (rt_copyVersionAction rt) (values_get query qpVersionID \<noteq> []) in
           case GetBucket st (vr_Tenant vr) srcBucket of
             Inl e \<Rightarrow>
               Some (Inl (if errors_is e ErrNotFound
                 then WithCause AccessDenied
                   (copySourceReason (vr_principal vr) action (srcBucket @ ''/'' @ srcKey) (Some e))
                 else s3err_Internal e (lit ''bucket lookup failed'')))
           | Inr src \<Rightarrow> do {
               r \<leftarrow> authorize vr src action (b_Name src @ ''/'' @ srcKey);
               (case r of
                  Some e \<Rightarrow> Some (Inl e)
                | None \<Rightarrow> do {
                    cs \<leftarrow> copy_backend src b srcKey versionID;
                    Some (and_then cs (\<lambda>copySource. Inr (copySource, action)))
                  })
             })))))"

text \<open>What \<open>dispatch\<close> hands to \<open>runOp\<close>.\<close>

record dispatched =
  d_op :: op
  d_handle :: handler
  d_copySource :: string

definition dispatch_op ::
  "identity \<Rightarrow> bucket \<Rightarrow> string \<Rightarrow> signed_header \<Rightarrow> string \<Rightarrow> route \<Rightarrow> string \<Rightarrow> string list \<Rightarrow> op" where
  "dispatch_op vr b mth hdr key rt name acts =
    \<lparr> op_Method = mth, op_Operation = name, op_Actions = acts, op_Tenant = vr_Tenant vr,
       op_User = vr_User vr, op_Bucket = b_Name b, op_BucketOwner = b_Tenant b, op_Key = key,
       op_Request = objectRequest hdr (rt_attrs rt), op_Response = None, op_BytesIn = 0, op_BytesOut = 0,
       op_Denials = [] \<rparr>"

definition dispatch_route ::
  "store \<Rightarrow> identity \<Rightarrow> bucket \<Rightarrow> string \<Rightarrow> signed_header \<Rightarrow> url_values \<Rightarrow> string \<Rightarrow> route \<Rightarrow>
    (s3error + dispatched) option" where
  "dispatch_route st vr b mth hdr query key rt =
    (case (case rt_params rt of Some p \<Rightarrow> paramSet_check p query | None \<Rightarrow> Inr ()) of
       Inl e \<Rightarrow> Some (Inl e)
     | Inr _ \<Rightarrow>
    (case (if rt_aclHdr rt then checkACLHeader hdr else Inr ()) of
       Inl e \<Rightarrow> Some (Inl e)
     | Inr _ \<Rightarrow> do {
        ra \<leftarrow> authorizeRoute (c_authorize vr b key) rt hdr (values_get query qpVersionID \<noteq> []);
        (case ra of
           Inl e \<Rightarrow> Some (Inl e)
         | Inr acts \<Rightarrow>
             if rt_copy rt \<noteq> [] \<and> sh_Signed hdr hdrCopySource \<noteq> [] then do {
               rs \<leftarrow> resolveCopySource st vr b hdr rt;
               (case rs of
                  Inl e \<Rightarrow> Some (Inl e)
                | Inr (src, action) \<Rightarrow>
                    Some (Inr \<lparr> d_op = dispatch_op vr b mth hdr key rt (rt_copy rt) (acts @ [action]),
                      d_handle = rt_handle rt, d_copySource = src \<rparr>))
             }
             else Some (Inr \<lparr> d_op = dispatch_op vr b mth hdr key rt (rt_name rt) acts,
               d_handle = rt_handle rt, d_copySource = [] \<rparr>))
      }))"

fun dispatch_loop ::
  "store \<Rightarrow> identity \<Rightarrow> bucket \<Rightarrow> string \<Rightarrow> signed_header \<Rightarrow> url_values \<Rightarrow> string \<Rightarrow> route list \<Rightarrow>
    (s3error + dispatched) option" where
  "dispatch_loop st vr b mth hdr query key [] = Some (Inl (NotImplemented ''this operation''))"
| "dispatch_loop st vr b mth hdr query key (rt # rts) =
    (if (case rt_match rt of Some f \<Rightarrow> \<not> f query | None \<Rightarrow> False)
     then dispatch_loop st vr b mth hdr query key rts
     else dispatch_route st vr b mth hdr query key rt)"

definition dispatch ::
  "store \<Rightarrow> identity \<Rightarrow> bucket \<Rightarrow> string \<Rightarrow> signed_header \<Rightarrow> url_values \<Rightarrow> string \<Rightarrow> route list \<Rightarrow>
    (s3error + dispatched) option" where
  "dispatch st vr b mth hdr query key routes =
    (case and_then (checkSSEC hdr) (\<lambda>_. checkSSE hdr) of
       Inl e \<Rightarrow> Some (Inl e)
     | Inr _ \<Rightarrow> dispatch_loop st vr b mth hdr query key routes)"

definition handleBucketRequest ::
  "store \<Rightarrow> identity \<Rightarrow> bucket \<Rightarrow> string \<Rightarrow> signed_header \<Rightarrow> url_values \<Rightarrow> (s3error + dispatched) option" where
  "handleBucketRequest st vr b mth hdr query =
    (case map_of bucketRoutes mth of
       None \<Rightarrow> Some (Inl (NotImplemented ''this bucket operation''))
     | Some routes \<Rightarrow> dispatch st vr b mth hdr query [] routes)"

definition handleObjectRequest ::
  "store \<Rightarrow> identity \<Rightarrow> bucket \<Rightarrow> string \<Rightarrow> signed_header \<Rightarrow> url_values \<Rightarrow> string \<Rightarrow>
    (s3error + dispatched) option" where
  "handleObjectRequest st vr b mth hdr query key =
    (case map_of objectRoutes mth of
       None \<Rightarrow> Some (Inl (s3err_New 405 ''MethodNotAllowed''
         (lit ''The specified method is not allowed against this resource.'')))
     | Some routes \<Rightarrow> dispatch st vr b mth hdr query key routes)"

section \<open>Every needed action is authorized\<close>

lemma authorize_headers_spec:
  assumes "authorize_headers auth hdr has acts = Some (Inr acts')" "\<forall>a\<in>set acts. auth a = Some None"
  shows "set acts \<subseteq> set acts' \<and> (\<forall>a\<in>set acts'. auth a = Some None) \<and>
    (\<forall>(present, a)\<in>set has. present hdr \<longrightarrow> a \<in> set acts')"
  using assms
proof (induction auth hdr has acts rule: authorize_headers.induct)
  case (2 auth hdr present action has acts)
  show ?case
  proof (cases "\<not> present hdr \<or> contains acts action")
    case True
    then show ?thesis
      using "2.IH"(1) [OF True] "2.prems" by (auto simp: contains_def)
  next
    case False
    then have "auth action = Some None" "authorize_headers auth hdr has (acts @ [action]) = Some (Inr acts')"
      using "2.prems"(1) by (auto split: option.splits Option.bind_splits)
    then show ?thesis
      using "2.IH"(2) [OF False, of None] "2.prems"(2) by auto
  qed
qed simp

lemma authorizeRoute_spec:
  assumes "authorizeRoute auth rt hdr version = Some (Inr acts)"
  shows "(\<forall>a\<in>set acts. auth a = Some None)"
    and "rt_action rt \<noteq> [] \<Longrightarrow> versioned (rt_action rt) (rt_versionAction rt) version \<in> set acts"
    and "(present, a) \<in> set (rt_hdrActions rt) \<Longrightarrow> present hdr \<Longrightarrow> a \<in> set acts"
proof -
  let ?act = "versioned (rt_action rt) (rt_versionAction rt) version"
  obtain acts0 where acts0: "authorize_headers auth hdr (rt_hdrActions rt) acts0 = Some (Inr acts)"
      "\<forall>a\<in>set acts0. auth a = Some None" "rt_action rt \<noteq> [] \<longrightarrow> ?act \<in> set acts0"
    using assms
    by (auto simp: authorizeRoute_def Let_def split: if_splits option.splits Option.bind_splits)
  note spec = authorize_headers_spec [OF acts0(1,2)]
  show "\<forall>a\<in>set acts. auth a = Some None" "rt_action rt \<noteq> [] \<Longrightarrow> ?act \<in> set acts"
    "(present, a) \<in> set (rt_hdrActions rt) \<Longrightarrow> present hdr \<Longrightarrow> a \<in> set acts"
    using spec acts0(3) by auto
qed

text \<open>The catalogue entry a bound route was bound to, and that of its copy variant.\<close>

lemma bound_route_entry:
  assumes "bound_route rt" "rt_name rt \<noteq> OpUnknown"
  obtains oper where "s3op_Lookup (rt_name rt) = Some oper"
    "target_loop (onTarget oper) [] [] [] = Some (rt_action rt, rt_versionAction rt, rt_hdrActions rt)"
    "rt_copy rt \<noteq> [] \<Longrightarrow> \<exists>cp. s3op_Lookup (rt_copy rt) = Some cp \<and> onTarget cp = onTarget oper \<and>
      (\<forall>a\<in>set (o_Authorizations cp). au_On a = OnCopySource \<longrightarrow>
        au_Action a = rt_copyAction rt \<and> au_VersionAction a = rt_copyVersionAction rt)"
proof -
  obtain rt0 where rt0: "bind_route rt0 = Some rt"
    using assms(1) by (auto simp: bound_route_def)
  obtain oper act va has where oper: "s3op_Lookup (rt_name rt) = Some oper"
      "targetAuthorizations oper = Some (act, va, has)"
      "bind_copy oper (rt0\<lparr> rt_action := act, rt_versionAction := va, rt_hdrActions := has \<rparr>) = Some rt"
    using rt0 assms(2) bind_route_name [OF rt0] by (auto simp: bind_route_def split: option.splits)
  have bound: "rt_action rt = act" "rt_versionAction rt = va" "rt_hdrActions rt = has" "rt_copy rt = rt_copy rt0"
    using oper(3) by (auto simp: bind_copy_def Let_def split: if_splits option.splits)
  have "\<exists>cp. s3op_Lookup (rt_copy rt) = Some cp \<and> onTarget cp = onTarget oper \<and>
      (\<forall>a\<in>set (o_Authorizations cp). au_On a = OnCopySource \<longrightarrow>
        au_Action a = rt_copyAction rt \<and> au_VersionAction a = rt_copyVersionAction rt)"
    if copy: "rt_copy rt \<noteq> []"
  proof -
    obtain cp where cp: "s3op_Lookup (rt_copy rt) = Some cp" "onTarget cp = onTarget oper"
      and src: "length (filter (\<lambda>a. au_On a = OnCopySource) (o_Authorizations cp)) = 1"
        "rt_copyAction rt = au_Action (hd (filter (\<lambda>a. au_On a = OnCopySource) (o_Authorizations cp)))"
        "rt_copyVersionAction rt = au_VersionAction (hd (filter (\<lambda>a. au_On a = OnCopySource) (o_Authorizations cp)))"
      using oper(3) copy bound(4) by (auto simp: bind_copy_def Let_def split: if_splits option.splits)
    obtain s where s: "filter (\<lambda>a. au_On a = OnCopySource) (o_Authorizations cp) = [s]"
      using src(1) by (cases "filter (\<lambda>a. au_On a = OnCopySource) (o_Authorizations cp)") auto
    have "a = s" if "a \<in> set (o_Authorizations cp)" "au_On a = OnCopySource" for a
    proof -
      have "a \<in> set (filter (\<lambda>a. au_On a = OnCopySource) (o_Authorizations cp))"
        using that by simp
      then show ?thesis
        by (simp only: s list.set) simp
    qed
    then show ?thesis
      using cp src s by auto
  qed
  then show ?thesis
    using that oper(1,2) bound by (auto simp: targetAuthorizations_def)
qed

lemma resolveCopySource_authorized:
  assumes "resolveCopySource st vr b hdr rt = Some (Inr (cs, action))"
  shows "\<exists>n src k version. GetBucket st (vr_Tenant vr) n = Inr src \<and>
    action = versioned (rt_copyAction rt) (rt_copyVersionAction rt) version \<and>
    authorize vr src action (b_Name src @ ''/'' @ k) = Some None \<and> cs \<noteq> []"
proof -
  have ne: "tl (path_escape (''/'' @ x @ ''/'' @ y)) \<noteq> []" for x y
    by (simp add: path_escape_slash path_escape_append)
  show ?thesis
    using assms ne
    by (auto simp: resolveCopySource_def copy_backend_def Let_def
        split: prod.splits if_splits sum.splits bool.splits option.splits Option.bind_splits)
qed

lemma dispatch_loop_route:
  "dispatch_loop st vr b mth hdr query key rts = Some (Inr d) \<Longrightarrow>
    \<exists>rt\<in>set rts. dispatch_route st vr b mth hdr query key rt = Some (Inr d)"
  by (induction rts) (auto split: if_splits)

lemma dispatch_route_cases:
  assumes "dispatch_route st vr b mth hdr query key rt = Some (Inr d)"
  obtains acts where
    "authorizeRoute (c_authorize vr b key) rt hdr (values_get query ''versionId'' \<noteq> []) = Some (Inr acts)"
    "d_op d = dispatch_op vr b mth hdr key rt (rt_name rt) acts" "d_copySource d = []" "d_handle d = rt_handle rt"
  | acts cs action where
    "authorizeRoute (c_authorize vr b key) rt hdr (values_get query ''versionId'' \<noteq> []) = Some (Inr acts)"
    "rt_copy rt \<noteq> []" "resolveCopySource st vr b hdr rt = Some (Inr (cs, action))"
    "d_op d = dispatch_op vr b mth hdr key rt (rt_copy rt) (acts @ [action])" "d_copySource d = cs"
    "d_handle d = rt_handle rt"
  using assms
  by (auto simp: dispatch_route_def split: sum.splits if_splits prod.splits Option.bind_splits)

lemma route_target_authorized:
  assumes "bound_route rt" "rt_name rt \<noteq> OpUnknown" "s3op_Lookup (rt_name rt) = Some oper"
    "authorizeRoute auth rt hdr version = Some (Inr acts)"
    "a \<in> set (onTarget oper)" "applies hdr a"
  shows "needed_action version a \<in> set acts \<and> auth (needed_action version a) = Some None"
proof -
  have loop: "target_loop (onTarget oper) [] [] [] = Some (rt_action rt, rt_versionAction rt, rt_hdrActions rt)"
    using bound_route_entry [OF assms(1,2)] assms(3) by (metis option.inject)
  have ne: "list_all (\<lambda>a. au_Action a \<noteq> []) (onTarget oper)"
    using Lookup_action_nonempty [OF assms(3)] by (simp add: list_all_iff onTarget_def)
  note spec = target_loop_spec(3,4) [OF loop ne] and auth = authorizeRoute_spec [OF assms(4)]
  have "needed_action version a \<in> set acts"
  proof (cases "au_Header a = []")
    case True
    then have "rt_action rt = au_Action a" "rt_versionAction rt = au_VersionAction a" "au_Action a \<noteq> []"
      using spec(1) ne assms(5) by (auto simp: list_all_iff)
    then show ?thesis
      using True auth(2) by (simp add: needed_action_def)
  next
    case False
    then show ?thesis
      using spec(2) auth(3) assms(5,6) by (fastforce simp: needed_action_def applies_def)
  qed
  then show ?thesis
    using auth(1) by blast
qed

text \<open>The two halves of the guarantee: the actions on the target, and the read of a copy source.\<close>

definition target_authorized ::
  "identity \<Rightarrow> bucket \<Rightarrow> signed_header \<Rightarrow> url_values \<Rightarrow> string \<Rightarrow> operation \<Rightarrow> dispatched \<Rightarrow> bool" where
  "target_authorized vr b hdr query key oper d \<longleftrightarrow>
    (\<forall>a\<in>set (o_Authorizations oper). au_On a = OnTarget \<longrightarrow> applies hdr a \<longrightarrow>
      (let action = needed_action (values_get query ''versionId'' \<noteq> []) a in
       action \<in> set (op_Actions (d_op d)) \<and> c_authorize vr b key action = Some None))"

definition source_authorized :: "store \<Rightarrow> identity \<Rightarrow> operation \<Rightarrow> dispatched \<Rightarrow> bool" where
  "source_authorized st vr oper d \<longleftrightarrow>
    (\<forall>a\<in>set (o_Authorizations oper). au_On a = OnCopySource \<longrightarrow> d_copySource d \<noteq> [] \<and>
      (\<exists>n src k version. GetBucket st (vr_Tenant vr) n = Inr src \<and>
        versioned (au_Action a) (au_VersionAction a) version \<in> set (op_Actions (d_op d)) \<and>
        authorize vr src (versioned (au_Action a) (au_VersionAction a) version) (b_Name src @ ''/'' @ k) = Some None))"

lemma dispatch_route_authorizes:
  assumes "dispatch_route st vr b mth hdr query key rt = Some (Inr d)" "bound_route rt" "rt_name rt \<noteq> OpUnknown"
  shows "\<exists>oper. s3op_Lookup (op_Operation (d_op d)) = Some oper \<and>
    target_authorized vr b hdr query key oper d \<and> source_authorized st vr oper d"
proof -
  obtain oper where oper: "s3op_Lookup (rt_name rt) = Some oper"
      "rt_copy rt \<noteq> [] \<Longrightarrow> \<exists>cp. s3op_Lookup (rt_copy rt) = Some cp \<and> onTarget cp = onTarget oper \<and>
        (\<forall>a\<in>set (o_Authorizations cp). au_On a = OnCopySource \<longrightarrow>
          au_Action a = rt_copyAction rt \<and> au_VersionAction a = rt_copyVersionAction rt)"
    using bound_route_entry [OF assms(2,3)] by metis
  note target = route_target_authorized [OF assms(2,3) oper(1)]
  from assms(1) show ?thesis
  proof (cases rule: dispatch_route_cases)
    case (1 acts)
    moreover have "source_authorized st vr oper d"
      using bound_route_no_copy_source [OF assms(2)] oper(1)
      by (simp add: source_authorized_def no_copy_source_def list_all_iff)
    ultimately show ?thesis
      using oper(1) target [OF 1(1)]
      by (auto simp: dispatch_op_def target_authorized_def onTarget_def Let_def)
  next
    case (2 acts cs action)
    then obtain cp where cp: "s3op_Lookup (rt_copy rt) = Some cp" "onTarget cp = onTarget oper"
        "\<forall>a\<in>set (o_Authorizations cp). au_On a = OnCopySource \<longrightarrow>
          au_Action a = rt_copyAction rt \<and> au_VersionAction a = rt_copyVersionAction rt"
      using oper(2) by blast
    have "a \<in> set (onTarget oper)" if "a \<in> set (o_Authorizations cp)" "au_On a = OnTarget" for a
      using that unfolding cp(2) [symmetric] by (simp add: onTarget_def)
    then have "target_authorized vr b hdr query key cp d"
      using target [OF 2(1)] 2(4) by (simp add: dispatch_op_def target_authorized_def Let_def)
    moreover have "source_authorized st vr cp d"
      using resolveCopySource_authorized [OF 2(3)] 2(4,5) cp(3)
      by (auto simp: source_authorized_def dispatch_op_def)
    ultimately show ?thesis
      using cp(1) 2(4) by (auto simp: dispatch_op_def)
  qed
qed

lemma dispatch_grants:
  assumes "dispatch st vr b mth hdr query key rts = Some (Inr d)"
    "(m, rts) \<in> set bucketRoutes \<union> set objectRoutes" "op_Operation (d_op d) \<noteq> OpUnknown"
  shows "\<exists>oper. s3op_Lookup (op_Operation (d_op d)) = Some oper \<and>
    target_authorized vr b hdr query key oper d \<and> source_authorized st vr oper d"
proof -
  obtain rt where rt: "rt \<in> set rts" "dispatch_route st vr b mth hdr query key rt = Some (Inr d)"
    using assms(1) dispatch_loop_route by (fastforce simp: dispatch_def split: sum.splits)
  have bound: "bound_route rt"
    using tables_bound [OF assms(2) rt(1)] .
  have "rt_name rt \<noteq> OpUnknown"
  proof
    assume unk: "rt_name rt = OpUnknown"
    then have "rt_copy rt = []"
      using bound_unknown_copy [OF bound] by blast
    with rt(2) unk assms(3) show False
      by (auto simp: dispatch_op_def elim!: dispatch_route_cases)
  qed
  then show ?thesis
    using dispatch_route_authorizes [OF rt(2) bound] by blast
qed


definition example_store :: store where
  "example_store = \<lparr> GetKey = (\<lambda>_ _. Inl ErrNotFound),
    GetBucket = (\<lambda>t n. if t = b_Tenant example_bucket \<and> n = b_Name example_bucket then Inr example_bucket else Inl ErrNotFound),
    GetBucketByName = (\<lambda>n. if n = b_Name example_bucket then Inr example_bucket else Inl ErrNotFound),
    ListBuckets = (\<lambda>_. Inr []) \<rparr>"

definition example_header :: signed_header where
  "example_header = \<lparr> sh_h = [], sh_signed = [''host''] \<rparr>"


section \<open>Resolving the bucket\<close>

definition resolveBucket :: "store \<Rightarrow> identity \<Rightarrow> string \<Rightarrow> s3error + bucket" where
  "resolveBucket st vr bname =
    (case GetBucket st (vr_Tenant vr) bname of
       Inr b \<Rightarrow> Inr b
     | Inl err \<Rightarrow>
         if \<not> errors_is err ErrNotFound then Inl (s3err_Internal err (lit ''bucket lookup failed''))
         else
           (case GetBucketByName st bname of
              Inl err2 \<Rightarrow>
                Inl (if errors_is err2 ErrNotFound then WithCause AccessDenied err2
                     else s3err_Internal err2 (lit ''bucket lookup failed''))
            | Inr b \<Rightarrow>
                (case b_Policy b of
                   Some p \<Rightarrow>
                     if MentionsPrincipal p (vr_principal vr) then Inr b
                     else Inl (WithCause AccessDenied (visibilityReason (vr_principal vr) bname))
                 | None \<Rightarrow> Inl (WithCause AccessDenied (visibilityReason (vr_principal vr) bname)))))"

text \<open>
  A name that is no bucket of the requester's tenant, and no bucket at all or one of another tenant whose
  policy allows the requester nothing.
\<close>

definition not_found :: "go_error + 'a \<Rightarrow> bool" where
  "not_found r \<longleftrightarrow> (case r of Inl e \<Rightarrow> errors_is e ErrNotFound | Inr _ \<Rightarrow> False)"

definition invisible :: "store \<Rightarrow> identity \<Rightarrow> string \<Rightarrow> bool" where
  "invisible st vr n \<longleftrightarrow> not_found (GetBucket st (vr_Tenant vr) n) \<and>
    (case GetBucketByName st n of
       Inl e \<Rightarrow> errors_is e ErrNotFound
     | Inr b \<Rightarrow> (case b_Policy b of None \<Rightarrow> True | Some p \<Rightarrow> \<not> MentionsPrincipal p (vr_principal vr)))"

lemma Write_WithCause [simp]: "s3err_Write meth path (WithCause e c) rid = s3err_Write meth path e rid"
  by (cases e) (simp add: s3err_Write_def Let_def)

text \<open>
  C21. Bucket names cannot be probed across tenants: for every invisible name the request fails, and the
  response is the one of a plain AccessDenied, whether the bucket exists or not.
\<close>

theorem no_bucket_probing:
  assumes "invisible st vr n"
  shows "\<exists>e. resolveBucket st vr n = Inl e \<and>
    s3err_Write meth path e rid = s3err_Write meth path AccessDenied rid"
  using assms
  by (auto simp: invisible_def not_found_def resolveBucket_def split: sum.splits option.splits)

theorem no_bucket_probing_witness:
  "invisible example_store \<lparr> vr_Tenant = ''tc'', vr_User = ''eve'', vr_UserPolicy = None, vr_SourceIP = Addr4 1 \<rparr> ''b'' \<and>
   invisible example_store example_bob ''nope'' \<and>
   (\<exists>e. resolveBucket example_store example_bob ''nope'' = Inl e \<and>
     s3err_Write ''GET'' ''/nope'' e ''r'' = s3err_Write ''GET'' ''/nope'' AccessDenied ''r'')"
proof -
  have "invisible example_store example_bob ''nope''"
    by code_simp
  moreover have "invisible example_store
      \<lparr> vr_Tenant = ''tc'', vr_User = ''eve'', vr_UserPolicy = None, vr_SourceIP = Addr4 1 \<rparr> ''b''"
    by code_simp
  ultimately show ?thesis
    using no_bucket_probing [of example_store example_bob "''nope''" "''GET''" "''/nope''" "''r''"] by blast
qed

section \<open>A copy source that names a version twice\<close>

text \<open>
  The read of a copy source is authorized by the first \<open>versionId\<close> of the source's query, while the whole
  query is passed on: with an empty value first, the unversioned action is authorized and the source the
  backend gets names a version.
\<close>

definition example_copy_bucket :: bucket where
  "example_copy_bucket = example_bucket\<lparr> b_Policy := None, b_Backend := Some \<lparr> be_Endpoint = ''http://h'',
    be_Region = ''r'', be_Bucket = ''bk'', be_AccessKeyID = ''a'', be_SecretAccessKey = ''s'', be_UsePathStyle = None \<rparr> \<rparr>"

definition example_copy_route :: route where
  "example_copy_route = (operation_route None (Some []) OpPutObject H_putObjectOrCopy)\<lparr> rt_copy := OpCopyObject,
    rt_copyAction := ActionGetObject, rt_copyVersionAction := ActionGetObjectVersion \<rparr>"

lemma copy_source_second_version:
  "resolveCopySource (example_store\<lparr> GetBucket := (\<lambda>_ _. Inr example_copy_bucket) \<rparr>) example_alice
      example_copy_bucket
      \<lparr> sh_h = [(''X-Amz-Copy-Source'', [''b/k?versionId=&versionId=v2''])], sh_signed = [hdrCopySource] \<rparr>
      example_copy_route =
    Some (Inr (''bk/k?versionId=&versionId=v2'', ''s3:GetObject''))"
  by code_simp

end
