(* ===== verification/Handler.thy ===== *)
theory Handler
  imports Sdk Dispatch
begin

text \<open>
  What the handlers of \<open>src/s3gw\<close> share: the context of an operation, the response under construction, and handlers
  as computations on the operation record, the response and the backend's world.
\<close>

section \<open>The context of an operation\<close>

record kms_key_mapper =
  km_ToBackend :: "op \<Rightarrow> string \<Rightarrow> string"
  km_ToClient :: "op \<Rightarrow> string \<Rightarrow> string"

text \<open>The settings of the gateway the handlers read.\<close>

record gateway =
  g_region :: string
  g_storageClass :: "storage_class_mapper option"
  g_kmsKey :: "kms_key_mapper option"
  g_checksums :: checksum_policy

text \<open>
  What the handlers use of their surroundings: \<open>http.ParseTime\<close>, which consults the host's time zones; the response
  headers an SDK error carries; the sizes of reads; how much of a body \<open>io.Copy\<close> passes on before it fails; and
  \<open>xml.Unmarshal\<close> into the request documents.
\<close>

record env =
  ev_ParseTime :: "string \<Rightarrow> go_error + int"
  ev_ErrHeader :: "go_error \<Rightarrow> header option"
  ev_choice :: "nat \<Rightarrow> nat \<times> nat \<times> bool"
  ev_copied :: nat
  ev_Delete :: "string \<Rightarrow> go_error + deleteRequest"
  ev_Complete :: "string \<Rightarrow> go_error + completeMultipartUploadRequest"
  ev_Tagging :: "string \<Rightarrow> go_error + (string \<times> string) list"
  ev_Retention :: "string \<Rightarrow> go_error + objectLockRetention"
  ev_LegalHold :: "string \<Rightarrow> go_error + string"

text \<open>
  \<open>opCtx\<close> without its response writer, operation record and client, which are part of the state. The bucket's
  backend has been dereferenced before a handler runs.
\<close>

record opCtx =
  oc_g :: gateway
  oc_env :: env
  oc_r :: http_request
  oc_tls :: bool
  oc_body :: wire
  oc_vr :: identity
  oc_verified :: verified
  oc_cfg :: bucket
  oc_backend :: backend
  oc_target :: target
  oc_key :: string
  oc_hdr :: signed_header
  oc_copySource :: string

abbreviation oc_query :: "opCtx \<Rightarrow> url_values" where
  "oc_query c \<equiv> r_Query (oc_r c)"

abbreviation oc_signed :: "opCtx \<Rightarrow> string \<Rightarrow> string" where
  "oc_signed c name \<equiv> sh_Signed (oc_hdr c) name"

abbreviation oc_attr :: "opCtx \<Rightarrow> string \<Rightarrow> string" where
  "oc_attr c name \<equiv> sh_Attribute (oc_hdr c) name"

abbreviation be_name :: "opCtx \<Rightarrow> string" where
  "be_name c \<equiv> be_Bucket (oc_backend c)"

text \<open>A member set from a string that is not empty, and \<open>aws.ToString\<close>, \<open>ToInt32\<close>, \<open>ToBool\<close>.\<close>

definition str_opt :: "string \<Rightarrow> string option" where
  "str_opt v = (if v = [] then None else Some v)"

definition to_string :: "string option \<Rightarrow> string" where
  "to_string p = (case p of Some s \<Rightarrow> s | None \<Rightarrow> [])"

definition to_int :: "int option \<Rightarrow> int" where
  "to_int p = (case p of Some i \<Rightarrow> i | None \<Rightarrow> 0)"

definition to_bool :: "bool option \<Rightarrow> bool" where
  "to_bool p = (case p of Some b \<Rightarrow> b | None \<Rightarrow> False)"

section \<open>Responses\<close>

record response =
  rs_header :: header
  rs_status :: "int option"
  rs_body :: string

text \<open>Only the first status is sent; a body without one starts the response with 200.\<close>

definition rs_WriteHeader :: "int \<Rightarrow> response \<Rightarrow> response" where
  "rs_WriteHeader status w = w\<lparr> rs_status := (case rs_status w of None \<Rightarrow> Some status | Some s \<Rightarrow> Some s) \<rparr>"

definition rs_Write :: "string \<Rightarrow> response \<Rightarrow> response" where
  "rs_Write data w = (rs_WriteHeader 200 w)\<lparr> rs_body := rs_body w @ data \<rparr>"

text \<open>The document types of \<open>s3xml\<close> always marshal, so \<open>Write\<close> reports no error.\<close>

definition s3xml_Write :: "xml \<Rightarrow> response \<Rightarrow> response" where
  "s3xml_Write doc w =
    rs_Write (xml_render doc) (rs_Write xml_header (rs_WriteHeader 200
      (w\<lparr> rs_header := header_set ''Content-Type'' ''application/xml'' (rs_header w) \<rparr>)))"

section \<open>Handlers as computations\<close>

record 'w hstate =
  hs_op :: op
  hs_w :: response
  hs_world :: 'w

type_synonym ('w, 'a) handlerM = "('w hstate, 'a) io"

definition h_lift :: "s3error + 'a \<Rightarrow> ('w, 'a) handlerM" where
  "h_lift r = (case r of Inl e \<Rightarrow> io_fail (S3e e) | Inr x \<Rightarrow> io_return x)"

text \<open>A panic unwinds to \<open>wrapHandler\<close>, which answers and reports it as this error.\<close>

definition PanicError :: go_error where
  "PanicError = Sentinel ''panic''"

definition h_option :: "'a option \<Rightarrow> ('w, 'a) handlerM" where
  "h_option r = (case r of Some x \<Rightarrow> io_return x | None \<Rightarrow> io_fail PanicError)"

definition h_op :: "('w, op) handlerM" where
  "h_op = (\<lambda>s. (Inr (hs_op s), s))"

definition h_setResponse :: "op_response \<Rightarrow> ('w, unit) handlerM" where
  "h_setResponse res = io_modify (\<lambda>s. s\<lparr> hs_op := setResponse res (hs_op s) \<rparr>)"

definition h_write :: "(response \<Rightarrow> response) \<Rightarrow> ('w, unit) handlerM" where
  "h_write f = io_modify (\<lambda>s. s\<lparr> hs_w := f (hs_w s) \<rparr>)"

abbreviation h_header :: "(header \<Rightarrow> header) \<Rightarrow> ('w, unit) handlerM" where
  "h_header f \<equiv> h_write (\<lambda>w. w\<lparr> rs_header := f (rs_header w) \<rparr>)"

definition relayedErrorHeaders :: "string list" where
  "relayedErrorHeaders = [''ETag'', ''Last-Modified'', ''Cache-Control'', ''Expires'', ''x-amz-delete-marker'', ''x-amz-version-id'']"

definition relayErrorHeaders :: "header option \<Rightarrow> header \<Rightarrow> header" where
  "relayErrorHeaders resp h =
    (case resp of
       None \<Rightarrow> h
     | Some rh \<Rightarrow> foldl (\<lambda>h k. let v = header_get rh k in if v \<noteq> [] then header_set k v h else h) h relayedErrorHeaders)"

text \<open>A call of the backend; an error becomes the S3 error the client sees.\<close>

definition h_call :: "opCtx \<Rightarrow> ('w, 'i, 'o) call \<Rightarrow> 'i \<Rightarrow> ('w, 'o) handlerM" where
  "h_call c f i = (\<lambda>s.
    (case f i (hs_world s) of
       (Inl err, w') \<Rightarrow> (Inl (S3e (FromSDKError err (r_Path (oc_r c)))), s\<lparr> hs_world := w' \<rparr>)
     | (Inr out, w') \<Rightarrow> (Inr out, s\<lparr> hs_world := w' \<rparr>)))"

definition h_call_relay :: "opCtx \<Rightarrow> ('w, 'i, 'o) call \<Rightarrow> 'i \<Rightarrow> ('w, 'o) handlerM" where
  "h_call_relay c f i = (\<lambda>s.
    (case f i (hs_world s) of
       (Inl err, w') \<Rightarrow>
         (Inl (S3e (FromSDKError err (r_Path (oc_r c)))),
          s\<lparr> hs_world := w', hs_w := (hs_w s)\<lparr> rs_header :=
            relayErrorHeaders (ev_ErrHeader (oc_env c) err) (rs_header (hs_w s)) \<rparr> \<rparr>)
     | (Inr out, w') \<Rightarrow> (Inr out, s\<lparr> hs_world := w' \<rparr>)))"

abbreviation h_xml :: "xml \<Rightarrow> ('w, unit) handlerM" where
  "h_xml doc \<equiv> h_write (s3xml_Write doc)"

abbreviation h_status :: "int \<Rightarrow> ('w, unit) handlerM" where
  "h_status st \<equiv> h_write (rs_WriteHeader st)"

definition h_readXML :: "opCtx \<Rightarrow> (string \<Rightarrow> go_error + 'a) \<Rightarrow> ('w, 'a) handlerM" where
  "h_readXML c unmarshal =
    h_lift (readXMLBody unmarshal (ev_choice (oc_env c)) (g_checksums (oc_g c)) (oc_r c) (oc_body c) (oc_verified c) (oc_hdr c))"

section \<open>Shared steps of the handlers\<close>

definition c_clientStorageClass :: "opCtx \<Rightarrow> op \<Rightarrow> string \<Rightarrow> string" where
  "c_clientStorageClass c p cls = clientStorageClass (g_storageClass (oc_g c)) p cls"

definition c_backendStorageClass :: "opCtx \<Rightarrow> op \<Rightarrow> string \<Rightarrow> int \<Rightarrow> string" where
  "c_backendStorageClass c p requested sz = backendStorageClass (g_storageClass (oc_g c)) p requested sz"

definition c_applySSE :: "opCtx \<Rightarrow> op \<Rightarrow> s3error + string \<times> string option" where
  "c_applySSE c p = applySSE (map_option (\<lambda>m. km_ToBackend m p) (g_kmsKey (oc_g c))) (oc_hdr c)"

definition c_clientKMSKeyID :: "opCtx \<Rightarrow> op \<Rightarrow> string option \<Rightarrow> string option" where
  "c_clientKMSKeyID c p k = clientKMSKeyID (map_option (\<lambda>m. km_ToClient m p) (g_kmsKey (oc_g c))) k"

definition c_setChecksumHeaders :: "opCtx \<Rightarrow> checksum_values \<Rightarrow> string \<Rightarrow> header \<Rightarrow> header" where
  "c_setChecksumHeaders c v typ h = setChecksumHeaders (g_checksums (oc_g c)) h v typ"

definition reportChecksums :: "opCtx \<Rightarrow> checksum_values \<Rightarrow> xml_checksums" where
  "reportChecksums c v = xmlChecksums (offered (g_checksums (oc_g c)) v)"

definition c_requestBody :: "opCtx \<Rightarrow> s3error + body_reader \<times> int" where
  "c_requestBody c = requestBody (g_checksums (oc_g c)) (oc_r c) (oc_body c) (oc_verified c) (oc_hdr c)"

definition http_time :: "opCtx \<Rightarrow> string \<Rightarrow> int option" where
  "http_time c v =
    (if v = [] then None else (case ev_ParseTime (oc_env c) v of Inr t \<Rightarrow> Some t | Inl _ \<Rightarrow> None))"

definition set_opt :: "string \<Rightarrow> string option \<Rightarrow> header \<Rightarrow> header" where
  "set_opt k p h = (case p of Some v \<Rightarrow> header_set k v h | None \<Rightarrow> h)"

text \<open>\<open>IsHTTPS\<close> of a backend, on its endpoint; the SDK's own endpoints are https.\<close>

definition trailerChecksumAlgorithm :: "backend \<Rightarrow> header \<Rightarrow> string" where
  "trailerChecksumAlgorithm b h =
    (case TrailerAlgorithm h of
       Inl _ \<Rightarrow> []
     | Inr alg \<Rightarrow> if alg = [] \<or> \<not> IsHTTPS b then [] else to_upper alg)"

text \<open>The error of \<open>strconv.ParseInt\<close>, which only an observer sees, without its reason.\<close>

definition num_error :: "string \<Rightarrow> go_error" where
  "num_error v = Errorf (Sprintf ''strconv.ParseInt: parsing %q'' [FS v]) []"

definition applyPartNumber :: "url_values \<Rightarrow> s3error + int option" where
  "applyPartNumber query =
    (let v = values_get query qpPartNumber in
     if v = [] then Inr None
     else
       (case parse_int32 v of
          Some n \<Rightarrow> if 1 \<le> n \<and> n \<le> 10000 then Inr (Some n)
                    else Inl (s3err_New 400 ''InvalidArgument''
                      (lit ''Part number must be an integer between 1 and 10000, inclusive''))
        | None \<Rightarrow> Inl (WithCause (s3err_New 400 ''InvalidArgument''
            (lit ''Part number must be an integer between 1 and 10000, inclusive'')) (num_error v))))"

definition applyConditionalHeaders :: "opCtx \<Rightarrow> conditions" where
  "applyConditionalHeaders c =
    \<lparr> cn_IfMatch = str_opt (oc_attr c ''If-Match''), cn_IfNoneMatch = str_opt (oc_attr c ''If-None-Match''),
      cn_IfModifiedSince = http_time c (oc_attr c ''If-Modified-Since''),
      cn_IfUnmodifiedSince = http_time c (oc_attr c ''If-Unmodified-Since'') \<rparr>"

definition applyObjectLockHeaders :: "signed_header \<Rightarrow> lock_params" where
  "applyObjectLockHeaders hdr =
    \<lparr> lk_Mode = sh_Signed hdr hdrObjectLockMode,
      lk_RetainUntil = (let v = sh_Signed hdr hdrObjectLockRetainUntil in if v = [] then None else parse_rfc3339 v),
      lk_LegalHold = sh_Signed hdr hdrObjectLockLegalHold \<rparr>"

definition setObjectLockResponseHeaders :: "lock_params \<Rightarrow> header \<Rightarrow> header" where
  "setObjectLockResponseHeaders l h =
    (let h1 = (if lk_Mode l \<noteq> [] then header_set ''x-amz-object-lock-mode'' (lk_Mode l) h else h);
         h2 = set_opt ''x-amz-object-lock-retain-until-date'' (map_option format_rfc3339 (lk_RetainUntil l)) h1
     in if lk_LegalHold l \<noteq> [] then header_set ''x-amz-object-lock-legal-hold'' (lk_LegalHold l) h2 else h2)"

text \<open>A numeric query parameter that must be a 32-bit integer.\<close>

definition int_param :: "url_values \<Rightarrow> string \<Rightarrow> s3error + int option" where
  "int_param query name =
    (let v = values_get query name in
     if v = [] then Inr None
     else
       (case parse_int32 v of
          Some n \<Rightarrow> Inr (Some n)
        | None \<Rightarrow> Inl (s3err_New 400 ''InvalidArgument'' (lit (''Argument '' @ name @ '' must be an integer.'')))))"

definition tenantOwner :: "string \<Rightarrow> xml_owner" where
  "tenantOwner tenant = \<lparr> xo_ID = tenant, xo_DisplayName = tenant \<rparr>"

section \<open>An example\<close>

text \<open>A request of \<open>example_alice\<close> to her tenant's bucket, its payload unsigned and its body empty.\<close>

definition example_backend :: backend where
  "example_backend = \<lparr> be_Endpoint = ''https://backend.example'', be_Region = ''r1'', be_Bucket = ''ta-b'',
    be_AccessKeyID = ''K'', be_SecretAccessKey = ''S'', be_UsePathStyle = None \<rparr>"

definition example_gateway :: gateway where
  "example_gateway = \<lparr> g_region = [], g_storageClass = None, g_kmsKey = None, g_checksums = no_checksums \<rparr>"

definition example_env :: "deleteRequest \<Rightarrow> env" where
  "example_env del = \<lparr> ev_ParseTime = (\<lambda>_. Inl ErrNotFound), ev_ErrHeader = (\<lambda>_. None),
    ev_choice = example_choice, ev_copied = 100, ev_Delete = (\<lambda>_. Inr del), ev_Complete = (\<lambda>_. Inl ErrNotFound),
    ev_Tagging = (\<lambda>_. Inr []), ev_Retention = (\<lambda>_. Inl ErrNotFound), ev_LegalHold = (\<lambda>_. Inl ErrNotFound) \<rparr>"

definition example_unsigned :: verified where
  "example_unsigned = \<lparr> ve_AccessKeyID = ''AK'', ve_SigningKey = [], ve_Signature = [], ve_SigningTime = 0,
    ve_Scope = [], ve_Region = ''us-east-1'', ve_PayloadHash = ''UNSIGNED-PAYLOAD'', ve_SignedHeaders = [''host''] \<rparr>"

definition example_ctx :: "string \<Rightarrow> string \<Rightarrow> string \<Rightarrow> deleteRequest \<Rightarrow> opCtx" where
  "example_ctx meth key query del =
    \<lparr> oc_g = example_gateway, oc_env = example_env del,
      oc_r = \<lparr> r_Method = meth, r_Host = ''s3.example.com'', r_Path = ''/b/'' @ key, r_EscapedPath = ''/b/'' @ key,
        r_Opaque = [], r_RawQuery = query, r_Header = [], r_RemoteAddr = ''10.0.0.1:4000'', r_ContentLength = 0 \<rparr>,
      oc_tls = True, oc_body = \<lparr> wi_inp = [], wi_fin = EOF \<rparr>, oc_vr = example_alice, oc_verified = example_unsigned,
      oc_cfg = example_bucket\<lparr> b_Backend := Some example_backend \<rparr>, oc_backend = example_backend,
      oc_target = \<lparr> t_bucket = ''b'', t_key = key, t_vhost = False \<rparr>, oc_key = key, oc_hdr = example_header,
      oc_copySource = [] \<rparr>"

definition example_op :: "string \<Rightarrow> op" where
  "example_op name = \<lparr> op_Method = ''GET'', op_Operation = name, op_Actions = [], op_Tenant = ''ta'', op_User = ''alice'',
    op_Bucket = ''b'', op_BucketOwner = ''ta'', op_Key = [], op_Request = None, op_Response = None, op_BytesIn = 0,
    op_BytesOut = 0, op_Denials = [] \<rparr>"

definition example_state :: "'w \<Rightarrow> 'w hstate" where
  "example_state w = \<lparr> hs_op = example_op ''DeleteObjects'',
    hs_w = \<lparr> rs_header = [], rs_status = None, rs_body = [] \<rparr>, hs_world = w \<rparr>"

lemma example_ctx_ok: "bucket_principals (oc_cfg (example_ctx m k q d))" "bucket_effects (oc_cfg (example_ctx m k q d))"
  using example_bucket_ok by (simp_all add: example_ctx_def bucket_principals_def bucket_effects_def)

lemma example_readXML:
  "h_readXML (example_ctx m k q d) (ev_Delete (oc_env (example_ctx m k q d))) s = (Inr d, s)"
proof -
  have payload: "\<not> IsStreaming ''UNSIGNED-PAYLOAD''" "\<not> isHexSHA256 ''UNSIGNED-PAYLOAD''"
    by code_simp+
  have "requestBody no_checksums (oc_r (example_ctx m k q d)) \<lparr> wi_inp = [], wi_fin = EOF \<rparr> example_unsigned example_header =
      Inr (Body_raw \<lparr> wi_inp = [], wi_fin = EOF \<rparr>, 0)"
    by (simp add: requestBody_def example_ctx_def example_unsigned_def example_trailer checkTrailer_def guard_err_def payload)
  moreover have "fst (read_limited (read_script example_choice (Body_raw \<lparr> wi_inp = [], wi_fin = EOF \<rparr>)) maxXMLBodySize
      (Body_raw \<lparr> wi_inp = [], wi_fin = EOF \<rparr>)) = Some (Inr [])"
    by (simp add: wire_Read_def maxXMLBodySize_def read_script_def example_choice_def upt_conv_Cons)
  ultimately show ?thesis
    by (simp add: h_readXML_def h_lift_def readXMLBody_def example_ctx_def example_env_def example_gateway_def)
qed

end
