(* ===== verification/Objects.thy ===== *)
theory Objects
  imports Handler
begin

text \<open>
  The handlers of single objects in \<open>src/s3gw/proxy.go\<close>, \<open>src/s3gw/copy.go\<close> and \<open>src/s3gw/objectattributes.go\<close>:
  reading, writing, copying and deleting an object. Each is split into the request it sends to the backend, a
  function of the context, and what it answers.
\<close>

section \<open>Reading\<close>

record objectHeaderValues =
  ohv_ContentType :: "string option"
  ohv_ContentLength :: "int option"
  ohv_ETag :: "string option"
  ohv_LastModified :: "int option"
  ohv_CacheControl :: "string option"
  ohv_ContentDisposition :: "string option"
  ohv_ContentEncoding :: "string option"
  ohv_ContentLanguage :: "string option"
  ohv_Expires :: "string option"
  ohv_StorageClass :: string
  ohv_VersionID :: "string option"
  ohv_SSE :: string
  ohv_SSEKMSKeyID :: "string option"
  ohv_Metadata :: "(string \<times> string) list"

definition setObjectHeaders :: "objectHeaderValues \<Rightarrow> header \<Rightarrow> header" where
  "setObjectHeaders v h0 =
    (let h1 = set_opt ''Content-Type'' (ohv_ContentType v) h0;
         h2 = set_opt ''Content-Length'' (map_option format_int (ohv_ContentLength v)) h1;
         h3 = set_opt ''ETag'' (ohv_ETag v) h2;
         h4 = set_opt ''Last-Modified'' (map_option format_http (ohv_LastModified v)) h3;
         h5 = set_opt ''Cache-Control'' (ohv_CacheControl v) h4;
         h6 = set_opt ''Content-Disposition'' (ohv_ContentDisposition v) h5;
         h7 = set_opt ''Content-Encoding'' (ohv_ContentEncoding v) h6;
         h8 = set_opt ''Content-Language'' (ohv_ContentLanguage v) h7;
         h9 = set_opt ''Expires'' (ohv_Expires v) h8;
         h10 = (if ohv_StorageClass v \<noteq> [] then header_set ''x-amz-storage-class'' (ohv_StorageClass v) h9 else h9);
         h11 = set_opt ''x-amz-version-id'' (ohv_VersionID v) h10;
         h12 = setSSEHeaders h11 (ohv_SSE v) (ohv_SSEKMSKeyID v)
     in foldl (\<lambda>h (k, val). assoc_set (amzMetaPrefix @ to_lower k) [val] h) h12 (ohv_Metadata v))"

text \<open>What the backend reported of an object, for the response and for the operation record.\<close>

definition object_values :: "opCtx \<Rightarrow> op \<Rightarrow> ('a) headObjectOutput_scheme \<Rightarrow> objectHeaderValues" where
  "object_values c p out =
    \<lparr> ohv_ContentType = hoo_ContentType out, ohv_ContentLength = hoo_ContentLength out, ohv_ETag = hoo_ETag out,
      ohv_LastModified = hoo_LastModified out, ohv_CacheControl = hoo_CacheControl out,
      ohv_ContentDisposition = hoo_ContentDisposition out, ohv_ContentEncoding = hoo_ContentEncoding out,
      ohv_ContentLanguage = hoo_ContentLanguage out, ohv_Expires = hoo_ExpiresString out,
      ohv_StorageClass = c_clientStorageClass c p (hoo_StorageClass out), ohv_VersionID = hoo_VersionId out,
      ohv_SSE = hoo_SSE out, ohv_SSEKMSKeyID = c_clientKMSKeyID c p (hoo_SSEKMSKeyId out),
      ohv_Metadata = hoo_Metadata out \<rparr>"

definition object_response :: "('a) headObjectOutput_scheme \<Rightarrow> op_response" where
  "object_response out =
    \<lparr> ores_SSE = hoo_SSE out, ores_SSEKMSKeyID = to_string (hoo_SSEKMSKeyId out), ores_StorageClass = hoo_StorageClass out,
      ores_Metadata = hoo_Metadata out, ores_ETag = to_string (hoo_ETag out), ores_VersionID = to_string (hoo_VersionId out) \<rparr>"

definition checksumsFromGetObjectOutput :: "getObjectOutput \<Rightarrow> checksum_values" where
  "checksumsFromGetObjectOutput x = checksums_from (hoo_Checksums x)"

definition checksumsFromHeadObjectOutput :: "headObjectOutput \<Rightarrow> checksum_values" where
  "checksumsFromHeadObjectOutput x = checksums_from (hoo_Checksums x)"

definition checksum_mode :: "opCtx \<Rightarrow> string" where
  "checksum_mode c = (if equal_fold (oc_signed c ''x-amz-checksum-mode'') ''enabled'' then ''ENABLED'' else [])"

definition getObject_input :: "opCtx \<Rightarrow> s3error + getObjectInput" where
  "getObject_input c =
    and_then (applyPartNumber (oc_query c)) (\<lambda>part. Inr
      \<lparr> goi_Bucket = be_name c, goi_Key = oc_key c, goi_Conditions = applyConditionalHeaders c,
        goi_Range = str_opt (oc_attr c ''Range''), goi_VersionId = str_opt (values_get (oc_query c) qpVersionID),
        goi_PartNumber = part, goi_ChecksumMode = checksum_mode c,
        goi_ResponseContentType = str_opt (values_get (oc_query c) ''response-content-type''),
        goi_ResponseContentDisposition = str_opt (values_get (oc_query c) ''response-content-disposition''),
        goi_ResponseCacheControl = str_opt (values_get (oc_query c) ''response-cache-control''),
        goi_ResponseContentEncoding = str_opt (values_get (oc_query c) ''response-content-encoding''),
        goi_ResponseContentLanguage = str_opt (values_get (oc_query c) ''response-content-language''),
        goi_ResponseExpires = http_time c (values_get (oc_query c) ''response-expires'') \<rparr>)"

definition getObject_headers :: "opCtx \<Rightarrow> op \<Rightarrow> getObjectOutput \<Rightarrow> header \<Rightarrow> header" where
  "getObject_headers c p out h0 =
    (let h1 = setObjectHeaders (object_values c p out) h0;
         h2 = set_opt ''Accept-Ranges'' (hoo_AcceptRanges out) h1;
         h3 = set_opt ''x-amz-tagging-count'' (map_option format_int (goo_TagCount out)) h2;
         h4 = set_opt ''x-amz-mp-parts-count'' (map_option format_int (hoo_PartsCount out)) h3;
         h5 = c_setChecksumHeaders c (checksumsFromGetObjectOutput out) (hoo_ChecksumType out) h4;
         h6 = setObjectLockResponseHeaders (hoo_Lock out) h5
     in set_opt ''Content-Range'' (goo_ContentRange out) h6)"

text \<open>A copy that fails is only logged: the client sees a broken body.\<close>

definition io_Copy :: "env \<Rightarrow> wire \<Rightarrow> response \<Rightarrow> response" where
  "io_Copy e body w = (if wi_inp body = [] then w else rs_Write (take (ev_copied e) (wi_inp body)) w)"

definition getObject :: "'w backendClient \<Rightarrow> opCtx \<Rightarrow> ('w, unit) handlerM" where
  "getObject bc c =
    io_bind (h_lift (getObject_input c)) (\<lambda>i.
    io_bind (h_call_relay c (bc_GetObject bc) i) (\<lambda>out.
    io_bind (h_setResponse (object_response out)) (\<lambda>_.
    io_bind h_op (\<lambda>p.
    io_bind (h_header (getObject_headers c p out)) (\<lambda>_.
    io_bind (h_status (if goo_ContentRange out \<noteq> None then 206 else 200)) (\<lambda>_.
    h_write (io_Copy (oc_env c) (goo_Body out))))))))"

definition headObject_input :: "opCtx \<Rightarrow> s3error + headObjectInput" where
  "headObject_input c =
    and_then (applyPartNumber (oc_query c)) (\<lambda>part. Inr
      \<lparr> hoi_Bucket = be_name c, hoi_Key = oc_key c, hoi_Conditions = applyConditionalHeaders c,
        hoi_Range = str_opt (oc_attr c ''Range''), hoi_VersionId = str_opt (values_get (oc_query c) qpVersionID),
        hoi_PartNumber = part, hoi_ChecksumMode = checksum_mode c \<rparr>)"

definition headObject_headers :: "opCtx \<Rightarrow> op \<Rightarrow> headObjectOutput \<Rightarrow> header \<Rightarrow> header" where
  "headObject_headers c p out h0 =
    (let h1 = setObjectHeaders (object_values c p out) h0;
         h2 = set_opt ''Accept-Ranges'' (hoo_AcceptRanges out) h1;
         h3 = set_opt ''x-amz-mp-parts-count'' (map_option format_int (hoo_PartsCount out)) h2;
         h4 = c_setChecksumHeaders c (checksumsFromHeadObjectOutput out) (hoo_ChecksumType out) h3
     in setObjectLockResponseHeaders (hoo_Lock out) h4)"

definition headObject :: "'w backendClient \<Rightarrow> opCtx \<Rightarrow> ('w, unit) handlerM" where
  "headObject bc c =
    io_bind (h_lift (headObject_input c)) (\<lambda>i.
    io_bind (h_call_relay c (bc_HeadObject bc) i) (\<lambda>out.
    io_bind (h_setResponse (object_response out)) (\<lambda>_.
    io_bind h_op (\<lambda>p.
    io_bind (h_header (headObject_headers c p out)) (\<lambda>_.
    h_status 200)))))"

section \<open>Writing\<close>

definition setChecksumsPutObjectInput :: "checksum_values \<Rightarrow> putObjectInput \<Rightarrow> putObjectInput" where
  "setChecksumsPutObjectInput v x = x\<lparr> poi_Checksums := checksums_to v \<rparr>"

definition checksumsFromPutObjectOutput :: "putObjectOutput \<Rightarrow> checksum_values" where
  "checksumsFromPutObjectOutput x = checksums_from (poo_Checksums x)"

text \<open>The algorithm named to the backend: the trailer's if one is forwarded, else that of a checksum header.\<close>

definition upload_algorithm :: "opCtx \<Rightarrow> string" where
  "upload_algorithm c =
    (let t = trailerChecksumAlgorithm (oc_backend c) (r_Header (oc_r c))
     in if t \<noteq> [] then t else values_Algorithm (FromHeaders (r_Header (oc_r c))))"

definition putObject_input :: "opCtx \<Rightarrow> op \<Rightarrow> s3error + putObjectInput" where
  "putObject_input c p =
    and_then (c_requestBody c) (\<lambda>(body, len).
    and_then (contentMD5Header (oc_hdr c)) (\<lambda>md5v.
    and_then (c_applySSE c p) (\<lambda>(sse, kmsKeyID). Inr
      (setChecksumsPutObjectInput (FromHeaders (r_Header (oc_r c)))
        \<lparr> poi_Bucket = be_name c, poi_Key = oc_key c, poi_Body = body, poi_ContentLength = Some len,
          poi_IfMatch = str_opt (oc_attr c ''If-Match''), poi_IfNoneMatch = str_opt (oc_attr c ''If-None-Match''),
          poi_ContentType = str_opt (oc_attr c ''Content-Type''), poi_ContentMD5 = md5v,
          poi_CacheControl = str_opt (oc_attr c ''Cache-Control''),
          poi_ContentDisposition = str_opt (oc_attr c ''Content-Disposition''),
          poi_ContentEncoding = str_opt (contentEncodingWithoutAWSChunked (oc_attr c ''Content-Encoding'')),
          poi_ContentLanguage = str_opt (oc_attr c ''Content-Language''),
          poi_Expires = http_time c (oc_attr c ''Expires''),
          poi_StorageClass = c_backendStorageClass c p (oc_signed c hdrStorageClass) len,
          poi_Tagging = str_opt (oc_signed c hdrTagging), poi_SSE = sse, poi_SSEKMSKeyId = kmsKeyID,
          poi_Lock = applyObjectLockHeaders (oc_hdr c), poi_Metadata = AmzMeta (oc_hdr c),
          poi_Checksums = no_sdk_checksums, poi_ChecksumAlgorithm = upload_algorithm c \<rparr>))))"

definition putObject_headers :: "opCtx \<Rightarrow> op \<Rightarrow> putObjectOutput \<Rightarrow> header \<Rightarrow> header" where
  "putObject_headers c p out h0 =
    (let h1 = set_opt ''ETag'' (poo_ETag out) h0;
         h2 = set_opt ''x-amz-version-id'' (poo_VersionId out) h1;
         h3 = setSSEHeaders h2 (poo_SSE out) (c_clientKMSKeyID c p (poo_SSEKMSKeyId out))
     in c_setChecksumHeaders c (checksumsFromPutObjectOutput out) (poo_ChecksumType out) h3)"

text \<open>What a write reports: encryption, tag and version, no storage class and no metadata.\<close>

definition write_response :: "string \<Rightarrow> string option \<Rightarrow> string option \<Rightarrow> string option \<Rightarrow> op_response" where
  "write_response sse kmsKeyID etag version =
    \<lparr> ores_SSE = sse, ores_SSEKMSKeyID = to_string kmsKeyID, ores_StorageClass = [], ores_Metadata = [],
      ores_ETag = to_string etag, ores_VersionID = to_string version \<rparr>"

definition putObject :: "'w backendClient \<Rightarrow> opCtx \<Rightarrow> ('w, unit) handlerM" where
  "putObject bc c =
    io_bind h_op (\<lambda>p.
    io_bind (h_lift (putObject_input c p)) (\<lambda>i.
    io_bind (h_call c (bc_PutObject bc) i) (\<lambda>out.
    io_bind (h_setResponse (write_response (poo_SSE out) (poo_SSEKMSKeyId out) (poo_ETag out) (poo_VersionId out))) (\<lambda>_.
    io_bind h_op (\<lambda>p'.
    io_bind (h_header (putObject_headers c p' out)) (\<lambda>_.
    h_status 200))))))"

section \<open>Deleting\<close>

definition deleteObject_input :: "opCtx \<Rightarrow> s3error + deleteObjectInput" where
  "deleteObject_input c =
    (let since = oc_signed c ''x-amz-if-match-last-modified-time''; sz = oc_signed c ''x-amz-if-match-size'' in
     and_then
       (if since = [] then Inr None
        else (case ev_ParseTime (oc_env c) since of
                Inr t \<Rightarrow> Inr (Some t)
              | Inl err \<Rightarrow> Inl (WithCause (s3err_New 400 ''InvalidArgument''
                  (lit ''x-amz-if-match-last-modified-time must be a valid HTTP date'')) err))) (\<lambda>t.
     and_then
       (if sz = [] then Inr None
        else (case parse_int 10 sz of
                Some n \<Rightarrow> Inr (Some n)
              | None \<Rightarrow> Inl (WithCause (s3err_New 400 ''InvalidArgument''
                  (lit ''x-amz-if-match-size must be an integer'')) (num_error sz)))) (\<lambda>n. Inr
       \<lparr> doi_Bucket = be_name c, doi_Key = oc_key c, doi_VersionId = str_opt (values_get (oc_query c) qpVersionID),
         doi_BypassGovernanceRetention = (if bypassGovernanceRetention (oc_hdr c) then Some True else None),
         doi_IfMatch = str_opt (oc_attr c ''If-Match''), doi_IfMatchLastModifiedTime = t, doi_IfMatchSize = n \<rparr>)))"

definition deleteObject :: "'w backendClient \<Rightarrow> opCtx \<Rightarrow> ('w, unit) handlerM" where
  "deleteObject bc c =
    io_bind (h_lift (deleteObject_input c)) (\<lambda>i.
    io_bind (h_call c (bc_DeleteObject bc) i) (\<lambda>out.
    io_bind (h_header (\<lambda>h. let h1 = set_opt ''x-amz-version-id'' (doo_VersionId out) h in
      if to_bool (doo_DeleteMarker out) then header_set ''x-amz-delete-marker'' ''true'' h1 else h1)) (\<lambda>_.
    h_status 204)))"

section \<open>Copying\<close>

definition checksumsFromCopyObjectResult :: "sdk_copy_result \<Rightarrow> checksum_values" where
  "checksumsFromCopyObjectResult x = checksums_from (scr_Checksums x)"

definition copyObject_input :: "opCtx \<Rightarrow> op \<Rightarrow> s3error + copyObjectInput" where
  "copyObject_input c p =
    and_then (checksumAlgorithm (g_checksums (oc_g c)) (oc_signed c ''x-amz-checksum-algorithm'')) (\<lambda>alg.
    and_then (c_applySSE c p) (\<lambda>(sse, kmsKeyID). Inr
      \<lparr> coi_Bucket = be_name c, coi_Key = oc_key c, coi_CopySource = oc_copySource c,
        coi_MetadataDirective = oc_signed c ''x-amz-metadata-directive'',
        coi_ContentType = str_opt (oc_attr c ''Content-Type''),
        coi_StorageClass = c_backendStorageClass c p (oc_signed c hdrStorageClass) SizeUnknown,
        coi_ChecksumAlgorithm = alg, coi_TaggingDirective = oc_signed c ''x-amz-tagging-directive'',
        coi_Tagging = str_opt (oc_signed c hdrTagging), coi_Lock = applyObjectLockHeaders (oc_hdr c),
        coi_Metadata = AmzMeta (oc_hdr c),
        coi_SourceConditions =
          \<lparr> cn_IfMatch = str_opt (oc_signed c ''x-amz-copy-source-if-match''),
            cn_IfNoneMatch = str_opt (oc_signed c ''x-amz-copy-source-if-none-match''),
            cn_IfModifiedSince = http_time c (oc_signed c ''x-amz-copy-source-if-modified-since''),
            cn_IfUnmodifiedSince = http_time c (oc_signed c ''x-amz-copy-source-if-unmodified-since'') \<rparr>,
        coi_SSE = sse, coi_SSEKMSKeyId = kmsKeyID \<rparr>))"

definition no_xml_checksums :: xml_checksums where
  "no_xml_checksums = xmlChecksums []"

definition copyObject_result :: "opCtx \<Rightarrow> copyObjectOutput \<Rightarrow> copyObjectResult" where
  "copyObject_result c out =
    (case coo_Result out of
       None \<Rightarrow> \<lparr> cor_XMLNS = Namespace, cor_ETag = [], cor_LastModified = [], cor_ChecksumType = [],
         cor_Checksums = no_xml_checksums \<rparr>
     | Some cr \<Rightarrow> \<lparr> cor_XMLNS = Namespace, cor_ETag = to_string (scr_ETag cr),
         cor_LastModified = (case scr_LastModified cr of Some t \<Rightarrow> FormatTime t | None \<Rightarrow> []),
         cor_ChecksumType = scr_ChecksumType cr,
         cor_Checksums = reportChecksums c (checksumsFromCopyObjectResult cr) \<rparr>)"

definition copyObject :: "'w backendClient \<Rightarrow> opCtx \<Rightarrow> ('w, unit) handlerM" where
  "copyObject bc c =
    io_bind h_op (\<lambda>p.
    io_bind (h_lift (copyObject_input c p)) (\<lambda>i.
    io_bind (h_call c (bc_CopyObject bc) i) (\<lambda>out.
    io_bind (h_setResponse (write_response (coo_SSE out) (coo_SSEKMSKeyId out)
      (Option.bind (coo_Result out) scr_ETag) (coo_VersionId out))) (\<lambda>_.
    io_bind h_op (\<lambda>p'.
    io_bind (h_header (\<lambda>h. set_opt ''x-amz-copy-source-version-id'' (coo_CopySourceVersionId out)
      (setSSEHeaders (set_opt ''x-amz-version-id'' (coo_VersionId out) h) (coo_SSE out)
        (c_clientKMSKeyID c p' (coo_SSEKMSKeyId out))))) (\<lambda>_.
    h_xml (copyObjectResult_xml (copyObject_result c out))))))))"

definition putObjectOrCopy :: "'w backendClient \<Rightarrow> opCtx \<Rightarrow> ('w, unit) handlerM" where
  "putObjectOrCopy bc c = (if oc_copySource c \<noteq> [] then copyObject bc c else putObject bc c)"

end
