(* ===== verification/Multipart.thy ===== *)
theory Multipart
  imports Objects
begin

text \<open>
  The handlers of multipart uploads: \<open>src/s3gw/multipart.go\<close> and \<open>uploadPartCopy\<close> of \<open>src/s3gw/copy.go\<close>.
\<close>

section \<open>Starting an upload\<close>

definition createMultipartUpload_input :: "opCtx \<Rightarrow> op \<Rightarrow> s3error + createMultipartUploadInput" where
  "createMultipartUpload_input c p =
    and_then (checksumAlgorithm (g_checksums (oc_g c)) (oc_signed c ''x-amz-checksum-algorithm'')) (\<lambda>alg.
    and_then (c_applySSE c p) (\<lambda>(sse, kmsKeyID). Inr
      \<lparr> cmi_Bucket = be_name c, cmi_Key = oc_key c,
        cmi_ContentType = str_opt (oc_attr c ''Content-Type''),
        cmi_CacheControl = str_opt (oc_attr c ''Cache-Control''),
        cmi_ContentDisposition = str_opt (oc_attr c ''Content-Disposition''),
        cmi_ContentEncoding = str_opt (contentEncodingWithoutAWSChunked (oc_attr c ''Content-Encoding'')),
        cmi_ContentLanguage = str_opt (oc_attr c ''Content-Language''),
        cmi_Expires = http_time c (oc_attr c ''Expires''),
        cmi_StorageClass = c_backendStorageClass c p (oc_signed c hdrStorageClass) SizeUnknown,
        cmi_Tagging = str_opt (oc_signed c hdrTagging), cmi_Lock = applyObjectLockHeaders (oc_hdr c),
        cmi_Metadata = AmzMeta (oc_hdr c), cmi_ChecksumAlgorithm = alg,
        cmi_ChecksumType = to_upper (oc_signed c ''x-amz-checksum-type''),
        cmi_SSE = sse, cmi_SSEKMSKeyId = kmsKeyID \<rparr>))"

definition createMultipartUpload_headers ::
  "opCtx \<Rightarrow> op \<Rightarrow> createMultipartUploadOutput \<Rightarrow> header \<Rightarrow> header" where
  "createMultipartUpload_headers c p out h0 =
    (let alg = reportAlgorithm (g_checksums (oc_g c)) (cmo_ChecksumAlgorithm out);
         h1 = (if alg \<noteq> [] then header_set ''x-amz-checksum-algorithm'' alg h0 else h0);
         h2 = (if cmo_ChecksumType out \<noteq> [] then header_set ''x-amz-checksum-type'' (cmo_ChecksumType out) h1 else h1)
     in setSSEHeaders h2 (cmo_SSE out) (c_clientKMSKeyID c p (cmo_SSEKMSKeyId out)))"

definition createMultipartUpload :: "'w backendClient \<Rightarrow> opCtx \<Rightarrow> ('w, unit) handlerM" where
  "createMultipartUpload bc c =
    io_bind h_op (\<lambda>p.
    io_bind (h_lift (createMultipartUpload_input c p)) (\<lambda>i.
    io_bind (h_call c (bc_CreateMultipartUpload bc) i) (\<lambda>out.
    io_bind (h_setResponse (write_response (cmo_SSE out) (cmo_SSEKMSKeyId out) None None)) (\<lambda>_.
    io_bind h_op (\<lambda>p'.
    io_bind (h_header (createMultipartUpload_headers c p' out)) (\<lambda>_.
    h_xml (initiateMultipartUploadResult_xml
      \<lparr> imu_XMLNS = Namespace, imu_Bucket = b_Name (oc_cfg c), imu_Key = oc_key c,
        imu_UploadID = to_string (cmo_UploadId out) \<rparr>)))))))"

section \<open>Parts\<close>

definition part_number :: "opCtx \<Rightarrow> s3error + int" where
  "part_number c =
    (case parse_int32 (values_get (oc_query c) ''partNumber'') of
       Some n \<Rightarrow> Inr n
     | None \<Rightarrow> Inl (s3err_New 400 ''InvalidArgument'' (lit ''Argument partNumber must be an integer.'')))"

definition setChecksumsUploadPartInput :: "checksum_values \<Rightarrow> uploadPartInput \<Rightarrow> uploadPartInput" where
  "setChecksumsUploadPartInput v x = x\<lparr> upi_Checksums := checksums_to v \<rparr>"

definition checksumsFromUploadPartOutput :: "uploadPartOutput \<Rightarrow> checksum_values" where
  "checksumsFromUploadPartOutput x = checksums_from (upo_Checksums x)"

definition uploadPart_input :: "opCtx \<Rightarrow> s3error + uploadPartInput" where
  "uploadPart_input c =
    and_then (part_number c) (\<lambda>n.
    and_then (c_requestBody c) (\<lambda>(body, len).
    and_then (contentMD5Header (oc_hdr c)) (\<lambda>md5v. Inr
      (setChecksumsUploadPartInput (FromHeaders (r_Header (oc_r c)))
        \<lparr> upi_Bucket = be_name c, upi_Key = oc_key c, upi_UploadId = values_get (oc_query c) ''uploadId'',
          upi_PartNumber = n, upi_Body = body, upi_ContentLength = len, upi_ContentMD5 = md5v,
          upi_Checksums = no_sdk_checksums, upi_ChecksumAlgorithm = upload_algorithm c \<rparr>))))"

definition uploadPart :: "'w backendClient \<Rightarrow> opCtx \<Rightarrow> ('w, unit) handlerM" where
  "uploadPart bc c =
    io_bind (h_lift (uploadPart_input c)) (\<lambda>i.
    io_bind (h_call c (bc_UploadPart bc) i) (\<lambda>out.
    io_bind h_op (\<lambda>p.
    io_bind (h_header (\<lambda>h. c_setChecksumHeaders c (checksumsFromUploadPartOutput out) []
      (setSSEHeaders (set_opt ''ETag'' (upo_ETag out) h) (upo_SSE out)
        (c_clientKMSKeyID c p (upo_SSEKMSKeyId out))))) (\<lambda>_.
    h_status 200))))"

definition checksumsFromCopyPartResult :: "sdk_copy_result \<Rightarrow> checksum_values" where
  "checksumsFromCopyPartResult x = checksums_from (scr_Checksums x)"

definition uploadPartCopy_input :: "opCtx \<Rightarrow> s3error + uploadPartCopyInput" where
  "uploadPartCopy_input c =
    and_then (part_number c) (\<lambda>n. Inr
      \<lparr> uci_Bucket = be_name c, uci_Key = oc_key c, uci_UploadId = values_get (oc_query c) ''uploadId'',
        uci_PartNumber = n, uci_CopySource = oc_copySource c,
        uci_CopySourceRange = str_opt (oc_signed c ''x-amz-copy-source-range'') \<rparr>)"

definition copyPart_result :: "opCtx \<Rightarrow> uploadPartCopyOutput \<Rightarrow> copyPartResult" where
  "copyPart_result c out =
    (case uco_Result out of
       None \<Rightarrow> \<lparr> cpr_XMLNS = Namespace, cpr_ETag = [], cpr_LastModified = [], cpr_Checksums = no_xml_checksums \<rparr>
     | Some cr \<Rightarrow> \<lparr> cpr_XMLNS = Namespace, cpr_ETag = to_string (scr_ETag cr),
         cpr_LastModified = (case scr_LastModified cr of Some t \<Rightarrow> FormatTime t | None \<Rightarrow> []),
         cpr_Checksums = reportChecksums c (checksumsFromCopyPartResult cr) \<rparr>)"

definition uploadPartCopy :: "'w backendClient \<Rightarrow> opCtx \<Rightarrow> ('w, unit) handlerM" where
  "uploadPartCopy bc c =
    io_bind (h_lift (uploadPartCopy_input c)) (\<lambda>i.
    io_bind (h_call c (bc_UploadPartCopy bc) i) (\<lambda>out.
    io_bind h_op (\<lambda>p.
    io_bind (h_header (\<lambda>h. setSSEHeaders (set_opt ''x-amz-copy-source-version-id'' (uco_CopySourceVersionId out) h)
      (uco_SSE out) (c_clientKMSKeyID c p (uco_SSEKMSKeyId out)))) (\<lambda>_.
    h_xml (copyPartResult_xml (copyPart_result c out))))))"

definition uploadPartOrCopy :: "'w backendClient \<Rightarrow> opCtx \<Rightarrow> ('w, unit) handlerM" where
  "uploadPartOrCopy bc c = (if oc_copySource c \<noteq> [] then uploadPartCopy bc c else uploadPart bc c)"

section \<open>Completing and aborting\<close>

definition setChecksumsCompletedPart :: "checksum_values \<Rightarrow> completedPart \<Rightarrow> completedPart" where
  "setChecksumsCompletedPart v x = x\<lparr> cdp_Checksums := checksums_to v \<rparr>"

definition setChecksumsCompleteMultipartUploadInput ::
  "checksum_values \<Rightarrow> completeMultipartUploadInput \<Rightarrow> completeMultipartUploadInput" where
  "setChecksumsCompleteMultipartUploadInput v x = x\<lparr> cpi_Checksums := checksums_to v \<rparr>"

definition checksumsFromCompleteMultipartUploadOutput :: "completeMultipartUploadOutput \<Rightarrow> checksum_values" where
  "checksumsFromCompleteMultipartUploadOutput x = checksums_from (cpo_Checksums x)"

text \<open>The loop over the parts of the document; a refused checksum ends it.\<close>

fun completed_parts :: "checksum_policy \<Rightarrow> completePart list \<Rightarrow> s3error + completedPart list" where
  "completed_parts cs [] = Inr []"
| "completed_parts cs (p # ps) =
    (let v = checksumsFromXML (cpt_Checksums p) in
     and_then (checkChecksums cs v) (\<lambda>_.
     and_then (completed_parts cs ps) (\<lambda>rest.
     Inr (setChecksumsCompletedPart v
       \<lparr> cdp_PartNumber = cpt_PartNumber p, cdp_ETag = cpt_ETag p, cdp_Checksums = no_sdk_checksums \<rparr> # rest))))"

definition completeMultipartUpload_input ::
  "opCtx \<Rightarrow> completeMultipartUploadRequest \<Rightarrow> s3error + completeMultipartUploadInput" where
  "completeMultipartUpload_input c req =
    (if cmq_Parts req = [] then Inl (s3err_New 400 ''InvalidRequest'' (lit ''You must specify at least one part''))
     else
       and_then (completed_parts (g_checksums (oc_g c)) (cmq_Parts req)) (\<lambda>parts. Inr
         (setChecksumsCompleteMultipartUploadInput (FromHeaders (r_Header (oc_r c)))
           \<lparr> cpi_Bucket = be_name c, cpi_Key = oc_key c, cpi_UploadId = values_get (oc_query c) ''uploadId'',
             cpi_Parts = parts, cpi_IfMatch = str_opt (oc_attr c ''If-Match''),
             cpi_IfNoneMatch = str_opt (oc_attr c ''If-None-Match''),
             cpi_ChecksumType = to_upper (oc_signed c ''x-amz-checksum-type''), cpi_Checksums = no_sdk_checksums,
             cpi_MpuObjectSize = (let v = oc_signed c ''x-amz-mp-object-size'' in
               if v = [] then None else parse_int 10 v) \<rparr>)))"

definition completeMultipartUpload :: "'w backendClient \<Rightarrow> opCtx \<Rightarrow> ('w, unit) handlerM" where
  "completeMultipartUpload bc c =
    io_bind (h_readXML c (ev_Complete (oc_env c))) (\<lambda>req.
    io_bind (h_lift (completeMultipartUpload_input c req)) (\<lambda>i.
    io_bind (h_call c (bc_CompleteMultipartUpload bc) i) (\<lambda>out.
    io_bind (h_setResponse (write_response (cpo_SSE out) (cpo_SSEKMSKeyId out) (cpo_ETag out) (cpo_VersionId out))) (\<lambda>_.
    io_bind h_op (\<lambda>p.
    io_bind (h_header (\<lambda>h. setSSEHeaders (set_opt ''x-amz-version-id'' (cpo_VersionId out) h) (cpo_SSE out)
      (c_clientKMSKeyID c p (cpo_SSEKMSKeyId out)))) (\<lambda>_.
    h_xml (completeMultipartUploadResult_xml
      \<lparr> cmr_XMLNS = Namespace, cmr_Location = objectURL (oc_tls c) (oc_r c) (oc_target c) (oc_key c),
        cmr_Bucket = b_Name (oc_cfg c), cmr_Key = oc_key c, cmr_ETag = to_string (cpo_ETag out),
        cmr_Checksums = reportChecksums c (checksumsFromCompleteMultipartUploadOutput out),
        cmr_ChecksumType = cpo_ChecksumType out \<rparr>)))))))"

definition abortMultipartUpload :: "'w backendClient \<Rightarrow> opCtx \<Rightarrow> ('w, unit) handlerM" where
  "abortMultipartUpload bc c =
    io_bind (h_call c (bc_AbortMultipartUpload bc)
      \<lparr> ami_Bucket = be_name c, ami_Key = oc_key c, ami_UploadId = values_get (oc_query c) ''uploadId'' \<rparr>) (\<lambda>_.
    h_status 204)"

section \<open>Listing parts and uploads\<close>

definition checksumsFromPart :: "sdk_part \<Rightarrow> checksum_values" where
  "checksumsFromPart x = checksums_from (spt_Checksums x)"

text \<open>A time of a response, empty when the backend gave none.\<close>

definition opt_time :: "int option \<Rightarrow> string" where
  "opt_time t = (case t of Some t \<Rightarrow> FormatTime t | None \<Rightarrow> [])"

definition listParts_input :: "opCtx \<Rightarrow> s3error + listPartsInput" where
  "listParts_input c =
    and_then (int_param (oc_query c) ''max-parts'') (\<lambda>n. Inr
      \<lparr> lpi_Bucket = be_name c, lpi_Key = oc_key c, lpi_UploadId = values_get (oc_query c) ''uploadId'',
        lpi_MaxParts = n, lpi_PartNumberMarker = str_opt (values_get (oc_query c) ''part-number-marker'') \<rparr>)"

definition listParts_result :: "opCtx \<Rightarrow> op \<Rightarrow> listPartsOutput \<Rightarrow> listPartsResult" where
  "listParts_result c p out =
    (let owner = tenantOwner (b_Tenant (oc_cfg c)) in
     \<lparr> lpr_XMLNS = Namespace, lpr_Bucket = b_Name (oc_cfg c), lpr_Key = oc_key c,
       lpr_UploadID = values_get (oc_query c) ''uploadId'',
       lpr_PartNumberMarker = to_string (lpo_PartNumberMarker out),
       lpr_NextPartNumberMarker = to_string (lpo_NextPartNumberMarker out),
       lpr_MaxParts = to_int (lpo_MaxParts out), lpr_IsTruncated = to_bool (lpo_IsTruncated out),
       lpr_Parts = map (\<lambda>q. \<lparr> xp_PartNumber = to_int (spt_PartNumber q), xp_LastModified = opt_time (spt_LastModified q),
         xp_ETag = to_string (spt_ETag q), xp_Size = to_int (spt_Size q),
         xp_Checksums = reportChecksums c (checksumsFromPart q) \<rparr>) (lpo_Parts out),
       lpr_Initiator = Some owner, lpr_Owner = Some owner,
       lpr_StorageClass = c_clientStorageClass c p (lpo_StorageClass out),
       lpr_ChecksumAlgorithm = reportAlgorithm (g_checksums (oc_g c)) (lpo_ChecksumAlgorithm out),
       lpr_ChecksumType = lpo_ChecksumType out \<rparr>)"

definition listParts :: "'w backendClient \<Rightarrow> opCtx \<Rightarrow> ('w, unit) handlerM" where
  "listParts bc c =
    io_bind (h_lift (listParts_input c)) (\<lambda>i.
    io_bind (h_call c (bc_ListParts bc) i) (\<lambda>out.
    io_bind h_op (\<lambda>p.
    h_xml (listPartsResult_xml (listParts_result c p out)))))"

definition listMultipartUploads_input :: "opCtx \<Rightarrow> s3error + listMultipartUploadsInput" where
  "listMultipartUploads_input c =
    and_then (int_param (oc_query c) ''max-uploads'') (\<lambda>n. Inr
      \<lparr> lui_Bucket = be_name c, lui_Prefix = str_opt (values_get (oc_query c) ''prefix''),
        lui_Delimiter = str_opt (values_get (oc_query c) ''delimiter''),
        lui_KeyMarker = str_opt (values_get (oc_query c) ''key-marker''),
        lui_UploadIdMarker = str_opt (values_get (oc_query c) ''upload-id-marker''),
        lui_MaxUploads = n, lui_EncodingType = values_get (oc_query c) ''encoding-type'' \<rparr>)"

definition listMultipartUploads_result ::
  "opCtx \<Rightarrow> op \<Rightarrow> listMultipartUploadsOutput \<Rightarrow> listMultipartUploadsResult" where
  "listMultipartUploads_result c p out =
    (let owner = tenantOwner (b_Tenant (oc_cfg c)) in
     \<lparr> lmu_XMLNS = Namespace, lmu_Bucket = b_Name (oc_cfg c), lmu_KeyMarker = to_string (luo_KeyMarker out),
       lmu_UploadIDMarker = to_string (luo_UploadIdMarker out), lmu_NextKeyMarker = to_string (luo_NextKeyMarker out),
       lmu_NextUploadIDMarker = to_string (luo_NextUploadIdMarker out), lmu_Delimiter = to_string (luo_Delimiter out),
       lmu_Prefix = to_string (luo_Prefix out), lmu_MaxUploads = to_int (luo_MaxUploads out),
       lmu_IsTruncated = to_bool (luo_IsTruncated out),
       lmu_Uploads = map (\<lambda>u. \<lparr> xu_Key = to_string (sup_Key u), xu_UploadID = to_string (sup_UploadId u),
         xu_Initiator = Some owner, xu_Owner = Some owner, xu_StorageClass = c_clientStorageClass c p (sup_StorageClass u),
         xu_Initiated = opt_time (sup_Initiated u),
         xu_ChecksumAlgorithm = reportAlgorithm (g_checksums (oc_g c)) (sup_ChecksumAlgorithm u),
         xu_ChecksumType = sup_ChecksumType u \<rparr>) (luo_Uploads out),
       lmu_CommonPrefixes = List.map_filter id (luo_CommonPrefixes out) \<rparr>)"

definition listMultipartUploads :: "'w backendClient \<Rightarrow> opCtx \<Rightarrow> ('w, unit) handlerM" where
  "listMultipartUploads bc c =
    io_bind (h_lift (listMultipartUploads_input c)) (\<lambda>i.
    io_bind (h_call c (bc_ListMultipartUploads bc) i) (\<lambda>out.
    io_bind h_op (\<lambda>p.
    h_xml (listMultipartUploadsResult_xml (listMultipartUploads_result c p out)))))"

end
