(* ===== verification/Object_Meta.thy ===== *)
theory Object_Meta
  imports Multipart
begin

text \<open>
  The handlers of what surrounds an object: \<open>src/s3gw/objectattributes.go\<close>, \<open>src/s3gw/tagging.go\<close>, the handlers of
  \<open>src/s3gw/objectlock.go\<close> and \<open>src/s3gw/acl.go\<close>.
\<close>

section \<open>Attributes\<close>

definition objectAttributesFromHeader :: "signed_header \<Rightarrow> string list" where
  "objectAttributesFromHeader hdr =
    concat (map (\<lambda>v. filter (\<lambda>p. p \<noteq> []) (map trim_space (str_split (CHR '','') v)))
      (sh_SignedValues hdr ''x-amz-object-attributes''))"

definition checksumsFromChecksum :: "sdk_checksums \<Rightarrow> checksum_values" where
  "checksumsFromChecksum x = checksums_from x"

definition checksumsFromObjectPart :: "sdk_object_part \<Rightarrow> checksum_values" where
  "checksumsFromObjectPart x = checksums_from (sop_Checksums x)"

definition getObjectAttributes_input :: "opCtx \<Rightarrow> s3error + getObjectAttributesInput" where
  "getObjectAttributes_input c =
    (let attrs = objectAttributesFromHeader (oc_hdr c); v = oc_signed c ''x-amz-max-parts'' in
     if attrs = []
     then Inl (s3err_New 400 ''InvalidArgument''
       (lit ''The x-amz-object-attributes header specifying the attributes to be retrieved is required.''))
     else
       and_then
         (if v = [] then Inr None
          else (case parse_int32 v of
                  Some n \<Rightarrow> Inr (Some n)
                | None \<Rightarrow> Inl (WithCause (s3err_New 400 ''InvalidArgument''
                    (lit ''x-amz-max-parts must be an integer'')) (num_error v)))) (\<lambda>n. Inr
         \<lparr> gai_Bucket = be_name c, gai_Key = oc_key c, gai_ObjectAttributes = attrs,
           gai_VersionId = str_opt (values_get (oc_query c) qpVersionID), gai_MaxParts = n,
           gai_PartNumberMarker = str_opt (oc_signed c ''x-amz-part-number-marker'') \<rparr>))"

definition attribute_parts :: "opCtx \<Rightarrow> sdk_object_parts \<Rightarrow> objectAttributeParts" where
  "attribute_parts c ps =
    \<lparr> oaps_IsTruncated = to_bool (sps_IsTruncated ps), oaps_MaxParts = sps_MaxParts ps,
      oaps_NextPartNumberMarker = to_string (sps_NextPartNumberMarker ps),
      oaps_PartNumberMarker = to_string (sps_PartNumberMarker ps), oaps_PartsCount = sps_TotalPartsCount ps,
      oaps_Parts = map (\<lambda>p. \<lparr> oap_PartNumber = to_int (sop_PartNumber p), oap_Size = to_int (sop_Size p),
        oap_Checksums = reportChecksums c (checksumsFromObjectPart p) \<rparr>) (sps_Parts ps) \<rparr>"

definition getObjectAttributes_result ::
  "opCtx \<Rightarrow> op \<Rightarrow> getObjectAttributesOutput \<Rightarrow> getObjectAttributesResult" where
  "getObjectAttributes_result c p out =
    \<lparr> oar_XMLNS = Namespace,
      oar_ETag = (case gao_ETag out of Some e \<Rightarrow> trim e [CHR 0x22] | None \<Rightarrow> []),
      oar_Checksum = map_option (\<lambda>(cs, typ). \<lparr> atc_Checksums = reportChecksums c (checksumsFromChecksum cs),
        atc_ChecksumType = typ \<rparr>) (gao_Checksum out),
      oar_ObjectParts = map_option (attribute_parts c) (gao_ObjectParts out),
      oar_StorageClass = c_clientStorageClass c p (gao_StorageClass out), oar_ObjectSize = gao_ObjectSize out \<rparr>"

definition getObjectAttributes :: "'w backendClient \<Rightarrow> opCtx \<Rightarrow> ('w, unit) handlerM" where
  "getObjectAttributes bc c =
    io_bind (h_lift (getObjectAttributes_input c)) (\<lambda>i.
    io_bind (h_call_relay c (bc_GetObjectAttributes bc) i) (\<lambda>out.
    io_bind (h_setResponse \<lparr> ores_SSE = [], ores_SSEKMSKeyID = [], ores_StorageClass = gao_StorageClass out,
      ores_Metadata = [], ores_ETag = to_string (gao_ETag out), ores_VersionID = to_string (gao_VersionId out) \<rparr>) (\<lambda>_.
    io_bind (h_header (\<lambda>h.
      let h1 = set_opt ''Last-Modified'' (map_option format_http (gao_LastModified out)) h;
          h2 = set_opt ''x-amz-version-id'' (gao_VersionId out) h1
      in if to_bool (gao_DeleteMarker out) then header_set ''x-amz-delete-marker'' ''true'' h2 else h2)) (\<lambda>_.
    io_bind h_op (\<lambda>p.
    h_xml (getObjectAttributesResult_xml (getObjectAttributes_result c p out)))))))"

section \<open>Tags\<close>

text \<open>The object or version a request for its tags, lock or ACL is about.\<close>

definition version_input :: "opCtx \<Rightarrow> versionInput" where
  "version_input c = \<lparr> vin_Bucket = be_name c, vin_Key = oc_key c,
    vin_VersionId = str_opt (values_get (oc_query c) qpVersionID) \<rparr>"

definition getObjectTagging :: "'w backendClient \<Rightarrow> opCtx \<Rightarrow> ('w, unit) handlerM" where
  "getObjectTagging bc c =
    io_bind (h_call c (bc_GetObjectTagging bc) (version_input c)) (\<lambda>out.
    io_bind (h_header (set_opt ''x-amz-version-id'' (gto_VersionId out))) (\<lambda>_.
    h_xml (tagging_xml Namespace (map (\<lambda>(k, v). (to_string k, to_string v)) (gto_TagSet out)))))"

definition putObjectTagging :: "'w backendClient \<Rightarrow> opCtx \<Rightarrow> ('w, unit) handlerM" where
  "putObjectTagging bc c =
    io_bind (h_readXML c (ev_Tagging (oc_env c))) (\<lambda>tags.
    io_bind (h_call c (bc_PutObjectTagging bc) \<lparr> pti_Target = version_input c, pti_TagSet = tags \<rparr>) (\<lambda>version.
    io_bind (h_header (set_opt ''x-amz-version-id'' version)) (\<lambda>_.
    h_status 200)))"

definition deleteObjectTagging :: "'w backendClient \<Rightarrow> opCtx \<Rightarrow> ('w, unit) handlerM" where
  "deleteObjectTagging bc c =
    io_bind (h_call c (bc_DeleteObjectTagging bc) (version_input c)) (\<lambda>version.
    io_bind (h_header (set_opt ''x-amz-version-id'' version)) (\<lambda>_.
    h_status 204))"

section \<open>Object lock\<close>

definition getObjectRetention :: "'w backendClient \<Rightarrow> opCtx \<Rightarrow> ('w, unit) handlerM" where
  "getObjectRetention bc c =
    io_bind (h_call c (bc_GetObjectRetention bc) (version_input c)) (\<lambda>out.
    h_xml (objectLockRetention_xml Namespace
      (case out of
         None \<Rightarrow> \<lparr> olr_Mode = [], olr_RetainUntilDate = [] \<rparr>
       | Some (mode, t) \<Rightarrow> \<lparr> olr_Mode = mode,
           olr_RetainUntilDate = (case t of Some t \<Rightarrow> format_millis t | None \<Rightarrow> []) \<rparr>)))"

definition retain_until :: "string \<Rightarrow> s3error + int option" where
  "retain_until v =
    (if v = [] then Inr None
     else
       (case parse_millis v of
          Some t \<Rightarrow> Inr (Some t)
        | None \<Rightarrow>
            (case parse_rfc3339 v of
               Some t \<Rightarrow> Inr (Some t)
             | None \<Rightarrow> Inl (s3err_New 400 ''InvalidRequest'' (lit ''invalid RetainUntilDate'')))))"

definition putObjectRetention :: "'w backendClient \<Rightarrow> opCtx \<Rightarrow> ('w, unit) handlerM" where
  "putObjectRetention bc c =
    io_bind (h_readXML c (ev_Retention (oc_env c))) (\<lambda>req.
    io_bind (h_lift (retain_until (olr_RetainUntilDate req))) (\<lambda>t.
    io_bind (h_call c (bc_PutObjectRetention bc)
      \<lparr> pri_Target = version_input c, pri_Mode = olr_Mode req, pri_RetainUntilDate = t,
        pri_BypassGovernanceRetention = (if bypassGovernanceRetention (oc_hdr c) then Some True else None) \<rparr>) (\<lambda>_.
    h_status 200)))"

definition getObjectLegalHold :: "'w backendClient \<Rightarrow> opCtx \<Rightarrow> ('w, unit) handlerM" where
  "getObjectLegalHold bc c =
    io_bind (h_call c (bc_GetObjectLegalHold bc) (version_input c)) (\<lambda>out.
    h_xml (objectLockLegalHold_xml Namespace (to_string out)))"

definition putObjectLegalHold :: "'w backendClient \<Rightarrow> opCtx \<Rightarrow> ('w, unit) handlerM" where
  "putObjectLegalHold bc c =
    io_bind (h_readXML c (ev_LegalHold (oc_env c))) (\<lambda>status.
    io_bind (h_call c (bc_PutObjectLegalHold bc) \<lparr> phi_Target = version_input c, phi_Status = status \<rparr>) (\<lambda>_.
    h_status 200))"

section \<open>ACLs\<close>

definition ownerFullControlPolicy :: "string \<Rightarrow> accessControlPolicy" where
  "ownerFullControlPolicy owner =
    \<lparr> acp_XMLNS = Namespace, acp_Owner = \<lparr> xo_ID = owner, xo_DisplayName = owner \<rparr>,
      acp_Grants = [(\<lparr> gr_XMLNSXSI = ''http://www.w3.org/2001/XMLSchema-instance'', gr_Type = ''CanonicalUser'',
        gr_ID = owner, gr_DisplayName = owner \<rparr>, ''FULL_CONTROL'')] \<rparr>"

definition getBucketACL :: "opCtx \<Rightarrow> ('w, unit) handlerM" where
  "getBucketACL c = h_xml (accessControlPolicy_xml (ownerFullControlPolicy (b_Tenant (oc_cfg c))))"

definition getObjectACL :: "'w backendClient \<Rightarrow> opCtx \<Rightarrow> ('w, unit) handlerM" where
  "getObjectACL bc c =
    io_bind (h_call c (bc_HeadObject bc)
      \<lparr> hoi_Bucket = be_name c, hoi_Key = oc_key c,
        hoi_Conditions = \<lparr> cn_IfMatch = None, cn_IfNoneMatch = None, cn_IfModifiedSince = None, cn_IfUnmodifiedSince = None \<rparr>,
        hoi_Range = None, hoi_VersionId = str_opt (values_get (oc_query c) qpVersionID), hoi_PartNumber = None,
        hoi_ChecksumMode = [] \<rparr>) (\<lambda>_.
    h_xml (accessControlPolicy_xml (ownerFullControlPolicy (b_Tenant (oc_cfg c)))))"

definition rejectACL :: "('w, unit) handlerM" where
  "rejectACL = h_lift (Inl errACLNotSupported)"

end
