(* ===== verification/Bucket_Ops.thy ===== *)
theory Bucket_Ops
  imports Object_Meta
begin

text \<open>
  The handlers of a bucket: the listings of \<open>src/s3gw/proxy.go\<close> and \<open>src/s3gw/versioning.go\<close>, the configuration
  reads of \<open>src/s3gw/bucketconfig.go\<close>, \<open>src/s3gw/objectlock.go\<close>, \<open>src/s3gw/bucketpolicy.go\<close> and \<open>src/s3gw/cors.go\<close>.
\<close>

section \<open>Listings\<close>

definition objectsFromSDK :: "opCtx \<Rightarrow> op \<Rightarrow> sdk_object list \<Rightarrow> xml_owner option \<Rightarrow> xml_object list" where
  "objectsFromSDK c p objs owner =
    map (\<lambda>q. \<lparr> xob_Key = to_string (sob_Key q), xob_LastModified = opt_time (sob_LastModified q),
      xob_ETag = to_string (sob_ETag q),
      xob_ChecksumAlgorithm = reportAlgorithms (g_checksums (oc_g c)) (sob_ChecksumAlgorithm q),
      xob_ChecksumType = sob_ChecksumType q, xob_Size = to_int (sob_Size q),
      xob_StorageClass = c_clientStorageClass c p (sob_StorageClass q), xob_Owner = owner \<rparr>) objs"

definition listObjectsV2_input :: "opCtx \<Rightarrow> s3error + listObjectsV2Input" where
  "listObjectsV2_input c =
    and_then (int_param (oc_query c) ''max-keys'') (\<lambda>n. Inr
      \<lparr> l2i_Bucket = be_name c, l2i_Prefix = str_opt (values_get (oc_query c) ''prefix''),
        l2i_Delimiter = str_opt (values_get (oc_query c) ''delimiter''), l2i_MaxKeys = n,
        l2i_ContinuationToken = str_opt (values_get (oc_query c) ''continuation-token''),
        l2i_StartAfter = str_opt (values_get (oc_query c) ''start-after''),
        l2i_FetchOwner = (if values_get (oc_query c) ''fetch-owner'' = ''true'' then Some True else None),
        l2i_EncodingType = values_get (oc_query c) ''encoding-type'' \<rparr>)"

definition listObjectsV2_result :: "opCtx \<Rightarrow> op \<Rightarrow> listObjectsV2Input \<Rightarrow> listObjectsV2Output \<Rightarrow> listBucketResult" where
  "listObjectsV2_result c p i out =
    \<lparr> lbr_XMLNS = Namespace, lbr_Name = b_Name (oc_cfg c), lbr_Prefix = to_string (l2o_Prefix out),
      lbr_StartAfter = to_string (l2o_StartAfter out),
      lbr_ContinuationToken =
        (if values_has (oc_query c) ''continuation-token'' then Some (values_get (oc_query c) ''continuation-token'')
         else None),
      lbr_NextContinuationToken = to_string (l2o_NextContinuationToken out), lbr_KeyCount = to_int (l2o_KeyCount out),
      lbr_MaxKeys = to_int (l2o_MaxKeys out), lbr_Delimiter = to_string (l2o_Delimiter out),
      lbr_EncodingType = l2o_EncodingType out, lbr_IsTruncated = to_bool (l2o_IsTruncated out),
      lbr_Contents = objectsFromSDK c p (l2o_Contents out)
        (if to_bool (l2i_FetchOwner i) then Some (tenantOwner (b_Tenant (oc_cfg c))) else None),
      lbr_CommonPrefixes = List.map_filter id (l2o_CommonPrefixes out) \<rparr>"

definition listObjectsV2 :: "'w backendClient \<Rightarrow> opCtx \<Rightarrow> ('w, unit) handlerM" where
  "listObjectsV2 bc c =
    io_bind (h_lift (listObjectsV2_input c)) (\<lambda>i.
    io_bind (h_call c (bc_ListObjectsV2 bc) i) (\<lambda>out.
    io_bind h_op (\<lambda>p.
    h_xml (listBucketResult_xml (listObjectsV2_result c p i out)))))"

definition listObjectsV1_input :: "opCtx \<Rightarrow> s3error + listObjectsInput" where
  "listObjectsV1_input c =
    and_then (int_param (oc_query c) ''max-keys'') (\<lambda>n. Inr
      \<lparr> l1i_Bucket = be_name c, l1i_Prefix = str_opt (values_get (oc_query c) ''prefix''),
        l1i_Delimiter = str_opt (values_get (oc_query c) ''delimiter''),
        l1i_Marker = str_opt (values_get (oc_query c) ''marker''), l1i_MaxKeys = n,
        l1i_EncodingType = values_get (oc_query c) ''encoding-type'' \<rparr>)"

definition listObjectsV1_result :: "opCtx \<Rightarrow> op \<Rightarrow> listObjectsOutput \<Rightarrow> listBucketResultV1" where
  "listObjectsV1_result c p out =
    \<lparr> lb1_XMLNS = Namespace, lb1_Name = b_Name (oc_cfg c), lb1_Prefix = to_string (l1o_Prefix out),
      lb1_Marker = to_string (l1o_Marker out), lb1_NextMarker = to_string (l1o_NextMarker out),
      lb1_MaxKeys = to_int (l1o_MaxKeys out), lb1_Delimiter = to_string (l1o_Delimiter out),
      lb1_EncodingType = l1o_EncodingType out, lb1_IsTruncated = to_bool (l1o_IsTruncated out),
      lb1_Contents = objectsFromSDK c p (l1o_Contents out) (Some (tenantOwner (b_Tenant (oc_cfg c)))),
      lb1_CommonPrefixes = List.map_filter id (l1o_CommonPrefixes out) \<rparr>"

definition listObjectsV1 :: "'w backendClient \<Rightarrow> opCtx \<Rightarrow> ('w, unit) handlerM" where
  "listObjectsV1 bc c =
    io_bind (h_lift (listObjectsV1_input c)) (\<lambda>i.
    io_bind (h_call c (bc_ListObjects bc) i) (\<lambda>out.
    io_bind h_op (\<lambda>p.
    h_xml (listBucketResultV1_xml (listObjectsV1_result c p out)))))"

definition listObjectVersions_input :: "opCtx \<Rightarrow> s3error + listObjectVersionsInput" where
  "listObjectVersions_input c =
    and_then (int_param (oc_query c) ''max-keys'') (\<lambda>n. Inr
      \<lparr> lvi_Bucket = be_name c, lvi_Prefix = str_opt (values_get (oc_query c) ''prefix''),
        lvi_Delimiter = str_opt (values_get (oc_query c) ''delimiter''),
        lvi_KeyMarker = str_opt (values_get (oc_query c) ''key-marker''),
        lvi_VersionIdMarker = str_opt (values_get (oc_query c) ''version-id-marker''), lvi_MaxKeys = n,
        lvi_EncodingType = values_get (oc_query c) ''encoding-type'' \<rparr>)"

definition listObjectVersions_result :: "opCtx \<Rightarrow> op \<Rightarrow> listObjectVersionsOutput \<Rightarrow> listVersionsResult" where
  "listObjectVersions_result c p out =
    (let owner = Some (tenantOwner (b_Tenant (oc_cfg c))) in
     \<lparr> lvr_XMLNS = Namespace, lvr_Name = b_Name (oc_cfg c), lvr_Prefix = to_string (lvo_Prefix out),
       lvr_KeyMarker = to_string (lvo_KeyMarker out), lvr_VersionIDMarker = to_string (lvo_VersionIdMarker out),
       lvr_NextKeyMarker = to_string (lvo_NextKeyMarker out),
       lvr_NextVersionIDMarker = to_string (lvo_NextVersionIdMarker out), lvr_MaxKeys = to_int (lvo_MaxKeys out),
       lvr_Delimiter = to_string (lvo_Delimiter out), lvr_EncodingType = lvo_EncodingType out,
       lvr_IsTruncated = to_bool (lvo_IsTruncated out),
       lvr_Versions = map (\<lambda>v. \<lparr> xv_Key = to_string (svr_Key v), xv_VersionID = to_string (svr_VersionId v),
         xv_IsLatest = to_bool (svr_IsLatest v), xv_LastModified = opt_time (svr_LastModified v),
         xv_ETag = to_string (svr_ETag v),
         xv_ChecksumAlgorithm = reportAlgorithms (g_checksums (oc_g c)) (svr_ChecksumAlgorithm v),
         xv_ChecksumType = svr_ChecksumType v, xv_Size = to_int (svr_Size v),
         xv_StorageClass = c_clientStorageClass c p (svr_StorageClass v), xv_Owner = owner \<rparr>) (lvo_Versions out),
       lvr_DeleteMarkers = map (\<lambda>d. \<lparr> xdm_Key = to_string (sdm_Key d), xdm_VersionID = to_string (sdm_VersionId d),
         xdm_IsLatest = to_bool (sdm_IsLatest d), xdm_LastModified = opt_time (sdm_LastModified d),
         xdm_Owner = owner \<rparr>) (lvo_DeleteMarkers out),
       lvr_CommonPrefixes = List.map_filter id (lvo_CommonPrefixes out) \<rparr>)"

definition listObjectVersions :: "'w backendClient \<Rightarrow> opCtx \<Rightarrow> ('w, unit) handlerM" where
  "listObjectVersions bc c =
    io_bind (h_lift (listObjectVersions_input c)) (\<lambda>i.
    io_bind (h_call c (bc_ListObjectVersions bc) i) (\<lambda>out.
    io_bind h_op (\<lambda>p.
    h_xml (listVersionsResult_xml (listObjectVersions_result c p out)))))"

section \<open>Configuration\<close>

definition frontRegion :: "gateway \<Rightarrow> string" where
  "frontRegion g = (if g_region g \<noteq> [] then g_region g else ''us-east-1'')"

definition getBucketLocation :: "opCtx \<Rightarrow> ('w, unit) handlerM" where
  "getBucketLocation c =
    (let region = frontRegion (oc_g c) in
     h_xml (locationConstraint_xml Namespace (if region = ''us-east-1'' then [] else region)))"

definition headBucket :: "'w backendClient \<Rightarrow> opCtx \<Rightarrow> ('w, unit) handlerM" where
  "headBucket bc c =
    io_bind (h_call c (bc_HeadBucket bc) (be_name c)) (\<lambda>_.
    io_bind (h_header (header_set ''x-amz-bucket-region'' (frontRegion (oc_g c)))) (\<lambda>_.
    h_status 200))"

definition getBucketVersioning :: "'w backendClient \<Rightarrow> opCtx \<Rightarrow> ('w, unit) handlerM" where
  "getBucketVersioning bc c =
    io_bind (h_call c (bc_GetBucketVersioning bc) (be_name c)) (\<lambda>status.
    h_xml (versioningConfiguration_xml Namespace status))"

definition getBucketPolicyStatus :: "('w, unit) handlerM" where
  "getBucketPolicyStatus = h_xml (policyStatus_xml Namespace False)"

definition getBucketOwnershipControls :: "('w, unit) handlerM" where
  "getBucketOwnershipControls = h_xml (ownershipControls_xml Namespace [''BucketOwnerEnforced''])"

definition getPublicAccessBlock :: "('w, unit) handlerM" where
  "getPublicAccessBlock = h_xml (publicAccessBlock_xml
    \<lparr> pab_XMLNS = Namespace, pab_BlockPublicAcls = True, pab_IgnorePublicAcls = True, pab_BlockPublicPolicy = True,
      pab_RestrictPublicBuckets = True \<rparr>)"

definition encryption_rule :: "opCtx \<Rightarrow> op \<Rightarrow> sdk_sse_rule \<Rightarrow> sseRule" where
  "encryption_rule c p rule =
    \<lparr> ssr_Default = map_option (\<lambda>(alg, kid). (alg, to_string (c_clientKMSKeyID c p kid))) (sse_Default rule),
      ssr_BucketKeyEnabled = sse_BucketKeyEnabled rule \<rparr>"

definition getBucketEncryption :: "'w backendClient \<Rightarrow> opCtx \<Rightarrow> ('w, unit) handlerM" where
  "getBucketEncryption bc c =
    io_bind (h_call c (bc_GetBucketEncryption bc) (be_name c)) (\<lambda>cfg.
    io_bind h_op (\<lambda>p.
    h_xml (sseConfiguration_xml Namespace
      (case cfg of Some rules \<Rightarrow> map (encryption_rule c p) rules | None \<Rightarrow> []))))"

definition getObjectLockConfiguration :: "'w backendClient \<Rightarrow> opCtx \<Rightarrow> ('w, unit) handlerM" where
  "getObjectLockConfiguration bc c =
    io_bind (h_call c (bc_GetObjectLockConfiguration bc) (be_name c)) (\<lambda>cfg.
    h_xml (case cfg of
        None \<Rightarrow> objectLockConfiguration_xml Namespace [] None
      | Some (enabled, Some (Some dr)) \<Rightarrow> objectLockConfiguration_xml Namespace enabled
          (Some \<lparr> drt_Mode = sdr_Mode dr, drt_Days = to_int (sdr_Days dr), drt_Years = to_int (sdr_Years dr) \<rparr>)
      | Some (enabled, _) \<Rightarrow> objectLockConfiguration_xml Namespace enabled None))"

definition getBucketPolicy :: "opCtx \<Rightarrow> ('w, unit) handlerM" where
  "getBucketPolicy c =
    (if b_PolicyText (oc_cfg c) = []
     then h_lift (Inl (s3err_New 404 ''NoSuchBucketPolicy'' (lit ''The bucket policy does not exist'')))
     else
       io_bind (h_header (header_set ''Content-Type'' ''application/json'')) (\<lambda>_.
       io_bind (h_status 200) (\<lambda>_.
       h_write (rs_Write (b_PolicyText (oc_cfg c))))))"

definition getBucketCors :: "opCtx \<Rightarrow> ('w, unit) handlerM" where
  "getBucketCors c =
    (if b_CORS (oc_cfg c) = []
     then h_lift (Inl (s3err_New 404 ''NoSuchCORSConfiguration'' (lit ''The CORS configuration does not exist'')))
     else h_xml (corsConfiguration_xml Namespace (map (\<lambda>rule.
       \<lparr> crx_AllowedOrigin = cr_AllowedOrigins rule, crx_AllowedMethod = cr_AllowedMethods rule,
         crx_AllowedHeader = cr_AllowedHeaders rule, crx_ExposeHeader = cr_ExposeHeaders rule,
         crx_MaxAgeSeconds = cr_MaxAgeSeconds rule \<rparr>) (b_CORS (oc_cfg c)))))"

end
