(* ===== verification/Bulk_Delete.thy ===== *)
theory Bulk_Delete
  imports Bucket_Ops
begin

text \<open>
  The multi-object delete, \<open>deleteObjects\<close> of \<open>src/s3gw/proxy.go\<close>: each key is authorized on its own, and only the
  permitted ones reach the backend.
\<close>

section \<open>The handler\<close>

text \<open>The zero value of an authorizer that no entry needs.\<close>

definition poa_zero :: per_object_authorizer where
  "poa_zero = \<lparr> poa_denyAll = False, poa_eval = \<lparr> de_denyResources = [], de_denyStatements = [] \<rparr>,
    poa_requireAllow = False, poa_allow = \<lparr> ae_allowResources = [] \<rparr>, poa_principal = [], poa_action = [],
    poa_policy = None, poa_userDecision = \<lparr> dec_Effect = Effect_None, dec_Statement = 0 \<rparr> \<rparr>"

definition authorizer_if :: "opCtx \<Rightarrow> bool \<Rightarrow> string \<Rightarrow> ('w, per_object_authorizer) handlerM" where
  "authorizer_if c needed action =
    (if needed then h_option (perObjectAuthorizer (oc_vr c) (oc_cfg c) action) else io_return poa_zero)"

record deleteAuths =
  da_del :: per_object_authorizer
  da_ver :: per_object_authorizer
  da_bypass :: per_object_authorizer
  da_check :: bool

definition delete_authorizers :: "opCtx \<Rightarrow> deleteRequestObject list \<Rightarrow> ('w, deleteAuths) handlerM" where
  "delete_authorizers c objs =
    (let hasPlain = list_ex (\<lambda>q. dro_VersionID q = []) objs;
         hasVersion = list_ex (\<lambda>q. dro_VersionID q \<noteq> []) objs;
         bypass = bypassGovernanceRetention (oc_hdr c)
     in io_bind (authorizer_if c hasPlain ActionDeleteObject) (\<lambda>del.
        io_bind (authorizer_if c hasVersion ActionDeleteObjectVersion) (\<lambda>ver.
        io_bind (authorizer_if c bypass ActionBypassGovernanceRetention) (\<lambda>byp.
        io_return \<lparr> da_del = del, da_ver = ver, da_bypass = byp,
          da_check = (hasPlain \<and> \<not> allowsEverything del \<or> hasVersion \<and> \<not> allowsEverything ver \<or>
            bypass \<and> \<not> allowsEverything byp) \<rparr>))))"

text \<open>Why an entry is refused; \<open>None\<close> when it is not.\<close>

definition delete_refusal :: "opCtx \<Rightarrow> deleteAuths \<Rightarrow> deleteRequestObject \<Rightarrow> go_error option" where
  "delete_refusal c a q =
    (if \<not> da_check a then None
     else
       (let resource = b_Name (oc_cfg c) @ ''/'' @ dro_Key q;
            auth = (if dro_VersionID q \<noteq> [] then da_ver a else da_del a)
        in if poa_denies auth resource then Some (poa_denyReason auth resource)
           else if bypassGovernanceRetention (oc_hdr c) \<and> poa_denies (da_bypass a) resource
           then Some (poa_denyReason (da_bypass a) resource)
           else None))"

definition delete_identifier :: "opCtx \<Rightarrow> deleteRequestObject \<Rightarrow> s3error + objectIdentifier" where
  "delete_identifier c q =
    and_then
      (if dro_LastModifiedTime q = [] then Inr None
       else (case ev_ParseTime (oc_env c) (dro_LastModifiedTime q) of
               Inr t \<Rightarrow> Inr (Some t)
             | Inl err \<Rightarrow> Inl (WithCause err_malformed_xml err))) (\<lambda>t. Inr
      \<lparr> oid_Key = dro_Key q, oid_VersionId = str_opt (dro_VersionID q), oid_ETag = str_opt (dro_ETag q),
        oid_LastModifiedTime = t, oid_Size = dro_Size q \<rparr>)"

text \<open>The message of \<open>AccessDenied\<close> has no verbs: its text is its format.\<close>

definition denied_entry :: "deleteRequestObject \<Rightarrow> deleteError" where
  "denied_entry q = \<lparr> der_Key = dro_Key q, der_VersionID = dro_VersionID q, der_Code = err_code AccessDenied,
    der_Message = (case err_message AccessDenied of Sprintf txt _ \<Rightarrow> txt) \<rparr>"

definition h_addDenial :: "go_error \<Rightarrow> ('w, unit) handlerM" where
  "h_addDenial r = io_modify (\<lambda>s. s\<lparr> hs_op := (hs_op s)\<lparr> op_Denials := addDenial (op_Denials (hs_op s)) r \<rparr> \<rparr>)"

fun delete_loop ::
  "opCtx \<Rightarrow> deleteAuths \<Rightarrow> deleteRequestObject list \<Rightarrow> ('w, deleteError list \<times> objectIdentifier list) handlerM" where
  "delete_loop c a [] = io_return ([], [])"
| "delete_loop c a (q # qs) =
    (case delete_refusal c a q of
       Some r \<Rightarrow>
         io_bind (h_addDenial r) (\<lambda>_.
         io_bind (delete_loop c a qs) (\<lambda>(errs, objs). io_return (denied_entry q # errs, objs)))
     | None \<Rightarrow>
         io_bind (h_lift (delete_identifier c q)) (\<lambda>oi.
         io_bind (delete_loop c a qs) (\<lambda>(errs, objs). io_return (errs, oi # objs))))"

definition delete_answer ::
  "'w backendClient \<Rightarrow> opCtx \<Rightarrow> bool \<Rightarrow> deleteError list \<Rightarrow> objectIdentifier list \<Rightarrow> ('w, unit) handlerM" where
  "delete_answer bc c quiet errs objs =
    (if objs = [] then h_xml (deleteResult_xml \<lparr> drs_XMLNS = Namespace, drs_Deleted = [], drs_Errors = errs \<rparr>)
     else
       io_bind (h_call c (bc_DeleteObjects bc)
         \<lparr> dsi_Bucket = be_name c, dsi_Objects = objs, dsi_Quiet = quiet,
           dsi_BypassGovernanceRetention = (if bypassGovernanceRetention (oc_hdr c) then Some True else None) \<rparr>) (\<lambda>out.
       h_xml (deleteResult_xml
         \<lparr> drs_XMLNS = Namespace,
           drs_Deleted = map (\<lambda>d. \<lparr> dob_Key = to_string (sdd_Key d), dob_VersionID = to_string (sdd_VersionId d),
             dob_DeleteMarker = to_bool (sdd_DeleteMarker d),
             dob_DeleteMarkerVersionID = to_string (sdd_DeleteMarkerVersionId d) \<rparr>) (dso_Deleted out),
           drs_Errors = errs @ map (\<lambda>e. \<lparr> der_Key = to_string (sde_Key e), der_VersionID = to_string (sde_VersionId e),
             der_Code = to_string (sde_Code e), der_Message = to_string (sde_Message e) \<rparr>) (dso_Errors out) \<rparr>)))"

definition deleteObjects :: "'w backendClient \<Rightarrow> opCtx \<Rightarrow> ('w, unit) handlerM" where
  "deleteObjects bc c =
    io_bind (h_readXML c (ev_Delete (oc_env c))) (\<lambda>req.
    if drq_Objects req = [] \<or> 1000 < length (drq_Objects req) then h_lift (Inl err_malformed_xml)
    else
      io_bind (delete_authorizers c (drq_Objects req)) (\<lambda>a.
      io_bind (delete_loop c a (drq_Objects req)) (\<lambda>(errs, objs).
      delete_answer bc c (drq_Quiet req) errs objs)))"

section \<open>Each key is decided as by \<open>authorize\<close>\<close>

text \<open>The actions an entry needs and whether the requester holds them all on its key.\<close>

definition delete_actions :: "opCtx \<Rightarrow> deleteRequestObject \<Rightarrow> string list" where
  "delete_actions c q =
    (if dro_VersionID q \<noteq> [] then ActionDeleteObjectVersion else ActionDeleteObject) #
    (if bypassGovernanceRetention (oc_hdr c) then [ActionBypassGovernanceRetention] else [])"

definition delete_permitted :: "opCtx \<Rightarrow> deleteRequestObject \<Rightarrow> bool" where
  "delete_permitted c q \<longleftrightarrow>
    list_all (\<lambda>action. authorize (oc_vr c) (oc_cfg c) action (b_Name (oc_cfg c) @ ''/'' @ dro_Key q) = Some None)
      (delete_actions c q)"

lemma poa_permits:
  assumes "bucket_principals b" "bucket_effects b" "perObjectAuthorizer vr b action = Some a"
  shows "poa_denies a resource \<longleftrightarrow> authorize vr b action resource \<noteq> Some None"
    and "allowsEverything a \<Longrightarrow> authorize vr b action resource = Some None"
  using poa_denies_iff [OF assms] allowsEverything_sound [OF assms] by (simp_all add: authorize_eq [OF assms(1)])

lemma delete_authorizers_run:
  assumes "bucket_principals (oc_cfg c)" "bucket_effects (oc_cfg c)"
  shows "\<exists>a. delete_authorizers c objs s = (Inr a, s) \<and>
    (\<forall>q\<in>set objs. delete_refusal c a q = None \<longleftrightarrow> delete_permitted c q)"
proof -
  let ?poa = "perObjectAuthorizer (oc_vr c) (oc_cfg c)"
  let ?plain = "list_ex (\<lambda>q. dro_VersionID q = []) objs" and ?version = "list_ex (\<lambda>q. dro_VersionID q \<noteq> []) objs"
  let ?bypass = "bypassGovernanceRetention (oc_hdr c)"
  obtain del ver byp where poa: "?poa ActionDeleteObject = Some del" "?poa ActionDeleteObjectVersion = Some ver"
      "?poa ActionBypassGovernanceRetention = Some byp"
    using perObjectAuthorizer_total [OF assms(1)] by metis
  define a where "a = \<lparr> da_del = if ?plain then del else poa_zero, da_ver = if ?version then ver else poa_zero,
    da_bypass = if ?bypass then byp else poa_zero,
    da_check = (?plain \<and> \<not> allowsEverything del \<or> ?version \<and> \<not> allowsEverything ver \<or>
      ?bypass \<and> \<not> allowsEverything byp) \<rparr>"
  have "delete_authorizers c objs s = (Inr a, s)"
    by (auto simp: delete_authorizers_def authorizer_if_def h_option_def poa a_def Let_def)
  moreover have "delete_refusal c a q = None \<longleftrightarrow> delete_permitted c q" if "q \<in> set objs" for q
  proof -
    have ex: "dro_VersionID q = [] \<Longrightarrow> ?plain" "dro_VersionID q \<noteq> [] \<Longrightarrow> ?version"
      using that by (auto simp: list_ex_iff)
    note permits = poa_permits [OF assms poa(1)] poa_permits [OF assms poa(2)] poa_permits [OF assms poa(3)]
    show ?thesis
    proof (cases "da_check a")
      case True
      then show ?thesis
        using ex permits(1,3,5)
        by (cases "dro_VersionID q = []") (auto simp: delete_refusal_def delete_permitted_def delete_actions_def a_def Let_def)
    next
      case False
      then show ?thesis
        using ex permits(2,4,6)
        by (cases "dro_VersionID q = []") (auto simp: delete_refusal_def delete_permitted_def delete_actions_def a_def)
    qed
  qed
  ultimately show ?thesis
    by blast
qed

text \<open>The loop: the permitted entries become identifiers in order, each refused one an error and a denial.\<close>

abbreviation with_denials :: "denial list \<Rightarrow> 'w hstate \<Rightarrow> 'w hstate" where
  "with_denials ds s \<equiv> s\<lparr> hs_op := (hs_op s)\<lparr> op_Denials := ds \<rparr> \<rparr>"

lemma delete_loop_run:
  assumes "\<forall>q\<in>set qs. delete_refusal c a q = None \<longleftrightarrow> delete_permitted c q"
    "\<forall>q\<in>set qs. delete_permitted c q \<longrightarrow> \<not> isl (delete_identifier c q)"
  shows "\<exists>ds. delete_loop c a qs s =
      (Inr (map denied_entry (filter (\<lambda>q. \<not> delete_permitted c q) qs),
            map (\<lambda>q. projr (delete_identifier c q)) (filter (delete_permitted c) qs)), with_denials ds s) \<and>
    sum_list (map dn_Keys ds) =
      sum_list (map dn_Keys (op_Denials (hs_op s))) + length (filter (\<lambda>q. \<not> delete_permitted c q) qs)"
  using assms
proof (induction qs arbitrary: s)
  case (Cons q qs)
  have "\<forall>q\<in>set qs. delete_refusal c a q = None \<longleftrightarrow> delete_permitted c q"
    "\<forall>q\<in>set qs. delete_permitted c q \<longrightarrow> \<not> isl (delete_identifier c q)"
    using Cons.prems by simp_all
  note IH = Cons.IH [OF this]
  show ?case
  proof (cases "delete_refusal c a q")
    case None
    then obtain oi where "delete_permitted c q" "delete_identifier c q = Inr oi"
      using Cons.prems by (cases "delete_identifier c q") auto
    moreover obtain ds where "delete_loop c a qs s =
        (Inr (map denied_entry (filter (\<lambda>q. \<not> delete_permitted c q) qs),
              map (\<lambda>q. projr (delete_identifier c q)) (filter (delete_permitted c) qs)), with_denials ds s)"
      "sum_list (map dn_Keys ds) =
        sum_list (map dn_Keys (op_Denials (hs_op s))) + length (filter (\<lambda>q. \<not> delete_permitted c q) qs)"
      using IH [of s] by blast
    ultimately show ?thesis
      using None by (intro exI [of _ ds]) (simp add: h_lift_def)
  next
    case (Some r)
    then have "\<not> delete_permitted c q"
      using Cons.prems by auto
    moreover obtain ds where "delete_loop c a qs (with_denials (addDenial (op_Denials (hs_op s)) r) s) =
        (Inr (map denied_entry (filter (\<lambda>q. \<not> delete_permitted c q) qs),
              map (\<lambda>q. projr (delete_identifier c q)) (filter (delete_permitted c) qs)), with_denials ds s)"
      "sum_list (map dn_Keys ds) = sum_list (map dn_Keys (op_Denials (hs_op s))) + 1 +
        length (filter (\<lambda>q. \<not> delete_permitted c q) qs)"
      using IH [of "with_denials (addDenial (op_Denials (hs_op s)) r) s"] by (auto simp: addDenial_sum)
    ultimately show ?thesis
      using Some by (intro exI [of _ ds]) (simp add: h_addDenial_def)
  qed
next
  case Nil
  show ?case
    by (intro exI [of _ "op_Denials (hs_op s)"]) simp
qed

section \<open>Properties\<close>

text \<open>
  C8. A multi-object delete forwards exactly the keys the requester may delete. When the request document is valid, the
  handler answers as if it had split the entries by \<open>authorize\<close> on the key (s3:DeleteObjectVersion for an entry with a
  version, s3:BypassGovernanceRetention too when the bypass is asked for): the permitted entries, in order, make up the
  one call of the backend, none is made when there are none, each refused one is an AccessDenied entry of the answer
  and is counted once in the operation's denials.
\<close>

theorem delete_objects_permitted:
  assumes "bucket_principals (oc_cfg c)" "bucket_effects (oc_cfg c)"
    and "h_readXML c (ev_Delete (oc_env c)) s = (Inr req, s)"
    and "drq_Objects req \<noteq> []" "length (drq_Objects req) \<le> 1000"
    and "\<forall>q\<in>set (drq_Objects req). delete_permitted c q \<longrightarrow> \<not> isl (delete_identifier c q)"
  shows "\<exists>ds. deleteObjects bc c s =
      delete_answer bc c (drq_Quiet req)
        (map denied_entry (filter (\<lambda>q. \<not> delete_permitted c q) (drq_Objects req)))
        (map (\<lambda>q. projr (delete_identifier c q)) (filter (delete_permitted c) (drq_Objects req))) (with_denials ds s) \<and>
    sum_list (map dn_Keys ds) = sum_list (map dn_Keys (op_Denials (hs_op s))) +
      length (filter (\<lambda>q. \<not> delete_permitted c q) (drq_Objects req))"
proof -
  obtain a where a: "delete_authorizers c (drq_Objects req) s = (Inr a, s)"
      "\<forall>q\<in>set (drq_Objects req). delete_refusal c a q = None \<longleftrightarrow> delete_permitted c q"
    using delete_authorizers_run [OF assms(1,2)] by blast
  obtain ds where ds: "delete_loop c a (drq_Objects req) s =
      (Inr (map denied_entry (filter (\<lambda>q. \<not> delete_permitted c q) (drq_Objects req)),
            map (\<lambda>q. projr (delete_identifier c q)) (filter (delete_permitted c) (drq_Objects req))), with_denials ds s)"
      "sum_list (map dn_Keys ds) = sum_list (map dn_Keys (op_Denials (hs_op s))) +
        length (filter (\<lambda>q. \<not> delete_permitted c q) (drq_Objects req))"
    using delete_loop_run [OF a(2) assms(6), of s] by blast
  have "\<not> (drq_Objects req = [] \<or> 1000 < length (drq_Objects req))"
    using assms(4,5) by auto
  then have "deleteObjects bc c s =
      delete_answer bc c (drq_Quiet req)
        (map denied_entry (filter (\<lambda>q. \<not> delete_permitted c q) (drq_Objects req)))
        (map (\<lambda>q. projr (delete_identifier c q)) (filter (delete_permitted c) (drq_Objects req))) (with_denials ds s)"
    unfolding deleteObjects_def by (simp add: assms(3) a(1) ds(1))
  then show ?thesis
    using ds(2) by blast
qed

definition example_entry :: "string \<Rightarrow> deleteRequestObject" where
  "example_entry key = \<lparr> dro_Key = key, dro_VersionID = [], dro_ETag = [], dro_LastModifiedTime = [], dro_Size = None \<rparr>"

definition example_delete :: opCtx where
  "example_delete = example_ctx ''POST'' [] ''delete''
    \<lparr> drq_Quiet = False, drq_Objects = [example_entry ''k'', example_entry ''log/1''] \<rparr>"

theorem delete_objects_permitted_witness:
  "\<forall>bc :: unit backendClient. \<exists>ds. deleteObjects bc example_delete (example_state ()) =
      delete_answer bc example_delete False [denied_entry (example_entry ''log/1'')]
        [projr (delete_identifier example_delete (example_entry ''k''))] (with_denials ds (example_state ())) \<and>
    sum_list (map dn_Keys ds) = 1"
proof
  fix bc :: "unit backendClient"
  let ?req = "\<lparr> drq_Quiet = False, drq_Objects = [example_entry ''k'', example_entry ''log/1''] \<rparr>"
  have cfg: "bucket_principals (oc_cfg example_delete)" "bucket_effects (oc_cfg example_delete)"
    by (simp_all add: example_delete_def example_ctx_ok)
  have read: "h_readXML example_delete (ev_Delete (oc_env example_delete)) (example_state ()) = (Inr ?req, example_state ())"
    unfolding example_delete_def by (rule example_readXML)
  have perm: "delete_permitted example_delete (example_entry ''k'')"
      "\<not> delete_permitted example_delete (example_entry ''log/1'')"
    by code_simp+
  have "\<not> isl (delete_identifier example_delete (example_entry ''k''))"
    by (simp add: delete_identifier_def example_entry_def)
  then show "\<exists>ds. deleteObjects bc example_delete (example_state ()) =
      delete_answer bc example_delete False [denied_entry (example_entry ''log/1'')]
        [projr (delete_identifier example_delete (example_entry ''k''))] (with_denials ds (example_state ())) \<and>
    sum_list (map dn_Keys ds) = 1"
    using delete_objects_permitted [OF cfg read, of bc] perm by (simp add: example_state_def example_op_def)
qed

end
