(* ===== verification/Handlers.thy ===== *)
theory Handlers
  imports Bulk_Delete
begin

text \<open>
  The handlers behind the routes, and what holds of all of them: which requests they may send to the backend, and
  that no answer depends on where the backend is.
\<close>

section \<open>All handlers\<close>

fun handle :: "handler \<Rightarrow> 'w backendClient \<Rightarrow> opCtx \<Rightarrow> ('w, unit) handlerM" where
  "handle H_listMultipartUploads bc c = listMultipartUploads bc c"
| "handle H_getBucketLocation bc c = getBucketLocation c"
| "handle H_getBucketACL bc c = getBucketACL c"
| "handle H_getBucketPolicy bc c = getBucketPolicy c"
| "handle H_getBucketCors bc c = getBucketCors c"
| "handle H_getObjectLockConfiguration bc c = getObjectLockConfiguration bc c"
| "handle H_getBucketVersioning bc c = getBucketVersioning bc c"
| "handle H_getBucketEncryption bc c = getBucketEncryption bc c"
| "handle H_getBucketPolicyStatus bc c = getBucketPolicyStatus"
| "handle H_getBucketOwnershipControls bc c = getBucketOwnershipControls"
| "handle H_getPublicAccessBlock bc c = getPublicAccessBlock"
| "handle H_listObjectVersions bc c = listObjectVersions bc c"
| "handle H_listObjectsV2 bc c = listObjectsV2 bc c"
| "handle H_listObjectsV1 bc c = listObjectsV1 bc c"
| "handle H_headBucket bc c = headBucket bc c"
| "handle H_rejectACL bc c = rejectACL"
| "handle H_deleteObjects bc c = deleteObjects bc c"
| "handle H_listParts bc c = listParts bc c"
| "handle H_getObjectTagging bc c = getObjectTagging bc c"
| "handle H_getObjectACL bc c = getObjectACL bc c"
| "handle H_getObjectRetention bc c = getObjectRetention bc c"
| "handle H_getObjectLegalHold bc c = getObjectLegalHold bc c"
| "handle H_getObjectAttributes bc c = getObjectAttributes bc c"
| "handle H_getObject bc c = getObject bc c"
| "handle H_headObject bc c = headObject bc c"
| "handle H_putObjectTagging bc c = putObjectTagging bc c"
| "handle H_putObjectRetention bc c = putObjectRetention bc c"
| "handle H_putObjectLegalHold bc c = putObjectLegalHold bc c"
| "handle H_uploadPartOrCopy bc c = uploadPartOrCopy bc c"
| "handle H_putObjectOrCopy bc c = putObjectOrCopy bc c"
| "handle H_abortMultipartUpload bc c = abortMultipartUpload bc c"
| "handle H_deleteObjectTagging bc c = deleteObjectTagging bc c"
| "handle H_deleteObject bc c = deleteObject bc c"
| "handle H_createMultipartUpload bc c = createMultipartUpload bc c"
| "handle H_completeMultipartUpload bc c = completeMultipartUpload bc c"
| "handle (H_notImplemented what) bc c = h_lift (Inl (NotImplemented what))"

section \<open>A confined client\<close>

text \<open>A client that answers only what the operation was authorized for, and refuses every other request.\<close>

definition ErrConfined :: go_error where
  "ErrConfined = Sentinel ''outside the authorized operation''"

definition guarded :: "('i \<Rightarrow> bool) \<Rightarrow> ('w, 'i, 'o) call \<Rightarrow> ('w, 'i, 'o) call" where
  "guarded ok f = (\<lambda>i w. if ok i then f i w else (Inl ErrConfined, w))"

definition c_version :: "opCtx \<Rightarrow> string option" where
  "c_version c = str_opt (values_get (oc_query c) qpVersionID)"

definition c_bypass :: "opCtx \<Rightarrow> bool option" where
  "c_bypass c = (if bypassGovernanceRetention (oc_hdr c) then Some True else None)"

definition c_tagging :: "opCtx \<Rightarrow> string option" where
  "c_tagging c = str_opt (oc_signed c hdrTagging)"

abbreviation own_bucket :: "opCtx \<Rightarrow> string \<Rightarrow> bool" where
  "own_bucket c n \<equiv> n = be_name c"

abbreviation own_object :: "opCtx \<Rightarrow> string \<Rightarrow> string \<Rightarrow> bool" where
  "own_object c n k \<equiv> n = be_name c \<and> k = oc_key c"

abbreviation own_version :: "opCtx \<Rightarrow> versionInput \<Rightarrow> bool" where
  "own_version c v \<equiv> own_object c (vin_Bucket v) (vin_Key v) \<and> vin_VersionId v = c_version c"

text \<open>An entry of a multi-object delete whose actions the requester holds on its key.\<close>

definition deletable :: "opCtx \<Rightarrow> objectIdentifier \<Rightarrow> bool" where
  "deletable c i \<longleftrightarrow>
    list_all (\<lambda>action. authorize (oc_vr c) (oc_cfg c) action (b_Name (oc_cfg c) @ ''/'' @ oid_Key i) = Some None)
      ((if oid_VersionId i \<noteq> None then ActionDeleteObjectVersion else ActionDeleteObject) #
       (if bypassGovernanceRetention (oc_hdr c) then [ActionBypassGovernanceRetention] else []))"

definition confine :: "opCtx \<Rightarrow> 'w backendClient \<Rightarrow> 'w backendClient" where
  "confine c bc =
    \<lparr> bc_GetObject = guarded (\<lambda>i. own_object c (goi_Bucket i) (goi_Key i) \<and> goi_VersionId i = c_version c) (bc_GetObject bc),
      bc_GetObjectAttributes =
        guarded (\<lambda>i. own_object c (gai_Bucket i) (gai_Key i) \<and> gai_VersionId i = c_version c) (bc_GetObjectAttributes bc),
      bc_PutObject = guarded (\<lambda>i. own_object c (poi_Bucket i) (poi_Key i) \<and> poi_Tagging i = c_tagging c \<and>
        poi_Lock i = applyObjectLockHeaders (oc_hdr c)) (bc_PutObject bc),
      bc_HeadObject = guarded (\<lambda>i. own_object c (hoi_Bucket i) (hoi_Key i) \<and> hoi_VersionId i = c_version c) (bc_HeadObject bc),
      bc_DeleteObject = guarded (\<lambda>i. own_object c (doi_Bucket i) (doi_Key i) \<and> doi_VersionId i = c_version c \<and>
        doi_BypassGovernanceRetention i = c_bypass c) (bc_DeleteObject bc),
      bc_ListObjectsV2 = guarded (\<lambda>i. own_bucket c (l2i_Bucket i)) (bc_ListObjectsV2 bc),
      bc_HeadBucket = guarded (own_bucket c) (bc_HeadBucket bc),
      bc_CreateMultipartUpload = guarded (\<lambda>i. own_object c (cmi_Bucket i) (cmi_Key i) \<and> cmi_Tagging i = c_tagging c \<and>
        cmi_Lock i = applyObjectLockHeaders (oc_hdr c)) (bc_CreateMultipartUpload bc),
      bc_UploadPart = guarded (\<lambda>i. own_object c (upi_Bucket i) (upi_Key i)) (bc_UploadPart bc),
      bc_CompleteMultipartUpload = guarded (\<lambda>i. own_object c (cpi_Bucket i) (cpi_Key i)) (bc_CompleteMultipartUpload bc),
      bc_AbortMultipartUpload = guarded (\<lambda>i. own_object c (ami_Bucket i) (ami_Key i)) (bc_AbortMultipartUpload bc),
      bc_ListParts = guarded (\<lambda>i. own_object c (lpi_Bucket i) (lpi_Key i)) (bc_ListParts bc),
      bc_ListMultipartUploads = guarded (\<lambda>i. own_bucket c (lui_Bucket i)) (bc_ListMultipartUploads bc),
      bc_ListObjects = guarded (\<lambda>i. own_bucket c (l1i_Bucket i)) (bc_ListObjects bc),
      bc_DeleteObjects = guarded (\<lambda>i. own_bucket c (dsi_Bucket i) \<and> list_all (deletable c) (dsi_Objects i) \<and>
        dsi_BypassGovernanceRetention i = c_bypass c) (bc_DeleteObjects bc),
      bc_CopyObject = guarded (\<lambda>i. own_object c (coi_Bucket i) (coi_Key i) \<and> coi_CopySource i = oc_copySource c \<and>
        coi_Tagging i = c_tagging c \<and> coi_Lock i = applyObjectLockHeaders (oc_hdr c)) (bc_CopyObject bc),
      bc_UploadPartCopy = guarded (\<lambda>i. own_object c (uci_Bucket i) (uci_Key i) \<and> uci_CopySource i = oc_copySource c)
        (bc_UploadPartCopy bc),
      bc_GetBucketVersioning = guarded (own_bucket c) (bc_GetBucketVersioning bc),
      bc_GetBucketEncryption = guarded (own_bucket c) (bc_GetBucketEncryption bc),
      bc_ListObjectVersions = guarded (\<lambda>i. own_bucket c (lvi_Bucket i)) (bc_ListObjectVersions bc),
      bc_GetObjectTagging = guarded (own_version c) (bc_GetObjectTagging bc),
      bc_PutObjectTagging = guarded (\<lambda>i. own_version c (pti_Target i)) (bc_PutObjectTagging bc),
      bc_DeleteObjectTagging = guarded (own_version c) (bc_DeleteObjectTagging bc),
      bc_GetObjectLockConfiguration = guarded (own_bucket c) (bc_GetObjectLockConfiguration bc),
      bc_GetObjectRetention = guarded (own_version c) (bc_GetObjectRetention bc),
      bc_PutObjectRetention = guarded (\<lambda>i. own_version c (pri_Target i) \<and> pri_BypassGovernanceRetention i = c_bypass c)
        (bc_PutObjectRetention bc),
      bc_GetObjectLegalHold = guarded (own_version c) (bc_GetObjectLegalHold bc),
      bc_PutObjectLegalHold = guarded (\<lambda>i. own_version c (phi_Target i)) (bc_PutObjectLegalHold bc) \<rparr>"

section \<open>Composing handlers\<close>

lemma io_bind_h_lift [simp]:
  "io_bind (h_lift (Inl e)) f = h_lift (Inl e)"
  "io_bind (h_lift (Inr x)) f = f x"
  by (auto simp: io_bind_def h_lift_def)

lemma io_bind_h_lift_and_then [simp]:
  "io_bind (h_lift (and_then r g)) f = io_bind (h_lift r) (\<lambda>x. io_bind (h_lift (g x)) f)"
  by (cases r) simp_all

lemma io_bind_h_lift_cases [simp]:
  "io_bind (h_lift (if b then r else r')) f = (if b then io_bind (h_lift r) f else io_bind (h_lift r') f)"
  "io_bind (h_lift (case p of (x, y) \<Rightarrow> g x y)) f = (case p of (x, y) \<Rightarrow> io_bind (h_lift (g x y)) f)"
  by (auto split: prod.splits)

lemma h_call_guarded [simp]:
  "ok i \<Longrightarrow> h_call c (guarded ok f) i = h_call c f i"
  "ok i \<Longrightarrow> h_call_relay c (guarded ok f) i = h_call_relay c f i"
  by (auto simp: h_call_def h_call_relay_def guarded_def)

lemma io_bind_cong:
  assumes "\<And>x s'. m s = (Inr x, s') \<Longrightarrow> f x s' = g x s'"
  shows "io_bind m f s = io_bind m g s"
  using assms by (auto simp: io_bind_def split: prod.splits sum.splits)

lemmas handler_inputs = getObject_input_def headObject_input_def putObject_input_def setChecksumsPutObjectInput_def
  deleteObject_input_def copyObject_input_def createMultipartUpload_input_def uploadPart_input_def
  setChecksumsUploadPartInput_def uploadPartCopy_input_def completeMultipartUpload_input_def
  setChecksumsCompleteMultipartUploadInput_def listParts_input_def listMultipartUploads_input_def
  getObjectAttributes_input_def version_input_def listObjectsV2_input_def listObjectsV1_input_def
  listObjectVersions_input_def

lemmas handler_defs = listMultipartUploads_def getBucketLocation_def getBucketACL_def getBucketPolicy_def
  getBucketCors_def getObjectLockConfiguration_def getBucketVersioning_def getBucketEncryption_def
  getBucketPolicyStatus_def getBucketOwnershipControls_def getPublicAccessBlock_def listObjectVersions_def
  listObjectsV2_def listObjectsV1_def headBucket_def rejectACL_def listParts_def getObjectTagging_def getObjectACL_def
  getObjectRetention_def getObjectLegalHold_def getObjectAttributes_def getObject_def headObject_def
  putObjectTagging_def putObjectRetention_def putObjectLegalHold_def uploadPartOrCopy_def uploadPart_def
  uploadPartCopy_def putObjectOrCopy_def putObject_def copyObject_def abortMultipartUpload_def
  deleteObjectTagging_def deleteObject_def createMultipartUpload_def completeMultipartUpload_def

section \<open>Confinement\<close>

lemmas confine_simps = confine_def c_version_def c_bypass_def c_tagging_def

lemma delete_permitted_deletable:
  assumes "delete_identifier c q = Inr i" "delete_permitted c q"
  shows "deletable c i"
  using assms
  by (cases "dro_VersionID q = []") (auto simp: delete_identifier_def delete_permitted_def delete_actions_def deletable_def str_opt_def)

lemma delete_loop_deletable:
  assumes "delete_loop c a qs s = (Inr (errs, objs), s')"
    "\<forall>q\<in>set qs. delete_refusal c a q = None \<longleftrightarrow> delete_permitted c q"
  shows "list_all (deletable c) objs"
  using assms
proof (induction qs arbitrary: s errs objs)
  case (Cons q qs)
  show ?case
  proof (cases "delete_refusal c a q")
    case None
    then obtain oi objs' where oi: "delete_identifier c q = Inr oi" "objs = oi # objs'" "delete_loop c a qs s = (Inr (errs, objs'), s')"
      using Cons.prems(1) by (cases "delete_identifier c q") (auto simp: io_bind_Inr_iff h_lift_def)
    then show ?thesis
      using Cons.IH [OF oi(3)] Cons.prems(2) delete_permitted_deletable [OF oi(1)] None by simp
  next
    case (Some r)
    then show ?thesis
      using Cons.IH Cons.prems by (auto simp: io_bind_Inr_iff)
  qed
qed simp

lemma delete_answer_confined:
  "list_all (deletable c) objs \<Longrightarrow> delete_answer (confine c bc) c quiet errs objs = delete_answer bc c quiet errs objs"
  by (simp add: delete_answer_def confine_simps)

lemma deleteObjects_confined:
  fixes bc :: "'w backendClient"
  assumes "bucket_principals (oc_cfg c)" "bucket_effects (oc_cfg c)"
  shows "deleteObjects (confine c bc) c s = deleteObjects bc c s"
  unfolding deleteObjects_def
proof (rule io_bind_cong)
  fix req and s' :: "'w hstate"
  let ?objs = "drq_Objects req"
  obtain a where a: "delete_authorizers c ?objs s' = (Inr a, s')"
      "\<forall>q\<in>set ?objs. delete_refusal c a q = None \<longleftrightarrow> delete_permitted c q"
    using delete_authorizers_run [OF assms] by blast
  have "io_bind (delete_loop c a ?objs) (\<lambda>(errs, objs). delete_answer (confine c bc) c (drq_Quiet req) errs objs) s' =
    io_bind (delete_loop c a ?objs) (\<lambda>(errs, objs). delete_answer bc c (drq_Quiet req) errs objs) s'"
  proof (rule io_bind_cong)
    fix x s''
    assume "delete_loop c a ?objs s' = (Inr x, s'')"
    then have "list_all (deletable c) (snd x)"
      using delete_loop_deletable [OF _ a(2)] by (cases x) auto
    then show "(case x of (errs, objs) \<Rightarrow> delete_answer (confine c bc) c (drq_Quiet req) errs objs) s'' =
        (case x of (errs, objs) \<Rightarrow> delete_answer bc c (drq_Quiet req) errs objs) s''"
      by (cases x) (simp add: delete_answer_confined)
  qed
  then show "(if ?objs = [] \<or> 1000 < length ?objs then h_lift (Inl err_malformed_xml)
      else io_bind (delete_authorizers c ?objs) (\<lambda>a.
        io_bind (delete_loop c a ?objs) (\<lambda>(errs, objs). delete_answer (confine c bc) c (drq_Quiet req) errs objs))) s' =
    (if ?objs = [] \<or> 1000 < length ?objs then h_lift (Inl err_malformed_xml)
      else io_bind (delete_authorizers c ?objs) (\<lambda>a.
        io_bind (delete_loop c a ?objs) (\<lambda>(errs, objs). delete_answer bc c (drq_Quiet req) errs objs))) s'"
    by (simp add: a(1))
qed

lemma handle_confine:
  assumes "bucket_principals (oc_cfg c)" "bucket_effects (oc_cfg c)"
  shows "handle h (confine c bc) c s = handle h bc c s"
proof (cases "h = H_deleteObjects")
  case True
  then show ?thesis
    using deleteObjects_confined [OF assms] by simp
next
  case False
  then have "handle h (confine c bc) c = handle h bc c"
    by (cases h) (simp_all add: handler_defs handler_inputs confine_simps Let_def cong: if_cong)
  then show ?thesis
    by simp
qed

text \<open>
  C2. No handler reaches past the operation that was authorized. On a well-formed bucket every handler behaves on any
  backend exactly as on one confined to the bucket of the operation, its key and its version, the copy source that was
  resolved, the tags, locks and bypass of the signed headers, and in a multi-object delete the keys the requester may
  delete: the request it would refuse is never sent.
\<close>

theorem handler_confined:
  assumes "bucket_principals (oc_cfg c)" "bucket_effects (oc_cfg c)"
  shows "handle h (confine c bc) c s = handle h bc c s"
  using handle_confine [OF assms] .

theorem handler_confined_witness:
  "bucket_principals (oc_cfg example_delete) \<and> bucket_effects (oc_cfg example_delete) \<and>
   (\<forall>bc :: unit backendClient. handle H_deleteObjects (confine example_delete bc) example_delete (example_state ()) =
     handle H_deleteObjects bc example_delete (example_state ()))"
proof -
  have "bucket_principals (oc_cfg example_delete)" "bucket_effects (oc_cfg example_delete)"
    by (simp_all add: example_delete_def example_ctx_ok)
  then show ?thesis
    using handler_confined [of example_delete H_deleteObjects] by blast
qed

section \<open>The backend stays hidden\<close>

text \<open>The same request with the bucket kept elsewhere, and a client that asks the original place instead.\<close>

definition relocate :: "backend \<Rightarrow> opCtx \<Rightarrow> opCtx" where
  "relocate b c = c\<lparr> oc_backend := b, oc_cfg := (oc_cfg c)\<lparr> b_Backend := Some b \<rparr> \<rparr>"

definition redirected :: "('i \<Rightarrow> 'i) \<Rightarrow> ('w, 'i, 'o) call \<Rightarrow> ('w, 'i, 'o) call" where
  "redirected u f = (\<lambda>i. f (u i))"

definition redirect :: "string \<Rightarrow> 'w backendClient \<Rightarrow> 'w backendClient" where
  "redirect n bc =
    \<lparr> bc_GetObject = redirected (\<lambda>i. i\<lparr> goi_Bucket := n \<rparr>) (bc_GetObject bc),
      bc_GetObjectAttributes = redirected (\<lambda>i. i\<lparr> gai_Bucket := n \<rparr>) (bc_GetObjectAttributes bc),
      bc_PutObject = redirected (\<lambda>i. i\<lparr> poi_Bucket := n \<rparr>) (bc_PutObject bc),
      bc_HeadObject = redirected (\<lambda>i. i\<lparr> hoi_Bucket := n \<rparr>) (bc_HeadObject bc),
      bc_DeleteObject = redirected (\<lambda>i. i\<lparr> doi_Bucket := n \<rparr>) (bc_DeleteObject bc),
      bc_ListObjectsV2 = redirected (\<lambda>i. i\<lparr> l2i_Bucket := n \<rparr>) (bc_ListObjectsV2 bc),
      bc_HeadBucket = redirected (\<lambda>_. n) (bc_HeadBucket bc),
      bc_CreateMultipartUpload = redirected (\<lambda>i. i\<lparr> cmi_Bucket := n \<rparr>) (bc_CreateMultipartUpload bc),
      bc_UploadPart = redirected (\<lambda>i. i\<lparr> upi_Bucket := n \<rparr>) (bc_UploadPart bc),
      bc_CompleteMultipartUpload = redirected (\<lambda>i. i\<lparr> cpi_Bucket := n \<rparr>) (bc_CompleteMultipartUpload bc),
      bc_AbortMultipartUpload = redirected (\<lambda>i. i\<lparr> ami_Bucket := n \<rparr>) (bc_AbortMultipartUpload bc),
      bc_ListParts = redirected (\<lambda>i. i\<lparr> lpi_Bucket := n \<rparr>) (bc_ListParts bc),
      bc_ListMultipartUploads = redirected (\<lambda>i. i\<lparr> lui_Bucket := n \<rparr>) (bc_ListMultipartUploads bc),
      bc_ListObjects = redirected (\<lambda>i. i\<lparr> l1i_Bucket := n \<rparr>) (bc_ListObjects bc),
      bc_DeleteObjects = redirected (\<lambda>i. i\<lparr> dsi_Bucket := n \<rparr>) (bc_DeleteObjects bc),
      bc_CopyObject = redirected (\<lambda>i. i\<lparr> coi_Bucket := n \<rparr>) (bc_CopyObject bc),
      bc_UploadPartCopy = redirected (\<lambda>i. i\<lparr> uci_Bucket := n \<rparr>) (bc_UploadPartCopy bc),
      bc_GetBucketVersioning = redirected (\<lambda>_. n) (bc_GetBucketVersioning bc),
      bc_GetBucketEncryption = redirected (\<lambda>_. n) (bc_GetBucketEncryption bc),
      bc_ListObjectVersions = redirected (\<lambda>i. i\<lparr> lvi_Bucket := n \<rparr>) (bc_ListObjectVersions bc),
      bc_GetObjectTagging = redirected (\<lambda>i. i\<lparr> vin_Bucket := n \<rparr>) (bc_GetObjectTagging bc),
      bc_PutObjectTagging = redirected (\<lambda>i. i\<lparr> pti_Target := (pti_Target i)\<lparr> vin_Bucket := n \<rparr> \<rparr>) (bc_PutObjectTagging bc),
      bc_DeleteObjectTagging = redirected (\<lambda>i. i\<lparr> vin_Bucket := n \<rparr>) (bc_DeleteObjectTagging bc),
      bc_GetObjectLockConfiguration = redirected (\<lambda>_. n) (bc_GetObjectLockConfiguration bc),
      bc_GetObjectRetention = redirected (\<lambda>i. i\<lparr> vin_Bucket := n \<rparr>) (bc_GetObjectRetention bc),
      bc_PutObjectRetention = redirected (\<lambda>i. i\<lparr> pri_Target := (pri_Target i)\<lparr> vin_Bucket := n \<rparr> \<rparr>) (bc_PutObjectRetention bc),
      bc_GetObjectLegalHold = redirected (\<lambda>i. i\<lparr> vin_Bucket := n \<rparr>) (bc_GetObjectLegalHold bc),
      bc_PutObjectLegalHold = redirected (\<lambda>i. i\<lparr> phi_Target := (phi_Target i)\<lparr> vin_Bucket := n \<rparr> \<rparr>) (bc_PutObjectLegalHold bc) \<rparr>"

lemma h_call_redirected [simp]:
  "h_call c (redirected u f) i = h_call c f (u i)" "h_call_relay c (redirected u f) i = h_call_relay c f (u i)"
  by (simp_all add: h_call_def h_call_relay_def redirected_def)

lemma relocate_sel [simp]:
  "oc_g (relocate b c) = oc_g c" "oc_env (relocate b c) = oc_env c" "oc_r (relocate b c) = oc_r c"
  "oc_tls (relocate b c) = oc_tls c" "oc_body (relocate b c) = oc_body c" "oc_vr (relocate b c) = oc_vr c"
  "oc_verified (relocate b c) = oc_verified c" "oc_backend (relocate b c) = b" "oc_target (relocate b c) = oc_target c"
  "oc_key (relocate b c) = oc_key c" "oc_hdr (relocate b c) = oc_hdr c" "oc_copySource (relocate b c) = oc_copySource c"
  "b_Name (oc_cfg (relocate b c)) = b_Name (oc_cfg c)" "b_Tenant (oc_cfg (relocate b c)) = b_Tenant (oc_cfg c)"
  "b_PolicyText (oc_cfg (relocate b c)) = b_PolicyText (oc_cfg c)" "b_CORS (oc_cfg (relocate b c)) = b_CORS (oc_cfg c)"
  "b_Policy (oc_cfg (relocate b c)) = b_Policy (oc_cfg c)"
  by (simp_all add: relocate_def)

lemma relocate_steps [simp]:
  "h_call (relocate b c) = (h_call c :: ('w, 'i, 'o) call \<Rightarrow> _)"
  "h_call_relay (relocate b c) = (h_call_relay c :: ('w, 'i, 'o) call \<Rightarrow> _)"
  "h_readXML (relocate b c) = (h_readXML c :: (string \<Rightarrow> go_error + 'x) \<Rightarrow> ('w, 'x) handlerM)"
  by (auto simp: h_call_def h_call_relay_def h_readXML_def fun_eq_iff split: prod.splits sum.splits)

lemma relocate_shared [simp]:
  "c_clientStorageClass (relocate b c) = c_clientStorageClass c" "c_backendStorageClass (relocate b c) = c_backendStorageClass c"
  "c_applySSE (relocate b c) = c_applySSE c" "c_clientKMSKeyID (relocate b c) = c_clientKMSKeyID c"
  "c_setChecksumHeaders (relocate b c) = c_setChecksumHeaders c" "reportChecksums (relocate b c) = reportChecksums c"
  "c_requestBody (relocate b c) = c_requestBody c" "http_time (relocate b c) = http_time c"
  "applyConditionalHeaders (relocate b c) = applyConditionalHeaders c" "checksum_mode (relocate b c) = checksum_mode c"
  "part_number (relocate b c) = part_number c" "completed_parts (g_checksums (oc_g (relocate b c))) = completed_parts (g_checksums (oc_g c))"
  "copyObject_result (relocate b c) = copyObject_result c" "copyPart_result (relocate b c) = copyPart_result c"
  "attribute_parts (relocate b c) = attribute_parts c"
  by (auto simp: fun_eq_iff c_clientStorageClass_def c_backendStorageClass_def c_applySSE_def c_clientKMSKeyID_def
      c_setChecksumHeaders_def reportChecksums_def c_requestBody_def http_time_def applyConditionalHeaders_def
      checksum_mode_def part_number_def copyObject_result_def copyPart_result_def attribute_parts_def split: option.splits)

lemma relocate_answers [simp]:
  "getObject_headers (relocate b c) = getObject_headers c" "headObject_headers (relocate b c) = headObject_headers c"
  "putObject_headers (relocate b c) = putObject_headers c"
  "createMultipartUpload_headers (relocate b c) = createMultipartUpload_headers c"
  "listParts_result (relocate b c) = listParts_result c"
  "listMultipartUploads_result (relocate b c) = listMultipartUploads_result c"
  "getObjectAttributes_result (relocate b c) = getObjectAttributes_result c"
  "listObjectsV2_result (relocate b c) = listObjectsV2_result c" "listObjectsV1_result (relocate b c) = listObjectsV1_result c"
  "listObjectVersions_result (relocate b c) = listObjectVersions_result c" "encryption_rule (relocate b c) = encryption_rule c"
  by (auto simp: fun_eq_iff getObject_headers_def headObject_headers_def putObject_headers_def object_values_def
      createMultipartUpload_headers_def listParts_result_def listMultipartUploads_result_def getObjectAttributes_result_def
      listObjectsV2_result_def listObjectsV1_result_def listObjectVersions_result_def objectsFromSDK_def
      encryption_rule_def)

lemma relocate_algorithm:
  assumes "IsHTTPS b = IsHTTPS (oc_backend c)"
  shows "upload_algorithm (relocate b c) = upload_algorithm c"
proof -
  have "trailerChecksumAlgorithm b h = trailerChecksumAlgorithm (oc_backend c) h" for h
    using assms by (simp add: trailerChecksumAlgorithm_def split: sum.splits)
  then show ?thesis
    by (simp add: upload_algorithm_def Let_def cong: if_cong)
qed

lemma relocate_delete [simp]:
  "delete_authorizers (relocate b c) objs = (delete_authorizers c objs :: ('w, deleteAuths) handlerM)"
  "delete_refusal (relocate b c) = delete_refusal c" "delete_identifier (relocate b c) = delete_identifier c"
proof -
  have "perObjectAuthorizer (oc_vr c) (oc_cfg (relocate b c)) action = perObjectAuthorizer (oc_vr c) (oc_cfg c) action" for action
    by (simp add: perObjectAuthorizer_def Let_def)
  then show "delete_authorizers (relocate b c) objs = (delete_authorizers c objs :: ('w, deleteAuths) handlerM)"
    by (simp add: delete_authorizers_def authorizer_if_def Let_def cong: if_cong)
qed (auto simp: fun_eq_iff delete_refusal_def delete_identifier_def Let_def)

lemma relocate_delete_loop [simp]: "delete_loop (relocate b c) a qs = (delete_loop c a qs :: ('w, _) handlerM)"
  by (induction qs) (simp_all split: option.splits)

text \<open>
  C14. No answer reveals the backend. If the operation's bucket were kept in another backend bucket, at another
  endpoint and region and under other credentials, and that place answered as the original does, every handler would
  leave the same status, headers, body, error and operation record; the one setting of a backend that matters is
  whether it is reached over TLS.
\<close>

theorem backend_hidden:
  assumes "IsHTTPS b = IsHTTPS (oc_backend c)"
  shows "handle h (redirect (be_name c) bc) (relocate b c) s = handle h bc c s"
proof -
  have "handle h (redirect (be_name c) bc) (relocate b c) = handle h bc c"
    using relocate_algorithm [OF assms]
    by (cases h) (simp_all add: handler_defs handler_inputs redirect_def deleteObjects_def delete_answer_def
        listObjectsV2_result_def Let_def cong: if_cong option.case_cong)
  then show ?thesis
    by simp
qed

definition example_elsewhere :: backend where
  "example_elsewhere = example_backend\<lparr> be_Endpoint := ''https://other.example'', be_Region := ''r2'', be_Bucket := ''xyz'' \<rparr>"

theorem backend_hidden_witness:
  "IsHTTPS example_elsewhere = IsHTTPS (oc_backend (example_ctx ''HEAD'' ''k'' [] \<lparr> drq_Quiet = False, drq_Objects = [] \<rparr>)) \<and>
   (\<forall>bc :: unit backendClient.
     handle H_headObject (redirect ''ta-b'' bc)
       (relocate example_elsewhere (example_ctx ''HEAD'' ''k'' [] \<lparr> drq_Quiet = False, drq_Objects = [] \<rparr>)) (example_state ()) =
     handle H_headObject bc (example_ctx ''HEAD'' ''k'' [] \<lparr> drq_Quiet = False, drq_Objects = [] \<rparr>) (example_state ()))"
proof -
  let ?c = "example_ctx ''HEAD'' ''k'' [] \<lparr> drq_Quiet = False, drq_Objects = [] \<rparr>"
  have "be_name ?c = ''ta-b''" "oc_backend ?c = example_backend"
    by (simp_all add: example_ctx_def example_backend_def)
  moreover have "IsHTTPS example_elsewhere = IsHTTPS example_backend"
    by code_simp
  ultimately show ?thesis
    using backend_hidden [where b = example_elsewhere and c = ?c and h = H_headObject and bc = "bc :: unit backendClient" for bc]
    by simp
qed

end
