(* ===== verification/List_Buckets.thy ===== *)
theory List_Buckets
  imports Handlers
begin

text \<open>
  \<open>listBuckets\<close> of \<open>src/s3gw/proxy.go\<close>, the one operation without a bucket, and that following its continuation
  tokens shows every bucket once.
\<close>

section \<open>The handler\<close>

definition maxListBuckets :: int where
  "maxListBuckets = 10000"

definition list_page_size :: "url_values \<Rightarrow> s3error + int" where
  "list_page_size query =
    (let v = values_get query ''max-buckets'';
         err = s3err_New 400 ''InvalidArgument'' (lit ''max-buckets must be an integer between 1 and 10000'')
     in if v = [] then Inr maxListBuckets
        else
          (case parse_int 10 v of
             None \<Rightarrow> Inl err
           | Some n \<Rightarrow> if n < 1 \<or> maxListBuckets < n then Inl err else Inr n))"

text \<open>\<open>sort.Search\<close>: binary search between \<open>i\<close> and \<open>j\<close>.\<close>

function search_from :: "(nat \<Rightarrow> bool) \<Rightarrow> nat \<Rightarrow> nat \<Rightarrow> nat" where
  "search_from p i j =
    (if i < j then (let h = (i + j) div 2 in if \<not> p h then search_from p (h + 1) j else search_from p i h) else i)"
  by pat_completeness auto
termination
  by (relation "measure (\<lambda>(_, i, j). j - i)") auto

declare search_from.simps [simp del]

definition bucket_listing :: "bucket_entry \<Rightarrow> xml_bucket_entry" where
  "bucket_listing e = \<lparr> xbe_Name = bent_Name e,
    xbe_CreationDate = FormatTime (case bent_CreatedAt e of Some t \<Rightarrow> t | None \<Rightarrow> 0) \<rparr>"

text \<open>
  \<open>sort.Slice\<close> orders by name alone and need not be stable: of entries with the same name, which no store has, the
  model fixes the order.
\<close>

definition listBuckets_page :: "store \<Rightarrow> url_values \<Rightarrow> identity \<Rightarrow> s3error + listAllMyBucketsResult" where
  "listBuckets_page st query vr =
    and_then (list_page_size query) (\<lambda>maxBuckets.
    (case ListBuckets st (vr_Tenant vr) of
       Inl err \<Rightarrow> Inl (s3err_Internal err (lit ''bucket lookup failed''))
     | Inr es \<Rightarrow>
         (let token = values_get query ''continuation-token'';
              es1 = sort_key bent_Name es;
              es2 = (if token \<noteq> [] then drop (search_from (\<lambda>i. token < bent_Name (es1 ! i)) 0 (length es1)) es1 else es1);
              es3 = (if maxBuckets < int (length es2) then take (nat maxBuckets) es2 else es2)
          in Inr \<lparr> lab_XMLNS = Namespace, lab_Owner = \<lparr> xo_ID = vr_Tenant vr, xo_DisplayName = vr_Tenant vr \<rparr>,
               lab_Buckets = map bucket_listing es3,
               lab_ContinuationToken = (if maxBuckets < int (length es2) then bent_Name (last es3) else []) \<rparr>)))"

definition listBuckets :: "store \<Rightarrow> http_request \<Rightarrow> identity \<Rightarrow> ('w, unit) handlerM" where
  "listBuckets st r vr =
    io_bind (h_lift (listBuckets_page st (r_Query r) vr)) (\<lambda>res. h_xml (listAllMyBucketsResult_xml res))"

section \<open>Following the tokens\<close>

text \<open>
  A client that asks page after page with the same parameters and the token of the last answer. Each page but the
  last shows at least one bucket, so one request more than there are buckets is enough.
\<close>

primrec list_walk :: "nat \<Rightarrow> store \<Rightarrow> identity \<Rightarrow> url_values \<Rightarrow> string \<Rightarrow> (s3error + xml_bucket_entry list) option" where
  "list_walk 0 st vr query token = None"
| "list_walk (Suc fuel) st vr query token =
    (case listBuckets_page st ((''continuation-token'', [token]) # query) vr of
       Inl e \<Rightarrow> Some (Inl e)
     | Inr res \<Rightarrow>
         if lab_ContinuationToken res = [] then Some (Inr (lab_Buckets res))
         else map_option (map_sum id (\<lambda>rest. lab_Buckets res @ rest)) (list_walk fuel st vr query (lab_ContinuationToken res)))"

lemma search_from_eq:
  assumes "i \<le> k" "k \<le> j" "\<And>h. h < k \<Longrightarrow> \<not> p h" "\<And>h. k \<le> h \<Longrightarrow> h < j' \<Longrightarrow> p h" "j \<le> j'"
  shows "search_from p i j = k"
  using assms
proof (induction p i j rule: search_from.induct)
  case (1 p i j)
  show ?case
  proof (cases "i < j")
    case True
    let ?h = "(i + j) div 2"
    have h: "i \<le> ?h" "?h < j"
      using True by auto
    show ?thesis
    proof (cases "p ?h")
      case False
      then have "?h < k"
        using 1(6) h(2) 1(7) by (meson leI order.strict_trans2)
      then show ?thesis
        using 1(1) [OF True refl False] 1(3-) False True by (subst search_from.simps) (simp add: Let_def)
    next
      case p: True
      then have "k \<le> ?h"
        using 1(5) by (meson leI)
      then show ?thesis
        using 1(2) [OF True refl] 1(3-) p True h by (subst search_from.simps) (simp add: Let_def)
    qed
  next
    case False
    then show ?thesis
      using 1(3,4) by (subst search_from.simps) simp
  qed
qed

text \<open>The entries after the one a token names.\<close>

lemma search_token:
  assumes "sorted_wrt (<) (map bent_Name es)" "k < length es"
  shows "search_from (\<lambda>i. bent_Name (es ! k) < bent_Name (es ! i)) 0 (length es) = Suc k"
proof (rule search_from_eq [where j' = "length es"])
  have less: "bent_Name (es ! i) < bent_Name (es ! j)" if "i < j" "j < length es" for i j
    using that assms(1) by (simp add: sorted_wrt_iff_nth_less)
  show "\<not> bent_Name (es ! k) < bent_Name (es ! h)" if "h < Suc k" for h
    using less [of h k] that assms(2) by (cases "h = k") (auto simp: not_less_iff_gr_or_eq)
  show "bent_Name (es ! k) < bent_Name (es ! h)" if "Suc k \<le> h" "h < length es" for h
    using less that by simp
qed (use assms(2) in auto)

definition page_token :: "bucket_entry list \<Rightarrow> nat \<Rightarrow> string" where
  "page_token es k = (if k = 0 then [] else bent_Name (es ! (k - 1)))"

lemma list_page_size_pos: "list_page_size query = Inr n \<Longrightarrow> 1 \<le> n"
  by (auto simp: list_page_size_def maxListBuckets_def Let_def split: if_splits option.splits)

lemma listBuckets_page_from:
  assumes "ListBuckets st (vr_Tenant vr) = Inr es" "es1 = sort_key bent_Name es"
    "sorted_wrt (<) (map bent_Name es1)" "[] \<notin> set (map bent_Name es1)" "list_page_size query = Inr n" "k \<le> length es1"
  shows "\<exists>res. listBuckets_page st ((''continuation-token'', [page_token es1 k]) # query) vr = Inr res \<and>
    lab_Buckets res = map bucket_listing (take (nat n) (drop k es1)) \<and>
    lab_ContinuationToken res = (if k + nat n < length es1 then page_token es1 (k + nat n) else [])"
proof -
  have n: "1 \<le> n"
    using list_page_size_pos [OF assms(5)] .
  have sz: "list_page_size ((''continuation-token'', [page_token es1 k]) # query) = Inr n"
    using assms(5) by (simp add: list_page_size_def values_get_def)
  have tok: "values_get ((''continuation-token'', [page_token es1 k]) # query) ''continuation-token'' = page_token es1 k"
    by (simp add: values_get_def)
  have rest: "(if page_token es1 k \<noteq> []
      then drop (search_from (\<lambda>i. page_token es1 k < bent_Name (es1 ! i)) 0 (length es1)) es1 else es1) = drop k es1"
  proof (cases k)
    case 0
    then show ?thesis
      by (simp add: page_token_def)
  next
    case (Suc m)
    then have "bent_Name (es1 ! m) \<in> set (map bent_Name es1)"
      using assms(6) by auto
    then have "bent_Name (es1 ! m) \<noteq> []"
      using assms(4) by auto
    then show ?thesis
      using Suc search_token [OF assms(3), of m] assms(6) by (simp add: page_token_def)
  qed
  have more: "n < int (length (drop k es1)) \<longleftrightarrow> k + nat n < length es1"
    using n by auto
  have last: "bent_Name (last (take (nat n) (drop k es1))) = page_token es1 (k + nat n)" if "k + nat n < length es1"
  proof -
    have "last (take (nat n) (drop k es1)) = take (nat n) (drop k es1) ! (nat n - 1)"
      using that n by (subst last_conv_nth) (auto simp: min_def)
    also have "\<dots> = es1 ! (k + nat n - 1)"
      using that n by simp
    finally show ?thesis
      using n by (simp add: page_token_def)
  qed
  show ?thesis
    unfolding listBuckets_page_def sz tok
    using last more by (auto simp: assms(1) assms(2) [symmetric] rest Let_def)
qed

lemma list_walk_from:
  assumes "ListBuckets st (vr_Tenant vr) = Inr es" "es1 = sort_key bent_Name es"
    "sorted_wrt (<) (map bent_Name es1)" "[] \<notin> set (map bent_Name es1)" "list_page_size query = Inr n"
    "k \<le> length es1" "length es1 - k < fuel"
  shows "list_walk fuel st vr query (page_token es1 k) = Some (Inr (map bucket_listing (drop k es1)))"
  using assms(6,7)
proof (induction fuel arbitrary: k)
  case (Suc fuel)
  have n: "1 \<le> n"
    using list_page_size_pos [OF assms(5)] .
  obtain res where res: "listBuckets_page st ((''continuation-token'', [page_token es1 k]) # query) vr = Inr res"
      "lab_Buckets res = map bucket_listing (take (nat n) (drop k es1))"
      "lab_ContinuationToken res = (if k + nat n < length es1 then page_token es1 (k + nat n) else [])"
    using listBuckets_page_from [OF assms(1-5) Suc.prems(1)] by blast
  show ?case
  proof (cases "k + nat n < length es1")
    case True
    then have "bent_Name (es1 ! (k + nat n - 1)) \<in> set (map bent_Name es1)"
      by (simp only: set_map) (rule imageI, simp)
    then have "page_token es1 (k + nat n) \<noteq> []"
      using assms(4) n by (auto simp: page_token_def)
    moreover have "list_walk fuel st vr query (page_token es1 (k + nat n)) = Some (Inr (map bucket_listing (drop (k + nat n) es1)))"
      using True Suc.prems n by (intro Suc.IH) auto
    moreover have "map bucket_listing (take (nat n) (drop k es1)) @ map bucket_listing (drop (k + nat n) es1) =
        map bucket_listing (drop k es1)"
      by (metis add.commute append_take_drop_id drop_drop map_append)
    ultimately show ?thesis
      using res True by simp
  next
    case False
    then show ?thesis
      using res by simp
  qed
qed simp

text \<open>
  C26. Listing buckets page by page is complete: whatever page size a client asks for, following the continuation
  tokens ends after at most one request more than there are buckets, and shows every bucket of the requester's tenant
  exactly once, in the order of their names.
\<close>

theorem list_buckets_pages:
  assumes "ListBuckets st (vr_Tenant vr) = Inr es" "distinct (map bent_Name es)" "[] \<notin> set (map bent_Name es)"
    "list_page_size query = Inr n"
  shows "list_walk (Suc (length es)) st vr query [] = Some (Inr (map bucket_listing (sort_key bent_Name es)))"
proof -
  let ?es1 = "sort_key bent_Name es"
  have "distinct (map bent_Name ?es1)"
    using assms(2) by (metis distinct_map distinct_sort set_sort)
  then have "sorted_wrt (<) (map bent_Name ?es1)"
    by (simp add: strict_sorted_iff)
  then show ?thesis
    using list_walk_from [OF assms(1) refl _ _ assms(4), of 0 "Suc (length es)"] assms(3) by (simp add: page_token_def)
qed

definition example_entries :: "bucket_entry list" where
  "example_entries = [\<lparr> bent_Name = ''photos'', bent_CreatedAt = None \<rparr>, \<lparr> bent_Name = ''logs'', bent_CreatedAt = Some 5 \<rparr>,
    \<lparr> bent_Name = ''backups'', bent_CreatedAt = None \<rparr>]"

definition example_listing :: store where
  "example_listing = example_store\<lparr> ListBuckets := (\<lambda>_. Inr example_entries) \<rparr>"

theorem list_buckets_pages_witness:
  "list_walk 4 example_listing example_alice [(''max-buckets'', [''2''])] [] =
    Some (Inr (map bucket_listing (sort_key bent_Name example_entries))) \<and>
   map bent_Name (sort_key bent_Name example_entries) = [''backups'', ''logs'', ''photos'']"
proof -
  have "list_page_size [(''max-buckets'', [''2''])] = Inr 2"
    by code_simp
  moreover have "map bent_Name (sort_key bent_Name example_entries) = [''backups'', ''logs'', ''photos'']"
    by code_simp
  moreover have "distinct (map bent_Name example_entries)" "[] \<notin> set (map bent_Name example_entries)"
      "length example_entries = 3"
    by (simp_all add: example_entries_def)
  moreover have "ListBuckets example_listing (vr_Tenant example_alice) = Inr example_entries"
    by (simp add: example_listing_def)
  ultimately show ?thesis
    using list_buckets_pages [of example_listing example_alice example_entries "[(''max-buckets'', [''2''])]" 2]
    by (simp add: numeral_eq_Suc)
qed

end
