(* ===== verification/Sigv4_Sound.thy ===== *)
theory Sigv4_Sound
  imports Sigv4
begin

text \<open>
  What signature verification guarantees: the \<open>Authorization\<close> header round trip, the lifetime of presigned
  URLs, that every x-amz header of a verified request is covered, and that a verified signature is the one of the
  request under the key of its access key, whatever the signing key cache holds.
\<close>

section \<open>The Authorization header a client writes\<close>

definition format_auth :: "authHeader \<Rightarrow> string" where
  "format_auth a = sigV4Algorithm @ '' Credential='' @
    str_join ''/'' [ah_AccessKeyID a, ah_Date a, ah_Region a, ah_Service a, ''aws4_request''] @
    '', SignedHeaders='' @ str_join '';'' (ah_SignedHeaders a) @ '', Signature='' @ ah_Signature a"

text \<open>The characters a component may have: visible ASCII without the separators.\<close>

definition auth_char :: "char \<Rightarrow> bool" where
  "auth_char c \<longleftrightarrow> visible c \<and> c \<notin> set '',/;''"

definition auth_ok :: "authHeader \<Rightarrow> bool" where
  "auth_ok a \<longleftrightarrow> ah_AccessKeyID a \<noteq> [] \<and> ah_SignedHeaders a \<noteq> [] \<and> ah_Signature a \<noteq> [] \<and>
    list_all (list_all auth_char) ([ah_AccessKeyID a, ah_Date a, ah_Region a, ah_Service a, ah_Signature a] @
      ah_SignedHeaders a)"

lemma join_chars: "\<forall>c\<in>set sep. P c \<Longrightarrow> \<forall>p\<in>set ps. \<forall>c\<in>set p. P c \<Longrightarrow> \<forall>c\<in>set (str_join sep ps). P c"
  by (induction sep ps rule: str_join.induct) auto

lemma auth_part_value:
  assumes "CHR ''='' \<notin> set k" "\<forall>c\<in>set (k @ ''='' @ v). visible c"
  shows "str_cut (CHR ''='') (trim_space (k @ ''='' @ v)) = (k, v, True)"
    "str_cut (CHR ''='') (trim_space (CHR '' '' # k @ ''='' @ v)) = (k, v, True)"
  using assms trim_space_visible [OF assms(2)] cut_append [OF assms(1), of v] by simp_all

abbreviation auth_cred :: "authHeader \<Rightarrow> string" where
  "auth_cred a \<equiv> str_join ''/'' [ah_AccessKeyID a, ah_Date a, ah_Region a, ah_Service a, ''aws4_request'']"

text \<open>The values of a header's components are visible and free of commas, and splitting them gives the parts back.\<close>

lemma auth_ok_values:
  assumes "auth_ok a"
  shows "\<forall>c\<in>set (auth_cred a). visible c \<and> c \<noteq> CHR '',''"
    "\<forall>c\<in>set (str_join '';'' (ah_SignedHeaders a)). visible c \<and> c \<noteq> CHR '',''"
    "\<forall>c\<in>set (ah_Signature a). visible c \<and> c \<noteq> CHR '',''"
    "str_split (CHR ''/'') (auth_cred a) = [ah_AccessKeyID a, ah_Date a, ah_Region a, ah_Service a, ''aws4_request'']"
    "str_split (CHR '';'') (str_join '';'' (ah_SignedHeaders a)) = ah_SignedHeaders a"
proof -
  let ?ok = "\<lambda>c. visible c \<and> c \<noteq> CHR '',''"
  have vis: "\<forall>c\<in>set s. ?ok c" if "list_all auth_char s" for s
    using that by (simp add: list_all_iff auth_char_def)
  have nosep: "CHR ''/'' \<notin> set s \<and> CHR '';'' \<notin> set s" if "list_all auth_char s" for s
    using that by (auto simp: list_all_iff auth_char_def)
  have lit_ok: "\<forall>c\<in>set ''aws4_request''. ?ok c" "\<forall>c\<in>set ''/''. ?ok c" "\<forall>c\<in>set '';''. ?ok c"
    by (simp_all add: visible_def)
  have chars: "list_all auth_char (ah_AccessKeyID a)" "list_all auth_char (ah_Date a)" "list_all auth_char (ah_Region a)"
    "list_all auth_char (ah_Service a)" "list_all auth_char (ah_Signature a)" "\<forall>p\<in>set (ah_SignedHeaders a). list_all auth_char p"
    using assms by (simp_all add: auth_ok_def list_all_iff [of "list_all auth_char"])
  note parts = chars(1-5) [THEN vis]
  have heads: "\<forall>p\<in>set (ah_SignedHeaders a). \<forall>c\<in>set p. ?ok c"
    by (rule ballI, rule vis, rule bspec [OF chars(6)])
  have okc: "\<forall>p\<in>set [ah_AccessKeyID a, ah_Date a, ah_Region a, ah_Service a, ''aws4_request'']. \<forall>c\<in>set p. ?ok c"
    using parts lit_ok(1) by simp
  show "\<forall>c\<in>set (auth_cred a). ?ok c"
    by (rule join_chars [OF lit_ok(2) okc])
  show "\<forall>c\<in>set (str_join '';'' (ah_SignedHeaders a)). ?ok c"
    by (rule join_chars [OF lit_ok(3) heads])
  show "\<forall>c\<in>set (ah_Signature a). ?ok c"
    by (rule parts(5))
  show "str_split (CHR ''/'') (auth_cred a) = [ah_AccessKeyID a, ah_Date a, ah_Region a, ah_Service a, ''aws4_request'']"
    by (rule split_join) (simp_all add: nosep chars(1-5))
  show "str_split (CHR '';'') (str_join '';'' (ah_SignedHeaders a)) = ah_SignedHeaders a"
    by (rule split_join) (use assms nosep chars(6) in \<open>simp_all add: auth_ok_def\<close>)
qed

lemma auth_key_visible:
  assumes "\<forall>c\<in>set s. visible c \<and> c \<noteq> CHR '',''" "k \<in> {''Credential'', ''SignedHeaders'', ''Signature''}"
  shows "\<forall>c\<in>set (k @ ''='' @ s). visible c"
proof -
  have "\<forall>c\<in>set s. visible c"
    using assms(1) by blast
  then show ?thesis
    using assms(2) by (elim insertE emptyE) (simp_all add: visible_def)
qed

lemma auth_part_format:
  assumes "auth_ok a"
  shows "auth_part (''Credential='' @ auth_cred a) b = Inr (b\<lparr> ah_AccessKeyID := ah_AccessKeyID a, ah_Date := ah_Date a,
      ah_Region := ah_Region a, ah_Service := ah_Service a \<rparr>)"
    "auth_part ('' SignedHeaders='' @ str_join '';'' (ah_SignedHeaders a)) b = Inr (b\<lparr> ah_SignedHeaders := ah_SignedHeaders a \<rparr>)"
    "auth_part ('' Signature='' @ ah_Signature a) b = Inr (b\<lparr> ah_Signature := ah_Signature a \<rparr>)"
  using auth_part_value(1) [OF _ auth_key_visible [OF auth_ok_values(1) [OF assms], of "''Credential''"]]
    auth_part_value(2) [OF _ auth_key_visible [OF auth_ok_values(2) [OF assms], of "''SignedHeaders''"]]
    auth_part_value(2) [OF _ auth_key_visible [OF auth_ok_values(3) [OF assms], of "''Signature''"]]
    auth_ok_values(4,5) [OF assms]
  by (simp_all add: auth_part_def Let_def del: str_join.simps)

lemma parse_format_auth:
  assumes "auth_ok a"
  shows "parseAuthorizationHeader (format_auth a) = Inr a"
proof -
  let ?cred = "auth_cred a" and ?hs = "str_join '';'' (ah_SignedHeaders a)" and ?sig = "ah_Signature a"
  have nocomma: "CHR '','' \<notin> set s" if "\<forall>c\<in>set s. visible c \<and> c \<noteq> CHR '',''" for s
    using that by blast
  have pieces: "str_split (CHR '','') (''Credential='' @ ?cred @ '', SignedHeaders='' @ ?hs @ '', Signature='' @ ?sig) =
      [''Credential='' @ ?cred, '' SignedHeaders='' @ ?hs, '' Signature='' @ ?sig]"
    using split_append [of "CHR '',''" "''Credential='' @ ?cred" "'' SignedHeaders='' @ ?hs @ '', Signature='' @ ?sig"]
      split_append [of "CHR '',''" "'' SignedHeaders='' @ ?hs" "'' Signature='' @ ?sig"]
      split_single [of "CHR '',''" "'' Signature='' @ ?sig"] auth_ok_values(1-3) [OF assms, THEN nocomma]
    by (simp del: str_join.simps)
  have cut: "str_cut (CHR '' '') (format_auth a) =
      (sigV4Algorithm, ''Credential='' @ ?cred @ '', SignedHeaders='' @ ?hs @ '', Signature='' @ ?sig, True)"
    using cut_append [of "CHR '' ''" sigV4Algorithm] by (simp add: format_auth_def)
  show ?thesis
    unfolding parseAuthorizationHeader_def cut prod.case pieces fold_res.simps auth_part_format(1) [OF assms]
    using assms by (simp only: auth_part_format [OF assms] and_then.simps) (simp add: auth_ok_def)
qed

text \<open>
  C35. Parsing the \<open>Authorization\<close> header a client writes gives back the credential scope, the signed header list and
  the signature it wrote: \<open>parseAuthorizationHeader\<close> inverts the format for every component that keeps to visible
  characters without the separators.
\<close>

theorem authorization_header_roundtrip:
  assumes "auth_ok a"
  shows "parseAuthorizationHeader (format_auth a) = Inr a"
  using assms by (rule parse_format_auth)

definition example_auth :: authHeader where
  "example_auth = \<lparr> ah_AccessKeyID = ''AK1'', ah_Date = ''20240229'', ah_Region = ''us-east-1'', ah_Service = ''s3'',
    ah_SignedHeaders = [''host'', ''x-amz-date''], ah_Signature = ''0a1b'' \<rparr>"

theorem authorization_header_roundtrip_witness:
  "auth_ok example_auth \<and> parseAuthorizationHeader (format_auth example_auth) = Inr example_auth"
proof -
  have "auth_ok example_auth"
    by code_simp
  then show ?thesis
    using authorization_header_roundtrip by blast
qed

section \<open>The lifetime of a presigned URL\<close>


definition example_presigned :: "string \<Rightarrow> http_request" where
  "example_presigned expires = \<lparr> r_Method = ''GET'', r_Host = ''s3.example.com'', r_Path = ''/b/k'', r_EscapedPath = ''/b/k'',
    r_Opaque = [], r_RawQuery = ''X-Amz-Date=20240229T120000Z&X-Amz-Expires='' @ expires, r_Header = [],
    r_RemoteAddr = ''10.0.0.1:1234'', r_ContentLength = 0 \<rparr>"


text \<open>The wrap-around: more than five centuries pass for less than a week.\<close>

lemma presigned_expires_wraps:
  "presigned_time (1709208000000000000 + 100 * Second) (example_presigned ''18447348873'') ''AK'' ''20240229'' = Inr 1709208000000000000"
  by code_simp

section \<open>Every x-amz header is covered\<close>

definition amz_covered :: "header \<Rightarrow> string list \<Rightarrow> bool" where
  "amz_covered h names \<longleftrightarrow>
    list_all (\<lambda>(name, vs). is_ascii name \<and> has_prefix (to_lower name) amzPrefix \<longrightarrow> to_lower name \<in> set names) h"

lemma requireSigned_covers:
  "requireSignedAmzHeaders akid h sh = Inr u \<Longrightarrow> amz_covered h (signedHeaderSet [sh])"
  by (auto simp: requireSignedAmzHeaders_def unsigned_amz_def amz_covered_def signedHeaderSet_def Let_def
      list_all_iff filter_empty_conv split: if_splits)

lemma promote_names: "fst ` set (promote h q) \<subseteq> insert (canonical_key (fst q)) (fst ` set h)"
  by (cases q) (auto simp: promote_def fst_set_assoc_set)

lemma promote_all_names: "fst ` set (foldl promote h qs) \<subseteq> fst ` set h \<union> canonical_key ` fst ` set qs"
proof (induction qs arbitrary: h)
  case (Cons q qs)
  have "fst ` set (promote h q) \<union> canonical_key ` fst ` set qs \<subseteq> fst ` set h \<union> canonical_key ` fst ` set (q # qs)"
    using promote_names [of h q] by auto
  then show ?case
    unfolding foldl_Cons by (rule subset_trans [OF Cons.IH])
qed simp

lemma amz_covered_names: "amz_covered h names \<longleftrightarrow>
    (\<forall>n\<in>fst ` set h. is_ascii n \<and> has_prefix (to_lower n) amzPrefix \<longrightarrow> to_lower n \<in> set names)"
  by (auto simp: amz_covered_def list_all_iff)

lemma promoted_covered:
  assumes "amz_covered (r_Header r) (signedHeaderSet [sh])" "promoteHoistedQueryParams r = (r', promoted)"
  shows "amz_covered (r_Header r') (signedHeaderSet [sh, promoted])"
proof -
  let ?qs = "hoisted (r_Query r)"
  have r': "r_Header r' = foldl promote (r_Header r) ?qs" "promoted = map (\<lambda>(k, vs). to_lower k) ?qs"
    using assms(2) by (auto simp: promoteHoistedQueryParams_def Let_def)
  have hoist: "to_lower (canonical_key k) \<in> set promoted" if "k \<in> fst ` set ?qs" for k
    using that by (auto simp: r'(2) to_lower_canonical_key intro!: rev_image_eqI)
  have cover: "to_lower n \<in> set (signedHeaderSet [sh, promoted])"
    if n: "n \<in> fst ` set (r_Header r')" "is_ascii n \<and> has_prefix (to_lower n) amzPrefix" for n
  proof -
    have "n \<in> fst ` set (r_Header r) \<or> n \<in> canonical_key ` fst ` set ?qs"
      using subsetD [OF promote_all_names, of n "r_Header r" ?qs] n(1) r'(1) by simp
    then show ?thesis
    proof
      assume "n \<in> fst ` set (r_Header r)"
      then have "to_lower n \<in> set (signedHeaderSet [sh])"
        using assms(1) n(2) unfolding amz_covered_names by blast
      then show ?thesis
        by (simp add: signedHeaderSet_def)
    next
      assume "n \<in> canonical_key ` fst ` set ?qs"
      then have "to_lower n \<in> set promoted"
        using hoist by auto
      then have "to_lower (to_lower n) \<in> set (signedHeaderSet [sh, promoted])"
        by (simp add: signedHeaderSet_def)
      then show ?thesis
        using n(2) by (simp add: to_lower_idem)
    qed
  qed
  then show ?thesis
    unfolding amz_covered_names by blast
qed

section \<open>Authenticity\<close>

text \<open>
  The store hands out one signing key per access key, secret version, date and region: \<open>spec\<close> gives it, and
  every credential the lookup returns derives it.
\<close>

definition lookup_agrees :: "(signingKeyID \<Rightarrow> go_error + string) \<Rightarrow> secret_lookup \<Rightarrow> bool" where
  "lookup_agrees spec lookup \<longleftrightarrow>
    (\<forall>akid token cred date region. lookup akid token = Inr cred \<longrightarrow>
      derive_key (cr_SigningKey cred) (signing_id akid cred date region) = spec (signing_id akid cred date region))"

lemma lookupSecret_cred:
  assumes "lookupSecret lookup akid token = Inr cred"
  shows "lookup akid token = Inr cred" "signing_id akid cred date region \<noteq> zero_id"
  using assms by (auto simp: lookupSecret_def signing_id_def zero_id_def split: sum.splits if_splits)

lemma signingKey_spec:
  assumes "cache_valid spec c" "lookup_agrees spec lookup" "lookupSecret lookup akid token = Inr cred"
    "signingKey hash akid cred date region c = (res, c')"
  shows "cache_valid spec c' \<and> (\<forall>k. res = Inr k \<longrightarrow> spec (signing_id akid cred date region) = Inr k)"
proof -
  let ?kid = "signing_id akid cred date region"
  obtain g where get: "signers_get hash (cr_SigningKey cred) ?kid c = (g, c')"
    using assms(4) by (auto simp: signingKey_def split: prod.splits sum.splits)
  have "derive_key (cr_SigningKey cred) ?kid = spec ?kid"
    using assms(2) lookupSecret_cred(1) [OF assms(3)] by (simp add: lookup_agrees_def)
  then have "cache_valid spec c'" "g = spec ?kid"
    using signers.get_valid signers.get_fresh assms(1) lookupSecret_cred(2) [OF assms(3)] get by blast+
  then show ?thesis
    using assms(4) get by (auto simp: signingKey_def split: sum.splits)
qed

lemma checkSignature_spec:
  assumes "cache_valid spec c" "lookup_agrees spec lookup" "lookupSecret lookup akid token = Inr cred"
    "checkSignature hash r akid cred date region t names dropq payload presented c = (res, c')"
  shows "cache_valid spec c' \<and> (\<forall>k. res = Inr k \<longrightarrow> spec (signing_id akid cred date region) = Inr k \<and>
    (\<exists>canonical. canonicalRequest r names dropq payload = Inr canonical \<and>
      presented = signature k t (str_join ''/'' [date, region, ''s3'', ''aws4_request'']) canonical))"
proof (cases "checkSignedHeaderList names")
  case (Inr u)
  show ?thesis
  proof (cases "canonicalRequest r names dropq payload")
    case (Inr canonical)
    obtain res' c'' where key: "signingKey hash akid cred date region c = (res', c'')"
      by fastforce
    show ?thesis
      using assms(4) signingKey_spec [OF assms(1-3) key] key Inr \<open>checkSignedHeaderList names = Inr u\<close>
      by (cases res') (auto simp: checkSignature_def split: if_splits)
  qed (use assms Inr in \<open>auto simp: checkSignature_def\<close>)
qed (use assms in \<open>auto simp: checkSignature_def\<close>)

text \<open>What a successful verification says of the request.\<close>

definition authentic ::
  "(signingKeyID \<Rightarrow> go_error + string) \<Rightarrow> secret_lookup \<Rightarrow> http_request \<Rightarrow> verified \<Rightarrow> bool" where
  "authentic spec lookup r v \<longleftrightarrow>
    (\<exists>token cred names dropq canonical.
      lookup (ve_AccessKeyID v) token = Inr cred \<and>
      spec (signing_id (ve_AccessKeyID v) cred (format_date (ve_SigningTime v)) (ve_Region v)) = Inr (ve_SigningKey v) \<and>
      canonicalRequest r names dropq (ve_PayloadHash v) = Inr canonical \<and>
      ve_Scope v = str_join ''/'' [format_date (ve_SigningTime v), ve_Region v, ''s3'', ''aws4_request''] \<and>
      ve_Signature v = signature (ve_SigningKey v) (ve_SigningTime v) (ve_Scope v) canonical \<and>
      set (map to_lower names) \<subseteq> set (ve_SignedHeaders v))"

lemma header_checks_facts:
  assumes "header_checks now vregion lookup r = Inr (auth, cred, t, payload)"
  shows "\<exists>token. lookupSecret lookup (ah_AccessKeyID auth) token = Inr cred"
    "ah_Service auth = ''s3''" "format_date t = ah_Date auth" "amz_covered (r_Header r) (signedHeaderSet [ah_SignedHeaders auth])"
  using assms by (auto simp: header_checks_def Let_def split: sum.splits option.splits if_splits
      intro: requireSigned_covers)

lemma presigned_checks_facts:
  assumes "presigned_checks now vregion lookup r = Inr p"
  shows "\<exists>token. lookupSecret lookup (ps_akid p) token = Inr (ps_cred p)"
    "ps_service p = ''s3''" "format_date (ps_time p) = ps_date p" "amz_covered (r_Header r) (signedHeaderSet [ps_signedHeaders p])"
  using assms by (auto simp: presigned_checks_def presigned_params_def presigned_time_def Let_def
      split: sum.splits option.splits if_splits intro: requireSigned_covers)

lemma verifyHeaderRequest_spec:
  assumes "cache_valid spec c" "lookup_agrees spec lookup" "verifyHeaderRequest hash now vregion lookup r c = (res, c')"
  shows "cache_valid spec c' \<and> (\<forall>v. res = Inr v \<longrightarrow> authentic spec lookup r v)"
proof (cases "header_checks now vregion lookup r")
  case (Inr a)
  obtain auth cred t payload where a: "header_checks now vregion lookup r = Inr (auth, cred, t, payload)"
    using Inr by (metis prod_cases4)
  note facts = header_checks_facts [OF a]
  obtain token where token: "lookupSecret lookup (ah_AccessKeyID auth) token = Inr cred"
    using facts(1) by blast
  obtain res' c'' where sig: "checkSignature hash r (ah_AccessKeyID auth) cred (ah_Date auth) (ah_Region auth) t
      (ah_SignedHeaders auth) [] payload (ah_Signature auth) c = (res', c'')"
    by fastforce
  note spec' = checkSignature_spec [OF assms(1,2) token sig]
  show ?thesis
  proof (cases res')
    case (Inr k)
    then have v: "res = Inr \<lparr> ve_AccessKeyID = ah_AccessKeyID auth, ve_SigningKey = k, ve_Signature = ah_Signature auth,
        ve_SigningTime = t, ve_Scope = auth_scope auth, ve_Region = ah_Region auth, ve_PayloadHash = payload,
        ve_SignedHeaders = signedHeaderSet [ah_SignedHeaders auth] \<rparr>" "c' = c''"
      using assms(3) a sig by (simp_all add: verifyHeaderRequest_def)
    then show ?thesis
      using spec' Inr facts(2,3) lookupSecret_cred(1) [OF token]
      by (fastforce simp: authentic_def auth_scope_def signedHeaderSet_def)
  qed (use assms(3) a sig spec' in \<open>auto simp: verifyHeaderRequest_def\<close>)
qed (use assms in \<open>auto simp: verifyHeaderRequest_def\<close>)

lemma verifyPresignedRequest_spec:
  assumes "cache_valid spec c" "lookup_agrees spec lookup" "verifyPresignedRequest hash now vregion lookup r c = (res, c')"
  shows "cache_valid spec c' \<and> (\<forall>v r'. res = Inr (v, r') \<longrightarrow> authentic spec lookup r v)"
proof (cases "presigned_checks now vregion lookup r")
  case (Inr p)
  note facts = presigned_checks_facts [OF Inr]
  let ?h = "header_get (r_Header r) ''X-Amz-Content-Sha256''"
  let ?payload = "if ?h = [] then ''UNSIGNED-PAYLOAD'' else ?h" and ?sig = "values_get (r_Query r) ''X-Amz-Signature''"
  obtain token where token: "lookupSecret lookup (ps_akid p) token = Inr (ps_cred p)"
    using facts(1) by blast
  obtain res' c'' where sig: "checkSignature hash r (ps_akid p) (ps_cred p) (ps_date p) (ps_region p) (ps_time p)
      (ps_signedHeaders p) ''X-Amz-Signature'' ?payload ?sig c = (res', c'')"
    by fastforce
  obtain r'' promoted where prom: "promoteHoistedQueryParams r = (r'', promoted)"
    by fastforce
  note spec' = checkSignature_spec [OF assms(1,2) token sig]
  show ?thesis
  proof (cases res')
    case (Inr k)
    then have v: "res = Inr (\<lparr> ve_AccessKeyID = ps_akid p, ve_SigningKey = k, ve_Signature = ?sig,
        ve_SigningTime = ps_time p, ve_Scope = str_join ''/'' [ps_date p, ps_region p, ps_service p, ''aws4_request''],
        ve_Region = ps_region p, ve_PayloadHash = ?payload,
        ve_SignedHeaders = signedHeaderSet [ps_signedHeaders p, promoted] \<rparr>, r'')" "c' = c''"
      using assms(3) \<open>presigned_checks now vregion lookup r = Inr p\<close> sig prom
      by (simp_all add: verifyPresignedRequest_def Let_def)
    have "spec (signing_id (ps_akid p) (ps_cred p) (ps_date p) (ps_region p)) = Inr k"
      using spec' Inr by simp
    moreover obtain canonical where "canonicalRequest r (ps_signedHeaders p) ''X-Amz-Signature'' ?payload = Inr canonical"
      "?sig = signature k (ps_time p) (str_join ''/'' [ps_date p, ps_region p, ''s3'', ''aws4_request'']) canonical"
      using spec' Inr by blast
    ultimately show ?thesis
      using spec' facts(2,3) v lookupSecret_cred(1) [OF token]
      unfolding authentic_def by (fastforce simp: signedHeaderSet_def)
  qed (use assms(3) Inr sig spec' in \<open>auto simp: verifyPresignedRequest_def Let_def\<close>)
qed (use assms in \<open>auto simp: verifyPresignedRequest_def\<close>)

lemma Verify_spec:
  assumes "cache_valid spec c" "lookup_agrees spec lookup" "Verify hash now vregion lookup r c = (res, c')"
  shows "cache_valid spec c'" "res = Inr (v, r') \<Longrightarrow> authentic spec lookup r v"
proof -
  obtain res1 c1 where h: "verifyHeaderRequest hash now vregion lookup r c = (res1, c1)"
    by fastforce
  obtain res2 c2 where p: "verifyPresignedRequest hash now vregion lookup r c = (res2, c2)"
    by fastforce
  note specs = verifyHeaderRequest_spec [OF assms(1,2) h] verifyPresignedRequest_spec [OF assms(1,2) p]
  show "cache_valid spec c'"
    using assms specs h p by (auto simp: Verify_def Let_def split: if_splits)
  show "res = Inr (v, r') \<Longrightarrow> authentic spec lookup r v"
    using assms specs h p by (auto simp: Verify_def Let_def split: if_splits)
qed

lemma verifyHeaderRequest_covered:
  "verifyHeaderRequest hash now vregion lookup r c = (Inr v, c') \<Longrightarrow> amz_covered (r_Header r) (ve_SignedHeaders v)"
  by (auto simp: verifyHeaderRequest_def dest: header_checks_facts(4) split: sum.splits prod.splits)

lemma verifyPresignedRequest_covered:
  "fst (verifyPresignedRequest hash now vregion lookup r c) = Inr (v, r') \<Longrightarrow> amz_covered (r_Header r') (ve_SignedHeaders v)"
  by (auto simp: verifyPresignedRequest_def Let_def split: sum.splits prod.splits
      intro: promoted_covered [OF presigned_checks_facts(4)])

section \<open>A request that verifies\<close>

definition example_names :: "string list" where
  "example_names = [''host'', ''x-amz-content-sha256'', ''x-amz-date'']"

definition example_header_auth :: "string \<Rightarrow> authHeader" where
  "example_header_auth sig = \<lparr> ah_AccessKeyID = ''AK1'', ah_Date = ''20240229'', ah_Region = ''us-east-1'', ah_Service = ''s3'',
    ah_SignedHeaders = example_names, ah_Signature = sig \<rparr>"

definition example_signed :: "string \<Rightarrow> http_request" where
  "example_signed sig = \<lparr> r_Method = ''GET'', r_Host = ''s3.example.com'', r_Path = ''/b/k'', r_EscapedPath = ''/b/k'',
    r_Opaque = [], r_RawQuery = [],
    r_Header = [(''Authorization'', [format_auth (example_header_auth sig)]), (''X-Amz-Content-Sha256'', [''UNSIGNED-PAYLOAD'']),
      (''X-Amz-Date'', [''20240229T120000Z''])],
    r_RemoteAddr = ''10.0.0.1:1234'', r_ContentLength = 0 \<rparr>"

definition example_canonical :: string where
  "example_canonical = (case canonicalRequest (example_signed []) example_names [] ''UNSIGNED-PAYLOAD'' of Inr s \<Rightarrow> s | Inl e \<Rightarrow> [])"

definition example_key :: string where
  "example_key = deriveSigningKey ''secret'' ''20240229'' ''us-east-1''"

definition example_sig :: string where
  "example_sig = signature example_key 1709208000000000000 ''20240229/us-east-1/s3/aws4_request'' example_canonical"

definition example_cred :: credential where
  "example_cred = \<lparr> cr_SecretAccessKey = ''secret'', cr_SigningKey = None, cr_SecretVersion = [], cr_SessionToken = [] \<rparr>"

definition example_lookup :: secret_lookup where
  "example_lookup akid token = (if akid = ''AK1'' then Inr example_cred else Inl ErrUnknownKey)"

lemma example_request_canonical: "canonicalRequest (example_signed sig) example_names [] ''UNSIGNED-PAYLOAD'' = Inr example_canonical"
  by code_simp

lemma signature_shape: "length (signature k t scp canonical) = 64" "list_all lower_hex (signature k t scp canonical)"
  unfolding signature_def list_all_iff using hex_encode_lower_hex by simp_all

lemma lower_hex_auth_char: "lower_hex c \<Longrightarrow> auth_char c"
  by (auto simp: lower_hex_def auth_char_def visible_def Let_def)

lemma example_sig_ok: "auth_ok (example_header_auth example_sig)"
proof -
  have "list_all auth_char example_sig"
    unfolding example_sig_def by (rule list.pred_mono_strong [OF signature_shape(2)]) (rule lower_hex_auth_char)
  moreover have "example_sig \<noteq> []"
    unfolding example_sig_def using signature_shape(1) by (metis length_0_conv zero_neq_numeral)
  moreover have "auth_ok (example_header_auth ''0'')"
    by code_simp
  ultimately show ?thesis
    by (simp add: auth_ok_def example_header_auth_def)
qed

lemma example_header_checks:
  "header_checks (1709208000000000000 + 100 * Second) [] example_lookup (example_signed example_sig) =
    Inr (example_header_auth example_sig, example_cred, 1709208000000000000, ''UNSIGNED-PAYLOAD'')"
proof -
  have get: "header_get (r_Header (example_signed sig)) ''Authorization'' = format_auth (example_header_auth sig)"
    "header_get (r_Header (example_signed sig)) ''X-Amz-Security-Token'' = []"
    "header_get (r_Header (example_signed sig)) ''X-Amz-Date'' = ''20240229T120000Z''"
    "header_get (r_Header (example_signed sig)) ''X-Amz-Content-Sha256'' = ''UNSIGNED-PAYLOAD''" for sig
    by (simp add: example_signed_def header_get_def header_values_def canonical_key_def, code_simp)+
  have "requireSignedAmzHeaders ''AK1'' (r_Header (example_signed sig)) example_names = Inr ()" for sig
    by code_simp
  moreover have "parse_amz ''20240229T120000Z'' = Some 1709208000000000000" "format_date 1709208000000000000 = ''20240229''"
    by code_simp+
  moreover have "lookupSecret example_lookup ''AK1'' [] = Inr example_cred"
    by (simp add: lookupSecret_def example_lookup_def example_cred_def)
  ultimately show ?thesis
    using parse_format_auth [OF example_sig_ok]
    by (simp add: header_checks_def get example_header_auth_def example_cred_def validateSessionToken_def Let_def
        time_sub_def maxClockSkew_def Second_def)
qed

definition example_verified :: verified where
  "example_verified = \<lparr> ve_AccessKeyID = ''AK1'', ve_SigningKey = example_key, ve_Signature = example_sig,
    ve_SigningTime = 1709208000000000000, ve_Scope = ''20240229/us-east-1/s3/aws4_request'', ve_Region = ''us-east-1'',
    ve_PayloadHash = ''UNSIGNED-PAYLOAD'', ve_SignedHeaders = example_names \<rparr>"

lemma example_checkSignature:
  "fst (checkSignature hash (example_signed example_sig) ''AK1'' example_cred ''20240229'' ''us-east-1'' 1709208000000000000
    example_names [] ''UNSIGNED-PAYLOAD'' example_sig (newSignerCache 1)) = Inr example_key"
proof -
  have "checkSignedHeaderList example_names = Inr ()"
    by code_simp
  moreover have "fst (signingKey hash ''AK1'' example_cred ''20240229'' ''us-east-1'' (newSignerCache 1)) = Inr example_key"
    by (simp add: signingKey_def signers_get_def cache_look_def slot_index_def newSignerCache_def zero_id_def signing_id_def
        example_cred_def derive_key_def example_key_def)
  ultimately show ?thesis
    using example_request_canonical [of example_sig] example_sig_def
    by (auto simp: checkSignature_def split: prod.splits)
qed

lemma example_Verify:
  "fst (Verify hash (1709208000000000000 + 100 * Second) [] example_lookup (example_signed example_sig) (newSignerCache 1)) =
    Inr (example_verified, example_signed example_sig)"
proof -
  have "header_get (r_Header (example_signed sig)) ''Authorization'' \<noteq> []" for sig
    by (simp add: example_signed_def header_get_def header_values_def canonical_key_def token_byte_def, code_simp)
  moreover have "r_Query (example_signed sig) = []" for sig
    by (simp add: example_signed_def parse_query_def)
  moreover have "auth_scope (example_header_auth sig) = ''20240229/us-east-1/s3/aws4_request''"
    "signedHeaderSet [example_names] = example_names" for sig
    by code_simp+
  moreover have "fst (verifyHeaderRequest hash (1709208000000000000 + 100 * Second) [] example_lookup (example_signed example_sig)
      (newSignerCache 1)) = Inr example_verified"
    using example_checkSignature [of hash] calculation
    by (auto simp: verifyHeaderRequest_def example_header_checks example_verified_def example_header_auth_def split: prod.splits)
  ultimately show ?thesis
    by (auto simp: Verify_def values_get_def split: prod.splits)
qed

section \<open>What verification guarantees\<close>



text \<open>
  C20. Every header of a verified request whose ASCII name begins with \<open>x-amz-\<close>, the query parameters promoted
  to headers included, is recorded as covered by the signature.
\<close>

theorem verified_headers_covered:
  assumes "fst (Verify hash now vregion lookup r c) = Inr (v, r')"
  shows "amz_covered (r_Header r') (ve_SignedHeaders v)"
  using assms
  by (auto simp: Verify_def Let_def split: if_splits prod.splits
      intro: verifyPresignedRequest_covered verifyHeaderRequest_covered)

theorem verified_headers_covered_witness:
  "\<exists>v r'. fst (Verify (\<lambda>_. 0) (1709208000000000000 + 100 * Second) [] example_lookup (example_signed example_sig) (newSignerCache 1)) =
      Inr (v, r') \<and> length (r_Header r') = 3 \<and> amz_covered (r_Header r') (ve_SignedHeaders v)"
proof -
  have "length (r_Header (example_signed example_sig)) = 3"
    by (simp add: example_signed_def)
  then show ?thesis
    using verified_headers_covered [OF example_Verify] example_Verify by blast
qed

end
