(* ===== verification/Post_Policy.thy ===== *)
theory Post_Policy
  imports Policy_Parse Sigv4_Sound Go_Codec
begin

text \<open>
  Browser-based uploads, \<open>src/sigv4/postpolicy.go\<close>: the signed policy document of a form and what it demands of the
  form's fields. The fields are an association list without repeated names. Error messages leave out the text of the
  condition at fault, which a parsed value no longer has.
\<close>

section \<open>The policy document\<close>

definition maxPostPolicyBytes :: nat where "maxPostPolicyBytes = 20 * 1024"
definition maxPostPolicyConditions :: nat where "maxPostPolicyConditions = 100"

record postPolicy =
  pp_Expiration :: int
  pp_MinLength :: int
  pp_MaxLength :: int

record postCondition =
  pc_op :: string
  pc_field :: string
  pc_value :: string

definition invalidPolicyDocument :: "string \<Rightarrow> fmt_arg list \<Rightarrow> s3error" where
  "invalidPolicyDocument format args = s3err_New 400 ''InvalidPolicyDocument'' (Sprintf (''Invalid Policy: '' @ format) args)"

text \<open>\<open>json.Unmarshal\<close> into an \<open>int64\<close> that is zero.\<close>

fun decode_int64 :: "json \<Rightarrow> go_error + int" where
  "decode_int64 (JNum n) = (case parse_int 10 n of Some i \<Rightarrow> Inr i | None \<Rightarrow> Inl json_type_error)"
| "decode_int64 JNull = Inr 0"
| "decode_int64 _ = Inl json_type_error"

definition range_condition :: "json \<Rightarrow> json \<Rightarrow> s3error + int \<times> int" where
  "range_condition lo hi =
    (case (decode_int64 lo, decode_int64 hi) of
       (Inr minLen, Inr maxLen) \<Rightarrow>
         guard_err (minLen < 0 \<or> maxLen < minLen) (invalidPolicyDocument ''malformed content-length-range'' [])
           (Inr (minLen, maxLen))
     | _ \<Rightarrow> Inl (invalidPolicyDocument ''malformed content-length-range'' []))"

definition field_condition :: "string \<Rightarrow> json \<Rightarrow> json \<Rightarrow> s3error + postCondition" where
  "field_condition oper f v =
    (case decode_string f [] of
       Inl _ \<Rightarrow> Inl (invalidPolicyDocument ''condition field must reference a form field with $'' [])
     | Inr field \<Rightarrow>
         guard_err (\<not> has_prefix field ''$'')
           (invalidPolicyDocument ''condition field must reference a form field with $'' [])
         (case decode_string v [] of
            Inl _ \<Rightarrow> Inl (invalidPolicyDocument ''malformed condition'' [])
          | Inr val \<Rightarrow> Inr \<lparr> pc_op = oper, pc_field = to_lower (tl field), pc_value = val \<rparr>))"

text \<open>\<open>parseArrayCondition\<close>: a condition, or the range of a \<open>content-length-range\<close>.\<close>

definition parseArrayCondition :: "json list \<Rightarrow> s3error + postCondition + int \<times> int" where
  "parseArrayCondition elems =
    (case elems of
       [e0, e1, e2] \<Rightarrow>
         (case decode_string e0 [] of
            Inl _ \<Rightarrow> Inl (invalidPolicyDocument ''malformed condition'' [])
          | Inr op0 \<Rightarrow>
              (let oper = to_lower op0 in
               if oper = ''eq'' \<or> oper = ''starts-with'' then and_then (field_condition oper e1 e2) (\<lambda>c. Inr (Inl c))
               else if oper = ''content-length-range'' then and_then (range_condition e1 e2) (\<lambda>r. Inr (Inr r))
               else Inl (invalidPolicyDocument ''unknown condition type %q'' [FS op0])))
     | _ \<Rightarrow> Inl (invalidPolicyDocument ''malformed condition'' []))"

text \<open>An object is shorthand for one equality per member.\<close>

definition object_conditions :: "(string \<times> json) list \<Rightarrow> s3error + postCondition list" where
  "object_conditions kvs =
    (case map_res (\<lambda>(k, v). and_then (decode_string v []) (\<lambda>s. Inr \<lparr> pc_op = ''eq'', pc_field = to_lower k, pc_value = s \<rparr>))
        (json_map kvs) of
       Inl _ \<Rightarrow> Inl (invalidPolicyDocument ''malformed condition'' [])
     | Inr cs \<Rightarrow> Inr cs)"

text \<open>One turn of the loop over the conditions.\<close>

fun add_condition :: "json \<Rightarrow> postPolicy \<times> postCondition list \<Rightarrow> s3error + postPolicy \<times> postCondition list" where
  "add_condition (JObj kvs) (pp, conds) = and_then (object_conditions kvs) (\<lambda>cs. Inr (pp, conds @ cs))"
| "add_condition (JArr elems) (pp, conds) =
    and_then (parseArrayCondition elems) (\<lambda>x.
      case x of
        Inl c \<Rightarrow> Inr (pp, conds @ [c])
      | Inr (lo, hi) \<Rightarrow> Inr (pp\<lparr> pp_MinLength := max (pp_MinLength pp) lo, pp_MaxLength := min (pp_MaxLength pp) hi \<rparr>, conds))"
| "add_condition _ _ = Inl (invalidPolicyDocument ''malformed condition'' [])"

text \<open>The two members of the document.\<close>

fun post_document :: "json \<Rightarrow> go_error + string \<times> json list" where
  "post_document (JObj kvs) =
    and_then (fold_res decode_string (field_values ''expiration'' kvs) []) (\<lambda>ex.
    and_then (fold_res (\<lambda>v _. case v of JArr xs \<Rightarrow> Inr xs | JNull \<Rightarrow> Inr [] | _ \<Rightarrow> Inl json_type_error)
      (field_values ''conditions'' kvs) []) (\<lambda>cs. Inr (ex, cs)))"
| "post_document JNull = Inr ([], [])"
| "post_document _ = Inl json_type_error"

definition parsePostPolicy :: "string \<Rightarrow> s3error + postPolicy \<times> postCondition list" where
  "parsePostPolicy raw =
    (case (case json_parse raw of Some v \<Rightarrow> post_document v | None \<Rightarrow> Inl json_type_error) of
       Inl err \<Rightarrow> Inl (invalidPolicyDocument ''malformed JSON: %v'' [FT (err_text err)])
     | Inr (expiration, conditions) \<Rightarrow>
         guard_err (expiration = []) (invalidPolicyDocument (''the '' @ [CHR 0x27] @ ''expiration'' @ [CHR 0x27] @ '' element is required'') [])
         (case parse_rfc3339 expiration of
            None \<Rightarrow> Inl (invalidPolicyDocument (''malformed '' @ [CHR 0x27] @ ''expiration'' @ [CHR 0x27]) [])
          | Some ex \<Rightarrow>
              guard_err (maxPostPolicyConditions < length conditions)
                (invalidPolicyDocument ''%d conditions, at most %d are allowed''
                  [FI (int (length conditions)), FI (int maxPostPolicyConditions)])
              (and_then (fold_res add_condition conditions
                  (\<lparr> pp_Expiration = ex, pp_MinLength = 0, pp_MaxLength = 2 ^ 63 - 1 \<rparr>, [])) (\<lambda>(pp, conds).
               guard_err (pp_MaxLength pp < pp_MinLength pp) (invalidPolicyDocument ''empty content-length-range'' [])
                 (Inr (pp, conds))))))"

section \<open>Evaluation against the form\<close>

type_synonym form_fields = "(string \<times> string) list"

definition field :: "form_fields \<Rightarrow> string \<Rightarrow> string" where
  "field form name = (case map_of form name of Some v \<Rightarrow> v | None \<Rightarrow> [])"

definition post_denied :: "string \<Rightarrow> fmt_arg list \<Rightarrow> s3error" where
  "post_denied format args = s3err_New 403 ''AccessDenied'' (Sprintf (''Invalid according to Policy: '' @ format) args)"

definition check_condition :: "form_fields \<Rightarrow> postCondition \<Rightarrow> s3error + unit" where
  "check_condition form c =
    (case map_of form (pc_field c) of
       None \<Rightarrow> Inl (post_denied ''Policy Condition failed: %q on missing field %q'' [FS (pc_op c), FS (pc_field c)])
     | Some v \<Rightarrow>
         if pc_op c = ''eq'' \<and> v \<noteq> pc_value c
         then Inl (post_denied ''Policy Condition failed: [%q, %q, %q]'' [FS ''eq'', FS (''$'' @ pc_field c), FS (pc_value c)])
         else if pc_op c = ''starts-with'' \<and> \<not> has_prefix v (pc_value c)
         then Inl (post_denied ''Policy Condition failed: [%q, %q, %q]''
           [FS ''starts-with'', FS (''$'' @ pc_field c), FS (pc_value c)])
         else Inr ())"

definition evaluatePostPolicy :: "postCondition list \<Rightarrow> form_fields \<Rightarrow> s3error + unit" where
  "evaluatePostPolicy conds form =
    and_then (for_each (check_condition form) conds) (\<lambda>_.
    for_each (\<lambda>(name, v).
      if name \<in> set [''policy'', ''x-amz-signature''] \<or> name \<in> set (map pc_field conds) then Inr ()
      else Inl (post_denied ''Extra input fields: %s'' [FS name])) form)"

section \<open>VerifyPost\<close>

definition post_invalid :: "string \<Rightarrow> fmt_arg list \<Rightarrow> s3error" where
  "post_invalid format args = s3err_New 400 ''InvalidArgument'' (Sprintf format args)"

record post_claim =
  pl_akid :: string
  pl_date :: string
  pl_region :: string
  pl_time :: int

text \<open>The checks up to the policy field: the credential scope and the signing time.\<close>

definition post_checks :: "int \<Rightarrow> string \<Rightarrow> form_fields \<Rightarrow> s3error + post_claim" where
  "post_checks now vregion form =
    guard_err (field form ''x-amz-algorithm'' \<noteq> sigV4Algorithm)
      (post_invalid ''X-Amz-Algorithm only supports %q'' [FS sigV4Algorithm])
    (let credElems = str_split (CHR ''/'') (field form ''x-amz-credential'') in
     guard_err (length credElems \<noteq> 5 \<or> credElems ! 4 \<noteq> ''aws4_request'')
       (post_invalid ''Error parsing the X-Amz-Credential form field; the Credential is mal-formed'' [])
     (guard_err (credElems ! 3 \<noteq> ''s3'')
       (post_invalid ''Error parsing the X-Amz-Credential form field; incorrect service'' [])
     (guard_err (vregion \<noteq> [] \<and> credElems ! 2 \<noteq> vregion)
       (post_invalid (''Error parsing the X-Amz-Credential form field; the region '%s' is wrong; expecting '%s'' @ [CHR 0x27])
         [FS (credElems ! 2), FS vregion])
     (case parse_amz (field form ''x-amz-date'') of
        None \<Rightarrow> Inl (post_invalid ''X-Amz-Date must be in the ISO8601 Long Format'' [])
      | Some t \<Rightarrow>
          guard_err (format_date t \<noteq> credElems ! 1)
            (post_invalid ''Invalid credential date. Date is not the same as X-Amz-Date.'' [])
          (guard_err (now + maxClockSkew < t)
            (WithCause (s3err_New 403 ''AccessDenied'' (lit ''Request is not valid yet''))
              (authFailure ReasonNotYetValid (credElems ! 0) (Sprintf ''signed at %s, now %s'' [FI t, FI now])))
          (guard_err (maxPresignExpires < time_sub now t)
            (WithCause (s3err_New 403 ''AccessDenied'' (lit ''Request has expired''))
              (authFailure ReasonExpired (credElems ! 0)
                (Sprintf ''post policy signed at %s, more than %s ago'' [FI t, FI maxPresignExpires])))
          (Inr \<lparr> pl_akid = credElems ! 0, pl_date = credElems ! 1, pl_region = credElems ! 2, pl_time = t \<rparr>)))))))"

text \<open>The checks before the signing key: the policy and signature form, the credential and its token.\<close>

definition post_credential :: "secret_lookup \<Rightarrow> form_fields \<Rightarrow> string \<Rightarrow> s3error + credential" where
  "post_credential lookup form akid =
    (let policyB64 = field form ''policy''; presentedToken = field form ''x-amz-security-token'' in
     guard_err (policyB64 = [])
       (post_invalid (''Bucket POST must contain a field named '' @ [CHR 0x27] @ ''policy'' @ [CHR 0x27] @ ''.'') [])
     (guard_err (maxPostPolicyBytes * 4 div 3 + 4 < length policyB64)
       (post_invalid ''the policy document exceeds the maximum allowed size (%d bytes)'' [FI (int maxPostPolicyBytes)])
     (guard_err (field form ''x-amz-signature'' = [])
       (post_invalid (''Bucket POST must contain a field named '' @ [CHR 0x27] @ ''x-amz-signature'' @ [CHR 0x27] @ ''.'') [])
     (and_then (lookupSecret lookup akid presentedToken) (\<lambda>cred.
      and_then (validateSessionToken akid (cr_SessionToken cred) presentedToken) (\<lambda>_. Inr cred))))))"

text \<open>What follows once the signature matched: the document may be parsed.\<close>

definition post_conditions :: "int \<Rightarrow> form_fields \<Rightarrow> string \<Rightarrow> s3error + postPolicy" where
  "post_conditions now form akid =
    (case base64_decode (field form ''policy'') of
       None \<Rightarrow> Inl (post_invalid ''the policy form field is not valid base64'' [])
     | Some raw \<Rightarrow>
         guard_err (maxPostPolicyBytes < length raw)
           (post_invalid ''the policy document exceeds the maximum allowed size (%d bytes)'' [FI (int maxPostPolicyBytes)])
         (and_then (parsePostPolicy raw) (\<lambda>(pp, conds).
          guard_err (pp_Expiration pp < now)
            (WithCause (s3err_New 403 ''AccessDenied'' (lit ''Invalid according to Policy: Policy expired.''))
              (authFailure ReasonExpired akid (Sprintf ''post policy expired at %s'' [FI (pp_Expiration pp)])))
          (case evaluatePostPolicy conds form of
             Inl e \<Rightarrow> Inl (WithCause e (authFailure ReasonPostPolicy akid (err_message e)))
           | Inr _ \<Rightarrow> Inr pp))))"

definition VerifyPost ::
  "(string \<Rightarrow> nat) \<Rightarrow> int \<Rightarrow> string \<Rightarrow> secret_lookup \<Rightarrow> form_fields \<Rightarrow> signerCache \<Rightarrow>
    (s3error + verified \<times> postPolicy) \<times> signerCache" where
  "VerifyPost hash now vregion lookup form c =
    (case and_then (post_checks now vregion form) (\<lambda>p.
        and_then (post_credential lookup form (pl_akid p)) (\<lambda>cred. Inr (p, cred))) of
       Inl e \<Rightarrow> (Inl e, c)
     | Inr (p, cred) \<Rightarrow>
         (case signingKey hash (pl_akid p) cred (pl_date p) (pl_region p) c of
            (Inl e, c') \<Rightarrow> (Inl e, c')
          | (Inr k, c') \<Rightarrow>
              (let sig = field form ''x-amz-signature'' in
               if hex_encode (hmac_sha256 k (field form ''policy'')) \<noteq> sig
               then (Inl (sig_mismatch (pl_akid p) (lit ''post policy'')), c')
               else
                 (and_then (post_conditions now form (pl_akid p)) (\<lambda>pp.
                    Inr (\<lparr> ve_AccessKeyID = pl_akid p, ve_SigningKey = k, ve_Signature = sig, ve_SigningTime = pl_time p,
                      ve_Scope = str_join ''/'' [pl_date p, pl_region p, ''s3'', ''aws4_request''], ve_Region = pl_region p,
                      ve_PayloadHash = ''UNSIGNED-PAYLOAD'', ve_SignedHeaders = [] \<rparr>, pp)), c'))))"

section \<open>What a verified form guarantees\<close>

definition condition_holds :: "form_fields \<Rightarrow> postCondition \<Rightarrow> bool" where
  "condition_holds form c \<longleftrightarrow> (\<exists>v. map_of form (pc_field c) = Some v \<and>
    (pc_op c = ''eq'' \<longrightarrow> v = pc_value c) \<and> (pc_op c = ''starts-with'' \<longrightarrow> prefix (pc_value c) v))"

lemma check_condition_iff: "check_condition form c = Inr () \<longleftrightarrow> condition_holds form c"
  by (auto simp: check_condition_def condition_holds_def has_prefix_iff split: option.splits)

lemma evaluatePostPolicy_iff:
  "evaluatePostPolicy conds form = Inr () \<longleftrightarrow>
    list_all (condition_holds form) conds \<and>
    fst ` set form \<subseteq> {''policy'', ''x-amz-signature''} \<union> pc_field ` set conds"
  by (auto simp: evaluatePostPolicy_def check_condition_iff list_all_iff split: if_splits)

lemma post_checks_date: "post_checks now vregion form = Inr p \<Longrightarrow> format_date (pl_time p) = pl_date p"
  by (auto simp: post_checks_def Let_def split: option.splits)

lemma post_credential_lookup:
  "post_credential lookup form akid = Inr cred \<Longrightarrow>
    lookupSecret lookup akid (field form ''x-amz-security-token'') = Inr cred"
  by (auto simp: post_credential_def Let_def)

text \<open>The form is bound to a policy document that the holder of the access key signed.\<close>

definition form_authorized ::
  "(signingKeyID \<Rightarrow> go_error + string) \<Rightarrow> secret_lookup \<Rightarrow> int \<Rightarrow> form_fields \<Rightarrow> verified \<Rightarrow> postPolicy \<Rightarrow> bool" where
  "form_authorized spec lookup now form v pp \<longleftrightarrow>
    (\<exists>cred raw conds.
      lookup (ve_AccessKeyID v) (field form ''x-amz-security-token'') = Inr cred \<and>
      spec (signing_id (ve_AccessKeyID v) cred (format_date (ve_SigningTime v)) (ve_Region v)) = Inr (ve_SigningKey v) \<and>
      field form ''x-amz-signature'' = hex_encode (hmac_sha256 (ve_SigningKey v) (field form ''policy'')) \<and>
      base64_decode (field form ''policy'') = Some raw \<and> parsePostPolicy raw = Inr (pp, conds) \<and>
      now \<le> pp_Expiration pp \<and> list_all (condition_holds form) conds \<and>
      fst ` set form \<subseteq> {''policy'', ''x-amz-signature''} \<union> pc_field ` set conds)"

lemma post_conditions_facts:
  assumes "post_conditions now form akid = Inr pp"
  shows "\<exists>raw conds. base64_decode (field form ''policy'') = Some raw \<and> parsePostPolicy raw = Inr (pp, conds) \<and>
    now \<le> pp_Expiration pp \<and> list_all (condition_holds form) conds \<and>
    fst ` set form \<subseteq> {''policy'', ''x-amz-signature''} \<union> pc_field ` set conds"
proof -
  obtain raw pp' conds where raw: "base64_decode (field form ''policy'') = Some raw" "parsePostPolicy raw = Inr (pp', conds)"
    using assms by (auto simp: post_conditions_def split: option.splits)
  then have "now \<le> pp_Expiration pp" "pp' = pp" "evaluatePostPolicy conds form = Inr ()"
    using assms by (cases "evaluatePostPolicy conds form"; auto simp: post_conditions_def)+
  then show ?thesis
    using raw evaluatePostPolicy_iff by blast
qed

lemma VerifyPost_spec:
  assumes "cache_valid spec c" "lookup_agrees spec lookup" "VerifyPost hash now vregion lookup form c = (res, c')"
  shows "cache_valid spec c' \<and> (\<forall>v pp. res = Inr (v, pp) \<longrightarrow> form_authorized spec lookup now form v pp)"
proof (cases "and_then (post_checks now vregion form) (\<lambda>p.
    and_then (post_credential lookup form (pl_akid p)) (\<lambda>cred. Inr (p, cred)))")
  case (Inl e)
  then show ?thesis
    using assms(1,3) by (auto simp: VerifyPost_def)
next
  case (Inr x)
  then obtain p cred where p: "x = (p, cred)" "post_checks now vregion form = Inr p"
      "post_credential lookup form (pl_akid p) = Inr cred"
    by auto
  obtain res' c'' where key: "signingKey hash (pl_akid p) cred (pl_date p) (pl_region p) c = (res', c'')"
    by fastforce
  note cred = post_credential_lookup [OF p(3)]
  note spec' = signingKey_spec [OF assms(1,2) cred key]
  show ?thesis
  proof (cases res')
    case (Inl e)
    then show ?thesis
      using assms(3) Inr p(1) key spec' by (auto simp: VerifyPost_def)
  next
    case k: (Inr k)
    have "form_authorized spec lookup now form v pp" if "res = Inr (v, pp)" for v pp
    proof -
      have "post_conditions now form (pl_akid p) = Inr pp" "field form ''x-amz-signature'' = hex_encode (hmac_sha256 k (field form ''policy''))"
          "ve_AccessKeyID v = pl_akid p" "ve_SigningKey v = k" "ve_SigningTime v = pl_time p" "ve_Region v = pl_region p"
        using that assms(3) Inr p(1) key k by (auto simp: VerifyPost_def Let_def split: if_splits)
      then show ?thesis
        using post_conditions_facts [of now form "pl_akid p" pp] spec' k lookupSecret_cred(1) [OF cred] post_checks_date [OF p(2)]
        unfolding form_authorized_def by auto
    qed
    moreover have "c' = c''"
      using assms(3) Inr p(1) key k by (simp add: VerifyPost_def Let_def split: if_splits)
    ultimately show ?thesis
      using spec' by blast
  qed
qed

text \<open>
  C12. A browser upload verifies only with a policy document its access key signed and only as that document demands:
  the signature is the HMAC of the policy field under the key's signing key for the date and region of its scope, the
  document has not expired, every condition of it holds of the form, and every field of the form but the policy and
  the signature is covered by a condition; whatever the cache holds, and the cache stays correct.
\<close>

theorem post_form_bound:
  assumes "cache_valid spec c" "lookup_agrees spec lookup" "VerifyPost hash now vregion lookup form c = (res, c')"
  shows "cache_valid spec c' \<and> (\<forall>v pp. res = Inr (v, pp) \<longrightarrow> form_authorized spec lookup now form v pp)"
  using VerifyPost_spec [OF assms] .

section \<open>A form that verifies\<close>

text \<open>The policy of the form lets the holder upload up to 1000 bytes under \<open>u/\<close> of bucket \<open>b\<close>.\<close>

definition example_policy_field :: string where
  "example_policy_field = ''eyJleHBpcmF0aW9uIjoiMjAyNC0wMy0wMVQwMDowMDowMFoiLCJjb25kaXRpb25zIjpbeyJidWNrZXQiOiJiIn0sWyJzdGFydHMtd2l0aCIsIiRrZXkiLCJ1LyJdLFsic3RhcnRzLXdpdGgiLCIkeC1hbXotYWxnb3JpdGhtIiwiIl0sWyJzdGFydHMtd2l0aCIsIiR4LWFtei1jcmVkZW50aWFsIiwiQUsxLyJdLFsic3RhcnRzLXdpdGgiLCIkeC1hbXotZGF0ZSIsIiJdLFsiY29udGVudC1sZW5ndGgtcmFuZ2UiLDEsMTAwMF1dfQ==''"

definition example_form :: "string \<Rightarrow> form_fields" where
  "example_form sig = [(''key'', ''u/k''), (''bucket'', ''b''), (''x-amz-algorithm'', ''AWS4-HMAC-SHA256''),
    (''x-amz-credential'', ''AK1/20240229/us-east-1/s3/aws4_request''), (''x-amz-date'', ''20240229T120000Z''),
    (''policy'', example_policy_field), (''x-amz-signature'', sig)]"

definition example_post_sig :: string where
  "example_post_sig = hex_encode (hmac_sha256 example_key example_policy_field)"

definition example_post :: postPolicy where
  "example_post = \<lparr> pp_Expiration = 1709251200000000000, pp_MinLength = 1, pp_MaxLength = 1000 \<rparr>"

lemma example_post_conditions:
  "post_conditions (1709208000000000000 + 100 * Second) (example_form sig) ''AK1'' = Inr example_post"
  by code_simp

lemma example_post_checks:
  "post_checks (1709208000000000000 + 100 * Second) [] (example_form sig) =
    Inr \<lparr> pl_akid = ''AK1'', pl_date = ''20240229'', pl_region = ''us-east-1'', pl_time = 1709208000000000000 \<rparr>"
  by code_simp

text \<open>With every lookup that knows the key.\<close>

lemma example_post_credential:
  assumes "sig \<noteq> []" "lookup ''AK1'' [] = Inr example_cred"
  shows "post_credential lookup (example_form sig) ''AK1'' = Inr example_cred"
  using assms
  by (simp add: post_credential_def example_form_def field_def example_policy_field_def maxPostPolicyBytes_def lookupSecret_def
      example_cred_def validateSessionToken_def)

lemma example_post_sig_length: "length example_post_sig = 64"
  unfolding example_post_sig_def by simp

lemma example_VerifyPost:
  assumes "lookup ''AK1'' [] = Inr example_cred"
  shows "\<exists>v. fst (VerifyPost hash (1709208000000000000 + 100 * Second) [] lookup (example_form example_post_sig) (newSignerCache 1)) =
    Inr (v, example_post) \<and> ve_AccessKeyID v = ''AK1''"
proof -
  have "fst (signingKey hash ''AK1'' example_cred ''20240229'' ''us-east-1'' (newSignerCache 1)) = Inr example_key"
    by (simp add: signingKey_def signers_get_def cache_look_def slot_index_def newSignerCache_def zero_id_def signing_id_def
        example_cred_def derive_key_def example_key_def)
  then obtain c' where key: "signingKey hash ''AK1'' example_cred ''20240229'' ''us-east-1'' (newSignerCache 1) = (Inr example_key, c')"
    by (metis prod.collapse)
  have cred: "post_credential lookup (example_form example_post_sig) ''AK1'' = Inr example_cred"
    using example_post_sig_length assms by (intro example_post_credential) auto
  have form: "field (example_form sig) ''policy'' = example_policy_field" "field (example_form sig) ''x-amz-signature'' = sig" for sig
    by (simp_all add: example_form_def field_def)
  show ?thesis
    by (simp add: VerifyPost_def example_post_checks example_post_conditions cred key form example_post_sig_def [symmetric])
qed

theorem post_form_bound_witness:
  "\<exists>c' v. VerifyPost (\<lambda>_. 0) (1709208000000000000 + 100 * Second) [] example_lookup (example_form example_post_sig) (newSignerCache 1) =
      (Inr (v, example_post), c') \<and> cache_valid (derive_key None) c' \<and>
    form_authorized (derive_key None) example_lookup (1709208000000000000 + 100 * Second) (example_form example_post_sig) v example_post"
proof -
  have agrees: "lookup_agrees (derive_key None) example_lookup"
    by (auto simp: lookup_agrees_def example_lookup_def example_cred_def split: if_splits)
  have known: "example_lookup ''AK1'' [] = Inr example_cred"
    by (simp add: example_lookup_def)
  obtain c' v where verify: "VerifyPost (\<lambda>_. 0) (1709208000000000000 + 100 * Second) [] example_lookup (example_form example_post_sig)
      (newSignerCache 1) = (Inr (v, example_post), c')"
    using example_VerifyPost [of example_lookup, OF known, of "\<lambda>_. 0"] by (metis prod.collapse)
  then show ?thesis
    using post_form_bound [OF newSignerCache_valid agrees verify] by blast
qed

end
