(* ===== verification/Auth.thy ===== *)
theory Auth
  imports Post_Policy Authorize
begin

text \<open>
  Who a verified request is, \<open>src/s3gw/auth.go\<close>: the store's keys behind signature verification. The lookup of the
  verifier is called once per request and captures the key it found; the store being a function, the model looks the
  key up by what the lookup was called with.
\<close>

section \<open>Lookup\<close>

definition signingKeyFunc :: "signing_key_func \<Rightarrow> signing_key_func" where
  "signingKeyFunc f = (\<lambda>date region.
    (case f date region of
       Inl err \<Rightarrow> Inl (if errors_is err ErrNotFound then Errorf (lit ''%w: %w'') [ErrUnknownKey, err] else err)
     | Inr k \<Rightarrow> Inr k))"

definition key_credential :: "key \<Rightarrow> credential" where
  "key_credential k =
    \<lparr> cr_SecretAccessKey = k_SecretAccessKey k, cr_SigningKey = map_option signingKeyFunc (k_SigningKey k),
      cr_SecretVersion = k_SecretVersion k, cr_SessionToken = k_SessionToken k \<rparr>"

definition secretLookup :: "store \<Rightarrow> secret_lookup" where
  "secretLookup st accessKeyID sessionToken =
    (case GetKey st accessKeyID sessionToken of
       Inl err \<Rightarrow>
         Inl (if errors_is err ErrNotFound then Errorf (lit ''%w: %w'') [ErrUnknownKey, err]
              else if errors_is err ErrInvalidToken then Errorf (lit ''%w: %w'') [sigv4_ErrInvalidToken, err]
              else err)
     | Inr k \<Rightarrow> Inr (key_credential k))"

definition key_identity :: "http_request \<Rightarrow> key \<Rightarrow> identity" where
  "key_identity r k = \<lparr> vr_Tenant = k_Tenant k, vr_User = k_User k, vr_UserPolicy = k_Policy k, vr_SourceIP = remoteIP r \<rparr>"

section \<open>Requests\<close>

text \<open>The token a request presents, by the mechanism that authenticates it.\<close>

definition presented_token :: "http_request \<Rightarrow> string" where
  "presented_token r =
    (if values_get (r_Query r) ''X-Amz-Signature'' \<noteq> [] then values_get (r_Query r) ''X-Amz-Security-Token''
     else header_get (r_Header r) ''X-Amz-Security-Token'')"

text \<open>The signature facts, the identity, and the request with its promoted headers; \<open>None\<close> would be a key that was
  never captured.\<close>

definition verifyRequest ::
  "(string \<Rightarrow> nat) \<Rightarrow> int \<Rightarrow> string \<Rightarrow> store \<Rightarrow> http_request \<Rightarrow> signerCache \<Rightarrow>
    (s3error + verified \<times> identity \<times> http_request) option \<times> signerCache" where
  "verifyRequest hash now vregion st r c =
    (case Verify hash now vregion (secretLookup st) r c of
       (Inl e, c') \<Rightarrow> (Some (Inl e), c')
     | (Inr (v, r'), c') \<Rightarrow>
         (case GetKey st (ve_AccessKeyID v) (presented_token r) of
            Inr k \<Rightarrow> (Some (Inr (v, key_identity r k, r')), c')
          | Inl _ \<Rightarrow> (None, c')))"

definition verifyPostRequest ::
  "(string \<Rightarrow> nat) \<Rightarrow> int \<Rightarrow> string \<Rightarrow> store \<Rightarrow> http_request \<Rightarrow> form_fields \<Rightarrow> signerCache \<Rightarrow>
    (s3error + verified \<times> identity \<times> postPolicy) option \<times> signerCache" where
  "verifyPostRequest hash now vregion st r form c =
    (case VerifyPost hash now vregion (secretLookup st) form c of
       (Inl e, c') \<Rightarrow> (Some (Inl e), c')
     | (Inr (v, pp), c') \<Rightarrow>
         (case GetKey st (ve_AccessKeyID v) (field form ''x-amz-security-token'') of
            Inr k \<Rightarrow> (Some (Inr (v, key_identity r k, pp)), c')
          | Inl _ \<Rightarrow> (None, c')))"

section \<open>The key is always captured\<close>

lemma secretLookup_key: "secretLookup st akid token = Inr cred \<Longrightarrow> \<exists>k. GetKey st akid token = Inr k \<and> cred = key_credential k"
  by (auto simp: secretLookup_def split: sum.splits)

lemma lookupSecret_key: "lookupSecret (secretLookup st) akid token = Inr cred \<Longrightarrow> \<exists>k. GetKey st akid token = Inr k"
  using lookupSecret_cred(1) secretLookup_key by blast

lemma header_checks_token:
  assumes "header_checks now vregion lookup r = Inr (auth, cred, t, payload)"
  shows "lookupSecret lookup (ah_AccessKeyID auth) (header_get (r_Header r) ''X-Amz-Security-Token'') = Inr cred"
  using assms by (auto simp: header_checks_def Let_def split: sum.splits option.splits if_splits)

lemma presigned_checks_token:
  assumes "presigned_checks now vregion lookup r = Inr p"
  shows "lookupSecret lookup (ps_akid p) (values_get (r_Query r) ''X-Amz-Security-Token'') = Inr (ps_cred p)"
  using assms by (auto simp: presigned_checks_def Let_def)

lemma verifyHeaderRequest_key:
  assumes "verifyHeaderRequest hash now vregion (secretLookup st) r c = (Inr v, c')"
  shows "\<exists>k. GetKey st (ve_AccessKeyID v) (header_get (r_Header r) ''X-Amz-Security-Token'') = Inr k"
  using assms
  by (auto simp: verifyHeaderRequest_def dest!: header_checks_token lookupSecret_key split: sum.splits prod.splits)

lemma verifyPresignedRequest_key:
  assumes "verifyPresignedRequest hash now vregion (secretLookup st) r c = (Inr (v, r'), c')"
  shows "\<exists>k. GetKey st (ve_AccessKeyID v) (values_get (r_Query r) ''X-Amz-Security-Token'') = Inr k"
  using assms
  by (auto simp: verifyPresignedRequest_def Let_def dest!: presigned_checks_token lookupSecret_key split: sum.splits prod.splits)

lemma Verify_key:
  assumes "Verify hash now vregion (secretLookup st) r c = (Inr (v, r'), c')"
  shows "\<exists>k. GetKey st (ve_AccessKeyID v) (presented_token r) = Inr k"
  using assms verifyHeaderRequest_key [of hash now vregion st r c] verifyPresignedRequest_key [of hash now vregion st r c]
  by (fastforce simp: Verify_def presented_token_def Let_def split: if_splits prod.splits)

lemma verifyRequest_total: "\<exists>res c'. verifyRequest hash now vregion st r c = (Some res, c')"
  using Verify_key [of hash now vregion st r c] by (fastforce simp: verifyRequest_def split: prod.splits sum.splits)

text \<open>Who a request is verified as: the tenant and user of the key whose signature it carries.\<close>

definition authenticated ::
  "(signingKeyID \<Rightarrow> go_error + string) \<Rightarrow> store \<Rightarrow> http_request \<Rightarrow> verified \<Rightarrow> identity \<Rightarrow> bool" where
  "authenticated spec st r v vr \<longleftrightarrow>
    authentic spec (secretLookup st) r v \<and>
    (\<exists>k. GetKey st (ve_AccessKeyID v) (presented_token r) = Inr k \<and> vr = key_identity r k)"

lemma verifyRequest_spec:
  assumes "cache_valid spec c" "lookup_agrees spec (secretLookup st)" "verifyRequest hash now vregion st r c = (res, c')"
  shows "cache_valid spec c'" "res = Some (Inr (v, vr, r')) \<Longrightarrow> authenticated spec st r v vr"
proof -
  obtain vres c1 where verify: "Verify hash now vregion (secretLookup st) r c = (vres, c1)"
    by fastforce
  note spec' = Verify_spec [OF assms(1,2) verify]
  show "cache_valid spec c'"
    using assms(3) verify spec' by (auto simp: verifyRequest_def split: sum.splits)
  show "res = Some (Inr (v, vr, r')) \<Longrightarrow> authenticated spec st r v vr"
    using assms(3) verify spec' by (auto simp: verifyRequest_def authenticated_def split: sum.splits)
qed

text \<open>The same for a form.\<close>

definition form_authenticated ::
  "(signingKeyID \<Rightarrow> go_error + string) \<Rightarrow> store \<Rightarrow> int \<Rightarrow> http_request \<Rightarrow> form_fields \<Rightarrow> identity \<Rightarrow> postPolicy \<Rightarrow> bool" where
  "form_authenticated spec st now r form vr pp \<longleftrightarrow>
    (\<exists>v k. form_authorized spec (secretLookup st) now form v pp \<and>
      GetKey st (ve_AccessKeyID v) (field form ''x-amz-security-token'') = Inr k \<and> vr = key_identity r k)"

lemma verifyPostRequest_spec:
  assumes "cache_valid spec c" "lookup_agrees spec (secretLookup st)" "verifyPostRequest hash now vregion st r form c = (res, c')"
  shows "cache_valid spec c'" "res = Some (Inr (v, vr, pp)) \<Longrightarrow> form_authenticated spec st now r form vr pp"
proof -
  obtain vres c1 where verify: "VerifyPost hash now vregion (secretLookup st) form c = (vres, c1)"
    by fastforce
  note spec' = VerifyPost_spec [OF assms(1,2) verify]
  show "cache_valid spec c'"
    using assms(3) verify spec' by (auto simp: verifyPostRequest_def split: sum.splits)
  show "res = Some (Inr (v, vr, pp)) \<Longrightarrow> form_authenticated spec st now r form vr pp"
    using assms(3) verify spec' by (auto simp: verifyPostRequest_def form_authenticated_def split: sum.splits)
qed

end
