(* ===== verification/Post_Object.thy ===== *)
theory Post_Object
  imports List_Buckets Auth
begin

text \<open>
  Browser-based uploads in the gateway, \<open>src/s3gw/postobject.go\<close>: reading the form, the checks of its fields and the
  upload itself. The route to it and its authorization are in the theory of the gateway.
\<close>

section \<open>The form\<close>

text \<open>
  What is used of \<open>mime\<close>, \<open>mime/multipart\<close>, \<open>net/url\<close> and the SDK: the media type of a header, the parts of the
  form with the error that ends them, a redirect target with its query rewritten if it is absolute, and how many bytes
  of the file an upload read.
\<close>

record form_part =
  fp_name :: string
  fp_filename :: string
  fp_body :: wire

record form_env =
  fe_mediaType :: "string \<Rightarrow> string option"
  fe_multipart :: "go_error + form_part list \<times> go_error"
  fe_redirect :: "string \<Rightarrow> (url_values \<Rightarrow> url_values) \<Rightarrow> string option"
  fe_sent :: "putObjectInput \<Rightarrow> putObjectOutput \<Rightarrow> int"

definition maxPostFieldBytes :: nat where "maxPostFieldBytes = 32 * 1024"
definition maxPostFields :: nat where "maxPostFields = 64"

definition isMultipartForm :: "form_env \<Rightarrow> http_request \<Rightarrow> bool" where
  "isMultipartForm fe r \<longleftrightarrow>
    fe_mediaType fe (sh_Attribute (newSignedHeader r []) ''Content-Type'') = Some ''multipart/form-data''"

definition post_argument :: "go_text \<Rightarrow> s3error" where
  "post_argument msg = s3err_New 400 ''InvalidArgument'' msg"

definition malformed_form :: "go_error \<Rightarrow> s3error" where
  "malformed_form err = post_argument (Sprintf ''malformed multipart form: %s'' [FT (err_text err)])"

definition missing_field :: "string \<Rightarrow> s3error" where
  "missing_field name = post_argument (lit (''Bucket POST must contain a field named '' @ [CHR 0x27] @ name @ [CHR 0x27] @ ''.''))"

text \<open>The loop over the parts; a field is read to one byte past its limit.\<close>

fun read_fields :: "form_part list \<Rightarrow> go_error \<Rightarrow> form_fields \<Rightarrow> s3error + form_fields \<times> wire \<times> string" where
  "read_fields [] fin form = Inl (if errors_is fin EOF then missing_field ''file'' else malformed_form fin)"
| "read_fields (p # ps) fin form =
    (let name = to_lower (fp_name p) in
     if name = [] then read_fields ps fin form
     else if name = ''file'' then Inr (form, fp_body p, fp_filename p)
     else if maxPostFields \<le> length form then Inl (post_argument (lit ''too many form fields''))
     else if maxPostFieldBytes < length (wi_inp (fp_body p))
     then Inl (post_argument (lit (''form field '' @ name @ '' is too large'')))
     else if wi_fin (fp_body p) \<noteq> EOF then Inl (malformed_form (wi_fin (fp_body p)))
     else read_fields ps fin (assoc_set name (wi_inp (fp_body p)) form))"

definition readPostForm :: "form_env \<Rightarrow> s3error + form_fields \<times> wire \<times> string" where
  "readPostForm fe =
    (case fe_multipart fe of
       Inl err \<Rightarrow> Inl (malformed_form err)
     | Inr (parts, fin) \<Rightarrow> read_fields parts fin [])"

definition postFieldMapped :: "string list" where
  "postFieldMapped =
    [''key'', ''bucket'', ''acl'', ''success_action_redirect'', ''success_action_status'', ''content-type'', ''content-md5'',
     ''cache-control'', ''content-disposition'', ''content-encoding'', ''content-language'', ''expires'',
     hdrStorageClass, hdrTagging, hdrSSE, hdrSSEKMSKeyID, ''x-amz-algorithm'', ''x-amz-credential'', ''x-amz-date'',
     ''x-amz-signature'', ''policy'', ''x-amz-security-token'']"

definition checkPostFields :: "form_fields \<Rightarrow> s3error + unit" where
  "checkPostFields form =
    for_each (\<lambda>(name, v). if name \<in> set postFieldMapped \<or> has_prefix name amzMetaPrefix then Inr ()
      else Inl (NotImplemented (''form field '' @ name))) form"

text \<open>The fields conditions are evaluated on, the file and the key, as \<open>handlePostObject\<close> prepares them.\<close>

definition post_form :: "form_env \<Rightarrow> http_request \<Rightarrow> target \<Rightarrow> s3error + form_fields \<times> wire \<times> string" where
  "post_form fe r t =
    and_then (paramSet_check [] (r_Query r)) (\<lambda>_.
    and_then (checkSSEC (newSignedHeader r [])) (\<lambda>_.
    and_then (readPostForm fe) (\<lambda>(form0, file, filename).
      let form1 = filter (\<lambda>(k, v). \<not> has_prefix k ''x-ignore-'') form0;
          keyField = field form1 ''key'';
          key = replace_all keyField ''${filename}'' filename
      in guard_err (keyField = []) (missing_field ''key'')
        (guard_err (key = []) (post_argument (lit ''The key must not be empty.''))
          (Inr (assoc_set ''bucket'' (t_bucket t) (assoc_set ''key'' key form1), file, key))))))"

definition postFieldMeta :: "form_fields \<Rightarrow> (string \<times> string) list" where
  "postFieldMeta form =
    List.map_filter (\<lambda>(name, v). map_option (\<lambda>meta. (meta, v)) (cut_prefix name amzMetaPrefix)) form"

definition postObjectRequest :: "form_fields \<Rightarrow> op_request option" where
  "postObjectRequest form =
    (let req = \<lparr> oreq_SSE = field form hdrSSE, oreq_SSEKMSKeyID = field form hdrSSEKMSKeyID,
           oreq_StorageClass = field form hdrStorageClass, oreq_Metadata = postFieldMeta form \<rparr>
     in if OpRequest_empty req then None else Some req)"

text \<open>The checks after the form is verified and its bucket resolved.\<close>

definition post_field_checks :: "form_fields \<Rightarrow> s3error + unit" where
  "post_field_checks form =
    guard_err (field form ''acl'' \<notin> set [[], ''private'', ''bucket-owner-full-control'']) errACLNotSupported
    (and_then (checkPostFields form) (\<lambda>_. checkSSE (postFieldHeader form)))"

section \<open>The upload\<close>

definition bounded_body :: "wire \<Rightarrow> postPolicy \<Rightarrow> body_reader" where
  "bounded_body file pp = Body_bounded \<lparr> lb_r = file, lb_n = 0, lb_max = pp_MaxLength pp \<rparr>"

definition postPutObject_input :: "opCtx \<Rightarrow> op \<Rightarrow> form_fields \<Rightarrow> wire \<Rightarrow> postPolicy \<Rightarrow> s3error + putObjectInput" where
  "postPutObject_input c p form file pp =
    and_then (applySSE (map_option (\<lambda>m. km_ToBackend m p) (g_kmsKey (oc_g c))) (postFieldHeader form)) (\<lambda>(sse, kmsKeyID). Inr
      \<lparr> poi_Bucket = be_name c, poi_Key = oc_key c, poi_Body = bounded_body file pp, poi_ContentLength = None,
        poi_IfMatch = None, poi_IfNoneMatch = None,
        poi_ContentType = str_opt (field form ''content-type''), poi_ContentMD5 = str_opt (field form ''content-md5''),
        poi_CacheControl = str_opt (field form ''cache-control''),
        poi_ContentDisposition = str_opt (field form ''content-disposition''),
        poi_ContentEncoding = str_opt (field form ''content-encoding''),
        poi_ContentLanguage = str_opt (field form ''content-language''),
        poi_Expires = http_time c (field form ''expires''),
        poi_StorageClass = c_backendStorageClass c p (field form hdrStorageClass) SizeUnknown,
        poi_Tagging = str_opt (field form hdrTagging), poi_SSE = sse, poi_SSEKMSKeyId = kmsKeyID,
        poi_Lock = \<lparr> lk_Mode = [], lk_RetainUntil = None, lk_LegalHold = [] \<rparr>,
        poi_Metadata = postFieldMeta form, poi_Checksums = no_sdk_checksums, poi_ChecksumAlgorithm = [] \<rparr>)"

text \<open>Undoing a write, whose own outcome is ignored.\<close>

definition h_undo :: "('w, 'i, 'o) call \<Rightarrow> 'i \<Rightarrow> ('w, unit) handlerM" where
  "h_undo f i = io_modify (\<lambda>s. s\<lparr> hs_world := snd (f i (hs_world s)) \<rparr>)"

definition post_undo :: "opCtx \<Rightarrow> putObjectOutput \<Rightarrow> deleteObjectInput" where
  "post_undo c out =
    \<lparr> doi_Bucket = be_name c, doi_Key = oc_key c, doi_VersionId = poo_VersionId out,
      doi_BypassGovernanceRetention = None, doi_IfMatch = None, doi_IfMatchLastModifiedTime = None, doi_IfMatchSize = None \<rparr>"

definition err_entity_too_small :: s3error where
  "err_entity_too_small = s3err_New 400 ''EntityTooSmall'' (lit ''Your proposed upload is smaller than the minimum allowed size'')"

definition post_answer :: "form_env \<Rightarrow> opCtx \<Rightarrow> form_fields \<Rightarrow> string \<Rightarrow> response \<Rightarrow> response" where
  "post_answer fe c form etag w =
    (let redirect = field form ''success_action_redirect'';
         location = objectURL (oc_tls c) (oc_r c) (oc_target c) (oc_key c);
         found = (if redirect = [] then None
           else fe_redirect fe redirect (\<lambda>q. assoc_set ''etag'' [etag] (assoc_set ''key'' [oc_key c]
             (assoc_set ''bucket'' [b_Name (oc_cfg c)] q))))
     in case found of
          Some u \<Rightarrow> rs_WriteHeader 303 (w\<lparr> rs_header := header_set ''Location'' u (rs_header w) \<rparr>)
        | None \<Rightarrow>
            (let w1 = w\<lparr> rs_header := header_set ''Location'' location (rs_header w) \<rparr>;
                 status = field form ''success_action_status''
             in if status = ''200'' then rs_WriteHeader 200 w1
                else if status = ''201'' then
                  rs_Write (xml_render (postResponse_xml \<lparr> por_XMLNS = Namespace, por_Location = location,
                      por_Bucket = b_Name (oc_cfg c), por_Key = oc_key c, por_ETag = etag \<rparr>))
                    (rs_Write xml_header (rs_WriteHeader 201
                      (w1\<lparr> rs_header := header_set ''Content-Type'' ''application/xml'' (rs_header w1) \<rparr>)))
                else rs_WriteHeader 204 w1))"

definition postPutObject ::
  "form_env \<Rightarrow> 'w backendClient \<Rightarrow> opCtx \<Rightarrow> form_fields \<Rightarrow> wire \<Rightarrow> postPolicy \<Rightarrow> ('w, unit) handlerM" where
  "postPutObject fe bc c form file pp =
    io_bind h_op (\<lambda>p.
    io_bind (h_lift (postPutObject_input c p form file pp)) (\<lambda>i.
    io_bind (h_call c (bc_PutObject bc) i) (\<lambda>out.
    if fe_sent fe i out < pp_MinLength pp then
      io_bind (h_undo (bc_DeleteObject bc) (post_undo c out)) (\<lambda>_.
      h_lift (Inl err_entity_too_small))
    else
      io_bind (h_setResponse (write_response (poo_SSE out) (poo_SSEKMSKeyId out) (poo_ETag out) (poo_VersionId out))) (\<lambda>_.
      io_bind h_op (\<lambda>p'.
      io_bind (h_header (\<lambda>h. setSSEHeaders (set_opt ''x-amz-version-id'' (poo_VersionId out)
        (header_set ''ETag'' (to_string (poo_ETag out)) h)) (poo_SSE out) (c_clientKMSKeyID c p' (poo_SSEKMSKeyId out)))) (\<lambda>_.
      h_write (post_answer fe c form (to_string (poo_ETag out)))))))))"

section \<open>The size of a stored file\<close>

text \<open>A body read to its end delivered the whole file, and no more than its bound.\<close>

lemma wire_Read_parts:
  assumes "wire_Read n ch w = ((data, e), w')"
  shows "wi_inp w = data @ wi_inp w'" "wi_fin w' = wi_fin w" "e = None \<or> e = Some (wi_fin w) \<and> wi_inp w' = []"
  using assms by (auto simp: wire_Read_def Let_def split: if_splits)

lemma bounded_reads:
  assumes "body_reads qs (Body_bounded b) = (data, e, br')"
  shows "\<exists>b'. br' = Body_bounded b' \<and> lb_n b' = lb_n b + int (length data) \<and> lb_max b' = lb_max b \<and>
    wi_inp (lb_r b) = data @ wi_inp (lb_r b') \<and>
    (e = Some EOF \<longrightarrow> wi_inp (lb_r b') = [] \<and> wi_fin (lb_r b) = EOF \<and> lb_n b' \<le> lb_max b)"
  using assms
proof (induction qs arbitrary: b data)
  case Nil
  then show ?case
    by auto
next
  case (Cons q qs)
  obtain d e1 w1 where read: "wire_Read (fst q) (snd q) (lb_r b) = ((d, e1), w1)"
    by (metis prod.exhaust)
  note parts = wire_Read_parts [OF read]
  define b1 where "b1 = b\<lparr> lb_r := w1, lb_n := lb_n b + int (length d) \<rparr>"
  have step: "body_Read (fst q) (snd q) (Body_bounded b) =
      ((d, if lb_max b1 < lb_n b1 then Some (S3e err_entity_too_large) else e1), Body_bounded b1)"
    by (simp add: lb_Read_def read b1_def Let_def)
  show ?case
  proof (cases "lb_max b1 < lb_n b1 \<or> e1 \<noteq> None")
    case True
    then show ?thesis
      using Cons.prems step parts by (auto simp: b1_def split: if_splits)
  next
    case False
    then obtain rest where rest: "body_reads qs (Body_bounded b1) = (rest, e, br')" "data = d @ rest"
      using Cons.prems step by (auto split: prod.splits)
    then show ?thesis
      using Cons.IH [OF rest(1)] parts by (auto simp: b1_def)
  qed
qed

text \<open>A client that stores a bounded body only once it has read the body to its end, as the SDK does.\<close>

definition reads_to_end :: "form_env \<Rightarrow> 'w backendClient \<Rightarrow> bool" where
  "reads_to_end fe bc \<longleftrightarrow>
    (\<forall>i b0 w out w'. poi_Body i = Body_bounded b0 \<longrightarrow> bc_PutObject bc i w = (Inr out, w') \<longrightarrow>
      (\<exists>qs data b. body_reads qs (poi_Body i) = (data, Some EOF, Body_bounded b) \<and> fe_sent fe i out = lb_n b))"

lemma stored_size:
  assumes "reads_to_end fe bc" "postPutObject_input c p form file pp = Inr i" "bc_PutObject bc i w = (Inr out, w')"
  shows "fe_sent fe i out = int (length (wi_inp file))" "int (length (wi_inp file)) \<le> pp_MaxLength pp"
proof -
  have body: "poi_Body i = Body_bounded \<lparr> lb_r = file, lb_n = 0, lb_max = pp_MaxLength pp \<rparr>"
    using assms(2) by (auto simp: postPutObject_input_def bounded_body_def split: prod.splits)
  obtain qs data b where reads: "body_reads qs (poi_Body i) = (data, Some EOF, Body_bounded b)" "fe_sent fe i out = lb_n b"
    using assms(1,3) body unfolding reads_to_end_def by blast
  show "fe_sent fe i out = int (length (wi_inp file))" "int (length (wi_inp file)) \<le> pp_MaxLength pp"
    using bounded_reads [OF reads(1) [unfolded body]] reads(2) by auto
qed

text \<open>
  C13. The size of a browser upload is in the range its policy gives: with a client that reads the body of an object to
  its end before it stores it, an upload succeeds only if the whole file was stored and its length is within
  \<open>content-length-range\<close>; and a stored file that is too short is refused, after a deletion of exactly the version
  just written.
\<close>

theorem post_upload_in_range:
  assumes "reads_to_end fe bc"
  shows "(fst (postPutObject fe bc c form file pp s) = Inr () \<longrightarrow>
      pp_MinLength pp \<le> int (length (wi_inp file)) \<and> int (length (wi_inp file)) \<le> pp_MaxLength pp) \<and>
    (\<forall>i out w'. postPutObject_input c (hs_op s) form file pp = Inr i \<and>
        bc_PutObject bc i (hs_world s) = (Inr out, w') \<and> int (length (wi_inp file)) < pp_MinLength pp \<longrightarrow>
      postPutObject fe bc c form file pp s =
        (Inl (S3e err_entity_too_small), s\<lparr> hs_world := snd (bc_DeleteObject bc (post_undo c out) w') \<rparr>))"
proof (cases "postPutObject_input c (hs_op s) form file pp")
  case (Inl e)
  then show ?thesis
    by (simp add: postPutObject_def h_op_def h_lift_def)
next
  case (Inr i)
  obtain res w' where call: "bc_PutObject bc i (hs_world s) = (res, w')"
    by fastforce
  show ?thesis
  proof (cases res)
    case (Inl e)
    then show ?thesis
      using Inr call by (simp add: postPutObject_def h_op_def h_lift_def h_call_def)
  next
    case out: (Inr out)
    note sz = stored_size [OF assms Inr call [unfolded out]]
    show ?thesis
      using Inr call out sz
      by (auto simp: postPutObject_def h_op_def h_lift_def h_call_def h_undo_def)
  qed
qed

text \<open>A backend that keeps the bodies it stored, and the upload of a file of five bytes to it.\<close>

definition example_script :: "(nat \<times> nat \<times> bool) list" where
  "example_script = [(3, 3, False), (3, 3, False), (3, 3, False)]"

definition example_bucket_client :: "string list backendClient \<Rightarrow> string list backendClient" where
  "example_bucket_client bc = bc\<lparr> bc_PutObject := (\<lambda>i w.
    (case body_reads example_script (poi_Body i) of
       (data, Some e, _) \<Rightarrow>
         if e = EOF then (Inr \<lparr> poo_ETag = Some ''e'', poo_VersionId = None, poo_SSE = [], poo_SSEKMSKeyId = None,
           poo_Checksums = no_sdk_checksums, poo_ChecksumType = [] \<rparr>, w @ [data])
         else (Inl e, w)
     | (_, None, _) \<Rightarrow> (Inl ErrUnexpectedEOF, w))) \<rparr>"

definition example_form_env :: form_env where
  "example_form_env = \<lparr> fe_mediaType = (\<lambda>_. Some ''multipart/form-data''), fe_multipart = Inr ([], EOF),
    fe_redirect = (\<lambda>_ _. None),
    fe_sent = (\<lambda>i out. case body_reads example_script (poi_Body i) of
      (_, _, Body_bounded b) \<Rightarrow> lb_n b | _ \<Rightarrow> 0) \<rparr>"

lemma example_reads_to_end: "reads_to_end example_form_env (example_bucket_client bc)"
  unfolding reads_to_end_def
proof (intro allI impI)
  fix i b0 w out w'
  assume body: "poi_Body i = Body_bounded b0" and call: "bc_PutObject (example_bucket_client bc) i w = (Inr out, w')"
  obtain data e br where reads: "body_reads example_script (poi_Body i) = (data, e, br)"
    by (metis prod.exhaust)
  obtain b where b: "br = Body_bounded b"
    using bounded_reads [OF reads [unfolded body]] by blast
  have "e = Some EOF"
    using call reads by (auto simp: example_bucket_client_def split: option.splits if_splits)
  then have "body_reads example_script (poi_Body i) = (data, Some EOF, Body_bounded b) \<and> fe_sent example_form_env i out = lb_n b"
    using reads b by (simp add: example_form_env_def)
  then show "\<exists>qs data b. body_reads qs (poi_Body i) = (data, Some EOF, Body_bounded b) \<and> fe_sent example_form_env i out = lb_n b"
    by blast
qed

abbreviation example_post_ctx :: opCtx where
  "example_post_ctx \<equiv> example_ctx ''POST'' ''u/k'' [] \<lparr> drq_Quiet = False, drq_Objects = [] \<rparr>"

abbreviation example_upload ::
  "string list backendClient \<Rightarrow> string \<Rightarrow> (go_error + unit) \<times> string list hstate" where
  "example_upload bc data \<equiv> postPutObject example_form_env (example_bucket_client bc) example_post_ctx
    [(''key'', ''u/k'')] \<lparr> wi_inp = data, wi_fin = EOF \<rparr> example_post (example_state [])"

lemma example_sse: "applySSE None (postFieldHeader [(''key'', ''u/k'')]) = Inr ([], None)"
  by code_simp

lemma example_upload_hello:
  "fst (example_upload bc ''hello'') = Inr () \<and> hs_world (snd (example_upload bc ''hello'')) = [''hello'']"
proof -
  obtain i where i: "postPutObject_input example_post_ctx (example_op ''DeleteObjects'') [(''key'', ''u/k'')]
      \<lparr> wi_inp = ''hello'', wi_fin = EOF \<rparr> example_post = Inr i"
      "poi_Body i = Body_bounded \<lparr> lb_r = \<lparr> wi_inp = ''hello'', wi_fin = EOF \<rparr>, lb_n = 0, lb_max = 1000 \<rparr>"
    by (simp add: postPutObject_input_def example_ctx_def example_gateway_def example_sse bounded_body_def example_post_def)
  have reads: "body_reads example_script (poi_Body i) =
      (''hello'', Some EOF, Body_bounded \<lparr> lb_r = \<lparr> wi_inp = [], wi_fin = EOF \<rparr>, lb_n = 5, lb_max = 1000 \<rparr>)"
    by (simp add: i(2) example_script_def lb_Read_def wire_Read_def)
  have "pp_MinLength example_post = 1"
    by (simp add: example_post_def)
  then show ?thesis
    by (simp add: postPutObject_def h_op_def h_lift_def example_state_def i(1) h_call_def example_bucket_client_def
        reads example_form_env_def h_setResponse_def h_write_def)
qed

theorem post_upload_in_range_witness:
  "\<forall>bc. fst (example_upload bc ''hello'') = Inr () \<and> hs_world (snd (example_upload bc ''hello'')) = [''hello''] \<and>
    pp_MinLength example_post \<le> int (length ''hello'') \<and> int (length ''hello'') \<le> pp_MaxLength example_post"
proof
  fix bc :: "string list backendClient"
  show "fst (example_upload bc ''hello'') = Inr () \<and> hs_world (snd (example_upload bc ''hello'')) = [''hello''] \<and>
    pp_MinLength example_post \<le> int (length ''hello'') \<and> int (length ''hello'') \<le> pp_MaxLength example_post"
    using post_upload_in_range [OF example_reads_to_end [of bc], of example_post_ctx "[(''key'', ''u/k'')]"
        "\<lparr> wi_inp = ''hello'', wi_fin = EOF \<rparr>" example_post "example_state []"] example_upload_hello [of bc]
    by simp
qed

end
