(* ===== verification/Gateway.thy ===== *)
theory Gateway
  imports Post_Object
begin

text \<open>
  A request through the gateway, \<open>src/s3gw/handler.go\<close> with the preflights of \<open>src/s3gw/cors.go\<close>, the route of a
  browser upload in \<open>src/s3gw/postobject.go\<close>, the client cache of \<open>src/s3gw/gateway.go\<close> and the record of
  \<open>src/s3gw/observe.go\<close>: verification, bucket resolution, dispatch and the handler in the order the code composes
  them, on the signing-key cache, the response, the record for the observer and the backend's world.
\<close>

section \<open>The service\<close>

record clientCacheKey =
  ck_endpoint :: string
  ck_region :: string
  ck_accessKeyID :: string
  ck_secret :: string
  ck_usePathStyle :: bool

definition newClientCacheKey :: "backend \<Rightarrow> clientCacheKey" where
  "newClientCacheKey b =
    \<lparr> ck_endpoint = be_Endpoint b, ck_region = be_Region b, ck_accessKeyID = be_AccessKeyID b,
      ck_secret = be_SecretAccessKey b, ck_usePathStyle = (be_UsePathStyle b = Some True) \<rparr>"

text \<open>
  What a service configures: the settings the handlers read, the store, the normalized suffix of virtual hosts, the
  hooks, and the parts that are other packages': the hash of the signing-key cache, the LRU cache of clients as a
  request finds it, the construction of an SDK client, and the byte counters. A hook and the operation it wraps share
  the response and the backend's world. A panic of an operation reaches an interceptor as the error \<open>PanicError\<close>.
\<close>

record 'w service =
  sv_g :: gateway
  sv_store :: store
  sv_vhostSuffix :: string
  sv_hash :: "string \<Rightarrow> nat"
  sv_clients_Get :: "clientCacheKey \<Rightarrow> 'w backendClient option"
  sv_clients_PeekOrAdd :: "clientCacheKey \<Rightarrow> 'w backendClient \<Rightarrow> 'w backendClient option"
  sv_newClient :: "backend \<Rightarrow> go_error + 'w backendClient"
  sv_authorizer :: "(response \<times> 'w) opstep option"
  sv_bandwidthLimit :: "(op \<Rightarrow> response \<times> 'w \<Rightarrow> response \<times> 'w) option"
  sv_interceptors :: "((response \<times> 'w) opstep \<Rightarrow> (response \<times> 'w) opstep) list"
  sv_transferred :: "response \<times> 'w \<Rightarrow> int \<times> int"
  sv_requestID :: "(http_request \<Rightarrow> string) option"

definition gateway_backendClient :: "'w service \<Rightarrow> backend \<Rightarrow> go_error + 'w backendClient" where
  "gateway_backendClient sv b =
    (let key = newClientCacheKey b in
     case sv_clients_Get sv key of
       Some client \<Rightarrow> Inr client
     | None \<Rightarrow>
         (case sv_newClient sv b of
            Inl err \<Rightarrow> Inl (Errorf (lit ''failed to build backend client: %w'') [err])
          | Inr client \<Rightarrow>
              (case sv_clients_PeekOrAdd sv key client of
                 Some previous \<Rightarrow> Inr previous
               | None \<Rightarrow> Inr client)))"

text \<open>A request with its body, the clock it is verified with, and what its handler and its form parser see.\<close>

record gw_request =
  rq_r :: http_request
  rq_tls :: bool
  rq_body :: wire
  rq_now :: int
  rq_env :: env
  rq_form :: form_env

text \<open>
  The record an observer is given, without its byte counts and times; \<open>ri_Err\<close> is a list of at most one error.
\<close>

record request_info =
  ri_Method :: string
  ri_Path :: string
  ri_RemoteAddr :: string
  ri_RawQuery :: string
  ri_RequestID :: string
  ri_Status :: int
  ri_Code :: string
  ri_Tenant :: string
  ri_User :: string
  ri_AccessKeyID :: string
  ri_Op :: "op option"
  ri_Err :: "go_error list"

record 'w gstate =
  gs_cache :: signerCache
  gs_w :: response
  gs_world :: 'w
  gs_info :: request_info

section \<open>Steps\<close>

definition g_lift :: "s3error + 'a \<Rightarrow> ('w gstate, 'a) io" where
  "g_lift r = (case r of Inl e \<Rightarrow> io_fail (S3e e) | Inr x \<Rightarrow> io_return x)"

definition g_option :: "'a option \<Rightarrow> ('w gstate, 'a) io" where
  "g_option r = (case r of Some x \<Rightarrow> io_return x | None \<Rightarrow> io_fail PanicError)"

definition g_header :: "(header \<Rightarrow> header) \<Rightarrow> ('w gstate, unit) io" where
  "g_header f = io_modify (\<lambda>s. s\<lparr> gs_w := (gs_w s)\<lparr> rs_header := f (rs_header (gs_w s)) \<rparr> \<rparr>)"

definition g_record :: "(request_info \<Rightarrow> request_info) \<Rightarrow> ('w gstate, unit) io" where
  "g_record f = io_modify (\<lambda>s. s\<lparr> gs_info := f (gs_info s) \<rparr>)"

fun as_auth_failure :: "go_error \<Rightarrow> string option" where
  "as_auth_failure (Auth_failure reason akid detail es) = Some akid"
| "as_auth_failure _ = None"

definition recordPresentedKey :: "s3error \<Rightarrow> request_info \<Rightarrow> request_info" where
  "recordPresentedKey e info =
    (case first_some as_auth_failure (err_chain (S3e e)) of
       Some akid \<Rightarrow> info\<lparr> ri_AccessKeyID := akid \<rparr>
     | None \<Rightarrow> info)"

definition record_identity :: "verified \<Rightarrow> identity \<Rightarrow> request_info \<Rightarrow> request_info" where
  "record_identity v vr info =
    info\<lparr> ri_Tenant := vr_Tenant vr, ri_User := vr_User vr, ri_AccessKeyID := ve_AccessKeyID v \<rparr>"

text \<open>A verification on the signing-key cache; a failure records the key that was presented.\<close>

definition g_verified :: "(signerCache \<Rightarrow> (s3error + 'a) option \<times> signerCache) \<Rightarrow> ('w gstate, 'a) io" where
  "g_verified verify = (\<lambda>s.
    (case verify (gs_cache s) of
       (None, c) \<Rightarrow> (Inl PanicError, s\<lparr> gs_cache := c \<rparr>)
     | (Some (Inl e), c) \<Rightarrow> (Inl (S3e e), s\<lparr> gs_cache := c, gs_info := recordPresentedKey e (gs_info s) \<rparr>)
     | (Some (Inr x), c) \<Rightarrow> (Inr x, s\<lparr> gs_cache := c \<rparr>)))"

definition g_target :: "'w service \<Rightarrow> http_request \<Rightarrow> ('w gstate, target) io" where
  "g_target sv r =
    g_lift (case requestTarget (sv_vhostSuffix sv) r of
      Inl err \<Rightarrow> Inl (WithCause (s3err_New 400 ''InvalidURI'' (lit (''Couldn'' @ [CHR 0x27] @ ''t parse the specified URI.''))) err)
    | Inr t \<Rightarrow> Inr t)"

text \<open>A nil backend is dereferenced for the key of its client.\<close>

definition g_client :: "'w service \<Rightarrow> bucket \<Rightarrow> ('w gstate, backend \<times> 'w backendClient) io" where
  "g_client sv b =
    io_bind (g_option (b_Backend b)) (\<lambda>be.
    g_lift (case gateway_backendClient sv be of
      Inl err \<Rightarrow> Inl (s3err_Internal err (lit ''backend client failed''))
    | Inr bc \<Rightarrow> Inr (be, bc)))"

text \<open>An operation with the hooks around it; the record keeps the operation the hooks and the handler leave.\<close>

definition as_step :: "('w, unit) handlerM \<Rightarrow> (response \<times> 'w) opstep" where
  "as_step m = (\<lambda>p (w, world).
    (case m \<lparr> hs_op = p, hs_w = w, hs_world = world \<rparr> of
       (Inl err, s) \<Rightarrow> (Some err, hs_op s, hs_w s, hs_world s)
     | (Inr _, s) \<Rightarrow> (None, hs_op s, hs_w s, hs_world s)))"

definition g_runOp :: "'w service \<Rightarrow> op \<Rightarrow> ('w, unit) handlerM \<Rightarrow> ('w gstate, unit) io" where
  "g_runOp sv p m = (\<lambda>s.
    (case runOp (sv_authorizer sv) (sv_bandwidthLimit sv) (sv_interceptors sv) (sv_transferred sv) (as_step m)
        p (gs_w s, gs_world s) of
       (err, p', w', world') \<Rightarrow>
         ((case err of None \<Rightarrow> Inr () | Some e \<Rightarrow> Inl e),
          s\<lparr> gs_w := w', gs_world := world', gs_info := (gs_info s)\<lparr> ri_Op := Some p' \<rparr> \<rparr>)))"

section \<open>Requests\<close>

definition corsNotAllowed :: s3error where
  "corsNotAllowed = s3err_New 403 ''AccessForbidden'' (lit ''CORSResponse: This CORS request is not allowed.'')"

definition preflight :: "'w service \<Rightarrow> http_request \<Rightarrow> header \<Rightarrow> s3error + header" where
  "preflight sv r h =
    guard_err (header_get (r_Header r) ''Origin'' = [] \<or> header_get (r_Header r) ''Access-Control-Request-Method'' = [])
      (s3err_New 400 ''BadRequest'' (lit ''Insufficient information. Origin request header needed.''))
      (case requestTarget (sv_vhostSuffix sv) r of
         Inl _ \<Rightarrow> Inl corsNotAllowed
       | Inr t \<Rightarrow>
           guard_err (t_bucket t = []) corsNotAllowed
             (case GetBucketByName (sv_store sv) (t_bucket t) of
                Inl err \<Rightarrow> Inl (if errors_is err ErrNotFound then corsNotAllowed
                  else s3err_Internal err (lit ''bucket lookup failed''))
              | Inr b \<Rightarrow>
                  (case AllowPreflight h (r_Header r) (b_CORS b) of
                     None \<Rightarrow> Inl corsNotAllowed
                   | Some h' \<Rightarrow> Inr h')))"

definition handlePreflight :: "'w service \<Rightarrow> http_request \<Rightarrow> ('w gstate, unit) io" where
  "handlePreflight sv r = (\<lambda>s.
    (case preflight sv r (rs_header (gs_w s)) of
       Inl e \<Rightarrow> (Inl (S3e e), s)
     | Inr h \<Rightarrow> (Inr (), s\<lparr> gs_w := rs_WriteHeader 200 ((gs_w s)\<lparr> rs_header := h \<rparr>) \<rparr>)))"

definition list_buckets_checks :: "identity \<Rightarrow> http_request \<Rightarrow> s3error + op" where
  "list_buckets_checks vr r =
    guard_err (r_Method r \<noteq> ''GET'')
      (s3err_New 405 ''MethodNotAllowed'' (lit ''The specified method is not allowed against this resource.''))
      (and_then (paramSet_check listBucketsParams (r_Query r)) (\<lambda>_.
        let d = user_Decide (vr_UserPolicy vr) ActionListAllMyBuckets in
        guard_err (dec_Effect d \<noteq> Effect_Allow)
          (WithCause AccessDenied (userPolicyReason (vr_principal vr) ActionListAllMyBuckets d))
          (Inr \<lparr> op_Method = r_Method r, op_Operation = OpListBuckets, op_Actions = [ActionListAllMyBuckets],
             op_Tenant = vr_Tenant vr, op_User = vr_User vr, op_Bucket = [], op_BucketOwner = [], op_Key = [],
             op_Request = None, op_Response = None, op_BytesIn = 0, op_BytesOut = 0, op_Denials = [] \<rparr>)))"

text \<open>The context a dispatched operation runs in.\<close>

definition request_ctx ::
  "'w service \<Rightarrow> gw_request \<Rightarrow> http_request \<Rightarrow> verified \<Rightarrow> identity \<Rightarrow> bucket \<Rightarrow> backend \<Rightarrow> target \<Rightarrow> string \<Rightarrow> opCtx" where
  "request_ctx sv rq r v vr b be t copySource =
    \<lparr> oc_g = sv_g sv, oc_env = rq_env rq, oc_r = r, oc_tls = rq_tls rq, oc_body = rq_body rq, oc_vr = vr,
      oc_verified = v, oc_cfg = b, oc_backend = be, oc_target = t, oc_key = t_key t,
      oc_hdr = newSignedHeader r (ve_SignedHeaders v), oc_copySource = copySource \<rparr>"

definition dispatch_request ::
  "store \<Rightarrow> identity \<Rightarrow> bucket \<Rightarrow> http_request \<Rightarrow> verified \<Rightarrow> target \<Rightarrow> (s3error + dispatched) option" where
  "dispatch_request st vr b r v t =
    (let hdr = newSignedHeader r (ve_SignedHeaders v) in
     if t_key t = [] then handleBucketRequest st vr b (r_Method r) hdr (r_Query r)
     else handleObjectRequest st vr b (r_Method r) hdr (r_Query r) (t_key t))"

definition handle_bucket ::
  "'w service \<Rightarrow> gw_request \<Rightarrow> verified \<Rightarrow> identity \<Rightarrow> http_request \<Rightarrow> target \<Rightarrow> ('w gstate, unit) io" where
  "handle_bucket sv rq v vr r t =
    io_bind (g_lift (resolveBucket (sv_store sv) vr (t_bucket t))) (\<lambda>b.
    io_bind (g_client sv b) (\<lambda>(be, bc).
    io_bind (g_header (\<lambda>h. cors_SetHeaders h r (b_CORS b))) (\<lambda>_.
    io_bind (g_option (dispatch_request (sv_store sv) vr b r v t)) (\<lambda>res.
    io_bind (g_lift res) (\<lambda>d.
    g_runOp sv (d_op d) (handle (d_handle d) bc (request_ctx sv rq r v vr b be t (d_copySource d))))))))"

definition handle_signed :: "'w service \<Rightarrow> gw_request \<Rightarrow> ('w gstate, unit) io" where
  "handle_signed sv rq =
    io_bind (g_verified (verifyRequest (sv_hash sv) (rq_now rq) (g_region (sv_g sv)) (sv_store sv) (rq_r rq))) (\<lambda>(v, vr, r).
    io_bind (g_record (record_identity v vr)) (\<lambda>_.
    io_bind (g_lift (checkKnownAmzHeaders (g_checksums (sv_g sv)) (newSignedHeader r (ve_SignedHeaders v)))) (\<lambda>_.
    io_bind (g_target sv r) (\<lambda>t.
    if t_bucket t = [] then
      io_bind (g_lift (list_buckets_checks vr r)) (\<lambda>p. g_runOp sv p (listBuckets (sv_store sv) r vr))
    else handle_bucket sv rq v vr r t))))"

section \<open>Browser uploads\<close>

text \<open>The route is bound at package initialization; its handler is never called.\<close>

definition postObjectRoute :: route where
  "postObjectRoute = the (bind_route (operation_route None None OpPostObject (H_notImplemented [])))"

definition post_ctx ::
  "'w service \<Rightarrow> gw_request \<Rightarrow> verified \<Rightarrow> identity \<Rightarrow> bucket \<Rightarrow> backend \<Rightarrow> target \<Rightarrow> string \<Rightarrow> opCtx" where
  "post_ctx sv rq v vr b be t key =
    \<lparr> oc_g = sv_g sv, oc_env = rq_env rq, oc_r = rq_r rq, oc_tls = rq_tls rq, oc_body = rq_body rq, oc_vr = vr,
      oc_verified = v, oc_cfg = b, oc_backend = be, oc_target = t, oc_key = key,
      oc_hdr = \<lparr> sh_h = [], sh_signed = [] \<rparr>, oc_copySource = [] \<rparr>"

definition post_op :: "http_request \<Rightarrow> identity \<Rightarrow> bucket \<Rightarrow> form_fields \<Rightarrow> string \<Rightarrow> string list \<Rightarrow> op" where
  "post_op r vr b form key acts =
    \<lparr> op_Method = r_Method r, op_Operation = OpPostObject, op_Actions = acts, op_Tenant = vr_Tenant vr,
      op_User = vr_User vr, op_Bucket = b_Name b, op_BucketOwner = b_Tenant b, op_Key = key,
      op_Request = postObjectRequest form, op_Response = None, op_BytesIn = 0, op_BytesOut = 0, op_Denials = [] \<rparr>"

definition handle_post ::
  "'w service \<Rightarrow> gw_request \<Rightarrow> target \<Rightarrow> form_fields \<Rightarrow> wire \<Rightarrow> string \<Rightarrow> verified \<Rightarrow> identity \<Rightarrow> postPolicy \<Rightarrow>
    ('w gstate, unit) io" where
  "handle_post sv rq t form file key v vr pp =
    io_bind (g_lift (resolveBucket (sv_store sv) vr (t_bucket t))) (\<lambda>b.
    io_bind (g_client sv b) (\<lambda>(be, bc).
    io_bind (g_header (\<lambda>h. cors_SetHeaders h (rq_r rq) (b_CORS b))) (\<lambda>_.
    io_bind (g_lift (post_field_checks form)) (\<lambda>_.
    io_bind (g_option (authorizeRoute (c_authorize vr b key) postObjectRoute (postFieldHeader form) False)) (\<lambda>res.
    io_bind (g_lift res) (\<lambda>acts.
    g_runOp sv (post_op (rq_r rq) vr b form key acts)
      (postPutObject (rq_form rq) bc (post_ctx sv rq v vr b be t key) form file pp)))))))"

definition handlePostObject :: "'w service \<Rightarrow> gw_request \<Rightarrow> target \<Rightarrow> ('w gstate, unit) io" where
  "handlePostObject sv rq t =
    io_bind (g_lift (post_form (rq_form rq) (rq_r rq) t)) (\<lambda>(form, file, key).
    io_bind (g_verified (verifyPostRequest (sv_hash sv) (rq_now rq) (g_region (sv_g sv)) (sv_store sv) (rq_r rq) form)) (\<lambda>(v, vr, pp).
    io_bind (g_lift (checkKnownAmzHeaders (g_checksums (sv_g sv)) (newSignedHeader (rq_r rq) []))) (\<lambda>_.
    io_bind (g_record (record_identity v vr)) (\<lambda>_.
    handle_post sv rq t form file key v vr pp))))"

definition handleRequest :: "'w service \<Rightarrow> gw_request \<Rightarrow> ('w gstate, unit) io" where
  "handleRequest sv rq =
    (let r = rq_r rq in
     if r_Method r = ''OPTIONS'' then handlePreflight sv r
     else if r_Method r = ''POST'' \<and> isMultipartForm (rq_form rq) r then
       io_bind (g_target sv r) (\<lambda>t.
         if t_bucket t \<noteq> [] \<and> t_key t = [] then handlePostObject sv rq t else handle_signed sv rq)
     else handle_signed sv rq)"

section \<open>Answers\<close>

definition redactQuery :: "url_values \<Rightarrow> string" where
  "redactQuery q =
    values_encode (map (\<lambda>(k, vs).
      (k, if to_lower k \<in> {''x-amz-signature'', ''x-amz-security-token''} then [''REDACTED''] else vs)) q)"

definition newRequestID :: "'w service \<Rightarrow> string \<Rightarrow> http_request \<Rightarrow> string" where
  "newRequestID sv random r =
    (case sv_requestID sv of
       Some f \<Rightarrow> if f r \<noteq> [] then f r else random
     | None \<Rightarrow> random)"

text \<open>
  What the client and the observer get: the response, with an error document when one was written, or a connection
  aborted behind a half-sent response.
\<close>

record answer =
  an_w :: response
  an_error :: "error_response option"
  an_aborted :: bool
  an_info :: request_info

definition reported_error :: "go_error \<Rightarrow> s3error" where
  "reported_error err =
    (case first_some as_s3error (err_chain err) of
       Some e \<Rightarrow> e
     | None \<Rightarrow> s3err_Internal err (lit ''We encountered an internal error. Please try again.''))"

definition rs_started :: "response \<Rightarrow> bool" where
  "rs_started w \<longleftrightarrow> rs_status w \<noteq> None"

definition report :: "http_request \<Rightarrow> string \<Rightarrow> go_error + unit \<Rightarrow> 'w gstate \<Rightarrow> answer" where
  "report r requestID res s =
    (let w = gs_w s;
         status = (case rs_status w of Some n \<Rightarrow> n | None \<Rightarrow> 200);
         info = (gs_info s)\<lparr> ri_RawQuery := redactQuery (r_Query r) \<rparr>
     in case res of
          Inr _ \<Rightarrow> \<lparr> an_w = w, an_error = None, an_aborted = False, an_info = info\<lparr> ri_Status := status \<rparr> \<rparr>
        | Inl err \<Rightarrow>
            (let e = reported_error err in
             if rs_started w then
               \<lparr> an_w = w, an_error = None, an_aborted = (err = PanicError),
                 an_info = info\<lparr> ri_Status := status, ri_Err := err_cause e \<rparr> \<rparr>
             else
               (let doc = s3err_Write (r_Method r) (r_Path r) e requestID;
                    h = (case resp_content_type doc of Some ct \<Rightarrow> header_set ''Content-Type'' ct (rs_header w) | None \<Rightarrow> rs_header w)
                in \<lparr> an_w = rs_WriteHeader (resp_status doc) (w\<lparr> rs_header := h \<rparr>), an_error = Some doc, an_aborted = False,
                     an_info = info\<lparr> ri_Status := resp_status doc, ri_Code := err_code e, ri_Err := err_cause e \<rparr> \<rparr>)))"

definition initial_info :: "http_request \<Rightarrow> string \<Rightarrow> request_info" where
  "initial_info r requestID =
    \<lparr> ri_Method = r_Method r, ri_Path = r_Path r, ri_RemoteAddr = r_RemoteAddr r, ri_RawQuery = [], ri_RequestID = requestID,
      ri_Status = 0, ri_Code = [], ri_Tenant = [], ri_User = [], ri_AccessKeyID = [], ri_Op = None, ri_Err = [] \<rparr>"

definition initial_state :: "http_request \<Rightarrow> string \<Rightarrow> signerCache \<Rightarrow> 'w \<Rightarrow> 'w gstate" where
  "initial_state r requestID c world =
    \<lparr> gs_cache = c, gs_w = \<lparr> rs_header = header_set ''x-amz-request-id'' requestID [], rs_status = None, rs_body = [] \<rparr>,
      gs_world = world, gs_info = initial_info r requestID \<rparr>"

text \<open>A request from its arrival to its answer, on the cache and the world it finds and leaves.\<close>

definition serve ::
  "'w service \<Rightarrow> string \<Rightarrow> gw_request \<Rightarrow> signerCache \<Rightarrow> 'w \<Rightarrow> answer \<times> signerCache \<times> 'w" where
  "serve sv random rq c world =
    (let requestID = newRequestID sv random (rq_r rq) in
     case handleRequest sv rq (initial_state (rq_r rq) requestID c world) of
       (res, s) \<Rightarrow> (report (rq_r rq) requestID res s, gs_cache s, gs_world s))"

end
