(* ===== verification/Gateway_Sound.thy ===== *)
theory Gateway_Sound
  imports Gateway
begin

text \<open>
  What a request through the gateway can do: nothing reaches a backend unauthorized, the record names only proved
  identities, credentials are not recorded, and preflights reveal nothing.
\<close>

section \<open>Nothing reaches a backend unauthorized\<close>

lemma io_bindE:
  assumes "io_bind m f s = (res, s')"
  obtains e where "m s = (Inl e, s')" "res = Inl e" | x s1 where "m s = (Inr x, s1)" "f x s1 = (res, s')"
  using assms by (auto simp: io_bind_def split: prod.splits sum.splits)

lemma g_steps [simp]:
  "g_lift r s = (case r of Inl e \<Rightarrow> (Inl (S3e e), s) | Inr x \<Rightarrow> (Inr x, s))"
  "g_option p s = (case p of None \<Rightarrow> (Inl PanicError, s) | Some x \<Rightarrow> (Inr x, s))"
  "g_header f s = (Inr (), s\<lparr> gs_w := (gs_w s)\<lparr> rs_header := f (rs_header (gs_w s)) \<rparr> \<rparr>)"
  "g_record g s = (Inr (), s\<lparr> gs_info := g (gs_info s) \<rparr>)"
  by (auto simp: g_lift_def g_option_def g_header_def g_record_def split: sum.splits option.splits)

lemma g_target_step: "g_target sv r s = (res, s') \<Longrightarrow> s' = s \<and> (\<forall>t. res = Inr t \<longrightarrow> requestTarget (sv_vhostSuffix sv) r = Inr t)"
  by (auto simp: g_target_def split: sum.splits)

lemma g_client_step:
  "g_client sv b s = (res, s') \<Longrightarrow> s' = s \<and>
    (\<forall>be bc. res = Inr (be, bc) \<longrightarrow> b_Backend b = Some be \<and> gateway_backendClient sv be = Inr bc)"
  by (auto simp: g_client_def elim!: io_bindE split: sum.splits option.splits)

lemma g_verified_step:
  assumes "g_verified verify s = (res, s')"
  shows "gs_cache s' = snd (verify (gs_cache s))" "gs_world s' = gs_world s"
    "res = Inr x \<Longrightarrow> fst (verify (gs_cache s)) = Some (Inr x) \<and> gs_info s' = gs_info s"
    "ri_Tenant (gs_info s') = ri_Tenant (gs_info s)" "ri_User (gs_info s') = ri_User (gs_info s)"
  using assms
  by (auto simp: g_verified_def recordPresentedKey_def split: prod.splits option.splits sum.splits)

lemma g_runOp_frame:
  assumes "g_runOp sv p m s = (res, s')"
  shows "gs_cache s' = gs_cache s" "ri_Tenant (gs_info s') = ri_Tenant (gs_info s)" "ri_User (gs_info s') = ri_User (gs_info s)"
  using assms by (auto simp: g_runOp_def split: prod.splits)

text \<open>
  What dispatch grants an operation it hands on: the actions of the catalogue. An operation that is in no catalogue
  has a handler that only refuses.
\<close>

definition dispatch_granted ::
  "store \<Rightarrow> identity \<Rightarrow> bucket \<Rightarrow> signed_header \<Rightarrow> url_values \<Rightarrow> string \<Rightarrow> dispatched \<Rightarrow> bool" where
  "dispatch_granted st vr b hdr query key d \<longleftrightarrow>
    (op_Operation (d_op d) = OpUnknown \<and> (\<exists>what. d_handle d = H_notImplemented what)) \<or>
    (\<exists>oper. s3op_Lookup (op_Operation (d_op d)) = Some oper \<and>
      target_authorized vr b hdr query key oper d \<and> source_authorized st vr oper d)"

lemma unknown_refused:
  "list_all (\<lambda>(m, rs). list_all (\<lambda>rt. (rt_name rt = OpUnknown \<longrightarrow> (\<exists>what. rt_handle rt = H_notImplemented what)) \<and>
     rt_copy rt \<noteq> OpUnknown) rs) (bucketRoutes_unbound @ objectRoutes_unbound)"
  by (simp add: bucketRoutes_unbound_def objectRoutes_unbound_def operation_route_def unknownOperation_def
      notImplemented_def OpUnknown_def)

lemma bound_unknown_refused:
  assumes "bound_route rt"
  shows "(rt_name rt = OpUnknown \<longrightarrow> (\<exists>what. rt_handle rt = H_notImplemented what)) \<and> rt_copy rt \<noteq> OpUnknown"
proof -
  obtain m rs rt0 where rt0: "(m, rs) \<in> set (bucketRoutes_unbound @ objectRoutes_unbound)" "rt0 \<in> set rs"
      "bind_route rt0 = Some rt"
    using assms by (auto simp: bound_route_def)
  have "rt_handle rt = rt_handle rt0" "rt_copy rt = rt_copy rt0"
    using rt0(3) by (auto simp: bind_route_def bind_copy_def Let_def split: if_splits option.splits)
  then show ?thesis
    using unknown_refused [unfolded list_all_iff, THEN bspec, OF rt0(1)] rt0(2) bind_route_name [OF rt0(3)]
    by (simp add: list_all_iff)
qed

lemma dispatch_granted_dispatch:
  assumes "dispatch st vr b mth hdr query key rts = Some (Inr d)" "(m, rts) \<in> set bucketRoutes \<union> set objectRoutes"
  shows "dispatch_granted st vr b hdr query key d"
proof (cases "op_Operation (d_op d) = OpUnknown")
  case True
  obtain rt where rt: "rt \<in> set rts" "dispatch_route st vr b mth hdr query key rt = Some (Inr d)"
    using assms(1) dispatch_loop_route by (fastforce simp: dispatch_def split: sum.splits)
  note bound = bound_unknown_refused [OF tables_bound [OF assms(2) rt(1)]]
  from rt(2) show ?thesis
    using True bound by (cases rule: dispatch_route_cases) (auto simp: dispatch_granted_def dispatch_op_def)
next
  case False
  then show ?thesis
    using dispatch_grants [OF assms] by (simp add: dispatch_granted_def)
qed

lemma dispatch_request_granted:
  assumes "dispatch_request st vr b r v t = Some (Inr d)"
  shows "dispatch_granted st vr b (newSignedHeader r (ve_SignedHeaders v)) (r_Query r) (t_key t) d"
  using assms
  by (auto simp: dispatch_request_def handleBucketRequest_def handleObjectRequest_def Let_def
      dest!: map_of_SomeD intro: dispatch_granted_dispatch split: if_splits option.splits)

text \<open>
  The three ways a request gets to act. An operation on a bucket: the request is authenticated as an identity, the
  bucket is visible to it, dispatch granted the operation, and what happens is what its handler does on a client
  confined to that operation.
\<close>

definition operation_granted ::
  "(signingKeyID \<Rightarrow> go_error + string) \<Rightarrow> 'w service \<Rightarrow> gw_request \<Rightarrow> 'w gstate \<Rightarrow> go_error + unit \<Rightarrow> 'w gstate \<Rightarrow> bool" where
  "operation_granted spec sv rq s res s' \<longleftrightarrow>
    (\<exists>v vr r t b be bc d s0. authenticated spec (sv_store sv) (rq_r rq) v vr \<and>
      requestTarget (sv_vhostSuffix sv) r = Inr t \<and> resolveBucket (sv_store sv) vr (t_bucket t) = Inr b \<and>
      b_Backend b = Some be \<and> gateway_backendClient sv be = Inr bc \<and>
      dispatch_granted (sv_store sv) vr b (newSignedHeader r (ve_SignedHeaders v)) (r_Query r) (t_key t) d \<and>
      gs_world s0 = gs_world s \<and>
      (let c = request_ctx sv rq r v vr b be t (d_copySource d) in
       g_runOp sv (d_op d) (handle (d_handle d) (confine c bc) c) s0 = (res, s')))"

definition listing_granted ::
  "(signingKeyID \<Rightarrow> go_error + string) \<Rightarrow> 'w service \<Rightarrow> gw_request \<Rightarrow> 'w gstate \<Rightarrow> go_error + unit \<Rightarrow> 'w gstate \<Rightarrow> bool" where
  "listing_granted spec sv rq s res s' \<longleftrightarrow>
    (\<exists>v vr r p s0. authenticated spec (sv_store sv) (rq_r rq) v vr \<and>
      dec_Effect (user_Decide (vr_UserPolicy vr) ''s3:ListAllMyBuckets'') = Effect_Allow \<and>
      gs_world s0 = gs_world s \<and> g_runOp sv p (listBuckets (sv_store sv) r vr) s0 = (res, s'))"

definition upload_granted ::
  "(signingKeyID \<Rightarrow> go_error + string) \<Rightarrow> 'w service \<Rightarrow> gw_request \<Rightarrow> 'w gstate \<Rightarrow> go_error + unit \<Rightarrow> 'w gstate \<Rightarrow> bool" where
  "upload_granted spec sv rq s res s' \<longleftrightarrow>
    (\<exists>form file key v vr pp t b be bc p s0.
      form_authenticated spec (sv_store sv) (rq_now rq) (rq_r rq) form vr pp \<and>
      field form ''key'' = key \<and> field form ''bucket'' = t_bucket t \<and> 
      resolveBucket (sv_store sv) vr (t_bucket t) = Inr b \<and> b_Backend b = Some be \<and> gateway_backendClient sv be = Inr bc \<and>
      c_authorize vr b key ''s3:PutObject'' = Some None \<and>
      (sh_Signed (postFieldHeader form) hdrTagging \<noteq> [] \<longrightarrow> c_authorize vr b key ''s3:PutObjectTagging'' = Some None) \<and>
      gs_world s0 = gs_world s \<and>
      g_runOp sv p (postPutObject (rq_form rq) bc (post_ctx sv rq v vr b be t key) form file pp) s0 = (res, s'))"

definition well_formed_store :: "store \<Rightarrow> bool" where
  "well_formed_store st \<longleftrightarrow>
    (\<forall>tenant n b. GetBucket st tenant n = Inr b \<longrightarrow> bucket_principals b \<and> bucket_effects b) \<and>
    (\<forall>n b. GetBucketByName st n = Inr b \<longrightarrow> bucket_principals b \<and> bucket_effects b)"

lemma resolveBucket_well_formed:
  "well_formed_store st \<Longrightarrow> resolveBucket st vr n = Inr b \<Longrightarrow> bucket_principals b \<and> bucket_effects b"
  by (auto simp: well_formed_store_def resolveBucket_def split: sum.splits if_splits option.splits)

lemma handle_bucket_granted:
  assumes "handle_bucket sv rq v vr r t s = (res, s')" "well_formed_store (sv_store sv)"
    "authenticated spec (sv_store sv) (rq_r rq) v vr" "requestTarget (sv_vhostSuffix sv) r = Inr t"
  shows "gs_world s' = gs_world s \<or> operation_granted spec sv rq s res s'"
proof (cases "resolveBucket (sv_store sv) vr (t_bucket t)")
  case (Inl e)
  then show ?thesis
    using assms(1) by (auto simp: handle_bucket_def elim!: io_bindE)
next
  case (Inr b)
  have confined: "handle h (confine c bc) c = handle h bc c" if "oc_cfg c = b" for h c and bc :: "'a backendClient"
    using handle_confine [of c h bc] resolveBucket_well_formed [OF assms(2) Inr] that by (auto simp: fun_eq_iff)
  from assms(1) obtain res1 s1 where client: "g_client sv b s = (res1, s1)"
      and rest: "case res1 of Inl e \<Rightarrow> s' = s1 | Inr (be, bc) \<Rightarrow>
        io_bind (g_header (\<lambda>h. cors_SetHeaders h r (b_CORS b))) (\<lambda>_.
          io_bind (g_option (dispatch_request (sv_store sv) vr b r v t)) (\<lambda>res. io_bind (g_lift res) (\<lambda>d.
          g_runOp sv (d_op d) (handle (d_handle d) bc (request_ctx sv rq r v vr b be t (d_copySource d)))))) s1 = (res, s')"
    using Inr by (fastforce simp: handle_bucket_def elim!: io_bindE)
  show ?thesis
  proof (cases res1)
    case (Inl e)
    then show ?thesis
      using rest g_client_step [OF client] by simp
  next
    case found: (Inr x)
    obtain be bc where x: "x = (be, bc)"
      by fastforce
    note facts = g_client_step [OF client, unfolded found x, simplified]
    show ?thesis
    proof (cases "gs_world s' = gs_world s")
      case False
      obtain d where d: "dispatch_request (sv_store sv) vr b r v t = Some (Inr d)"
        using rest found x False facts by (auto elim!: io_bindE split: option.splits sum.splits)
      let ?s0 = "s1\<lparr> gs_w := (gs_w s1)\<lparr> rs_header := cors_SetHeaders (rs_header (gs_w s1)) r (b_CORS b) \<rparr> \<rparr>"
      have "g_runOp sv (d_op d) (handle (d_handle d) bc (request_ctx sv rq r v vr b be t (d_copySource d))) ?s0 = (res, s')"
        using rest found x d by (auto elim!: io_bindE)
      moreover have "gs_world ?s0 = gs_world s"
        using facts by simp
      ultimately show ?thesis
        using assms(3,4) Inr facts dispatch_request_granted [OF d] confined [of "request_ctx sv rq r v vr b be t (d_copySource d)"]
        unfolding operation_granted_def Let_def by (metis request_ctx_def opCtx.select_convs(8))
    qed simp
  qed
qed

text \<open>What the rest of a request leaves of the cache and of the identity recorded.\<close>

definition same_record :: "'w gstate \<Rightarrow> 'w gstate \<Rightarrow> bool" where
  "same_record s s' \<longleftrightarrow> gs_cache s' = gs_cache s \<and> ri_Tenant (gs_info s') = ri_Tenant (gs_info s) \<and>
    ri_User (gs_info s') = ri_User (gs_info s)"

lemma same_record_runOp: "g_runOp sv p m s = (res, s') \<Longrightarrow> same_record s s'"
  using g_runOp_frame by (fastforce simp: same_record_def)

lemma handle_bucket_record: "handle_bucket sv rq v vr r t s = (res, s') \<Longrightarrow> same_record s s'"
  by (auto simp: handle_bucket_def elim!: io_bindE dest!: g_client_step same_record_runOp split: sum.splits option.splits)
    (auto simp: same_record_def)

lemma list_buckets_allowed:
  "list_buckets_checks vr r = Inr p \<Longrightarrow> dec_Effect (user_Decide (vr_UserPolicy vr) ''s3:ListAllMyBuckets'') = Effect_Allow"
  by (auto simp: list_buckets_checks_def Let_def guard_err_def split: if_splits)

text \<open>A request after its signature verified: what it does is granted, and its identity is the one recorded.\<close>

lemma handle_signed_verified:
  assumes "handle_signed sv rq s = (res, s')" "well_formed_store (sv_store sv)"
    "g_verified (verifyRequest (sv_hash sv) (rq_now rq) (g_region (sv_g sv)) (sv_store sv) (rq_r rq)) s = (Inr (v, vr, r), s1)"
    "authenticated spec (sv_store sv) (rq_r rq) v vr"
  shows "same_record (s1\<lparr> gs_info := record_identity v vr (gs_info s1) \<rparr>) s' \<and>
    (gs_world s' = gs_world s \<or> listing_granted spec sv rq s res s' \<or> operation_granted spec sv rq s res s')"
proof -
  let ?s1 = "s1\<lparr> gs_info := record_identity v vr (gs_info s1) \<rparr>"
  have world: "gs_world ?s1 = gs_world s"
    using g_verified_step(2) [OF assms(3)] by simp
  have run: "io_bind (g_lift (checkKnownAmzHeaders (g_checksums (sv_g sv)) (newSignedHeader r (ve_SignedHeaders v)))) (\<lambda>_.
      io_bind (g_target sv r) (\<lambda>t.
      if t_bucket t = [] then
        io_bind (g_lift (list_buckets_checks vr r)) (\<lambda>p. g_runOp sv p (listBuckets (sv_store sv) r vr))
      else handle_bucket sv rq v vr r t)) ?s1 = (res, s')"
    using assms(1,3) by (simp add: handle_signed_def)
  show ?thesis
  proof (cases "s' = ?s1")
    case True
    then show ?thesis
      using world by (simp add: same_record_def)
  next
    case False
    then obtain t where t: "requestTarget (sv_vhostSuffix sv) r = Inr t"
        "(if t_bucket t = [] then
            io_bind (g_lift (list_buckets_checks vr r)) (\<lambda>p. g_runOp sv p (listBuckets (sv_store sv) r vr))
          else handle_bucket sv rq v vr r t) ?s1 = (res, s')"
      using run by (auto elim!: io_bindE dest!: g_target_step split: sum.splits)
    show ?thesis
    proof (cases "t_bucket t = []")
      case True
      then obtain p where p: "list_buckets_checks vr r = Inr p" "g_runOp sv p (listBuckets (sv_store sv) r vr) ?s1 = (res, s')"
        using t(2) False by (auto elim!: io_bindE split: sum.splits)
      then show ?thesis
        using world assms(4) list_buckets_allowed same_record_runOp unfolding listing_granted_def by blast
    next
      case bucket: False
      then have handled: "handle_bucket sv rq v vr r t ?s1 = (res, s')"
        using t(2) by simp
      show ?thesis
        using handle_bucket_granted [OF handled assms(2,4) t(1)] handle_bucket_record [OF handled] world
        by (auto simp: operation_granted_def)
    qed
  qed
qed

lemma postObjectRoute_actions:
  "rt_action postObjectRoute = ''s3:PutObject''" "rt_versionAction postObjectRoute = []"
  "(signedPresent hdrTagging, ''s3:PutObjectTagging'') \<in> set (rt_hdrActions postObjectRoute)"
proof -
  obtain oper where oper: "s3op_Lookup ''PostObject'' = Some oper"
      "onTarget oper = [Auth ''s3:PutObject'' OnTarget [] [], Auth ''s3:PutObjectTagging'' OnTarget [] hdrTagging]"
  proof -
    have "map_option onTarget (s3op_Lookup ''PostObject'') =
        Some [Auth ''s3:PutObject'' OnTarget [] [], Auth ''s3:PutObjectTagging'' OnTarget [] hdrTagging]"
      by code_simp
    then show ?thesis
      using that by auto
  qed
  then have bound: "postObjectRoute = (operation_route None None ''PostObject'' (H_notImplemented []))\<lparr> rt_action := ''s3:PutObject'',
      rt_versionAction := [], rt_hdrActions := [(signedPresent hdrTagging, ''s3:PutObjectTagging'')] \<rparr>"
    by (simp add: postObjectRoute_def bind_route_def operation_route_def OpUnknown_def targetAuthorizations_def
        headerPresence_def bind_copy_def hdrTagging_def)
  show "rt_action postObjectRoute = ''s3:PutObject''" "rt_versionAction postObjectRoute = []"
      "(signedPresent hdrTagging, ''s3:PutObjectTagging'') \<in> set (rt_hdrActions postObjectRoute)"
    unfolding bound by simp_all
qed

lemma post_authorized:
  assumes "authorizeRoute (c_authorize vr b key) postObjectRoute hdr False = Some (Inr acts)"
  shows "c_authorize vr b key ''s3:PutObject'' = Some None"
    "sh_Signed hdr hdrTagging \<noteq> [] \<Longrightarrow> c_authorize vr b key ''s3:PutObjectTagging'' = Some None"
  using authorizeRoute_spec [OF assms] postObjectRoute_actions by (fastforce simp: versioned_def signedPresent_def)+

lemma post_form_fields:
  assumes "post_form fe r t = Inr (form, file, key)"
  shows "field form ''key'' = key" "field form ''bucket'' = t_bucket t"
  using assms by (auto simp: post_form_def Let_def guard_err_def field_def map_of_assoc_set split: if_splits prod.splits)

lemma handle_post_record: "handle_post sv rq t form file key v vr pp s = (res, s') \<Longrightarrow> same_record s s'"
  by (auto simp: handle_post_def elim!: io_bindE dest!: g_client_step same_record_runOp split: sum.splits option.splits)
    (auto simp: same_record_def)

lemma handle_post_granted:
  assumes "handle_post sv rq t form file key v vr pp s = (res, s')" "field form ''key'' = key" "field form ''bucket'' = t_bucket t"
    "form_authenticated spec (sv_store sv) (rq_now rq) (rq_r rq) form vr pp"
  shows "gs_world s' = gs_world s \<or> upload_granted spec sv rq s res s'"
proof (cases "gs_world s' = gs_world s")
  case False
  obtain b be bc acts where facts: "resolveBucket (sv_store sv) vr (t_bucket t) = Inr b" "b_Backend b = Some be"
      "gateway_backendClient sv be = Inr bc"
      "authorizeRoute (c_authorize vr b key) postObjectRoute (postFieldHeader form) False = Some (Inr acts)"
      "g_runOp sv (post_op (rq_r rq) vr b form key acts)
        (postPutObject (rq_form rq) bc (post_ctx sv rq v vr b be t key) form file pp)
        (s\<lparr> gs_w := (gs_w s)\<lparr> rs_header := cors_SetHeaders (rs_header (gs_w s)) (rq_r rq) (b_CORS b) \<rparr> \<rparr>) = (res, s')"
    using assms(1) False
    by (auto simp: handle_post_def elim!: io_bindE dest!: g_client_step split: sum.splits option.splits)
  show ?thesis
    unfolding upload_granted_def
    by (rule disjI2, rule exI [of _ form], rule exI [of _ "file"], rule exI [of _ key], rule exI [of _ v], rule exI [of _ vr],
        rule exI [of _ pp], rule exI [of _ t], rule exI [of _ b], rule exI [of _ be], rule exI [of _ bc],
        rule exI [of _ "post_op (rq_r rq) vr b form key acts"],
        rule exI [of _ "s\<lparr> gs_w := (gs_w s)\<lparr> rs_header := cors_SetHeaders (rs_header (gs_w s)) (rq_r rq) (b_CORS b) \<rparr> \<rparr>"])
      (use facts assms(2-4) post_authorized [OF facts(4)] in auto)
qed simp

lemma handlePostObject_verified:
  assumes "handlePostObject sv rq t s = (res, s')" "post_form (rq_form rq) (rq_r rq) t = Inr (form, file, key)"
    "g_verified (verifyPostRequest (sv_hash sv) (rq_now rq) (g_region (sv_g sv)) (sv_store sv) (rq_r rq) form) s = (Inr (v, vr, pp), s1)"
    "form_authenticated spec (sv_store sv) (rq_now rq) (rq_r rq) form vr pp"
  shows "(s' = s1 \<or> same_record (s1\<lparr> gs_info := record_identity v vr (gs_info s1) \<rparr>) s') \<and>
    (gs_world s' = gs_world s \<or> upload_granted spec sv rq s res s')"
proof -
  let ?s1 = "s1\<lparr> gs_info := record_identity v vr (gs_info s1) \<rparr>"
  have world: "gs_world s1 = gs_world s" "gs_world ?s1 = gs_world s"
    using g_verified_step(2) [OF assms(3)] by simp_all
  have run: "io_bind (g_lift (checkKnownAmzHeaders (g_checksums (sv_g sv)) (newSignedHeader (rq_r rq) []))) (\<lambda>_.
      io_bind (g_record (record_identity v vr)) (\<lambda>_. handle_post sv rq t form file key v vr pp)) s1 = (res, s')"
    using assms(1,2,3) by (simp add: handlePostObject_def)
  show ?thesis
  proof (cases "s' = s1")
    case True
    then show ?thesis
      using world by simp
  next
    case False
    then have handled: "handle_post sv rq t form file key v vr pp ?s1 = (res, s')"
      using run by (auto elim!: io_bindE split: sum.splits)
    show ?thesis
      using handle_post_granted [OF handled post_form_fields [OF assms(2)] assms(4)] handle_post_record [OF handled] world(2)
      by (auto simp: upload_granted_def)
  qed
qed

text \<open>The guarantee of a request, and who its record says it is from.\<close>

definition mediated ::
  "(signingKeyID \<Rightarrow> go_error + string) \<Rightarrow> 'w service \<Rightarrow> gw_request \<Rightarrow> 'w gstate \<Rightarrow> go_error + unit \<Rightarrow> 'w gstate \<Rightarrow> bool" where
  "mediated spec sv rq s res s' \<longleftrightarrow> gs_world s' = gs_world s \<or> listing_granted spec sv rq s res s' \<or>
    operation_granted spec sv rq s res s' \<or> upload_granted spec sv rq s res s'"

definition identified ::
  "(signingKeyID \<Rightarrow> go_error + string) \<Rightarrow> 'w service \<Rightarrow> gw_request \<Rightarrow> string \<Rightarrow> string \<Rightarrow> bool" where
  "identified spec sv rq tenant user \<longleftrightarrow>
    (\<exists>vr. vr_Tenant vr = tenant \<and> vr_User vr = user \<and>
      ((\<exists>v. authenticated spec (sv_store sv) (rq_r rq) v vr) \<or>
       (\<exists>form pp. form_authenticated spec (sv_store sv) (rq_now rq) (rq_r rq) form vr pp)))"

definition record_proved ::
  "(signingKeyID \<Rightarrow> go_error + string) \<Rightarrow> 'w service \<Rightarrow> gw_request \<Rightarrow> 'w gstate \<Rightarrow> 'w gstate \<Rightarrow> bool" where
  "record_proved spec sv rq s s' \<longleftrightarrow>
    (ri_Tenant (gs_info s') = ri_Tenant (gs_info s) \<and> ri_User (gs_info s') = ri_User (gs_info s)) \<or>
    identified spec sv rq (ri_Tenant (gs_info s')) (ri_User (gs_info s'))"

lemma handle_signed_spec:
  assumes "handle_signed sv rq s = (res, s')" "well_formed_store (sv_store sv)" "cache_valid spec (gs_cache s)"
    "lookup_agrees spec (secretLookup (sv_store sv))"
  shows "cache_valid spec (gs_cache s') \<and> mediated spec sv rq s res s' \<and> record_proved spec sv rq s s'"
proof -
  let ?verify = "verifyRequest (sv_hash sv) (rq_now rq) (g_region (sv_g sv)) (sv_store sv) (rq_r rq)"
  obtain vres s1 where verified: "g_verified ?verify s = (vres, s1)"
    by fastforce
  obtain pres c1 where verify: "?verify (gs_cache s) = (pres, c1)"
    by fastforce
  note spec' = verifyRequest_spec [OF assms(3,4) verify] and step = g_verified_step [OF verified]
  show ?thesis
  proof (cases vres)
    case (Inl e)
    then have "s' = s1"
      using assms(1) verified by (simp add: handle_signed_def)
    then show ?thesis
      using step(1,2,4,5) verify spec'(1) by (simp add: mediated_def record_proved_def)
  next
    case (Inr x)
    obtain v vr r where x: "x = (v, vr, r)"
      by (cases x) auto
    have auth: "authenticated spec (sv_store sv) (rq_r rq) v vr"
      using step(3) [OF Inr] verify spec'(2) x by simp
    note run = handle_signed_verified [OF assms(1,2) verified [unfolded Inr x] auth]
    then have "gs_cache s' = c1" "ri_Tenant (gs_info s') = vr_Tenant vr" "ri_User (gs_info s') = vr_User vr"
      using step(1) verify by (auto simp: same_record_def record_identity_def)
    then show ?thesis
      using run spec'(1) auth by (auto simp: mediated_def record_proved_def identified_def)
  qed
qed

lemma handlePostObject_spec:
  assumes "handlePostObject sv rq t s = (res, s')" "cache_valid spec (gs_cache s)"
    "lookup_agrees spec (secretLookup (sv_store sv))"
  shows "cache_valid spec (gs_cache s') \<and> mediated spec sv rq s res s' \<and> record_proved spec sv rq s s'"
proof (cases "post_form (rq_form rq) (rq_r rq) t")
  case (Inl e)
  then have "s' = s"
    using assms(1) by (simp add: handlePostObject_def)
  then show ?thesis
    using assms(2) by (simp add: mediated_def record_proved_def)
next
  case (Inr y)
  then obtain form "file" key where form: "post_form (rq_form rq) (rq_r rq) t = Inr (form, file, key)"
    by (cases y) auto
  let ?verify = "verifyPostRequest (sv_hash sv) (rq_now rq) (g_region (sv_g sv)) (sv_store sv) (rq_r rq) form"
  obtain vres s1 where verified: "g_verified ?verify s = (vres, s1)"
    by fastforce
  obtain pres c1 where verify: "?verify (gs_cache s) = (pres, c1)"
    by fastforce
  note spec' = verifyPostRequest_spec [OF assms(2,3) verify] and step = g_verified_step [OF verified]
  show ?thesis
  proof (cases vres)
    case (Inl e)
    then have "s' = s1"
      using assms(1) form verified by (simp add: handlePostObject_def)
    then show ?thesis
      using step(1,2,4,5) verify spec'(1) by (simp add: mediated_def record_proved_def)
  next
    case (Inr x)
    obtain v vr pp where x: "x = (v, vr, pp)"
      by (cases x) auto
    have auth: "form_authenticated spec (sv_store sv) (rq_now rq) (rq_r rq) form vr pp"
      using step(3) [OF Inr] verify spec'(2) x by simp
    note run = handlePostObject_verified [OF assms(1) form verified [unfolded Inr x] auth]
    then have "gs_cache s' = c1" "record_proved spec sv rq s s'"
      using step(1,4,5) verify auth
      by (auto simp: same_record_def record_identity_def record_proved_def identified_def)
    then show ?thesis
      using run spec'(1) by (auto simp: mediated_def)
  qed
qed

lemma handleRequest_spec:
  assumes "handleRequest sv rq s = (res, s')" "well_formed_store (sv_store sv)" "cache_valid spec (gs_cache s)"
    "lookup_agrees spec (secretLookup (sv_store sv))"
  shows "cache_valid spec (gs_cache s') \<and> mediated spec sv rq s res s' \<and> record_proved spec sv rq s s'"
proof -
  consider "handlePreflight sv (rq_r rq) s = (res, s')" | t where "handlePostObject sv rq t s = (res, s')"
    | "handle_signed sv rq s = (res, s')" | "s' = s"
    using assms(1) by (auto simp: handleRequest_def Let_def split: if_splits elim!: io_bindE dest!: g_target_step)
  then show ?thesis
  proof cases
    case 1
    then show ?thesis
      using assms(3) by (auto simp: handlePreflight_def mediated_def record_proved_def split: sum.splits)
  next
    case 2
    then show ?thesis
      using handlePostObject_spec assms(3,4) by blast
  next
    case 3
    then show ?thesis
      using handle_signed_spec assms(2-4) by blast
  next
    case 4
    then show ?thesis
      using assms(3) by (simp add: mediated_def record_proved_def)
  qed
qed

section \<open>Requests one after the other\<close>

text \<open>
  The states of a gateway: a fresh signing-key cache, then requests in any order, while the backend's world may change
  by itself in between.
\<close>

inductive gateway_state :: "'w service \<Rightarrow> signerCache \<Rightarrow> 'w \<Rightarrow> bool" for sv :: "'w service" where
  gateway_start: "gateway_state sv (newSignerCache n) world"
| gateway_request: "gateway_state sv c world \<Longrightarrow> serve sv random rq c world = (a, c', world') \<Longrightarrow> gateway_state sv c' world'"
| gateway_outside: "gateway_state sv c world \<Longrightarrow> gateway_state sv c world'"

lemma serve_handleRequest:
  assumes "serve sv random rq c world = (a, c', world')"
  obtains res s' where
    "handleRequest sv rq (initial_state (rq_r rq) (newRequestID sv random (rq_r rq)) c world) = (res, s')"
    "a = report (rq_r rq) (newRequestID sv random (rq_r rq)) res s'" "c' = gs_cache s'" "world' = gs_world s'"
  using assms by (auto simp: serve_def Let_def split: prod.splits)

lemma initial_state_simps [simp]:
  "gs_cache (initial_state r rid c world) = c" "gs_world (initial_state r rid c world) = world"
  "ri_Tenant (gs_info (initial_state r rid c world)) = []" "ri_User (gs_info (initial_state r rid c world)) = []"
  by (simp_all add: initial_state_def initial_info_def)

lemma gateway_state_valid:
  assumes "gateway_state sv c world" "well_formed_store (sv_store sv)" "lookup_agrees spec (secretLookup (sv_store sv))"
  shows "cache_valid spec c"
  using assms(1)
proof (induction rule: gateway_state.induct)
  case (gateway_start n world)
  then show ?case
    by (rule newSignerCache_valid)
next
  case (gateway_request c world random rq a c' world')
  from gateway_request.hyps(2) obtain res s' where
    "handleRequest sv rq (initial_state (rq_r rq) (newRequestID sv random (rq_r rq)) c world) = (res, s')" "c' = gs_cache s'"
    by (rule serve_handleRequest)
  then show ?case
    using handleRequest_spec [OF _ assms(2) _ assms(3)] gateway_request.IH by fastforce
qed



section \<open>What stays secret\<close>

text \<open>Two queries that differ only in the values of a presigned URL's bearer credentials.\<close>

definition same_but_secrets :: "url_values \<Rightarrow> url_values \<Rightarrow> bool" where
  "same_but_secrets q q' \<longleftrightarrow>
    list_all2 (\<lambda>(k, vs) (k', vs'). k = k' \<and> (to_lower k \<in> {''x-amz-signature'', ''x-amz-security-token''} \<or> vs = vs')) q q'"

text \<open>
  C27. The record does not carry the credentials of a presigned URL: queries that differ only in the values of a signature
  or a security token, in whatever case they are written, are recorded alike.
\<close>

theorem redactQuery_hides:
  assumes "same_but_secrets q q'"
  shows "redactQuery q = redactQuery q'"
proof -
  have "map (\<lambda>(k, vs). (k, if to_lower k \<in> {''x-amz-signature'', ''x-amz-security-token''} then [''REDACTED''] else vs)) q =
      map (\<lambda>(k, vs). (k, if to_lower k \<in> {''x-amz-signature'', ''x-amz-security-token''} then [''REDACTED''] else vs)) q'"
    using assms unfolding same_but_secrets_def by (induction rule: list_all2_induct) auto
  then show ?thesis
    by (simp only: redactQuery_def)
qed

theorem redactQuery_hides_witness:
  "same_but_secrets [(''X-Amz-signature'', [''abc'']), (''a'', [''1''])] [(''X-Amz-signature'', [''def'']), (''a'', [''1''])] \<and>
   redactQuery [(''X-Amz-signature'', [''abc'']), (''a'', [''1''])] = redactQuery [(''X-Amz-signature'', [''def'']), (''a'', [''1''])]"
proof -
  have "same_but_secrets [(''X-Amz-signature'', [''abc'']), (''a'', [''1''])] [(''X-Amz-signature'', [''def'']), (''a'', [''1''])]"
    by code_simp
  then show ?thesis
    using redactQuery_hides by blast
qed

text \<open>A preflight for a bucket that does not exist, or none of whose rules matches.\<close>

definition no_cors :: "store \<Rightarrow> http_request \<Rightarrow> string \<Rightarrow> bool" where
  "no_cors st r n \<longleftrightarrow>
    (case GetBucketByName st n of
       Inl e \<Rightarrow> errors_is e ErrNotFound
     | Inr b \<Rightarrow> cors_Match (b_CORS b) (header_get (r_Header r) ''Origin'')
         (header_get (r_Header r) ''Access-Control-Request-Method'') = None)"

text \<open>
  C28. Preflights, which need no authentication, tell no more than the decision: whether a bucket does not exist, has no
  rules or has none that matches, in whichever store, the answer is the same.
\<close>

theorem preflight_no_probing:
  assumes "sv_vhostSuffix sv = sv_vhostSuffix sv'"
    and "\<And>t. requestTarget (sv_vhostSuffix sv) r = Inr t \<Longrightarrow>
      no_cors (sv_store sv) r (t_bucket t) \<and> no_cors (sv_store sv') r (t_bucket t)"
  shows "handlePreflight sv r s = handlePreflight sv' r s"
proof -
  have "preflight sv r h = preflight sv' r h" for h
  proof (cases "requestTarget (sv_vhostSuffix sv) r")
    case (Inr t)
    then show ?thesis
      using assms(2) [OF Inr] assms(1)
      by (auto simp: preflight_def no_cors_def AllowPreflight_def guard_err_def Let_def split: sum.splits)
  qed (use assms(1) in \<open>simp add: preflight_def\<close>)
  then show ?thesis
    by (simp add: handlePreflight_def)
qed

section \<open>A form through the gateway\<close>

text \<open>The bucket of the examples with its backend, a user of its tenant, and the form of the example policy.\<close>

definition example_front :: bucket where
  "example_front = example_bucket\<lparr> b_Backend := Some example_backend \<rparr>"

definition example_user_key :: key where
  "example_user_key = \<lparr> k_AccessKeyID = ''AK1'', k_SecretAccessKey = ''secret'', k_SigningKey = None, k_SecretVersion = [],
    k_Tenant = ''ta'', k_User = ''alice'', k_SessionToken = [], k_Policy = None \<rparr>"

definition example_front_store :: store where
  "example_front_store = \<lparr> GetKey = (\<lambda>akid token. if akid = ''AK1'' then Inr example_user_key else Inl ErrNotFound),
    GetBucket = (\<lambda>t n. if t = ''ta'' \<and> n = ''b'' then Inr example_front else Inl ErrNotFound),
    GetBucketByName = (\<lambda>n. if n = ''b'' then Inr example_front else Inl ErrNotFound),
    ListBuckets = (\<lambda>_. Inr []) \<rparr>"

definition example_service :: "string list backendClient \<Rightarrow> string list service" where
  "example_service bc = \<lparr> sv_g = example_gateway, sv_store = example_front_store, sv_vhostSuffix = [], sv_hash = (\<lambda>_. 0),
    sv_clients_Get = (\<lambda>_. None), sv_clients_PeekOrAdd = (\<lambda>_ _. None), sv_newClient = (\<lambda>_. Inr (example_bucket_client bc)),
    sv_authorizer = None, sv_bandwidthLimit = None, sv_interceptors = [], sv_transferred = (\<lambda>_. (0, 0)), sv_requestID = None \<rparr>"

definition example_part :: "string \<Rightarrow> string \<Rightarrow> string \<Rightarrow> form_part" where
  "example_part name filename data = \<lparr> fp_name = name, fp_filename = filename, fp_body = \<lparr> wi_inp = data, wi_fin = EOF \<rparr> \<rparr>"

definition example_post_http :: http_request where
  "example_post_http = \<lparr> r_Method = ''POST'', r_Host = ''s3.example.com'', r_Path = ''/b'', r_EscapedPath = ''/b'', r_Opaque = [],
    r_RawQuery = [], r_Header = [], r_RemoteAddr = ''10.0.0.1:4000'', r_ContentLength = 0 \<rparr>"

definition example_post_request :: gw_request where
  "example_post_request =
    \<lparr> rq_r = example_post_http,
      rq_tls = True, rq_body = \<lparr> wi_inp = [], wi_fin = EOF \<rparr>, rq_now = 1709208000000000000 + 100 * Second,
      rq_env = example_env \<lparr> drq_Quiet = False, drq_Objects = [] \<rparr>,
      rq_form = example_form_env\<lparr> fe_multipart := Inr
        (map (\<lambda>(k, v). example_part k [] v) (example_form example_post_sig) @ [example_part ''file'' ''f'' ''hello''], EOF) \<rparr> \<rparr>"

lemma example_post_request_sel [simp]:
  "rq_r example_post_request = example_post_http" "rq_now example_post_request = 1709208000000000000 + 100 * Second"
  "fe_mediaType (rq_form example_post_request) = fe_mediaType example_form_env"
  "fe_sent (rq_form example_post_request) = fe_sent example_form_env"
  by (simp_all add: example_post_request_def)

lemma example_read_form:
  "readPostForm (rq_form example_post_request) = Inr (example_form example_post_sig, \<lparr> wi_inp = ''hello'', wi_fin = EOF \<rparr>, ''f'')"
proof -
  have lower: "to_lower ''key'' = ''key''" "to_lower ''bucket'' = ''bucket''" "to_lower ''x-amz-algorithm'' = ''x-amz-algorithm''"
    "to_lower ''x-amz-credential'' = ''x-amz-credential''" "to_lower ''x-amz-date'' = ''x-amz-date''"
    "to_lower ''policy'' = ''policy''" "to_lower ''x-amz-signature'' = ''x-amz-signature''" "to_lower ''file'' = ''file''"
    by code_simp+
  have "length example_policy_field \<le> maxPostFieldBytes" "maxPostFieldBytes = 32768"
    by code_simp+
  then show ?thesis
    using example_post_sig_length
    by (simp add: readPostForm_def example_post_request_def example_form_def example_part_def lower maxPostFields_def)
qed

lemma example_post_form:
  "post_form (rq_form example_post_request) example_post_http \<lparr> t_bucket = ''b'', t_key = [], t_vhost = False \<rparr> =
    Inr (example_form example_post_sig, \<lparr> wi_inp = ''hello'', wi_fin = EOF \<rparr>, ''u/k'')"
proof -
  have params: "paramSet_check [] (r_Query example_post_http) = Inr ()"
      "checkSSEC (newSignedHeader example_post_http []) = Inr ()"
    by code_simp+
  have ignore: "filter (\<lambda>(k, v). \<not> has_prefix k ''x-ignore-'') (example_form sig) = example_form sig"
      "replace_all ''u/k'' ''${filename}'' ''f'' = ''u/k''" "field (example_form sig) ''key'' = ''u/k''"
      "assoc_set ''bucket'' ''b'' (assoc_set ''key'' ''u/k'' (example_form sig)) = example_form sig" for sig
    by code_simp+
  show ?thesis
    by (simp add: post_form_def params example_read_form ignore guard_err_def Let_def)
qed

lemma example_lookup_front: "secretLookup example_front_store ''AK1'' [] = Inr example_cred"
  by (simp add: secretLookup_def example_front_store_def key_credential_def example_user_key_def example_cred_def)

lemma example_agrees: "lookup_agrees (derive_key None) (secretLookup example_front_store)"
  by (auto simp: lookup_agrees_def secretLookup_def example_front_store_def key_credential_def example_user_key_def
      split: sum.splits if_splits)

lemma example_front_ok: "well_formed_store example_front_store"
  using example_bucket_ok
  by (auto simp: well_formed_store_def example_front_store_def example_front_def bucket_principals_def bucket_effects_def
      split: if_splits)

abbreviation example_identity :: identity where
  "example_identity \<equiv> key_identity example_post_http example_user_key"

lemma example_verifyPostRequest:
  "\<exists>v c'. verifyPostRequest (\<lambda>_. 0) (rq_now example_post_request) [] example_front_store example_post_http
    (example_form example_post_sig) (newSignerCache 1) = (Some (Inr (v, example_identity, example_post)), c')"
proof -
  obtain v c' where verify: "VerifyPost (\<lambda>_. 0) (1709208000000000000 + 100 * Second) [] (secretLookup example_front_store)
      (example_form example_post_sig) (newSignerCache 1) = (Inr (v, example_post), c')" "ve_AccessKeyID v = ''AK1''"
    using example_VerifyPost [of "secretLookup example_front_store", OF example_lookup_front, of "\<lambda>_. 0"] by (metis prod.collapse)
  have token: "field (example_form sig) ''x-amz-security-token'' = []" for sig
    by (simp add: example_form_def field_def)
  show ?thesis
    by (simp add: verifyPostRequest_def verify token) (simp add: example_front_store_def)
qed

lemma example_post_granted:
  "post_field_checks (example_form sig) = Inr ()"
  "authorizeRoute (c_authorize example_identity example_front ''u/k'') postObjectRoute (postFieldHeader (example_form sig)) False =
    Some (Inr [''s3:PutObject''])"
  by code_simp+

lemma example_post_stored:
  "\<exists>out s'. postPutObject (rq_form example_post_request) (example_bucket_client bc) (post_ctx (example_service bc) example_post_request
      v example_identity example_front example_backend t ''u/k'') (example_form example_post_sig)
      \<lparr> wi_inp = ''hello'', wi_fin = EOF \<rparr> example_post \<lparr> hs_op = p, hs_w = w, hs_world = [] \<rparr> = (Inr out, s') \<and>
    hs_world s' = [''hello'']"
proof -
  let ?c = "post_ctx (example_service bc) example_post_request v example_identity example_front example_backend t ''u/k''"
  have sse: "applySSE None (postFieldHeader (example_form sig)) = Inr ([], None)" for sig
    by code_simp
  obtain i where i: "postPutObject_input ?c p (example_form example_post_sig) \<lparr> wi_inp = ''hello'', wi_fin = EOF \<rparr> example_post = Inr i"
      "poi_Body i = Body_bounded \<lparr> lb_r = \<lparr> wi_inp = ''hello'', wi_fin = EOF \<rparr>, lb_n = 0, lb_max = 1000 \<rparr>"
    by (simp add: postPutObject_input_def post_ctx_def example_service_def example_gateway_def sse bounded_body_def example_post_def)
  have reads: "body_reads example_script (poi_Body i) =
      (''hello'', Some EOF, Body_bounded \<lparr> lb_r = \<lparr> wi_inp = [], wi_fin = EOF \<rparr>, lb_n = 5, lb_max = 1000 \<rparr>)"
    by (simp add: i(2) example_script_def lb_Read_def wire_Read_def)
  have "pp_MinLength example_post = 1"
    by (simp add: example_post_def)
  then show ?thesis
    by (simp add: postPutObject_def h_op_def h_lift_def i(1) h_call_def example_bucket_client_def reads example_form_env_def
        h_setResponse_def h_write_def)
qed

lemma example_post_steps:
  "r_Method example_post_http = ''POST''" "isMultipartForm (rq_form example_post_request) example_post_http"
  "requestTarget [] example_post_http = Inr \<lparr> t_bucket = ''b'', t_key = [], t_vhost = False \<rparr>"
  "checkKnownAmzHeaders no_checksums (newSignedHeader example_post_http []) = Inr ()"
proof -
  show "isMultipartForm (rq_form example_post_request) example_post_http"
    by (simp add: isMultipartForm_def) (simp add: example_form_env_def)
qed code_simp+

lemma example_service_sel [simp]:
  "sv_store (example_service bc) = example_front_store" "sv_vhostSuffix (example_service bc) = []"
  "g_region (sv_g (example_service bc)) = []" "g_checksums (sv_g (example_service bc)) = no_checksums"
  "sv_hash (example_service bc) = (\<lambda>_. 0)"
  "gateway_backendClient (example_service bc) be = Inr (example_bucket_client bc)"
  by (simp_all add: example_service_def example_gateway_def gateway_backendClient_def)

text \<open>The upload is served: the file is stored and the record names its user.\<close>

lemma example_post_served:
  "\<exists>s'. handleRequest (example_service bc) example_post_request (initial_state example_post_http rid (newSignerCache 1) []) =
      (Inr (), s') \<and> gs_world s' = [''hello''] \<and> ri_Tenant (gs_info s') = ''ta'' \<and> ri_User (gs_info s') = ''alice''"
proof -
  let ?sv = "example_service bc" and ?rq = example_post_request and ?t = "\<lparr> t_bucket = ''b'', t_key = [], t_vhost = False \<rparr>"
  let ?s = "initial_state example_post_http rid (newSignerCache 1) ([] :: string list)"
  let ?form = "example_form example_post_sig" and ?file = "\<lparr> wi_inp = ''hello'', wi_fin = EOF \<rparr>"
  obtain v c' where verify: "verifyPostRequest (\<lambda>_. 0) (rq_now ?rq) [] example_front_store example_post_http ?form (newSignerCache 1) =
      (Some (Inr (v, example_identity, example_post)), c')"
    using example_verifyPostRequest by blast
  let ?s1 = "?s\<lparr> gs_cache := c' \<rparr>"
  let ?s2 = "?s1\<lparr> gs_info := record_identity v example_identity (gs_info ?s1) \<rparr>"
  have "g_verified (verifyPostRequest (\<lambda>_. 0) (rq_now ?rq) [] example_front_store example_post_http ?form) ?s =
      (Inr (v, example_identity, example_post), ?s1)"
    using verify by (simp add: g_verified_def)
  then have post: "handlePostObject ?sv ?rq ?t ?s = handle_post ?sv ?rq ?t ?form ?file ''u/k'' v example_identity example_post ?s2"
    by (simp add: handlePostObject_def example_post_form example_post_steps)
  have bucket: "resolveBucket example_front_store example_identity ''b'' = Inr example_front"
    by (simp add: resolveBucket_def example_front_store_def key_identity_def example_user_key_def)
  have front: "b_Backend example_front = Some example_backend" "b_CORS example_front = []"
    by (simp_all add: example_front_def example_bucket_def)
  have hooks: "sv_authorizer ?sv = None" "sv_bandwidthLimit ?sv = None" "sv_interceptors ?sv = []"
      "sv_transferred ?sv = (\<lambda>_. (0, 0))"
    by (simp_all add: example_service_def)
  let ?c = "post_ctx ?sv ?rq v example_identity example_front example_backend ?t ''u/k''"
  have run: "handle_post ?sv ?rq ?t ?form ?file ''u/k'' v example_identity example_post ?s2 =
      g_runOp ?sv (post_op example_post_http example_identity example_front ?form ''u/k'' [''s3:PutObject''])
        (postPutObject (rq_form ?rq) (example_bucket_client bc) ?c ?form ?file example_post)
        (?s2\<lparr> gs_w := (gs_w ?s2)\<lparr> rs_header := cors_SetHeaders (rs_header (gs_w ?s2)) example_post_http [] \<rparr> \<rparr>)"
    by (simp add: handle_post_def bucket g_client_def front example_post_granted)
  have stored: "\<exists>s'. postPutObject (rq_form ?rq) (example_bucket_client bc) ?c ?form ?file example_post
      \<lparr> hs_op = p, hs_w = w, hs_world = [] \<rparr> = (Inr (), s') \<and> hs_world s' = [''hello'']" for p w
    using example_post_stored [of bc v ?t p w] by simp
  obtain s' where s': "handle_post ?sv ?rq ?t ?form ?file ''u/k'' v example_identity example_post ?s2 = (Inr (), s')"
      "gs_world s' = [''hello'']"
    using stored [of "post_op example_post_http example_identity example_front ?form ''u/k'' [''s3:PutObject'']"
        "(gs_w ?s2)\<lparr> rs_header := cors_SetHeaders (rs_header (gs_w ?s2)) example_post_http [] \<rparr>"]
    unfolding run g_runOp_def runOp_def hooks by (auto simp: counted_def as_step_def split: prod.splits)
  have "ri_Tenant (gs_info s') = ''ta''" "ri_User (gs_info s') = ''alice''"
    using handle_post_record [OF s'(1)]
    by (simp_all add: same_record_def record_identity_def key_identity_def example_user_key_def)
  then show ?thesis
    using s' post by (simp add: handleRequest_def example_post_steps g_target_def)
qed



definition example_preflight_http :: http_request where
  "example_preflight_http = example_post_http\<lparr> r_Method := ''OPTIONS'', r_Header := example_preflight \<rparr>"

theorem preflight_no_probing_witness:
  "\<forall>bc s. handlePreflight (example_service bc) example_preflight_http s =
    handlePreflight (example_service bc\<lparr> sv_store := example_front_store\<lparr> GetBucketByName := (\<lambda>_. Inl ErrNotFound) \<rparr> \<rparr>)
      example_preflight_http s"
proof (intro allI preflight_no_probing)
  fix bc :: "string list backendClient" and t
  assume "requestTarget (sv_vhostSuffix (example_service bc)) example_preflight_http = Inr t"
  moreover have "requestTarget [] example_preflight_http = Inr \<lparr> t_bucket = ''b'', t_key = [], t_vhost = False \<rparr>"
    by code_simp
  ultimately have "t_bucket t = ''b''"
    by auto
  then show "no_cors (sv_store (example_service bc)) example_preflight_http (t_bucket t) \<and>
      no_cors (sv_store (example_service bc\<lparr> sv_store := example_front_store\<lparr> GetBucketByName := (\<lambda>_. Inl ErrNotFound) \<rparr> \<rparr>))
        example_preflight_http (t_bucket t)"
    by (simp add: no_cors_def example_front_store_def example_front_def example_bucket_def errors_is_def ErrNotFound_def)
qed simp

end
