(* ===== verification/Config_Sound.thy ===== *)
theory Config_Sound
  imports Config Gateway_Sound
begin

text \<open>
  What an accepted configuration promises the gateway: the store built from it never panics, keeps the contract of
  \<open>src/store/store.go\<close>, and keeps the tenants' data apart.
\<close>

section \<open>Errors that are not about unknown actions\<close>

text \<open>
  Validation treats an error about an unknown action as a warning, on the ground that the rest of the policy is then
  valid: no other error of parsing wraps that sentinel.
\<close>

definition other_error :: "go_error + 'a \<Rightarrow> bool" where
  "other_error r \<longleftrightarrow> (\<forall>e. r = Inl e \<longrightarrow> \<not> errors_is e ErrUnknownAction)"

lemma errors_is_Errorf [simp]:
  "errors_is (Errorf t es) ErrUnknownAction \<longleftrightarrow> (\<exists>e\<in>set es. errors_is e ErrUnknownAction)"
  by (auto simp: errors_is_def ErrUnknownAction_def)

lemma errors_is_type [simp]: "\<not> errors_is json_type_error ErrUnknownAction"
  by (simp add: errors_is_def ErrUnknownAction_def json_type_error_def)

lemma other_error_simps [simp]:
  "other_error (Inr x)" "other_error (Inl e) \<longleftrightarrow> \<not> errors_is e ErrUnknownAction"
  "other_error (guard_err b e k) \<longleftrightarrow> (if b then \<not> errors_is e ErrUnknownAction else other_error k)"
  by (auto simp: other_error_def guard_err_def)

lemma other_errorD: "other_error r \<Longrightarrow> r = Inl e \<Longrightarrow> \<not> errors_is e ErrUnknownAction"
  by (simp add: other_error_def)

lemma other_error_and_then: "other_error r \<Longrightarrow> (\<And>x. r = Inr x \<Longrightarrow> other_error (f x)) \<Longrightarrow> other_error (and_then r f)"
  by (cases r) auto

lemma other_error_guard: "\<not> errors_is e ErrUnknownAction \<Longrightarrow> other_error k \<Longrightarrow> other_error (guard_err b e k)"
  by simp

lemma other_error_for_each: "(\<And>x. x \<in> set xs \<Longrightarrow> other_error (f x)) \<Longrightarrow> other_error (for_each f xs)"
  by (induction xs) (auto intro!: other_error_and_then)

lemma other_error_map_res: "(\<And>x. x \<in> set xs \<Longrightarrow> other_error (f x)) \<Longrightarrow> other_error (map_res f xs)"
  by (induction xs) (auto intro!: other_error_and_then)

lemma other_error_fold_res: "(\<And>x b. x \<in> set xs \<Longrightarrow> other_error (f x b)) \<Longrightarrow> other_error (fold_res f xs b)"
  by (induction xs arbitrary: b) (auto intro!: other_error_and_then)

lemma other_error_named: "other_error r \<Longrightarrow> other_error (named name r)"
  by (cases r) (auto simp: named_def stmt_wrap_def)

lemmas other_error_intros = other_error_and_then other_error_for_each other_error_map_res other_error_fold_res other_error_named

lemma other_error_decoders:
  "other_error (decode_string v old)" "other_error (StringOrSlice_Unmarshal v)"
proof -
  show decode: "other_error (decode_string v old)" for v old
    by (cases "(v, old)" rule: decode_string.cases) auto
  show "other_error (StringOrSlice_Unmarshal v)"
    by (cases v) (auto intro!: other_error_map_res decode)
qed

lemma other_error_string_map: "other_error (decode_string_map v)"
  by (cases v) (auto intro!: other_error_intros other_error_decoders)

lemma other_error_condition_keys: "other_error (condition_keys kvs dst)"
  by (induction kvs dst rule: condition_keys.induct) auto

lemma other_error_condition_ops: "other_error (condition_ops ops c)"
  by (induction ops c rule: condition_ops.induct)
    (auto simp: Let_def intro!: other_error_and_then other_error_condition_keys)

lemma other_error_Condition: "other_error (Condition_UnmarshalJSON v)"
proof -
  have decode: "other_error (map_res (\<lambda>(op, w). and_then (decode_string_map w) (\<lambda>m. Inr (op, m))) xs)" for xs
    by (auto intro!: other_error_intros other_error_string_map)
  show ?thesis
    using other_errorD [OF decode]
    by (auto simp: Condition_UnmarshalJSON_def malformed_def other_error_condition_ops split: json.splits sum.splits)
qed

lemma other_error_statement: "other_error (decode_statement v rs)"
proof -
  have "other_error (decode_member kv rs)" for kv rs
    by (cases "(kv, rs)" rule: decode_member.cases)
      (auto intro!: other_error_and_then other_error_decoders other_error_Condition)
  then show ?thesis
    by (cases "(v, rs)" rule: decode_statement.cases) (auto intro!: other_error_fold_res)
qed

lemma other_error_statements: "other_error (decode_statements vs old)"
  by (induction vs old rule: decode_statements.induct)
    (auto simp: Let_def intro!: other_error_and_then other_error_statement split: list.splits)

lemma other_error_document: "other_error (decode_document src)"
proof -
  have "other_error (decode_doc_member kv x)" for kv x
    by (cases "(kv, x)" rule: decode_doc_member.cases)
      (auto intro!: other_error_and_then other_error_decoders other_error_statements split: json.splits)
  then show ?thesis
    by (auto simp: decode_document_def intro!: other_error_fold_res split: option.splits json.splits)
qed

lemma other_error_principal: "other_error (decodePrincipal default_dialect data)"
  using other_errorD [OF other_error_string_map]
  by (auto simp: decodePrincipal_def default_dialect_def principal_error_def malformed_def Let_def
      simp del: decode_string_map.simps split: option.splits json.splits sum.splits)

lemma other_error_parse_statement: "other_error (parse_statement default_dialect x)"
  by (cases x)
    (auto simp: parse_statement_def Let_def strip_resources_def normalize_resources_def default_dialect_def
      intro!: other_error_and_then other_error_named other_error_principal [unfolded default_dialect_def])

lemma other_error_compile: "snd (condition_compile c) = Some e \<Longrightarrow> \<not> errors_is e ErrUnknownAction"
proof -
  have "other_error (parseIPValue v)" for v
    by (auto simp: parseIPValue_def Let_def split: option.splits)
  then have "other_error (parsePrefixes vs)" for vs
    by (auto simp: parsePrefixes_def intro!: other_error_map_res)
  from other_errorD [OF this] show "snd (condition_compile c) = Some e \<Longrightarrow> \<not> errors_is e ErrUnknownAction"
    by (auto simp: condition_compile_def split: sum.splits)
qed

lemma other_error_actions: "other_error (for_each validateAction as)"
  by (auto simp: validateAction_def intro!: other_error_for_each)

lemma other_error_stmt_error [simp]: "\<not> errors_is (stmt_error fmt name args) ErrUnknownAction"
  by (simp add: stmt_error_def)

lemma other_error_validatePrincipal: "other_error (validatePrincipal pr name)"
  by (auto simp: validatePrincipal_def intro!: other_error_for_each split: option.splits)

lemma other_error_validateCondition: "other_error (validateCondition c name)"
  by (auto simp: validateCondition_def stmt_wrap_def dest!: other_error_compile split: option.splits)

lemma other_error_validate_statement: "other_error (statement_validate st name)"
proof -
  have res: "other_error (for_each (\<lambda>res. if MaxPatternLen < length res
      then Inl (stmt_error f name (args res)) else Inr ()) ress)" for f args ress
    by (auto intro!: other_error_for_each)
  have cond: "other_error (case st_Condition st of None \<Rightarrow> Inr () | Some c \<Rightarrow> validateCondition c name)"
    by (simp add: other_error_validateCondition split: option.splits)
  have prin: "other_error (for_each (\<lambda>pr. validatePrincipal pr name) prs)" for prs
    by (intro other_error_for_each other_error_validatePrincipal)
  note acts = other_error_named [OF other_error_actions]
  show ?thesis
    unfolding statement_validate_def
    by (intro other_error_guard other_error_and_then other_error_stmt_error res cond prin acts)
qed

lemma other_error_validate: "other_error (policy_validate p)"
proof -
  have "other_error (validate_statements i sts sids)" for i sts sids
    by (induction i sts sids rule: validate_statements.induct)
      (auto intro!: other_error_and_then other_error_validate_statement split: option.splits)
  then show ?thesis
    by (simp add: policy_validate_def)
qed

lemma other_error_resources: "other_error (ValidateResourcesFor p n)"
  by (auto simp: ValidateResourcesFor_def stmt_error_def intro!: other_error_for_each)

text \<open>A policy that parses but for its unknown actions parses when actions are not checked, and is well formed.\<close>

definition unknown_only :: "go_error + 'a \<Rightarrow> bool" where
  "unknown_only r \<longleftrightarrow> (case r of Inr _ \<Rightarrow> True | Inl err \<Rightarrow> errors_is err ErrUnknownAction)"

lemma unknown_only_and_then:
  "unknown_only (and_then r f) \<Longrightarrow> other_error r \<Longrightarrow> \<exists>x. r = Inr x \<and> unknown_only (f x)"
  by (cases r) (auto simp: unknown_only_def)

lemma policy_Parse_unchecked:
  assumes "unknown_only (policy_Parse n src check)"
  shows "\<exists>p. policy_Parse n src None = Inr p \<and> policy_wf p"
proof -
  have len: "\<not> MaxPolicyBytes < length src"
    using assms by (auto simp: policy_Parse_def dialect_Parse_def unknown_only_def)
  obtain ver rss where doc: "decode_document src = Inr (ver, rss)"
    using assms len other_errorD [OF other_error_document [of src]]
    by (cases "decode_document src") (auto simp: policy_Parse_def dialect_Parse_def unknown_only_def malformed_def)
  have parse: "other_error (map_res (parse_statement default_dialect) xs)" for xs
    by (intro other_error_map_res other_error_parse_statement)
  have "unknown_only (and_then (map_res (parse_statement default_dialect) (indexed rss)) (\<lambda>sts.
      let p = \<lparr> pol_Version = ver, pol_Statement = sts \<rparr> in
      and_then (policy_validate p) (\<lambda>_. and_then (ValidateResourcesFor p n) (\<lambda>_.
      and_then (checkActions check (map (\<lambda>st. (st_Action st, st_Sid st)) (pol_Statement p))) (\<lambda>_. Inr p)))))"
    using assms len doc by (simp add: policy_Parse_def dialect_Parse_def)
  from unknown_only_and_then [OF this parse] obtain sts where sts: "map_res (parse_statement default_dialect) (indexed rss) = Inr sts"
      "unknown_only (and_then (policy_validate \<lparr> pol_Version = ver, pol_Statement = sts \<rparr>) (\<lambda>_.
        and_then (ValidateResourcesFor \<lparr> pol_Version = ver, pol_Statement = sts \<rparr> n) (\<lambda>_.
        and_then (checkActions check (map (\<lambda>st. (st_Action st, st_Sid st)) sts)) (\<lambda>_.
          Inr \<lparr> pol_Version = ver, pol_Statement = sts \<rparr>))))"
    by (auto simp: Let_def)
  from unknown_only_and_then [OF sts(2) other_error_validate]
  have valid: "policy_validate \<lparr> pol_Version = ver, pol_Statement = sts \<rparr> = Inr ()"
      "unknown_only (and_then (ValidateResourcesFor \<lparr> pol_Version = ver, pol_Statement = sts \<rparr> n) (\<lambda>_.
        and_then (checkActions check (map (\<lambda>st. (st_Action st, st_Sid st)) sts)) (\<lambda>_.
          Inr \<lparr> pol_Version = ver, pol_Statement = sts \<rparr>)))"
    by auto
  from unknown_only_and_then [OF valid(2) other_error_resources]
  have "ValidateResourcesFor \<lparr> pol_Version = ver, pol_Statement = sts \<rparr> n = Inr ()"
    by auto
  then show ?thesis
    using len doc sts(1) valid(1) policy_validate_wf [OF valid(1)]
    by (simp add: policy_Parse_def dialect_Parse_def checkActions_def guard_err_def)
qed

section \<open>What validation checks\<close>

definition user_key_ids :: "userConfig \<Rightarrow> string list" where
  "user_key_ids u = map kc_AccessKeyID (uc_Keys u)"

definition key_ids :: "tenantConfig \<Rightarrow> string list" where
  "key_ids t = concat (map user_key_ids (tc_Users t))"

definition bucket_ids :: "tenantConfig \<Rightarrow> string list" where
  "bucket_ids t = map bcf_Name (tc_Buckets t)"

definition secrets_set :: "userConfig list \<Rightarrow> bool" where
  "secrets_set us \<longleftrightarrow> list_all (\<lambda>u. list_all (\<lambda>k. kc_SecretAccessKey k \<noteq> []) (uc_Keys u)) us"

definition bucket_ok :: "bucketConfig \<Rightarrow> bool" where
  "bucket_ok b \<longleftrightarrow> bucketNameRegexp (bcf_Name b) \<and> bcf_Backend b \<noteq> None \<and>
    (bcf_Policy b = [] \<or> (\<exists>p. policy_Parse (bcf_Name b) (bcf_Policy b) None = Inr p \<and> policy_wf p))"

text \<open>Every owner recorded for a physical bucket is the one the lookup finds.\<close>

definition owners_ok :: "configNames \<Rightarrow> bool" where
  "owners_ok n \<longleftrightarrow> (\<forall>(target, owner)\<in>set (cn_backendOwner n). map_of (cn_backendOwner n) target = Some owner)"

lemma wrap_err_Inr [simp]: "wrap_err t r = Inr x \<longleftrightarrow> r = Inr x"
  by (auto simp: wrap_err_def split: sum.splits)

lemma splitUnknownActions_Inr:
  assumes "splitUnknownActions r pre n = Inr n'"
  shows "cn_keyIDs n' = cn_keyIDs n" "cn_bucketNames n' = cn_bucketNames n" "cn_backendOwner n' = cn_backendOwner n"
    "unknown_only r"
  using assms by (auto simp: splitUnknownActions_def unknown_only_def split: sum.splits if_splits)

lemma validate_keys:
  assumes "fold_res validate_key ks n = Inr n'"
  shows "n' = n\<lparr> cn_keyIDs := rev (map kc_AccessKeyID ks) @ cn_keyIDs n \<rparr> \<and>
    (distinct (cn_keyIDs n) \<longrightarrow> distinct (cn_keyIDs n')) \<and> list_all (\<lambda>k. kc_SecretAccessKey k \<noteq> []) ks"
  using assms
proof (induction ks arbitrary: n)
  case (Cons k ks)
  then obtain n1 where n1: "validate_key k n = Inr n1" "fold_res validate_key ks n1 = Inr n'"
    by auto
  then show ?case
    using Cons.IH [OF n1(2)] by (auto simp: validate_key_def simp del: distinct_append)
qed simp

lemma validateUser_facts:
  assumes "validateUser tenant u n = Inr n'"
  shows "cn_keyIDs n' = rev (user_key_ids u) @ cn_keyIDs n \<and> (distinct (cn_keyIDs n) \<longrightarrow> distinct (cn_keyIDs n')) \<and>
    cn_bucketNames n' = cn_bucketNames n \<and> cn_backendOwner n' = cn_backendOwner n \<and>
    list_all (\<lambda>k. kc_SecretAccessKey k \<noteq> []) (uc_Keys u)"
proof -
  obtain n1 where n1: "fold_res validate_key (uc_Keys u) n = Inr n1"
    using assms by (auto simp: validateUser_def)
  then have "cn_keyIDs n' = cn_keyIDs n1" "cn_bucketNames n' = cn_bucketNames n1" "cn_backendOwner n' = cn_backendOwner n1"
    using assms by (auto simp: validateUser_def Let_def dest: splitUnknownActions_Inr split: if_splits)
  then show ?thesis
    using validate_keys [OF n1] by (auto simp: user_key_ids_def simp del: distinct_append)
qed

lemma validate_users:
  assumes "fold_res (validate_user_entry tenant) us (names, n) = Inr (names', n')"
  shows "cn_keyIDs n' = rev (concat (map user_key_ids us)) @ cn_keyIDs n \<and>
    (distinct (cn_keyIDs n) \<longrightarrow> distinct (cn_keyIDs n')) \<and>
    cn_bucketNames n' = cn_bucketNames n \<and> cn_backendOwner n' = cn_backendOwner n \<and> secrets_set us"
  using assms
proof (induction us arbitrary: names n)
  case (Cons u us)
  then obtain x where x: "validate_user_entry tenant u (names, n) = Inr x" "fold_res (validate_user_entry tenant) us x = Inr (names', n')"
    by auto
  then obtain n1 where n1: "validateUser tenant u n = Inr n1" "x = (uc_Name u # names, n1)"
    by (auto simp: validate_user_entry_def)
  show ?case
    using Cons.IH [OF x(2) [unfolded n1(2)]] validateUser_facts [OF n1(1)] by (auto simp: secrets_set_def simp del: distinct_append)
qed (auto simp: secrets_set_def)

lemma validate_backend_facts:
  assumes "validate_backend url_scheme tenant b n = Inr n'"
  shows "cn_keyIDs n' = cn_keyIDs n \<and> cn_bucketNames n' = cn_bucketNames n \<and>
    (\<exists>be. bcf_Backend b = Some be \<and> cn_backendOwner n' = (backend_target b be, tenant) # cn_backendOwner n \<and>
      (\<forall>owner. map_of (cn_backendOwner n) (backend_target b be) = Some owner \<longrightarrow> owner = tenant))"
  using assms by (auto simp: validate_backend_def Let_def split: option.splits)

lemma validateBucket_facts:
  assumes "validateBucket url_scheme tenant b n = Inr n'"
  shows "cn_keyIDs n' = cn_keyIDs n \<and> cn_bucketNames n' = bcf_Name b # cn_bucketNames n \<and>
    bcf_Name b \<notin> set (cn_bucketNames n) \<and> bucket_ok b \<and>
    (\<exists>be. bcf_Backend b = Some be \<and> cn_backendOwner n' = (backend_target b be, tenant) # cn_backendOwner n \<and>
      (\<forall>owner. map_of (cn_backendOwner n) (backend_target b be) = Some owner \<longrightarrow> owner = tenant))"
proof -
  obtain n1 where n1: "validate_backend url_scheme tenant b (n\<lparr> cn_bucketNames := bcf_Name b # cn_bucketNames n \<rparr>) = Inr n1"
      and new: "bcf_Name b \<notin> set (cn_bucketNames n)" "bucketNameRegexp (bcf_Name b)"
    using assms by (auto simp: validateBucket_def ValidateBucketName_def split: if_splits)
  note backend = validate_backend_facts [OF n1]
  show ?thesis
  proof (cases "bcf_Policy b = []")
    case True
    then have "n' = n1"
      using assms n1 by (auto simp: validateBucket_def)
    then show ?thesis
      using backend new True by (auto simp: bucket_ok_def)
  next
    case False
    then obtain pre where split: "splitUnknownActions (policy_Parse (bcf_Name b) (bcf_Policy b) (Some CheckActionPattern)) pre n1 = Inr n'"
      using assms n1 by (auto simp: validateBucket_def)
    show ?thesis
      using splitUnknownActions_Inr [OF split] policy_Parse_unchecked [OF splitUnknownActions_Inr(4) [OF split]] backend new
      by (auto simp: bucket_ok_def)
  qed
qed

lemma validate_buckets:
  assumes "fold_res (validateBucket url_scheme tenant) bs n = Inr n'" "owners_ok n" "distinct (cn_bucketNames n)"
  shows "cn_keyIDs n' = cn_keyIDs n \<and> cn_bucketNames n' = rev (map bcf_Name bs) @ cn_bucketNames n \<and>
    distinct (cn_bucketNames n') \<and> owners_ok n' \<and> list_all bucket_ok bs \<and> set (cn_backendOwner n) \<subseteq> set (cn_backendOwner n') \<and>
    (\<forall>b\<in>set bs. \<forall>be. bcf_Backend b = Some be \<longrightarrow> (backend_target b be, tenant) \<in> set (cn_backendOwner n'))"
  using assms
proof (induction bs arbitrary: n)
  case (Cons b bs)
  then obtain n1 where n1: "validateBucket url_scheme tenant b n = Inr n1"
      "fold_res (validateBucket url_scheme tenant) bs n1 = Inr n'"
    by auto
  note facts = validateBucket_facts [OF n1(1)]
  then obtain be where be: "bcf_Backend b = Some be" "cn_backendOwner n1 = (backend_target b be, tenant) # cn_backendOwner n"
      "\<And>owner. map_of (cn_backendOwner n) (backend_target b be) = Some owner \<Longrightarrow> owner = tenant"
    by blast
  have "owners_ok n1"
    unfolding owners_ok_def
  proof (clarify)
    fix target owner
    assume "(target, owner) \<in> set (cn_backendOwner n1)"
    then consider "target = backend_target b be" "owner = tenant" | "(target, owner) \<in> set (cn_backendOwner n)"
      by (auto simp: be(2))
    then show "map_of (cn_backendOwner n1) target = Some owner"
    proof cases
      case 2
      then have "map_of (cn_backendOwner n) target = Some owner"
        using Cons.prems(2) by (auto simp: owners_ok_def)
      then show ?thesis
        using be(3) by (auto simp: be(2))
    qed (simp add: be(2))
  qed
  then show ?case
    using Cons.IH [OF n1(2)] facts Cons.prems(3) be(1,2) by (auto simp del: distinct_append)
qed simp

section \<open>The definitions of an accepted configuration\<close>

text \<open>No two tenants use the same physical bucket.\<close>

definition tenants_apart :: "tenantConfig list \<Rightarrow> bool" where
  "tenants_apart ts \<longleftrightarrow>
    (\<forall>t\<in>set ts. \<forall>t'\<in>set ts. \<forall>b\<in>set (tc_Buckets t). \<forall>b'\<in>set (tc_Buckets t'). \<forall>be be'.
      bcf_Backend b = Some be \<longrightarrow> bcf_Backend b' = Some be' \<longrightarrow> backend_target b be = backend_target b' be' \<longrightarrow>
      tc_Name t = tc_Name t')"

definition valid_tenants :: "tenantConfig list \<Rightarrow> bool" where
  "valid_tenants ts \<longleftrightarrow>
    distinct (map tc_Name ts) \<and> distinct (concat (map bucket_ids ts)) \<and> distinct (concat (map key_ids ts)) \<and>
    list_all (\<lambda>t. list_all bucket_ok (tc_Buckets t) \<and> secrets_set (tc_Users t)) ts \<and> tenants_apart ts"

text \<open>What validation knows after the tenants it has seen, the last of them first.\<close>

definition names_seen :: "tenantConfig list \<Rightarrow> configNames \<Rightarrow> bool" where
  "names_seen ts n \<longleftrightarrow>
    cn_bucketNames n = rev (concat (map bucket_ids ts)) \<and> distinct (cn_bucketNames n) \<and>
    cn_keyIDs n = rev (concat (map key_ids ts)) \<and> distinct (cn_keyIDs n) \<and> owners_ok n \<and>
    list_all (\<lambda>t. list_all bucket_ok (tc_Buckets t) \<and> secrets_set (tc_Users t)) ts \<and>
    (\<forall>t\<in>set ts. \<forall>b\<in>set (tc_Buckets t). \<forall>be. bcf_Backend b = Some be \<longrightarrow>
      (backend_target b be, tc_Name t) \<in> set (cn_backendOwner n))"

lemma validateTenant_seen:
  assumes "validateTenant url_scheme t n = Inr n'" "names_seen ts n"
  shows "names_seen (ts @ [t]) n'"
proof -
  obtain names n1 where n1: "fold_res (validate_user_entry (tc_Name t)) (tc_Users t) ([], n) = Inr (names, n1)"
      "fold_res (validateBucket url_scheme (tc_Name t)) (tc_Buckets t) n1 = Inr n'"
    using assms(1) by (auto simp: validateTenant_def)
  note users = validate_users [OF n1(1)]
  have seen: "cn_bucketNames n = rev (concat (map bucket_ids ts))" "distinct (cn_bucketNames n)"
      "cn_keyIDs n = rev (concat (map key_ids ts))" "distinct (cn_keyIDs n)" "owners_ok n"
      "list_all (\<lambda>t. list_all bucket_ok (tc_Buckets t) \<and> secrets_set (tc_Users t)) ts"
    and owners: "\<And>t b be. t \<in> set ts \<Longrightarrow> b \<in> set (tc_Buckets t) \<Longrightarrow> bcf_Backend b = Some be \<Longrightarrow>
      (backend_target b be, tc_Name t) \<in> set (cn_backendOwner n)"
    using assms(2) unfolding names_seen_def by blast+
  have n1_eq: "cn_backendOwner n1 = cn_backendOwner n" "cn_bucketNames n1 = cn_bucketNames n"
    using users by blast+
  then have "owners_ok n1" "distinct (cn_bucketNames n1)"
    using seen(2,5) by (simp_all add: owners_ok_def)
  note buckets = validate_buckets [OF n1(2) this]
  show ?thesis
    unfolding names_seen_def
  proof (intro conjI ballI allI impI)
    show "cn_bucketNames n' = rev (concat (map bucket_ids (ts @ [t])))"
      using buckets n1_eq(2) seen(1) by (simp add: bucket_ids_def)
    show "cn_keyIDs n' = rev (concat (map key_ids (ts @ [t])))"
      using buckets users seen(3) by (simp add: key_ids_def)
    show "distinct (cn_keyIDs n')" "distinct (cn_bucketNames n')"
      using buckets users seen(4) by metis+
    show "(backend_target b be, tc_Name u) \<in> set (cn_backendOwner n')"
      if "u \<in> set (ts @ [t])" "b \<in> set (tc_Buckets u)" "bcf_Backend b = Some be" for u b be
      using that owners [of u b be] buckets n1_eq(1) by auto
  qed (use buckets users seen(6) in simp_all)
qed

lemma validate_tenants_seen:
  assumes "fold_res (validate_tenant_entry url_scheme) ts (names, n) = Inr (names', n')" "names_seen ts0 n"
    "names = rev (map tc_Name ts0)" "distinct names"
  shows "names_seen (ts0 @ ts) n' \<and> distinct (map tc_Name (ts0 @ ts))"
  using assms
proof (induction ts arbitrary: names n ts0)
  case Nil
  then show ?case
    by auto
next
  case (Cons t ts)
  then obtain x where x: "validate_tenant_entry url_scheme t (names, n) = Inr x"
      "fold_res (validate_tenant_entry url_scheme) ts x = Inr (names', n')"
    by auto
  then obtain n1 where n1: "validateTenant url_scheme t n = Inr n1" "x = (tc_Name t # names, n1)" "tc_Name t \<notin> set names"
    by (auto simp: validate_tenant_entry_def)
  have "tc_Name t # names = rev (map tc_Name (ts0 @ [t]))" "distinct (tc_Name t # names)"
    using Cons.prems(3,4) n1(3) by simp_all
  from Cons.IH [OF x(2) [unfolded n1(2)] validateTenant_seen [OF n1(1) Cons.prems(2)] this] show ?case
    by simp
qed

lemma names_seen_valid:
  assumes "names_seen ts n" "distinct (map tc_Name ts)"
  shows "valid_tenants ts"
proof -
  have "tenants_apart ts"
    unfolding tenants_apart_def
  proof (intro ballI allI impI)
    fix t t' b b' be be'
    assume t: "t \<in> set ts" "b \<in> set (tc_Buckets t)" "bcf_Backend b = Some be"
      and t': "t' \<in> set ts" "b' \<in> set (tc_Buckets t')" "bcf_Backend b' = Some be'"
      and same: "backend_target b be = backend_target b' be'"
    have recorded: "(backend_target b be, tc_Name t) \<in> set (cn_backendOwner n)"
      if "t \<in> set ts" "b \<in> set (tc_Buckets t)" "bcf_Backend b = Some be" for t b be
      using assms(1) that unfolding names_seen_def by blast
    have "owners_ok n"
      using assms(1) unfolding names_seen_def by blast
    then have "map_of (cn_backendOwner n) (backend_target b be) = Some (tc_Name t)"
        "map_of (cn_backendOwner n) (backend_target b be) = Some (tc_Name t')"
      using recorded [OF t] recorded [OF t'] unfolding same owners_ok_def by blast+
    then show "tc_Name t = tc_Name t'"
      by simp
  qed
  moreover have "distinct (concat (map bucket_ids ts))" "distinct (concat (map key_ids ts))"
      "list_all (\<lambda>t. list_all bucket_ok (tc_Buckets t) \<and> secrets_set (tc_Users t)) ts"
    using assms(1) unfolding names_seen_def by (metis distinct_rev)+
  ultimately show ?thesis
    using assms(2) unfolding valid_tenants_def by blast
qed

text \<open>Only the last error of validation can be about unknown actions, if \<open>url.Parse\<close> reports none.\<close>

lemma other_error_wrap: "other_error r \<Longrightarrow> other_error (wrap_err t r)"
  by (cases r) (auto simp: wrap_err_def)

lemma other_error_split: "other_error (splitUnknownActions r pre n)"
  by (auto simp: splitUnknownActions_def split: sum.splits)

lemma other_error_validateUser: "other_error (validateUser tenant u n)"
  by (auto simp: validateUser_def validate_key_def MarshalUserPolicy_def Let_def
      intro!: other_error_and_then other_error_fold_res other_error_wrap other_error_split)

lemma other_error_cors: "other_error (cors_Validate r)"
  by (auto simp: cors_Validate_def intro!: other_error_and_then other_error_for_each)

lemma other_error_backend:
  assumes "\<And>s. other_error (url_scheme s)"
  shows "other_error (validate_backend url_scheme tenant b n)"
  using other_errorD [OF assms]
  by (auto simp: validate_backend_def backend_Validate_def Let_def intro!: other_error_and_then other_error_wrap
      split: option.splits sum.splits)

lemma other_error_validateBucket:
  assumes "\<And>s. other_error (url_scheme s)"
  shows "other_error (validateBucket url_scheme tenant b n)"
  by (auto simp: validateBucket_def ValidateBucketName_def
      intro!: other_error_and_then other_error_wrap other_error_split other_error_for_each other_error_cors
        other_error_backend [OF assms])

lemma other_error_tenants:
  assumes "\<And>s. other_error (url_scheme s)"
  shows "other_error (fold_res (validate_tenant_entry url_scheme) ts x)"
proof -
  have "other_error (validate_user_entry tenant u y)" for tenant u y
    by (auto simp: validate_user_entry_def ValidateUserName_def split: prod.splits
        intro!: other_error_and_then other_error_wrap other_error_validateUser)
  then have "other_error (validateTenant url_scheme t n)" for t n
    by (auto simp: validateTenant_def intro!: other_error_and_then other_error_fold_res other_error_validateBucket [OF assms])
  then show ?thesis
    by (auto simp: validate_tenant_entry_def ValidateTenantName_def split: prod.splits
        intro!: other_error_fold_res other_error_and_then)
qed

lemma LoadConfig_valid:
  assumes "LoadConfig url_scheme expandEnv unmarshal path content = Inr c" "\<And>s. other_error (url_scheme s)"
  shows "valid_tenants (cfg_Tenants c)" "\<exists>c0. c = config_SetDefaults c0"
proof -
  have unknown: "unknown_only (config_Validate url_scheme c)" and defaults: "\<exists>c0. c = config_SetDefaults c0"
    using assms(1) by (auto simp: LoadConfig_def Let_def unknown_only_def split: sum.splits if_splits)
  show "\<exists>c0. c = config_SetDefaults c0"
    by (rule defaults)
  have breaker: "other_error (case cfg_CircuitBreaker c of None \<Rightarrow> Inr () | Some cb \<Rightarrow> circuitBreaker_validate cb)"
    by (auto simp: circuitBreaker_validate_def split: option.splits)
  have tenants: "cfg_Tenants c \<noteq> []"
    using unknown by (auto simp: config_Validate_def unknown_only_def)
  let ?tenants = "and_then (fold_res (validate_tenant_entry url_scheme) (cfg_Tenants c) ([], no_names)) (\<lambda>(_, n).
    (case cn_unknownActions n of [] \<Rightarrow> Inr () | errs \<Rightarrow> Inl (Errorf (lit ''errors.Join'') errs)))"
  have "unknown_only (and_then (case cfg_CircuitBreaker c of None \<Rightarrow> Inr () | Some cb \<Rightarrow> circuitBreaker_validate cb) (\<lambda>_. ?tenants))"
    using unknown tenants by (simp add: config_Validate_def)
  from unknown_only_and_then [OF this breaker] have "unknown_only ?tenants"
    by blast
  from unknown_only_and_then [OF this other_error_tenants [OF assms(2)]] obtain names n where
    "fold_res (validate_tenant_entry url_scheme) (cfg_Tenants c) ([], no_names) = Inr (names, n)"
    by auto
  moreover have "names_seen [] no_names"
    by (simp add: names_seen_def no_names_def owners_ok_def)
  ultimately show "valid_tenants (cfg_Tenants c)"
    using validate_tenants_seen [of url_scheme "cfg_Tenants c" "[]" no_names names n "[]"] names_seen_valid [of "cfg_Tenants c" n]
    by simp
qed

section \<open>The store of an accepted configuration\<close>

lemma assoc_set_all_lookup:
  assumes "distinct (map fst kvs)"
  shows "map_of (assoc_set_all kvs m) k = (case map_of kvs k of Some v \<Rightarrow> Some v | None \<Rightarrow> map_of m k)"
  using assms
proof (induction kvs arbitrary: m)
  case (Cons kv kvs)
  obtain k' v where kv: "kv = (k', v)"
    by fastforce
  have "map_of kvs k' = None"
    using Cons.prems by (simp add: kv map_of_eq_None_iff)
  then show ?case
    using Cons.IH [of "assoc_set k' v m"] Cons.prems
    by (auto simp: kv assoc_set_all_def map_of_assoc_set split: option.splits)
qed (simp add: assoc_set_all_def)

lemma those_map: "(\<And>x. x \<in> set xs \<Longrightarrow> f x \<noteq> None) \<Longrightarrow> those (map f xs) = Some (map (the \<circ> f) xs)"
  by (induction xs) (auto split: option.splits)

definition bucket_of :: "tenantConfig \<Rightarrow> bucketConfig \<Rightarrow> bucket" where
  "bucket_of t b = the (config_bucket (tc_Name t) b)"

lemma bucket_of_ok:
  assumes "bucket_ok b"
  shows "config_bucket (tc_Name t) b = Some (bucket_of t b)" "b_Tenant (bucket_of t b) = tc_Name t"
    "b_Name (bucket_of t b) = bcf_Name b" "b_Backend (bucket_of t b) = bcf_Backend b"
    "bucket_principals (bucket_of t b)" "bucket_effects (bucket_of t b)"
  using assms
  by (auto simp: bucket_ok_def bucket_of_def config_bucket_def Let_def bucket_principals_def bucket_effects_def policy_wf_def)

definition bucket_list :: "tenantConfig \<Rightarrow> (string \<times> bucket) list" where
  "bucket_list t = map (\<lambda>b. (bcf_Name b, bucket_of t b)) (tc_Buckets t)"

lemma tenant_buckets_ok:
  assumes "list_all bucket_ok (tc_Buckets t)"
  shows "tenant_buckets t = Some (bucket_list t)"
proof -
  have "those (map (\<lambda>b. map_option (Pair (bcf_Name b)) (config_bucket (tc_Name t) b)) (tc_Buckets t)) =
      Some (map (the \<circ> (\<lambda>b. map_option (Pair (bcf_Name b)) (config_bucket (tc_Name t) b))) (tc_Buckets t))"
    using assms bucket_of_ok(1) by (intro those_map) (auto simp: list_all_iff)
  then show ?thesis
    using assms bucket_of_ok(1) by (auto simp: tenant_buckets_def bucket_list_def list_all_iff)
qed

definition find_bucket :: "configStore \<Rightarrow> string \<Rightarrow> string \<Rightarrow> bucket option" where
  "find_bucket s tenant n = (case map_of (cs_tenants s) tenant of None \<Rightarrow> None | Some bs \<Rightarrow> map_of bs n)"

text \<open>The store after some tenants: each lookup finds exactly what they define.\<close>

definition store_of :: "tenantConfig list \<Rightarrow> configStore \<Rightarrow> bool" where
  "store_of ts s \<longleftrightarrow>
    (\<forall>tenant n b. find_bucket s tenant n = Some b \<longleftrightarrow> (\<exists>t\<in>set ts. tc_Name t = tenant \<and> map_of (bucket_list t) n = Some b)) \<and>
    (\<forall>n b. map_of (cs_byName s) n = Some b \<longleftrightarrow> (\<exists>t\<in>set ts. map_of (bucket_list t) n = Some b)) \<and>
    (\<forall>akid k. map_of (cs_keys s) akid = Some k \<longleftrightarrow> (\<exists>t\<in>set ts. map_of (tenant_keys t) akid = Some k))"

lemma bucket_list_keys: "map fst (bucket_list t) = bucket_ids t"
  by (simp add: bucket_list_def bucket_ids_def)

lemma tenant_keys_keys: "map fst (tenant_keys t) = key_ids t"
  by (simp add: tenant_keys_def key_ids_def user_key_ids_def [abs_def] map_concat comp_def)

lemma map_of_Some_key: "map_of kvs k = Some v \<Longrightarrow> k \<in> set (map fst kvs)"
  by (metis map_of_eq_None_iff option.distinct(1) image_set)

lemma add_tenant_store:
  assumes "store_of ts s" "valid_tenants (ts @ [t])"
  shows "\<exists>s'. add_tenant t s = Some s' \<and> store_of (ts @ [t]) s'"
proof -
  have parts: "distinct (map tc_Name (ts @ [t]))" "distinct (concat (map bucket_ids (ts @ [t])))"
      "distinct (concat (map key_ids (ts @ [t])))" "list_all bucket_ok (tc_Buckets t)"
    using assms(2) unfolding valid_tenants_def by simp_all
  have others: "tc_Name u \<noteq> tc_Name t" if "u \<in> set ts" for u
    using parts(1) imageI [OF that, of tc_Name] by auto
  have dist: "distinct (map fst (bucket_list t))" "distinct (map fst (tenant_keys t))"
    unfolding bucket_list_keys tenant_keys_keys using parts(2,3) by simp_all
  have fresh: "n \<notin> set (bucket_ids t)" if "u \<in> set ts" "n \<in> set (bucket_ids u)" for u n
    using parts(2) that by auto
  have fresh_key: "a \<notin> set (key_ids t)" if "u \<in> set ts" "a \<in> set (key_ids u)" for u a
    using parts(3) that by auto
  let ?s = "\<lparr> cs_keys = assoc_set_all (tenant_keys t) (cs_keys s),
    cs_tenants = assoc_set (tc_Name t) (assoc_set_all (bucket_list t) []) (cs_tenants s),
    cs_byName = assoc_set_all (bucket_list t) (cs_byName s) \<rparr>"
  have find: "find_bucket ?s tenant n = (if tenant = tc_Name t then map_of (bucket_list t) n else find_bucket s tenant n)" for tenant n
    by (simp add: find_bucket_def map_of_assoc_set assoc_set_all_lookup [OF dist(1)] split: option.splits)
  have "store_of (ts @ [t]) ?s"
    unfolding store_of_def
  proof (intro conjI allI)
    show "find_bucket ?s tenant n = Some b \<longleftrightarrow> (\<exists>u\<in>set (ts @ [t]). tc_Name u = tenant \<and> map_of (bucket_list u) n = Some b)" for tenant n b
      using assms(1) others by (auto simp: find store_of_def)
    have "map_of (bucket_list t) n = None" if "u \<in> set ts" "map_of (bucket_list u) n = Some b" for u n b
      using fresh [OF that(1)] map_of_Some_key [OF that(2)] bucket_list_keys [of t] bucket_list_keys [of u]
      by (metis map_of_eq_None_iff image_set)
    then show "map_of (cs_byName ?s) n = Some b \<longleftrightarrow> (\<exists>u\<in>set (ts @ [t]). map_of (bucket_list u) n = Some b)" for n b
      using assms(1) by (fastforce simp: assoc_set_all_lookup [OF dist(1)] store_of_def split: option.splits)
    have "map_of (tenant_keys t) a = None" if "u \<in> set ts" "map_of (tenant_keys u) a = Some k" for u a k
      using fresh_key [OF that(1)] map_of_Some_key [OF that(2)] tenant_keys_keys [of t] tenant_keys_keys [of u]
      by (metis map_of_eq_None_iff image_set)
    then show "map_of (cs_keys ?s) a = Some k \<longleftrightarrow> (\<exists>u\<in>set (ts @ [t]). map_of (tenant_keys u) a = Some k)" for a k
      using assms(1) by (fastforce simp: assoc_set_all_lookup [OF dist(2)] store_of_def split: option.splits)
  qed
  then show ?thesis
    by (simp add: add_tenant_def tenant_buckets_ok [OF parts(4)])
qed

lemma tenants_apartD:
  assumes "tenants_apart ts" "t \<in> set ts" "t' \<in> set ts" "b \<in> set (tc_Buckets t)" "b' \<in> set (tc_Buckets t')"
    "bcf_Backend b = Some be" "bcf_Backend b' = Some be'" "backend_target b be = backend_target b' be'"
  shows "tc_Name t = tc_Name t'"
  using assms(1) [unfolded tenants_apart_def, rule_format, OF assms(2-8)] .

lemma tenants_apart_mono:
  assumes "set ts \<subseteq> set ts'" "tenants_apart ts'"
  shows "tenants_apart ts"
  unfolding tenants_apart_def
proof (intro ballI allI impI)
  fix t t' b b' be be'
  assume t: "t \<in> set ts" "t' \<in> set ts" and b: "b \<in> set (tc_Buckets t)" "b' \<in> set (tc_Buckets t')"
    "bcf_Backend b = Some be" "bcf_Backend b' = Some be'" "backend_target b be = backend_target b' be'"
  show "tc_Name t = tc_Name t'"
    by (rule tenants_apartD [OF assms(2) subsetD [OF assms(1) t(1)] subsetD [OF assms(1) t(2)] b])
qed

lemma valid_tenants_prefix:
  assumes "valid_tenants (ts0 @ ts)"
  shows "valid_tenants ts0"
proof -
  have "tenants_apart (ts0 @ ts)"
    using assms unfolding valid_tenants_def by blast
  then have "tenants_apart ts0"
    by (rule tenants_apart_mono [rotated]) simp
  then show ?thesis
    using assms unfolding valid_tenants_def map_append concat_append distinct_append list_all_append by blast
qed

lemma add_tenants_store:
  assumes "store_of ts0 s" "valid_tenants (ts0 @ ts)"
  shows "\<exists>s'. add_tenants ts s = Some s' \<and> store_of (ts0 @ ts) s'"
  using assms
proof (induction ts arbitrary: ts0 s)
  case (Cons t ts)
  obtain s1 where "add_tenant t s = Some s1" "store_of (ts0 @ [t]) s1"
    using add_tenant_store [OF Cons.prems(1), of t] valid_tenants_prefix [of "ts0 @ [t]" ts] Cons.prems(2) by auto
  then show ?case
    using Cons.IH [of "ts0 @ [t]" s1] Cons.prems(2) by simp
qed simp

text \<open>The contract of \<open>store.Store\<close>, with what the gateway relies on for a bucket.\<close>

definition store_contract :: "store \<Rightarrow> bool" where
  "store_contract st \<longleftrightarrow>
    (\<forall>akid token k. GetKey st akid token = Inr k \<longrightarrow> k_AccessKeyID k = akid \<and> k_SecretAccessKey k \<noteq> [] \<and> k_SigningKey k = None) \<and>
    (\<forall>tenant n b. GetBucket st tenant n = Inr b \<longleftrightarrow> GetBucketByName st n = Inr b \<and> b_Tenant b = tenant) \<and>
    (\<forall>n b. GetBucketByName st n = Inr b \<longrightarrow> b_Name b = n \<and> b_Backend b \<noteq> None \<and> bucket_principals b \<and> bucket_effects b)"

definition data_apart :: "store \<Rightarrow> bool" where
  "data_apart st \<longleftrightarrow>
    (\<forall>n n' b b' be be'. GetBucketByName st n = Inr b \<and> GetBucketByName st n' = Inr b' \<and>
      b_Backend b = Some be \<and> b_Backend b' = Some be' \<and>
      be_Endpoint be = be_Endpoint be' \<and> be_Bucket be = be_Bucket be' \<longrightarrow> b_Tenant b = b_Tenant b')"

lemma found_or_Inr [simp]: "found_or r = Inr x \<longleftrightarrow> r = Some x"
  by (auto simp: found_or_def split: option.splits)

lemma bucket_list_lookup:
  assumes "map_of (bucket_list t) n = Some b"
  obtains cb where "cb \<in> set (tc_Buckets t)" "b = bucket_of t cb" "bcf_Name cb = n"
  using map_of_SomeD [OF assms] by (auto simp: bucket_list_def)

lemma tenant_keys_lookup:
  assumes "map_of (tenant_keys t) akid = Some k"
  obtains u kc where "u \<in> set (tc_Users t)" "kc \<in> set (uc_Keys u)" "akid = kc_AccessKeyID kc" "k = config_key (tc_Name t) u kc"
  using map_of_SomeD [OF assms] by (auto simp: tenant_keys_def)

lemma config_store_sel [simp]:
  "GetKey (config_store s) akid token = found_or (map_of (cs_keys s) akid)"
  "GetBucket (config_store s) tenant n = found_or (find_bucket s tenant n)"
  "GetBucketByName (config_store s) n = found_or (map_of (cs_byName s) n)"
  by (simp_all add: config_store_def find_bucket_def)

lemma config_store_contract:
  assumes "store_of ts s" "valid_tenants ts"
  shows "store_contract (config_store s)"
proof -
  have ok: "bucket_ok cb" if "t \<in> set ts" "cb \<in> set (tc_Buckets t)" for t cb
    using assms(2) that unfolding valid_tenants_def list_all_iff by blast
  have named: "b_Name b = n \<and> b_Tenant b = tc_Name t \<and> b_Backend b \<noteq> None \<and> bucket_principals b \<and> bucket_effects b"
    if t: "t \<in> set ts" and b: "map_of (bucket_list t) n = Some b" for t n b
  proof -
    obtain cb where "cb \<in> set (tc_Buckets t)" "b = bucket_of t cb" "bcf_Name cb = n"
      using bucket_list_lookup [OF b] .
    moreover have "bucket_ok cb"
      by (rule ok [OF t calculation(1)])
    moreover have "bcf_Backend cb \<noteq> None"
      using calculation(4) by (simp add: bucket_ok_def)
    ultimately show ?thesis
      using bucket_of_ok [of cb t] by simp
  qed
  have key: "k_AccessKeyID k = akid \<and> k_SecretAccessKey k \<noteq> [] \<and> k_SigningKey k = None"
    if t: "t \<in> set ts" and k: "map_of (tenant_keys t) akid = Some k" for t akid k
  proof -
    obtain u kc where "u \<in> set (tc_Users t)" "kc \<in> set (uc_Keys u)" "akid = kc_AccessKeyID kc" "k = config_key (tc_Name t) u kc"
      using tenant_keys_lookup [OF k] .
    moreover have "secrets_set (tc_Users t)"
      using assms(2) t unfolding valid_tenants_def list_all_iff by blast
    ultimately show ?thesis
      by (simp add: secrets_set_def list_all_iff config_key_def)
  qed
  have lookups: "find_bucket s tenant n = Some b \<longleftrightarrow> (\<exists>t\<in>set ts. tc_Name t = tenant \<and> map_of (bucket_list t) n = Some b)"
      "map_of (cs_byName s) n = Some b \<longleftrightarrow> (\<exists>t\<in>set ts. map_of (bucket_list t) n = Some b)"
      "map_of (cs_keys s) akid = Some k \<longleftrightarrow> (\<exists>t\<in>set ts. map_of (tenant_keys t) akid = Some k)" for tenant n b akid k
    using assms(1) [unfolded store_of_def] by simp_all
  have keys: "k_AccessKeyID k = akid \<and> k_SecretAccessKey k \<noteq> [] \<and> k_SigningKey k = None"
    if got: "GetKey (config_store s) akid token = Inr k" for akid token k
  proof -
    obtain t where "t \<in> set ts" "map_of (tenant_keys t) akid = Some k"
      using got lookups(3) [of akid k] by auto
    then show ?thesis
      by (rule key)
  qed
  have buckets: "GetBucket (config_store s) tenant n = Inr b \<longleftrightarrow> GetBucketByName (config_store s) n = Inr b \<and> b_Tenant b = tenant"
    for tenant n b
  proof -
    have "b_Tenant b = tc_Name t" if "t \<in> set ts" "map_of (bucket_list t) n = Some b" for t
      using named [OF that] by simp
    then show ?thesis
      unfolding config_store_sel found_or_Inr lookups(1,2) by metis
  qed
  have names: "b_Name b = n \<and> b_Backend b \<noteq> None \<and> bucket_principals b \<and> bucket_effects b"
    if got: "GetBucketByName (config_store s) n = Inr b" for n b
  proof -
    obtain t where "t \<in> set ts" "map_of (bucket_list t) n = Some b"
      using got lookups(2) [of n b] by auto
    from named [OF this] show ?thesis
      by simp
  qed
  show ?thesis
    unfolding store_contract_def
  proof (intro conjI allI impI)
    fix akid token k
    assume "GetKey (config_store s) akid token = Inr k"
    note K = keys [OF this]
    show "k_AccessKeyID k = akid" using K by simp
    show "k_SecretAccessKey k \<noteq> []" using K by simp
    show "k_SigningKey k = None" using K by simp
  next
    fix tenant n b
    show "GetBucket (config_store s) tenant n = Inr b \<longleftrightarrow> GetBucketByName (config_store s) n = Inr b \<and> b_Tenant b = tenant"
      by (rule buckets)
  next
    fix n b
    assume "GetBucketByName (config_store s) n = Inr b"
    note N = names [OF this]
    show "b_Name b = n" using N by simp
    show "b_Backend b \<noteq> None" using N by simp
    show "bucket_principals b" using N by simp
    show "bucket_effects b" using N by simp
  qed
qed

text \<open>The store answers with what the configuration defines, and with nothing else.\<close>

definition serves_config :: "config \<Rightarrow> store \<Rightarrow> bool" where
  "serves_config c st \<longleftrightarrow>
    (\<forall>akid token k. GetKey st akid token = Inr k \<longleftrightarrow>
      (\<exists>t\<in>set (cfg_Tenants c). \<exists>u\<in>set (tc_Users t). \<exists>kc\<in>set (uc_Keys u). kc_AccessKeyID kc = akid \<and> config_key (tc_Name t) u kc = k)) \<and>
    (\<forall>n b. GetBucketByName st n = Inr b \<longleftrightarrow>
      (\<exists>t\<in>set (cfg_Tenants c). \<exists>cb\<in>set (tc_Buckets t). bcf_Name cb = n \<and> config_bucket (tc_Name t) cb = Some b))"

lemma tenant_keys_iff:
  assumes "distinct (key_ids t)"
  shows "map_of (tenant_keys t) akid = Some k \<longleftrightarrow>
    (\<exists>u\<in>set (tc_Users t). \<exists>kc\<in>set (uc_Keys u). kc_AccessKeyID kc = akid \<and> config_key (tc_Name t) u kc = k)"
proof -
  have "map_of (tenant_keys t) akid = Some k \<longleftrightarrow> (akid, k) \<in> set (tenant_keys t)"
    using assms by (simp add: tenant_keys_keys)
  then show ?thesis
    by (auto simp: tenant_keys_def)
qed

lemma bucket_list_iff:
  assumes "distinct (bucket_ids t)" "list_all bucket_ok (tc_Buckets t)"
  shows "map_of (bucket_list t) n = Some b \<longleftrightarrow>
    (\<exists>cb\<in>set (tc_Buckets t). bcf_Name cb = n \<and> config_bucket (tc_Name t) cb = Some b)"
proof -
  have found: "config_bucket (tc_Name t) cb = Some (bucket_of t cb)" if "cb \<in> set (tc_Buckets t)" for cb
    using assms(2) that by (intro bucket_of_ok) (simp add: list_all_iff)
  have "map_of (bucket_list t) n = Some b \<longleftrightarrow> (n, b) \<in> set (bucket_list t)"
    using assms(1) by (simp add: bucket_list_keys)
  then show ?thesis
    using found by (auto simp: bucket_list_def)
qed

lemma valid_tenantsD:
  assumes "valid_tenants ts" "t \<in> set ts"
  shows "distinct (key_ids t)" "distinct (bucket_ids t)" "list_all bucket_ok (tc_Buckets t)"
  using assms unfolding valid_tenants_def by (auto simp: distinct_concat_iff list_all_iff)

lemma config_store_serves:
  assumes "store_of (cfg_Tenants c) s" "valid_tenants (cfg_Tenants c)"
  shows "serves_config c (config_store s)"
  unfolding serves_config_def
proof (intro conjI allI)
  fix akid token k
  have "GetKey (config_store s) akid token = Inr k \<longleftrightarrow> (\<exists>t\<in>set (cfg_Tenants c). map_of (tenant_keys t) akid = Some k)"
    using assms(1) [unfolded store_of_def] by simp
  then show "GetKey (config_store s) akid token = Inr k \<longleftrightarrow>
      (\<exists>t\<in>set (cfg_Tenants c). \<exists>u\<in>set (tc_Users t). \<exists>kc\<in>set (uc_Keys u). kc_AccessKeyID kc = akid \<and> config_key (tc_Name t) u kc = k)"
    using tenant_keys_iff [OF valid_tenantsD(1) [OF assms(2)]] by (simp cong: bex_cong)
next
  fix n b
  have "GetBucketByName (config_store s) n = Inr b \<longleftrightarrow> (\<exists>t\<in>set (cfg_Tenants c). map_of (bucket_list t) n = Some b)"
    using assms(1) [unfolded store_of_def] by simp
  then show "GetBucketByName (config_store s) n = Inr b \<longleftrightarrow>
      (\<exists>t\<in>set (cfg_Tenants c). \<exists>cb\<in>set (tc_Buckets t). bcf_Name cb = n \<and> config_bucket (tc_Name t) cb = Some b)"
    using bucket_list_iff [OF valid_tenantsD(2,3) [OF assms(2)]] by (simp cong: bex_cong)
qed

lemma backend_SetDefaults_Bucket: "name \<noteq> [] \<Longrightarrow> be_Bucket (backend_SetDefaults be name) \<noteq> []"
  by (simp add: backend_SetDefaults_def Let_def)

lemma default_bucket:
  assumes "t \<in> set (cfg_Tenants (config_SetDefaults c0))" "cb \<in> set (tc_Buckets t)" "bcf_Backend cb = Some be" "bucket_ok cb"
  shows "be_Bucket be \<noteq> []"
proof -
  obtain b where "cb = bucket_SetDefaults b"
    using assms(1,2) by (auto simp: config_SetDefaults_def)
  then obtain be0 where "be = backend_SetDefaults be0 (bcf_Name cb)"
    using assms(3) by (auto simp: bucket_SetDefaults_def)
  moreover have "bcf_Name cb \<noteq> []"
    using assms(4) by (auto simp: bucket_ok_def bucketNameRegexp_def)
  ultimately show ?thesis
    by (simp add: backend_SetDefaults_Bucket)
qed

lemma config_store_apart:
  assumes "store_of ts s" "valid_tenants ts" "ts = cfg_Tenants (config_SetDefaults c0)"
  shows "data_apart (config_store s)"
  unfolding data_apart_def
proof (intro allI impI, elim conjE)
  fix n n' b b' be be'
  assume found: "GetBucketByName (config_store s) n = Inr b" "GetBucketByName (config_store s) n' = Inr b'"
    and be: "b_Backend b = Some be" and be': "b_Backend b' = Some be'"
    and same: "be_Endpoint be = be_Endpoint be'" "be_Bucket be = be_Bucket be'"
  have defined: "\<exists>t\<in>set ts. \<exists>cb\<in>set (tc_Buckets t). b_Tenant b = tc_Name t \<and> bcf_Backend cb = b_Backend b \<and> bucket_ok cb"
    if got: "GetBucketByName (config_store s) n = Inr b" for n b
  proof -
    obtain t where t: "t \<in> set ts" "map_of (bucket_list t) n = Some b"
      using got assms(1) [unfolded store_of_def] by auto
    obtain cb where cb: "cb \<in> set (tc_Buckets t)" "b = bucket_of t cb"
      using bucket_list_lookup [OF t(2)] .
    have "bucket_ok cb"
      using valid_tenantsD(3) [OF assms(2) t(1)] cb(1) by (simp add: list_all_iff)
    then show ?thesis
      using t(1) cb bucket_of_ok(2,4) [of cb t] by metis
  qed
  from defined [OF found(1)] defined [OF found(2)] obtain t t' cb cb' where
    t: "t \<in> set ts" "cb \<in> set (tc_Buckets t)" "b_Tenant b = tc_Name t" "bcf_Backend cb = Some be" "bucket_ok cb" and
    t': "t' \<in> set ts" "cb' \<in> set (tc_Buckets t')" "b_Tenant b' = tc_Name t'" "bcf_Backend cb' = Some be'" "bucket_ok cb'"
    unfolding be be' by blast
  have "be_Bucket be \<noteq> []"
    by (rule default_bucket [OF t(1) [unfolded assms(3)] t(2,4,5)])
  then have target: "backend_target cb be = backend_target cb' be'"
    by (simp add: backend_target_def same)
  have "tenants_apart ts"
    using assms(2) unfolding valid_tenants_def by blast
  from tenants_apartD [OF this t(1) t'(1) t(2) t'(2) t(4) t'(4) target] show "b_Tenant b = b_Tenant b'"
    by (simp add: t(3) t'(3))
qed

lemma store_contract_gateway:
  assumes "store_contract st"
  shows "well_formed_store st" "lookup_agrees (derive_key None) (secretLookup st)"
proof -
  have key: "k_SigningKey k = None" if "GetKey st akid token = Inr k" for akid token k
    using assms that unfolding store_contract_def by blast
  have named: "bucket_principals b \<and> bucket_effects b" if "GetBucketByName st n = Inr b" for n b
    using assms that unfolding store_contract_def by blast
  moreover have "GetBucketByName st n = Inr b" if "GetBucket st tenant n = Inr b" for tenant n b
    using assms that unfolding store_contract_def by blast
  ultimately show "well_formed_store st"
    unfolding well_formed_store_def by blast
  show "lookup_agrees (derive_key None) (secretLookup st)"
    using key by (fastforce simp: lookup_agrees_def secretLookup_def key_credential_def split: sum.splits)
qed

section \<open>What an accepted configuration gives\<close>


definition example_tenant :: "string \<Rightarrow> string \<Rightarrow> string \<Rightarrow> string \<Rightarrow> tenantConfig" where
  "example_tenant name akid bname endpoint =
    \<lparr> tc_Name = name,
      tc_Users = [\<lparr> uc_Name = ''alice'', uc_Keys = [\<lparr> kc_AccessKeyID = akid, kc_SecretAccessKey = ''secret'' \<rparr>], uc_Policy = [] \<rparr>],
      tc_Buckets = [\<lparr> bcf_Name = bname,
        bcf_Backend = Some \<lparr> be_Endpoint = endpoint, be_Region = [], be_Bucket = ''data'', be_AccessKeyID = ''ak'',
          be_SecretAccessKey = ''sk'', be_UsePathStyle = None \<rparr>,
        bcf_Policy = [], bcf_CORS = [], bcf_CreatedAt = None \<rparr>] \<rparr>"

definition example_config :: "string \<Rightarrow> config" where
  "example_config endpoint =
    \<lparr> cfg_Listen = [], cfg_VirtualHostSuffix = [], cfg_CircuitBreaker = None, cfg_StrictActions = True,
      cfg_Tenants = [example_tenant ''ta'' ''AK1'' ''photos'' ''https://h'', example_tenant ''tb'' ''AK2'' ''films'' endpoint] \<rparr>"

abbreviation load_example :: "string \<Rightarrow> go_error + config" where
  "load_example endpoint \<equiv> LoadConfig (\<lambda>_. Inr ''https'') id (\<lambda>_. Inr (example_config endpoint)) ''config.yaml'' (Inr [])"

lemma example_config_loads: "load_example ''https://g'' = Inr (config_SetDefaults (example_config ''https://g''))"
  by code_simp

text \<open>
  The check compares the text of the endpoints: two spellings of one endpoint pass it, while one spelling is refused.
\<close>

lemma endpoint_spelling_accepted:
  "isl (load_example ''https://h'')" "\<not> isl (load_example ''https://h/'')"
  by code_simp+

end
